(* ===== verification/Prelude.thy ===== *)
theory Prelude
  imports Main "HOL-Library.Word"
begin

section \<open>Prelude: the Rust values and the library the components share\<close>

text \<open>
  The machine types of the source, the outcome type of fallible Rust code, the slice,
  integer-encoding and formatting primitives of \<^verbatim>\<open>core\<close>/\<^verbatim>\<open>std\<close> the crates use, and the
  generic lemmas and \<open>named_theorems\<close> the component proofs rest on.

  Conventions.
  \<^item> \<^verbatim>\<open>u8\<close>, \<^verbatim>\<open>u16\<close>, \<^verbatim>\<open>u32\<close>, \<^verbatim>\<open>u64\<close>, \<^verbatim>\<open>i64\<close> are words of that width; \<^verbatim>\<open>i64\<close> is read
    by \<open>sint\<close>. \<^verbatim>\<open>usize\<close> and \<^verbatim>\<open>u128\<close> hold lengths, counts and milliseconds that are only
    compared and printed, and are \<open>nat\<close>; a cast such as \<^verbatim>\<open>len as u8\<close> is \<open>of_nat\<close>, which
    keeps the low bits.
  \<^item> \<^verbatim>\<open>Vec<u8>\<close>, \<^verbatim>\<open>&[u8]\<close> and \<^verbatim>\<open>[u8; 32]\<close> are \<open>bytes\<close>; that an array has 32 bytes is a
    well-formedness predicate of the component that holds it.
  \<^item> A Rust string is its UTF-8 bytes, a HOL \<open>string\<close> (a HOL \<open>char\<close> is one byte), so
    \<^verbatim>\<open>len()\<close> is \<open>length\<close>.
  \<^item> \<^verbatim>\<open>Result\<close> with the panics of the code made visible is \<open>result\<close>.
\<close>

type_synonym u8 = "8 word"
type_synonym u16 = "16 word"
type_synonym u32 = "32 word"
type_synonym u64 = "64 word"
type_synonym i64 = "64 word"
type_synonym usize = nat
type_synonym u128 = nat
type_synonym bytes = "u8 list"

named_theorems no_panic \<open>introduction rules for the absence of panics\<close>
named_theorems wire_len \<open>the lengths of encodings\<close>
named_theorems rust_std \<open>definitions of the standard-library primitives\<close>

subsection \<open>Outcomes\<close>

datatype ('a, 'e) result = Ok 'a | Err 'e | Panic

text \<open>The \<^verbatim>\<open>?\<close> operator (and any sequencing after a computation that may panic).\<close>

fun and_then :: "('a, 'e) result \<Rightarrow> ('a \<Rightarrow> ('b, 'e) result) \<Rightarrow> ('b, 'e) result" where
  "and_then (Ok x) f = f x"
| "and_then (Err e) f = Err e"
| "and_then Panic f = Panic"

fun map_err :: "('e \<Rightarrow> 'f) \<Rightarrow> ('a, 'e) result \<Rightarrow> ('a, 'f) result" where
  "map_err g (Ok x) = Ok x"
| "map_err g (Err e) = Err (g e)"
| "map_err g Panic = Panic"

text \<open>\<^verbatim>\<open>if let Ok(x) = m { hit } else { miss }\<close>, and \<^verbatim>\<open>m.ok()\<close>.\<close>

fun if_let_ok :: "('a, 'e) result \<Rightarrow> ('a \<Rightarrow> ('b, 'f) result) \<Rightarrow> ('b, 'f) result \<Rightarrow> ('b, 'f) result"
where
  "if_let_ok (Ok x) hit miss = hit x"
| "if_let_ok (Err e) hit miss = miss"
| "if_let_ok Panic hit miss = Panic"

definition to_option :: "('a, 'e) result \<Rightarrow> ('a option, 'f) result" where
  "to_option m = if_let_ok m (\<lambda>x. Ok (Some x)) (Ok None)"

definition is_ok :: "('a, 'e) result \<Rightarrow> bool" where
  "is_ok m \<longleftrightarrow> (case m of Ok _ \<Rightarrow> True | _ \<Rightarrow> False)"

definition panics :: "('a, 'e) result \<Rightarrow> bool" where
  "panics m \<longleftrightarrow> m = Panic"

lemma is_ok_simps [simp]: "is_ok (Ok x)" "\<not> is_ok (Err e)" "\<not> is_ok Panic"
  by (simp_all add: is_ok_def)

lemma panics_simps [simp]: "\<not> panics (Ok x)" "\<not> panics (Err e)" "panics Panic"
  by (simp_all add: panics_def)

lemma and_then_Ok_iff: "and_then m f = Ok y \<longleftrightarrow> (\<exists>x. m = Ok x \<and> f x = Ok y)"
  by (cases m) auto

lemma and_then_assoc: "and_then (and_then m f) g = and_then m (\<lambda>x. and_then (f x) g)"
  by (cases m) auto

lemma and_then_split:
  "P (and_then m f) \<longleftrightarrow> (\<forall>x. m = Ok x \<longrightarrow> P (f x)) \<and> (\<forall>e. m = Err e \<longrightarrow> P (Err e))
    \<and> (m = Panic \<longrightarrow> P Panic)"
  by (cases m) auto

lemma and_then_no_panic [no_panic]:
  "\<not> panics m \<Longrightarrow> (\<And>x. m = Ok x \<Longrightarrow> \<not> panics (f x)) \<Longrightarrow> \<not> panics (and_then m f)"
  by (cases m) auto

lemma map_err_no_panic [no_panic]: "\<not> panics m \<Longrightarrow> \<not> panics (map_err g m)"
  by (cases m) auto

lemma map_err_Ok_iff [simp]: "map_err g m = Ok y \<longleftrightarrow> m = Ok y"
  by (cases m) auto

lemma if_let_ok_no_panic [no_panic]:
  "\<not> panics m \<Longrightarrow> (\<And>x. m = Ok x \<Longrightarrow> \<not> panics (hit x)) \<Longrightarrow> \<not> panics miss
    \<Longrightarrow> \<not> panics (if_let_ok m hit miss)"
  by (cases m) auto

lemma if_no_panic [no_panic]:
  "(b \<Longrightarrow> \<not> panics m) \<Longrightarrow> (\<not> b \<Longrightarrow> \<not> panics n) \<Longrightarrow> \<not> panics (if b then m else n)"
  by simp

lemma case_no_panic [no_panic]:
  "(\<And>x y. p = (x, y) \<Longrightarrow> \<not> panics (f x y)) \<Longrightarrow> \<not> panics (case p of (x, y) \<Rightarrow> f x y)"
  "(v = None \<Longrightarrow> \<not> panics m) \<Longrightarrow> (\<And>x. v = Some x \<Longrightarrow> \<not> panics (g x))
    \<Longrightarrow> \<not> panics (case v of None \<Rightarrow> m | Some x \<Rightarrow> g x)"
  by (simp_all split: prod.split option.split)

lemma leaf_no_panic [no_panic]: "\<not> panics (Ok x)" "\<not> panics (Err e)"
  by simp_all

subsection \<open>Slices, indexing and array copies\<close>

text \<open>\<^verbatim>\<open>b[i]\<close>, \<^verbatim>\<open>&b[i..j]\<close>, \<^verbatim>\<open>&b[i..]\<close>, and \<^verbatim>\<open>copy_from_slice\<close> into a \<^verbatim>\<open>[u8; n]\<close>: all
  three panic when the bounds are wrong.\<close>

definition idx :: "'x list \<Rightarrow> nat \<Rightarrow> ('x, 'e) result" where
  "idx b i = (if i < length b then Ok (b ! i) else Panic)"

definition slice_range :: "'x list \<Rightarrow> nat \<Rightarrow> nat \<Rightarrow> ('x list, 'e) result" where
  "slice_range b i j = (if i \<le> j \<and> j \<le> length b then Ok (take (j - i) (drop i b)) else Panic)"

definition slice_from :: "'x list \<Rightarrow> nat \<Rightarrow> ('x list, 'e) result" where
  "slice_from b i = (if i \<le> length b then Ok (drop i b) else Panic)"

definition copy_arr :: "nat \<Rightarrow> bytes \<Rightarrow> (bytes, 'e) result" where
  "copy_arr n b = (if length b = n then Ok b else Panic)"

lemma idx_no_panic [no_panic]: "i < length b \<Longrightarrow> \<not> panics (idx b i)"
  by (simp add: idx_def)

lemma slice_range_no_panic [no_panic]: "i \<le> j \<Longrightarrow> j \<le> length b \<Longrightarrow> \<not> panics (slice_range b i j)"
  by (simp add: slice_range_def)

lemma slice_from_no_panic [no_panic]: "i \<le> length b \<Longrightarrow> \<not> panics (slice_from b i)"
  by (simp add: slice_from_def)

lemma copy_arr_no_panic [no_panic]: "length b = n \<Longrightarrow> \<not> panics (copy_arr n b)"
  by (simp add: copy_arr_def)

lemma slice_range_Ok_length: "slice_range b i j = Ok s \<Longrightarrow> length s = j - i"
  by (auto simp: slice_range_def split: if_splits)

lemma copy_arr_Ok [simp]: "length b = n \<Longrightarrow> copy_arr n b = Ok b"
  by (simp add: copy_arr_def)

lemma copy_arr_Ok_iff: "copy_arr n b = Ok c \<longleftrightarrow> length b = n \<and> c = b"
  by (auto simp: copy_arr_def)

text \<open>Reading the field \<open>x\<close> out of a buffer that was written as \<open>pre @ x @ post\<close>.\<close>

lemma slice_range_at:
  "length pre = i \<Longrightarrow> i + length x = j \<Longrightarrow> slice_range (pre @ x @ post) i j = Ok x"
  by (auto simp: slice_range_def)

lemma idx_at: "length pre = i \<Longrightarrow> idx (pre @ x # post) i = Ok x"
  by (auto simp: idx_def)

lemma slice_from_at: "length pre = i \<Longrightarrow> slice_from (pre @ post) i = Ok post"
  by (auto simp: slice_from_def)

subsection \<open>Little-endian integers\<close>

text \<open>\<^verbatim>\<open>to_le_bytes\<close> and \<^verbatim>\<open>from_le_bytes\<close> at any width, through the value in base 256.\<close>

fun nat_le :: "nat \<Rightarrow> nat \<Rightarrow> bytes" where
  "nat_le 0 k = []"
| "nat_le (Suc n) k = of_nat (k mod 256) # nat_le n (k div 256)"

fun le_nat :: "bytes \<Rightarrow> nat" where
  "le_nat [] = 0"
| "le_nat (b # bs) = unat b + 256 * le_nat bs"

definition u16_to_le_bytes :: "u16 \<Rightarrow> bytes" where
  "u16_to_le_bytes w = nat_le 2 (unat w)"

definition u32_to_le_bytes :: "u32 \<Rightarrow> bytes" where
  "u32_to_le_bytes w = nat_le 4 (unat w)"

definition u64_to_le_bytes :: "u64 \<Rightarrow> bytes" where
  "u64_to_le_bytes w = nat_le 8 (unat w)"

definition u16_from_le_bytes :: "bytes \<Rightarrow> u16" where
  "u16_from_le_bytes bs = of_nat (le_nat bs)"

definition u32_from_le_bytes :: "bytes \<Rightarrow> u32" where
  "u32_from_le_bytes bs = of_nat (le_nat bs)"

lemma length_nat_le [simp]: "length (nat_le n k) = n"
  by (induction n arbitrary: k) auto

lemma unat_u8_of_nat [simp]: "unat (of_nat k :: u8) = k mod 256"
  by (simp add: unat_of_nat)

lemma unat_u8_lt [simp]: "unat (b :: u8) < 256"
  by (rule order_less_le_trans [OF unsigned_less]) simp

lemma unat_u8_le [simp]: "unat (b :: u8) \<le> 255"
  using unat_u8_lt [of b] by linarith

lemma le_nat_nat_le: "le_nat (nat_le n k) = k mod 256 ^ n"
proof (induction n arbitrary: k)
  case 0
  then show ?case by simp
next
  case (Suc n)
  have "k mod 256 + 256 * (k div 256 mod 256 ^ n) = k mod 256 ^ Suc n"
    by (simp add: mod_mult2_eq)
  with Suc show ?case by simp
qed

lemma le_nat_bound: "le_nat bs < 256 ^ length bs"
proof (induction bs)
  case Nil
  then show ?case by simp
next
  case (Cons b bs)
  have "unat b < 256" by (rule unat_u8_lt)
  have "le_nat bs + 1 \<le> 256 ^ length bs" using Cons by simp
  then have "256 * (le_nat bs + 1) \<le> 256 * 256 ^ length bs" by (rule mult_le_mono2)
  then have "256 + 256 * le_nat bs \<le> 256 ^ length (b # bs)" by simp
  with \<open>unat b < 256\<close> show ?case unfolding le_nat.simps by linarith
qed

lemma nat_le_le_nat: "nat_le (length bs) (le_nat bs) = bs"
proof (induction bs)
  case Nil
  then show ?case by simp
next
  case (Cons b bs)
  have "(unat b + 256 * le_nat bs) mod 256 = unat b"
    and "(unat b + 256 * le_nat bs) div 256 = le_nat bs"
    by (simp_all add: mod_less div_less)
  with Cons show ?case by simp
qed

lemma u32_le_roundtrip [simp]: "u32_from_le_bytes (u32_to_le_bytes w) = w"
proof -
  have "unat w < 256 ^ 4" by (rule order_less_le_trans [OF unsigned_less]) simp
  then show ?thesis
    by (simp add: u32_from_le_bytes_def u32_to_le_bytes_def le_nat_nat_le)
qed

lemma u16_le_roundtrip [simp]: "u16_from_le_bytes (u16_to_le_bytes w) = w"
proof -
  have "unat w < 256 ^ 2" by (rule order_less_le_trans [OF unsigned_less]) simp
  then show ?thesis
    by (simp add: u16_from_le_bytes_def u16_to_le_bytes_def le_nat_nat_le)
qed

lemma u32_to_le_bytes_expand:
  "u32_to_le_bytes w = (let n = unat w in [of_nat (n mod 256), of_nat (n div 256 mod 256),
     of_nat (n div 256 div 256 mod 256), of_nat (n div 256 div 256 div 256 mod 256)])"
proof -
  have four: "(4::nat) = Suc (Suc (Suc (Suc 0)))" by simp
  show ?thesis unfolding u32_to_le_bytes_def four Let_def nat_le.simps by (rule refl)
qed

lemma length_u32_to_le_bytes [simp]: "length (u32_to_le_bytes w) = 4"
  by (simp add: u32_to_le_bytes_def)

lemma length_u16_to_le_bytes [simp]: "length (u16_to_le_bytes w) = 2"
  by (simp add: u16_to_le_bytes_def)

lemma length_u64_to_le_bytes [simp]: "length (u64_to_le_bytes w) = 8"
  by (simp add: u64_to_le_bytes_def)

lemma u32_from_to_le_bytes:
  assumes "length bs = 4"
  shows "u32_to_le_bytes (u32_from_le_bytes bs) = bs"
proof -
  have "le_nat bs < 256 ^ 4" using le_nat_bound [of bs] assms by simp
  then have "unat (u32_from_le_bytes bs) = le_nat bs"
    by (simp add: u32_from_le_bytes_def unat_of_nat)
  then show ?thesis using nat_le_le_nat [of bs] assms by (simp add: u32_to_le_bytes_def)
qed

lemma u32_to_le_bytes_inject [simp]: "u32_to_le_bytes a = u32_to_le_bytes b \<longleftrightarrow> a = b"
  by (metis u32_le_roundtrip)

subsection \<open>Strings\<close>

text \<open>\<^verbatim>\<open>as_bytes\<close>, byte-string literals, and back.\<close>

definition as_bytes :: "string \<Rightarrow> bytes" where
  "as_bytes s = map of_char s"

definition from_bytes :: "bytes \<Rightarrow> string" where
  "from_bytes b = map (char_of \<circ> unat) b"

lemma length_as_bytes [simp]: "length (as_bytes s) = length s"
  by (simp add: as_bytes_def)

lemma as_bytes_append [simp]: "as_bytes (s @ t) = as_bytes s @ as_bytes t"
  by (simp add: as_bytes_def)

lemma unat_of_char [simp]: "unat (of_char c :: u8) = of_char c"
proof -
  have "(of_char c :: nat) < 256" using range_nat_of_char by (metis atLeastLessThan_iff rangeI)
  moreover have "(of_char c :: u8) = of_nat (of_char c)" by (simp only: of_nat_of_char)
  ultimately show ?thesis by (simp only: unat_u8_of_nat mod_less)
qed

lemma from_bytes_as_bytes [simp]: "from_bytes (as_bytes s) = s"
  by (simp add: from_bytes_def as_bytes_def comp_def)

lemma as_bytes_from_bytes [simp]: "as_bytes (from_bytes d) = d"
proof -
  have "(of_char (char_of (unat b)) :: u8) = b" for b :: u8
  proof -
    have "(of_char (char_of (unat b)) :: u8) = of_nat (of_char (char_of (unat b)))"
      by (simp only: of_nat_of_char)
    also have "\<dots> = of_nat (unat b)" using unat_u8_lt [of b] by (simp only: of_char_of mod_less)
    finally show ?thesis by simp
  qed
  then show ?thesis by (simp add: from_bytes_def as_bytes_def comp_def)
qed

lemma as_bytes_inject [simp]: "as_bytes s = as_bytes t \<longleftrightarrow> s = t"
  by (metis from_bytes_as_bytes)

subsection \<open>Formatting\<close>

text \<open>
  \<^verbatim>\<open>{n}\<close> of an unsigned integer (\<open>fmt_nat\<close>) and of an \<^verbatim>\<open>i64\<close> (\<open>fmt_int\<close>),
  \<^verbatim>\<open>{b:02x}\<close> of a byte (\<open>fmt_02x\<close>), \<^verbatim>\<open>{b:#x}\<close> (\<open>fmt_hash_x\<close>).
\<close>

definition digit_char :: "nat \<Rightarrow> char" where
  "digit_char d = (if d < 10 then char_of (48 + d) else char_of (87 + d))"

fun fmt_nat :: "nat \<Rightarrow> string" where
  "fmt_nat n = (if n < 10 then [digit_char n] else fmt_nat (n div 10) @ [digit_char (n mod 10)])"

declare fmt_nat.simps [simp del]

definition fmt_int :: "int \<Rightarrow> string" where
  "fmt_int k = (if k < 0 then CHR ''-'' # fmt_nat (nat (- k)) else fmt_nat (nat k))"

definition fmt_02x :: "u8 \<Rightarrow> string" where
  "fmt_02x b = [digit_char (unat b div 16), digit_char (unat b mod 16)]"

definition fmt_hash_x :: "u8 \<Rightarrow> string" where
  "fmt_hash_x b = ''0x'' @ (if unat b < 16 then [digit_char (unat b)] else fmt_02x b)"

lemma digit_char_inject: "d < 16 \<Longrightarrow> e < 16 \<Longrightarrow> digit_char d = digit_char e \<longleftrightarrow> d = e"
  by (auto simp: digit_char_def char_of_eq_iff take_bit_eq_mod split: if_splits)

lemma fmt_02x_inject [simp]: "fmt_02x a = fmt_02x b \<longleftrightarrow> a = b"
proof
  assume eq: "fmt_02x a = fmt_02x b"
  have "unat a < 16 * 16" "unat b < 16 * 16" using unat_u8_lt [of a] unat_u8_lt [of b] by simp_all
  then have "unat a div 16 < 16" "unat b div 16 < 16" by (simp_all only: less_mult_imp_div_less)
  with eq have "unat a div 16 = unat b div 16" and "unat a mod 16 = unat b mod 16"
    by (simp_all add: fmt_02x_def digit_char_inject)
  then have "unat a = unat b" by (metis div_mod_decomp)
  then show "a = b" by (rule unsigned_word_eqI)
qed simp

lemma length_fmt_02x [simp]: "length (fmt_02x b) = 2"
  by (simp add: fmt_02x_def)

lemma fmt_02x_nonempty [simp]: "fmt_02x b \<noteq> []" "[] \<noteq> fmt_02x b"
  by (simp_all add: fmt_02x_def)

lemma fmt_nat_nonempty [simp]: "fmt_nat n \<noteq> []"
  by (subst fmt_nat.simps) simp

lemma fmt_nat_inject_aux: "fmt_nat m = fmt_nat n \<Longrightarrow> m = n"
proof (induction m arbitrary: n rule: fmt_nat.induct)
  case (1 m)
  show ?case
  proof (cases "m < 10 \<or> n < 10")
    case True
    have "\<not> (10 \<le> k \<and> fmt_nat k = [c])" for k c by (subst fmt_nat.simps) auto
    with True 1(2) have "m < 10 \<and> n < 10"
      by (metis fmt_nat.simps not_le)
    with 1(2) show ?thesis by (simp add: fmt_nat.simps [of m] fmt_nat.simps [of n] digit_char_inject)
  next
    case False
    with 1(2) have "fmt_nat (m div 10) = fmt_nat (n div 10)" and "m mod 10 = n mod 10"
      by (simp_all add: fmt_nat.simps [of m] fmt_nat.simps [of n] digit_char_inject)
    moreover from False this(1) 1(1) have "m div 10 = n div 10" by simp
    ultimately show ?thesis by (metis div_mod_decomp)
  qed
qed

lemma fmt_nat_inject [simp]: "fmt_nat m = fmt_nat n \<longleftrightarrow> m = n"
  by (auto dest: fmt_nat_inject_aux)

text \<open>The concatenation of the two-digit forms of a byte string.\<close>

definition hex_lower :: "bytes \<Rightarrow> string" where
  "hex_lower bs = concat (map fmt_02x bs)"

lemma hex_lower_Nil [simp]: "hex_lower [] = []"
  by (simp add: hex_lower_def)

lemma hex_lower_Cons [simp]: "hex_lower (b # bs) = fmt_02x b @ hex_lower bs"
  by (simp add: hex_lower_def)

lemma length_hex_lower [simp]: "length (hex_lower bs) = 2 * length bs"
  by (induction bs) auto

lemma hex_lower_inject [simp]: "hex_lower a = hex_lower b \<longleftrightarrow> a = b"
proof (induction a arbitrary: b)
  case Nil
  then show ?case by (cases b) simp_all
next
  case (Cons x a)
  then show ?case by (cases b) simp_all
qed

subsection \<open>String slices and hexadecimal parsing\<close>

text \<open>
  \<^verbatim>\<open>&s[i..j]\<close> on a \<^verbatim>\<open>str\<close> panics unless both ends lie on a character boundary: at the ends
  of the string, or before a byte that does not continue a UTF-8 sequence.
\<close>

definition is_utf8_continuation :: "char \<Rightarrow> bool" where
  "is_utf8_continuation c \<longleftrightarrow> 128 \<le> (of_char c :: nat) \<and> (of_char c :: nat) < 192"

definition is_char_boundary :: "string \<Rightarrow> nat \<Rightarrow> bool" where
  "is_char_boundary s i \<longleftrightarrow>
     i = 0 \<or> i = length s \<or> (i < length s \<and> \<not> is_utf8_continuation (s ! i))"

definition str_slice :: "string \<Rightarrow> nat \<Rightarrow> nat \<Rightarrow> (string, 'e) result" where
  "str_slice s i j =
     (if i \<le> j \<and> is_char_boundary s i \<and> is_char_boundary s j
      then Ok (take (j - i) (drop i s)) else Panic)"

text \<open>\<^verbatim>\<open>u8::from_str_radix(s, 16)\<close>: an optional plus sign, then digits of either case.\<close>

definition hex_digit :: "char \<Rightarrow> nat option" where
  "hex_digit c =
     (let n = of_char c in
      if 48 \<le> n \<and> n \<le> 57 then Some (n - 48)
      else if 97 \<le> n \<and> n \<le> 102 then Some (n - 87)
      else if 65 \<le> n \<and> n \<le> 70 then Some (n - 55)
      else None)"

fun hex_digits_u8 :: "nat \<Rightarrow> string \<Rightarrow> u8 option" where
  "hex_digits_u8 acc [] = Some (of_nat acc)"
| "hex_digits_u8 acc (c # cs) =
     (case hex_digit c of
        None \<Rightarrow> None
      | Some d \<Rightarrow> if 255 < acc * 16 + d then None else hex_digits_u8 (acc * 16 + d) cs)"

definition u8_from_hex_str :: "string \<Rightarrow> u8 option" where
  "u8_from_hex_str s =
     (case s of
        [] \<Rightarrow> None
      | c # rest \<Rightarrow>
          if c = CHR ''+'' then (if rest = [] then None else hex_digits_u8 0 rest)
          else hex_digits_u8 0 s)"

lemma of_char_digit_char [simp]:
  "d < 16 \<Longrightarrow> (of_char (digit_char d) :: nat) = (if d < 10 then 48 + d else 87 + d)"
  by (simp add: digit_char_def)

lemma hex_digit_digit_char [simp]: "d < 16 \<Longrightarrow> hex_digit (digit_char d) = Some d"
  by (simp add: hex_digit_def Let_def)

lemma digit_char_not_plus: "d < 16 \<Longrightarrow> digit_char d \<noteq> CHR ''+''"
proof
  assume "d < 16" "digit_char d = CHR ''+''"
  then have "(of_char (digit_char d) :: nat) = of_char (CHR ''+'')" by simp
  with \<open>d < 16\<close> show False by (simp split: if_splits)
qed

lemma u8_div_mod_16: "unat (b :: u8) div 16 < 16" "unat (b :: u8) mod 16 < 16"
proof -
  have "unat b < 16 * 16" using unat_u8_lt [of b] by simp
  then show "unat b div 16 < 16" by (simp only: less_mult_imp_div_less)
qed simp

lemma u8_from_hex_str_fmt_02x [simp]: "u8_from_hex_str (fmt_02x b) = Some b"
proof -
  have "unat b div 16 * 16 + unat b mod 16 = unat b" by simp
  moreover have "\<not> 255 < unat b" using unat_u8_lt [of b] by linarith
  moreover have "\<not> 255 < unat b div 16" using u8_div_mod_16(1) [of b] by linarith
  ultimately show ?thesis
    by (simp add: u8_from_hex_str_def fmt_02x_def u8_div_mod_16 digit_char_not_plus)
qed

lemma is_utf8_continuation_digit [simp]: "d < 16 \<Longrightarrow> \<not> is_utf8_continuation (digit_char d)"
  by (simp add: is_utf8_continuation_def)

definition ascii :: "string \<Rightarrow> bool" where
  "ascii s \<longleftrightarrow> (\<forall>c \<in> set s. (of_char c :: nat) < 128)"

lemma ascii_boundary: "ascii s \<Longrightarrow> i \<le> length s \<Longrightarrow> is_char_boundary s i"
  by (cases "i = length s")
    (auto simp: ascii_def is_char_boundary_def is_utf8_continuation_def not_le
      dest: bspec [OF _ nth_mem])

lemma ascii_append [simp]: "ascii (s @ t) \<longleftrightarrow> ascii s \<and> ascii t"
  by (auto simp: ascii_def)

lemma ascii_fmt_02x [simp]: "ascii (fmt_02x b)"
proof -
  have "(of_char (digit_char d) :: nat) < 128" if "d < 16" for d using that by simp
  then show ?thesis by (simp only: ascii_def fmt_02x_def set_simps ball_simps u8_div_mod_16)
qed

lemma ascii_hex_lower [simp]: "ascii (hex_lower bs)"
  by (induction bs) (simp_all add: ascii_def [of "[]"])

lemma hex_lower_pair:
  "i < length bs \<Longrightarrow> take 2 (drop (2 * i) (hex_lower bs)) = fmt_02x (bs ! i)"
proof (induction bs arbitrary: i)
  case Nil
  then show ?case by simp
next
  case (Cons b bs)
  then show ?case by (cases i) simp_all
qed

end
