(* ===== verification/Errors.thy ===== *)
theory Errors
  imports Prelude
begin

section \<open>Typed errors (\<open>crates/rgb-pq-core/src/error.rs\<close>, \<open>limits.rs\<close>)\<close>

text \<open>
  The error enums of \<^verbatim>\<open>rgb-pq-core\<close>, one datatype per enum with the source's variants
  (prefixed by the initials of their enum, since several enums share variant names), the
  \<^verbatim>\<open>Display\<close> texts of their \<^verbatim>\<open>#[error(...)]\<close> attributes, and the \<^verbatim>\<open>From\<close> conversions that
  \<^verbatim>\<open>?\<close> and \<^verbatim>\<open>.into()\<close> apply. The texts matter: the resolver recognises a limit breach by the
  prefix of a message.
\<close>

subsection \<open>Leaf errors\<close>

datatype chain_confusion =
    CC_UnsupportedChain string
  | CC_WrongNetwork (wn_expected: string) (wn_actual: string)
  | CC_BitcoinMainnet
  | CC_NonBtqBitcoin string
  | CC_OrdinaryTaproot
  | CC_OrdinaryRgbSeal
  | CC_NonP2mrBtqOutput
  | CC_UnknownChainId

datatype owner_algo_error =
    OA_Secp256k1NotAllowed
  | OA_UnsupportedAlgo u8
  | OA_FeatureGated string

datatype malformed_seal_error =
    MS_BadEncoding string
  | MS_UnknownVersion u8
  | MS_BadP2mrOutput string
  | MS_BadText string
  | MS_BadLength (bl_field: string) (bl_expected: usize) (bl_actual: usize)

datatype seal_error =
    SE_Chain chain_confusion
  | SE_OwnerAlgo owner_algo_error
  | SE_Malformed malformed_seal_error
  | SE_WrongP2mrRoot (wr_expected: string) (wr_actual: string)
  | SE_WrongScriptLeaf (wl_expected: string) (wl_actual: string)

datatype commitment_error =
    CM_Missing string
  | CM_Malformed string
  | CM_Duplicate string
  | CM_WrongChain
  | CM_WrongSeal
  | CM_TransitionMismatch (tm_expected: string) (tm_actual: string)

datatype node_unavailable = NodeUnavailable string

datatype btq_feature =
    BF_P2mrUnsupported
  | BF_DilithiumUnsupported
  | BF_RpcMethodUnsupported string

datatype unsupported_feature =
    UF_SealVersion u8
  | UF_CommitmentLocator string

datatype rpc_error =
    RP_Timeout u64 string
  | RP_Transport (rt_endpoint: string) (rt_detail: string)
  | RP_HttpStatus (rh_status: u16) (rh_endpoint: string) (rh_detail: string)
  | RP_RpcLevel (rl_code: i64) (rl_endpoint: string) (rl_message: string)
  | RP_Decode string string
  | RP_Auth string
  | RP_WrongNetwork chain_confusion

datatype index_error =
    IX_Unavailable string
  | IX_Persistence string
  | IX_Inconsistent string

datatype resolve_error =
    RE_MissingTx string
  | RE_MissingOutput string
  | RE_MissingInclusionProof string
  | RE_Unconfirmed string
  | RE_InsufficientConfirmations (ic_txid: string) (ic_have: u32) (ic_need: u32)
  | RE_ConflictingSpend string
  | RE_Reorg (ro_height: u32) (ro_old_tip: string) (ro_new_tip: string)
  | RE_Rpc rpc_error
  | RE_Index index_error
  | RE_NodeUnavailable node_unavailable
  | RE_Feature btq_feature
  | RE_Seal seal_error

datatype invalid_seal_close_reason =
    IC_NotSpentByTx
  | IC_WrongOwnershipPath
  | IC_WrongRoot seal_error
  | IC_Commitment commitment_error
  | IC_Resolve resolve_error

datatype unknown_seal_state_reason =
    US_OutpointMissing
  | US_Resolve resolve_error

datatype seal_state_error =
    SS_Resolve resolve_error
  | SS_Seal seal_error
  | SS_InvalidClose invalid_seal_close_reason

datatype rgb_pq_error =
    RgbPq_Seal seal_error
  | RgbPq_SealState seal_state_error
  | RgbPq_Commitment commitment_error
  | RgbPq_Resolve resolve_error
  | RgbPq_Rpc rpc_error
  | RgbPq_Index index_error
  | RgbPq_RgbValidation string
  | RgbPq_Invariant string

type_synonym 'a rgb_pq_result = "('a, rgb_pq_error) result"

subsection \<open>Display texts\<close>

fun show_chain_confusion :: "chain_confusion \<Rightarrow> string" where
  "show_chain_confusion (CC_UnsupportedChain s) = ''unsupported chain id: '' @ s"
| "show_chain_confusion (CC_WrongNetwork e a) =
     ''wrong network: expected '' @ e @ '', got '' @ a"
| "show_chain_confusion CC_BitcoinMainnet = ''bitcoin mainnet is not supported by RGB-PQ''"
| "show_chain_confusion (CC_NonBtqBitcoin s) =
     ''non-BTQ bitcoin chain '' @ [CHR 0x27] @ s @ [CHR 0x27] @ '' is not a BTQ P2MR chain''"
| "show_chain_confusion CC_OrdinaryTaproot =
     ''ordinary taproot/P2TR output is not a P2MR output''"
| "show_chain_confusion CC_OrdinaryRgbSeal =
     ''ordinary RGB bitcoin seal is not a BTQ P2MR seal''"
| "show_chain_confusion CC_NonP2mrBtqOutput = ''non-P2MR BTQ output''"
| "show_chain_confusion CC_UnknownChainId = ''unknown chain id''"

fun show_owner_algo_error :: "owner_algo_error \<Rightarrow> string" where
  "show_owner_algo_error OA_Secp256k1NotAllowed =
     ''secp256k1 ownership is not post-quantum; PQ ownership required''"
| "show_owner_algo_error (OA_UnsupportedAlgo b) =
     ''unsupported PQ algorithm id: '' @ fmt_nat (unat b)"
| "show_owner_algo_error (OA_FeatureGated s) =
     ''PQ algorithm '' @ [CHR 0x27] @ s @ [CHR 0x27]
       @ '' requires a feature gate that is not enabled''"

fun show_malformed_seal_error :: "malformed_seal_error \<Rightarrow> string" where
  "show_malformed_seal_error (MS_BadEncoding s) = ''malformed seal encoding: '' @ s"
| "show_malformed_seal_error (MS_UnknownVersion v) =
     ''unknown seal version: '' @ fmt_nat (unat v)"
| "show_malformed_seal_error (MS_BadP2mrOutput s) = ''malformed P2MR output: '' @ s"
| "show_malformed_seal_error (MS_BadText s) = ''malformed textual seal: '' @ s"
| "show_malformed_seal_error (MS_BadLength f e a) =
     ''invalid field length for '' @ [CHR 0x27] @ f @ [CHR 0x27] @ '': expected ''
       @ fmt_nat e @ '', got '' @ fmt_nat a"

fun show_seal_error :: "seal_error \<Rightarrow> string" where
  "show_seal_error (SE_Chain e) = show_chain_confusion e"
| "show_seal_error (SE_OwnerAlgo e) = show_owner_algo_error e"
| "show_seal_error (SE_Malformed e) = show_malformed_seal_error e"
| "show_seal_error (SE_WrongP2mrRoot e a) =
     ''wrong P2MR root: expected '' @ e @ '', got '' @ a"
| "show_seal_error (SE_WrongScriptLeaf e a) =
     ''wrong script leaf hash: expected '' @ e @ '', got '' @ a"

fun show_commitment_error :: "commitment_error \<Rightarrow> string" where
  "show_commitment_error (CM_Missing s) = ''missing commitment in transaction '' @ s"
| "show_commitment_error (CM_Malformed s) = ''malformed commitment: '' @ s"
| "show_commitment_error (CM_Duplicate s) =
     ''duplicate conflicting commitments for seal '' @ s"
| "show_commitment_error CM_WrongChain = ''wrong-chain commitment''"
| "show_commitment_error CM_WrongSeal = ''wrong-seal commitment''"
| "show_commitment_error (CM_TransitionMismatch e a) =
     ''commitment does not match RGB transition: expected '' @ e @ '', got '' @ a"

fun show_node_unavailable :: "node_unavailable \<Rightarrow> string" where
  "show_node_unavailable (NodeUnavailable s) = ''BTQ node unavailable: '' @ s"

fun show_btq_feature :: "btq_feature \<Rightarrow> string" where
  "show_btq_feature BF_P2mrUnsupported =
     ''BTQ feature unavailable: P2MR not supported by node''"
| "show_btq_feature BF_DilithiumUnsupported =
     ''BTQ feature unavailable: Dilithium not supported by node''"
| "show_btq_feature (BF_RpcMethodUnsupported m) =
     ''BTQ feature unavailable: RPC method '' @ [CHR 0x27] @ m @ [CHR 0x27]
       @ '' not supported''"

fun show_unsupported_feature :: "unsupported_feature \<Rightarrow> string" where
  "show_unsupported_feature (UF_SealVersion v) =
     ''unsupported seal version: '' @ fmt_nat (unat v)"
| "show_unsupported_feature (UF_CommitmentLocator s) =
     ''unsupported commitment locator: '' @ s"

fun show_rpc_error :: "rpc_error \<Rightarrow> string" where
  "show_rpc_error (RP_Timeout n s) =
     ''RPC timeout after '' @ fmt_nat (unat n) @ ''s contacting '' @ s"
| "show_rpc_error (RP_Transport e d) =
     ''RPC transport error contacting '' @ e @ '': '' @ d"
| "show_rpc_error (RP_HttpStatus c e d) =
     ''RPC HTTP '' @ fmt_nat (unat c) @ '' from '' @ e @ '': '' @ d"
| "show_rpc_error (RP_RpcLevel c e m) =
     ''RPC error '' @ fmt_int (sint c) @ '' from '' @ e @ '': '' @ m"
| "show_rpc_error (RP_Decode e d) =
     ''RPC deserialisation error from '' @ e @ '': '' @ d"
| "show_rpc_error (RP_Auth s) = ''RPC authentication failed for '' @ s"
| "show_rpc_error (RP_WrongNetwork e) = show_chain_confusion e"

fun show_index_error :: "index_error \<Rightarrow> string" where
  "show_index_error (IX_Unavailable s) = ''indexer unavailable: '' @ s"
| "show_index_error (IX_Persistence s) = ''indexer persistence error: '' @ s"
| "show_index_error (IX_Inconsistent s) = ''indexer inconsistency: '' @ s"

fun show_resolve_error :: "resolve_error \<Rightarrow> string" where
  "show_resolve_error (RE_MissingTx s) = ''missing transaction '' @ s"
| "show_resolve_error (RE_MissingOutput s) = ''missing output '' @ s"
| "show_resolve_error (RE_MissingInclusionProof s) = ''missing inclusion proof for '' @ s"
| "show_resolve_error (RE_Unconfirmed s) = ''unconfirmed transaction '' @ s"
| "show_resolve_error (RE_InsufficientConfirmations t h n) =
     ''insufficient confirmations for '' @ t @ '': have '' @ fmt_nat (unat h)
       @ '', need '' @ fmt_nat (unat n)"
| "show_resolve_error (RE_ConflictingSpend s) = ''conflicting spend of '' @ s"
| "show_resolve_error (RE_Reorg h o' n) =
     ''reorg detected at height '' @ fmt_nat (unat h) @ '' (old tip '' @ o'
       @ '', new tip '' @ n @ '')''"
| "show_resolve_error (RE_Rpc e) = show_rpc_error e"
| "show_resolve_error (RE_Index e) = show_index_error e"
| "show_resolve_error (RE_NodeUnavailable e) = show_node_unavailable e"
| "show_resolve_error (RE_Feature e) = show_btq_feature e"
| "show_resolve_error (RE_Seal e) = show_seal_error e"

fun show_invalid_seal_close_reason :: "invalid_seal_close_reason \<Rightarrow> string" where
  "show_invalid_seal_close_reason IC_NotSpentByTx =
     ''spend does not consume the watched outpoint''"
| "show_invalid_seal_close_reason IC_WrongOwnershipPath =
     ''spend did not use the expected P2MR/Dilithium ownership path''"
| "show_invalid_seal_close_reason (IC_WrongRoot e) = show_seal_error e"
| "show_invalid_seal_close_reason (IC_Commitment e) = show_commitment_error e"
| "show_invalid_seal_close_reason (IC_Resolve e) = show_resolve_error e"

fun show_unknown_seal_state_reason :: "unknown_seal_state_reason \<Rightarrow> string" where
  "show_unknown_seal_state_reason US_OutpointMissing = ''outpoint does not exist''"
| "show_unknown_seal_state_reason (US_Resolve e) = show_resolve_error e"

fun show_seal_state_error :: "seal_state_error \<Rightarrow> string" where
  "show_seal_state_error (SS_Resolve e) = show_resolve_error e"
| "show_seal_state_error (SS_Seal e) = show_seal_error e"
| "show_seal_state_error (SS_InvalidClose e) = show_invalid_seal_close_reason e"

fun show_rgb_pq_error :: "rgb_pq_error \<Rightarrow> string" where
  "show_rgb_pq_error (RgbPq_Seal e) = show_seal_error e"
| "show_rgb_pq_error (RgbPq_SealState e) = show_seal_state_error e"
| "show_rgb_pq_error (RgbPq_Commitment e) = show_commitment_error e"
| "show_rgb_pq_error (RgbPq_Resolve e) = show_resolve_error e"
| "show_rgb_pq_error (RgbPq_Rpc e) = show_rpc_error e"
| "show_rgb_pq_error (RgbPq_Index e) = show_index_error e"
| "show_rgb_pq_error (RgbPq_RgbValidation s) = ''RGB validation failure: '' @ s"
| "show_rgb_pq_error (RgbPq_Invariant s) = ''internal invariant violation: '' @ s"

subsection \<open>The \<^verbatim>\<open>From\<close> conversions\<close>

text \<open>
  \<^verbatim>\<open>#[from]\<close> fields convert by their constructor. The hand-written conversions below route a
  leaf error through its enum; \<open>rgb_pq_of_rpc\<close> and its kin name the \<^verbatim>\<open>#[from]\<close> ones used by
  \<^verbatim>\<open>.into()\<close>, since an \<^verbatim>\<open>RpcError\<close> has two ways into \<^verbatim>\<open>RgbPqError\<close>
  (\<^verbatim>\<open>Rpc(e)\<close> and \<^verbatim>\<open>Resolve(Rpc(e))\<close>) and \<^verbatim>\<open>.into()\<close> takes the direct one.
\<close>

definition resolve_of_chain :: "chain_confusion \<Rightarrow> resolve_error" where
  "resolve_of_chain e = RE_Seal (SE_Chain e)"

definition rgb_pq_of_chain :: "chain_confusion \<Rightarrow> rgb_pq_error" where
  "rgb_pq_of_chain e = RgbPq_Seal (SE_Chain e)"

definition rgb_pq_of_owner_algo :: "owner_algo_error \<Rightarrow> rgb_pq_error" where
  "rgb_pq_of_owner_algo e = RgbPq_Seal (SE_OwnerAlgo e)"

definition rgb_pq_of_malformed :: "malformed_seal_error \<Rightarrow> rgb_pq_error" where
  "rgb_pq_of_malformed e = RgbPq_Seal (SE_Malformed e)"

fun rgb_pq_of_unsupported :: "unsupported_feature \<Rightarrow> rgb_pq_error" where
  "rgb_pq_of_unsupported (UF_SealVersion v) =
     RgbPq_Seal (SE_Malformed (MS_UnknownVersion v))"
| "rgb_pq_of_unsupported other =
     RgbPq_Invariant (''unsupported: '' @ show_unsupported_feature other)"

definition rgb_pq_of_invalid_close :: "invalid_seal_close_reason \<Rightarrow> rgb_pq_error" where
  "rgb_pq_of_invalid_close e = RgbPq_SealState (SS_InvalidClose e)"

definition rgb_pq_of_rpc :: "rpc_error \<Rightarrow> rgb_pq_error" where
  "rgb_pq_of_rpc e = RgbPq_Rpc e"

text \<open>No conversion loses its source: distinct leaf errors stay distinct.\<close>

lemma rgb_pq_of_leaf_inject:
  "rgb_pq_of_chain a = rgb_pq_of_chain b \<longleftrightarrow> a = b"
  "rgb_pq_of_owner_algo c = rgb_pq_of_owner_algo d \<longleftrightarrow> c = d"
  "rgb_pq_of_malformed e = rgb_pq_of_malformed f \<longleftrightarrow> e = f"
  by (simp_all add: rgb_pq_of_chain_def rgb_pq_of_owner_algo_def rgb_pq_of_malformed_def)

lemmas error_conversions =
  resolve_of_chain_def rgb_pq_of_chain_def rgb_pq_of_owner_algo_def rgb_pq_of_malformed_def
  rgb_pq_of_invalid_close_def rgb_pq_of_rpc_def

end
