(* ===== verification/Crates.thy ===== *)
theory Crates
  imports Errors
begin

section \<open>Third-party crates as parameters\<close>

text \<open>
  The functions of \<^verbatim>\<open>sha2\<close>, \<^verbatim>\<open>hex\<close> and \<^verbatim>\<open>bech32\<close> the source calls are not in the
  repository. They are the fields of a record that every definition using one of them takes
  as its first argument; an error of a crate is the text the source formats it to. What a
  theorem relies on is a named hypothesis on the record:
  \<^item> \<open>sha256_ok\<close>: a digest has 32 bytes;
  \<^item> \<open>collision_free\<close>: no two of the finitely many messages listed have the same digest
    (a fixed-length hash cannot be injective on all messages);
  \<^item> \<open>hex_ok\<close>: \<^verbatim>\<open>hex::encode\<close> is lower-case hex and \<^verbatim>\<open>hex::decode\<close> inverts it;
  \<^item> \<open>bech32_ok\<close>: \<^verbatim>\<open>bech32\<close> encodes within its code length under a valid prefix, and
    decoding an encoded string gives the prefix and the data back.
  \<open>Samples\<close> instantiates the record, so that each hypothesis is seen to hold somewhere.
\<close>

record crates =
  sha256 :: "bytes \<Rightarrow> bytes"
  hex_encode :: "bytes \<Rightarrow> string"
  hex_decode :: "string \<Rightarrow> (bytes, string) result"
  hrp_parse :: "string \<Rightarrow> string option"
  bech32m_encode :: "string \<Rightarrow> bytes \<Rightarrow> string option"
  bech32_decode :: "string \<Rightarrow> (string \<times> bytes, string) result"

definition sha256_ok :: "crates \<Rightarrow> bool" where
  "sha256_ok L \<longleftrightarrow> (\<forall>m. length (sha256 L m) = 32)"

definition collision_free :: "crates \<Rightarrow> bytes set \<Rightarrow> bool" where
  "collision_free L M \<longleftrightarrow> inj_on (sha256 L) M"

definition hex_ok :: "crates \<Rightarrow> bool" where
  "hex_ok L \<longleftrightarrow> (\<forall>b. hex_encode L b = hex_lower b \<and> hex_decode L (hex_lower b) = Ok b)
     \<and> (\<forall>s b. hex_decode L s = Ok b \<longrightarrow> length s = 2 * length b)
     \<and> (\<forall>s. \<not> panics (hex_decode L s))"

definition bech32_ok :: "crates \<Rightarrow> string \<Rightarrow> bool" where
  "bech32_ok L hrp \<longleftrightarrow> hrp_parse L hrp = Some hrp
     \<and> (\<forall>d. length hrp + 7 + (8 * length d + 4) div 5 \<le> 1023 \<longrightarrow>
          (\<exists>s. bech32m_encode L hrp d = Some s \<and> bech32_decode L s = Ok (hrp, d)))
     \<and> (\<forall>s. \<not> panics (bech32_decode L s))"

lemma sha256_okD [wire_len]: "sha256_ok L \<Longrightarrow> length (sha256 L m) = 32"
  by (simp add: sha256_ok_def)

lemma collision_freeD:
  "collision_free L M \<Longrightarrow> sha256 L a = sha256 L b \<Longrightarrow> a \<in> M \<Longrightarrow> b \<in> M \<Longrightarrow> a = b"
  by (auto simp: collision_free_def dest: inj_onD)

lemma collision_free_mono: "collision_free L M \<Longrightarrow> N \<subseteq> M \<Longrightarrow> collision_free L N"
  by (auto simp: collision_free_def intro: inj_on_subset)

lemma hex_okD:
  assumes "hex_ok L"
  shows "hex_encode L b = hex_lower b" "hex_decode L (hex_lower b) = Ok b"
    "hex_decode L s = Ok c \<Longrightarrow> length s = 2 * length c" "\<not> panics (hex_decode L s)"
  using assms by (auto simp: hex_ok_def)

end
