(* ===== verification/Samples.thy ===== *)
theory Samples
  imports Crates
begin

section \<open>Sample values\<close>

text \<open>
  One concrete instance of the third-party functions, on which the hypotheses of \<open>Crates\<close>
  hold, and the sample bytes the witnesses of the component theories use. The "hash" reverses
  the message and keeps 32 bytes: it has the right length and separates the messages the
  witnesses need, which is all a witness asks of it.
\<close>

definition toy_sha256 :: "bytes \<Rightarrow> bytes" where
  "toy_sha256 m = take 32 (rev m @ replicate 32 0)"

fun toy_hex_decode :: "string \<Rightarrow> (bytes, string) result" where
  "toy_hex_decode [] = Ok []"
| "toy_hex_decode [c] = Err ''odd length''"
| "toy_hex_decode (c # d # s) = (case u8_from_hex_str [c, d] of
     None \<Rightarrow> Err ''invalid character''
   | Some b \<Rightarrow> and_then (toy_hex_decode s) (\<lambda>bs. Ok (b # bs)))"

definition toy_bech32_decode :: "string \<Rightarrow> (string \<times> bytes, string) result" where
  "toy_bech32_decode s =
     (if take 10 s = ''rgbpqseal1'' then Ok (''rgbpqseal'', as_bytes (drop 10 s))
      else Err ''parse'')"

definition toy_crates :: crates where
  "toy_crates = \<lparr>
     sha256 = toy_sha256,
     hex_encode = hex_lower,
     hex_decode = toy_hex_decode,
     hrp_parse = Some,
     bech32m_encode = (\<lambda>hrp d. Some (hrp @ ''1'' @ from_bytes d)),
     bech32_decode = toy_bech32_decode \<rparr>"

lemma toy_sha256_ok: "sha256_ok toy_crates"
  by (auto simp: sha256_ok_def toy_crates_def toy_sha256_def)

text \<open>The toy hash tells messages apart by their last byte.\<close>

lemma toy_sha256_hd: "m \<noteq> [] \<Longrightarrow> hd (sha256 toy_crates m) = last m"
  by (simp add: toy_crates_def toy_sha256_def hd_append hd_rev)

lemma toy_sha256_last:
  "a \<noteq> [] \<Longrightarrow> b \<noteq> [] \<Longrightarrow> last a \<noteq> last b \<Longrightarrow> collision_free toy_crates {a, b}"
  using toy_sha256_hd [of a] toy_sha256_hd [of b] by (auto simp: collision_free_def)

lemma toy_hex_decode_lower: "toy_hex_decode (hex_lower b) = Ok b"
proof (induction b)
  case (Cons x b)
  obtain c d where "fmt_02x x = [c, d]" by (simp add: fmt_02x_def)
  with Cons show ?case using u8_from_hex_str_fmt_02x [of x] by simp
qed simp

lemma toy_hex_decode_length: "toy_hex_decode s = Ok b \<Longrightarrow> length s = 2 * length b"
  by (induction s arbitrary: b rule: toy_hex_decode.induct)
     (auto simp: and_then_Ok_iff split: option.splits)

lemma toy_hex_decode_no_panic: "\<not> panics (toy_hex_decode s)"
  by (induction s rule: toy_hex_decode.induct) (simp_all add: and_then_no_panic split: option.split)

lemma toy_hex_ok: "hex_ok toy_crates"
  by (simp add: hex_ok_def toy_crates_def toy_hex_decode_lower toy_hex_decode_no_panic)
     (auto dest: toy_hex_decode_length)

lemma toy_bech32_ok: "bech32_ok toy_crates ''rgbpqseal''"
  by (simp add: bech32_ok_def toy_crates_def toy_bech32_decode_def)

text \<open>A second instance, whose hash is a checksum of the message: it separates messages that end
  alike.\<close>

definition checksum_crates :: crates where
  "checksum_crates = toy_crates\<lparr>sha256 := \<lambda>m. replicate 31 0 @ [foldl (\<lambda>acc b. acc * 5 + b * b) 7 m]\<rparr>"

lemma checksum_ok: "sha256_ok checksum_crates"
  by (simp add: sha256_ok_def checksum_crates_def)

lemma checksum_bech32_ok: "bech32_ok checksum_crates ''rgbpqseal''"
  using toy_bech32_ok by (simp add: bech32_ok_def checksum_crates_def)

lemma collision_free_list:
  "distinct (map (sha256 L) ms) \<Longrightarrow> M \<subseteq> set ms \<Longrightarrow> collision_free L M"
  by (auto simp: collision_free_def distinct_map intro: inj_on_subset)

end
