(* ===== verification/Domain_Sep.thy ===== *)
theory Domain_Sep
  imports Prelude
begin

section \<open>Domain separation (\<open>crates/rgb-pq-core/src/domain.rs\<close>)\<close>

text \<open>
  The prefix of every domain-separated digest:
  \<^verbatim>\<open>DOMAIN_TAG || version || chain || 0x00 || seal_type || 0x00\<close>. The two NUL bytes delimit
  the strings, so the prefix determines them, also when more bytes follow
  (\<open>write_prefix_inject\<close>), as long as neither string holds a NUL.
\<close>

definition DOMAIN_SEPARATION_VERSION :: u8 where
  "DOMAIN_SEPARATION_VERSION = 0"

definition DOMAIN_TAG :: bytes where
  "DOMAIN_TAG = as_bytes ''rgbpq:v0''"

record domain =
  dom_chain :: string
  dom_seal_type :: string

definition P2MR_SEAL_TYPE :: string where
  "P2MR_SEAL_TYPE = ''p2mr''"

definition domain_p2mr :: "string \<Rightarrow> domain" where
  "domain_p2mr chain = \<lparr>dom_chain = chain, dom_seal_type = P2MR_SEAL_TYPE\<rparr>"

text \<open>The code appends to a buffer; the model returns the buffer extended.\<close>

definition write_prefix :: "domain \<Rightarrow> bytes \<Rightarrow> bytes" where
  "write_prefix d buf =
     buf @ DOMAIN_TAG @ [DOMAIN_SEPARATION_VERSION] @ as_bytes (dom_chain d) @ [0]
       @ as_bytes (dom_seal_type d) @ [0]"

definition prefixed :: "domain \<Rightarrow> bytes" where
  "prefixed d = write_prefix d []"

definition nul_free :: "string \<Rightarrow> bool" where
  "nul_free s \<longleftrightarrow> 0 \<notin> set (as_bytes s)"

lemma length_DOMAIN_TAG [wire_len]: "length DOMAIN_TAG = 8"
  by (simp add: DOMAIN_TAG_def)

lemma prefixed_p2mr:
  "prefixed (domain_p2mr c) =
     DOMAIN_TAG @ 0 # as_bytes c @ 0 # as_bytes ''p2mr'' @ [0]"
  by (simp add: prefixed_def write_prefix_def domain_p2mr_def P2MR_SEAL_TYPE_def
      DOMAIN_SEPARATION_VERSION_def)

text \<open>A delimiter that does not occur in the fields splits a concatenation uniquely.\<close>

lemma delimited_append_inject:
  assumes "d \<notin> set xs" and "d \<notin> set ys" and "xs @ d # us = ys @ d # vs"
  shows "xs = ys \<and> us = vs"
  using assms
proof (induction xs arbitrary: ys)
  case Nil
  then show ?case by (cases ys) auto
next
  case (Cons x xs)
  then show ?case by (cases ys) auto
qed

lemma write_prefix_append:
  assumes "nul_free (dom_chain d)" "nul_free (dom_chain e)"
    and "nul_free (dom_seal_type d)" "nul_free (dom_seal_type e)"
    and "prefixed d @ us = prefixed e @ vs"
  shows "d = e \<and> us = vs"
proof -
  have "as_bytes (dom_chain d) @ 0 # as_bytes (dom_seal_type d) @ 0 # us
      = as_bytes (dom_chain e) @ 0 # as_bytes (dom_seal_type e) @ 0 # vs"
    using assms(5) by (simp add: prefixed_def write_prefix_def)
  from delimited_append_inject [OF assms(1,2) [unfolded nul_free_def] this]
  have chain: "dom_chain d = dom_chain e"
    and rest: "as_bytes (dom_seal_type d) @ 0 # us = as_bytes (dom_seal_type e) @ 0 # vs"
    by simp_all
  from delimited_append_inject [OF assms(3,4) [unfolded nul_free_def] rest] chain
  show ?thesis by simp
qed

end
