(* ===== verification/Seal_Types.thy ===== *)
theory Seal_Types
  imports Errors
begin

section \<open>Seal components (\<open>crates/rgb-pq-seal/src/types.rs\<close>)\<close>

text \<open>
  Chain id, seal version, signature algorithm, commitment locator, confirmation policy,
  outpoint and txid, each with its codec. Two interfaces are locales: \<open>byte_code\<close>, the
  one-byte codes of the enums, and \<open>self_delimiting\<close>, the codecs that tell how many bytes
  they consumed; \<open>Seal\<close> reads its length-prefixed fields through the second.
  The cargo feature \<^verbatim>\<open>dilithium5\<close> is the boolean argument \<open>d5\<close>.
\<close>

subsection \<open>Interfaces\<close>

locale byte_code =
  fixes enc :: "'a \<Rightarrow> u8"
    and dec :: "u8 \<Rightarrow> ('a, 'e) result"
    and supported :: "'a \<Rightarrow> bool"
  assumes dec_enc: "supported a \<Longrightarrow> dec (enc a) = Ok a"
    and dec_sound: "dec b = Ok a \<Longrightarrow> enc a = b \<and> supported a"
    and dec_no_panic: "\<not> panics (dec b)"
    and enc_inject: "enc a = enc c \<Longrightarrow> a = c"
begin

lemma enc_eq_iff: "enc a = enc c \<longleftrightarrow> a = c"
  by (auto dest: enc_inject)

lemma dec_Ok_iff: "dec b = Ok a \<longleftrightarrow> b = enc a \<and> supported a"
  by (auto dest: dec_sound dec_enc)

lemma dec_unsupported: "\<not> supported a \<Longrightarrow> \<exists>e. dec (enc a) = Err e"
  using dec_no_panic [of "enc a"] dec_sound [of "enc a"]
  by (cases "dec (enc a)") (auto dest: enc_inject)

end

locale self_delimiting =
  fixes encode :: "'a \<Rightarrow> bytes"
    and decode :: "bytes \<Rightarrow> ('a \<times> usize) rgb_pq_result"
  assumes decode_encode: "decode (encode x @ rest) = Ok (x, length (encode x))"
    and decode_sound: "decode b = Ok (x, n) \<Longrightarrow> n \<le> length b \<and> take n b = encode x"
    and decode_no_panic: "\<not> panics (decode b)"
    and encode_short: "length (encode x) < 256"
begin

lemma decode_encode_exact: "decode (encode x) = Ok (x, length (encode x))"
  using decode_encode [of x "[]"] by simp

lemma encode_prefix_free:
  assumes "encode x @ us = encode y @ vs" shows "x = y \<and> us = vs"
proof -
  have "decode (encode x @ us) = Ok (x, length (encode x))"
    and "decode (encode x @ us) = Ok (y, length (encode y))"
    using decode_encode [of x us] decode_encode [of y vs] assms by simp_all
  then have "x = y" by simp
  with assms show ?thesis by simp
qed

lemma encode_inject: "encode x = encode y \<longleftrightarrow> x = y"
  using encode_prefix_free [of x "[]" y "[]"] by auto

lemma decode_whole:
  "decode b = Ok (x, length b) \<longleftrightarrow> b = encode x"
  using decode_sound [of b x "length b"] decode_encode_exact [of x] by auto

lemma encode_length_byte: "unat (of_nat (length (encode x)) :: u8) = length (encode x)"
  using encode_short [of x] by simp

end

subsection \<open>Chain id\<close>

datatype btq_chain_id = BitcoinQuantumRegtest | BitcoinQuantumTestnet

fun domain_str :: "btq_chain_id \<Rightarrow> string" where
  "domain_str BitcoinQuantumRegtest = ''bitcoin-quantum-regtest''"
| "domain_str BitcoinQuantumTestnet = ''bitcoin-quantum-testnet''"

fun p2mr_hrp :: "btq_chain_id \<Rightarrow> string" where
  "p2mr_hrp BitcoinQuantumRegtest = ''qcrt''"
| "p2mr_hrp BitcoinQuantumTestnet = ''tbtq''"

fun chain_to_byte :: "btq_chain_id \<Rightarrow> u8" where
  "chain_to_byte BitcoinQuantumRegtest = 0x01"
| "chain_to_byte BitcoinQuantumTestnet = 0x02"

definition chain_from_byte :: "u8 \<Rightarrow> btq_chain_id rgb_pq_result" where
  "chain_from_byte b =
     (if b = 0x01 then Ok BitcoinQuantumRegtest
      else if b = 0x02 then Ok BitcoinQuantumTestnet
      else Err (rgb_pq_of_chain CC_UnknownChainId))"

definition from_domain_str :: "string \<Rightarrow> btq_chain_id rgb_pq_result" where
  "from_domain_str s =
     (if s = ''bitcoin-quantum-regtest'' then Ok BitcoinQuantumRegtest
      else if s = ''bitcoin-quantum-testnet'' then Ok BitcoinQuantumTestnet
      else if s = ''bitcoin-mainnet'' \<or> s = ''mainnet''
        then Err (rgb_pq_of_chain CC_BitcoinMainnet)
      else if s = ''bitcoin-testnet'' \<or> s = ''testnet3'' \<or> s = ''testnet4''
          \<or> s = ''signet'' \<or> s = ''regtest''
        then Err (rgb_pq_of_chain (CC_NonBtqBitcoin s))
      else Err (rgb_pq_of_chain (CC_UnsupportedChain s)))"

text \<open>The \<^verbatim>\<open>Display\<close> and \<^verbatim>\<open>FromStr\<close> implementations.\<close>

definition show_chain_id :: "btq_chain_id \<Rightarrow> string" where
  "show_chain_id c = domain_str c"

definition chain_from_str :: "string \<Rightarrow> btq_chain_id rgb_pq_result" where
  "chain_from_str s = from_domain_str s"

lemma chain_from_str_iff: "chain_from_str s = Ok c \<longleftrightarrow> s = show_chain_id c"
  by (cases c) (auto simp: chain_from_str_def from_domain_str_def show_chain_id_def split: if_splits)

interpretation chain_code: byte_code chain_to_byte chain_from_byte "\<lambda>_. True"
proof (unfold_locales, goal_cases)
  case (1 a) then show ?case by (cases a) (simp_all add: chain_from_byte_def)
next
  case (2 b a) then show ?case by (auto simp: chain_from_byte_def split: if_splits)
next
  case (3 b) then show ?case by (simp add: chain_from_byte_def)
next
  case (4 a c) then show ?case by (cases a; cases c) simp_all
qed

subsection \<open>Seal version\<close>

datatype seal_version = V0

definition CURRENT :: seal_version where
  "CURRENT = V0"

fun version_to_byte :: "seal_version \<Rightarrow> u8" where
  "version_to_byte V0 = 0x00"

definition version_from_byte :: "u8 \<Rightarrow> seal_version rgb_pq_result" where
  "version_from_byte b =
     (if b = 0x00 then Ok V0 else Err (rgb_pq_of_malformed (MS_UnknownVersion b)))"

definition default_version :: seal_version where
  "default_version = CURRENT"

fun show_version :: "seal_version \<Rightarrow> string" where
  "show_version V0 = ''v0''"

interpretation version_code: byte_code version_to_byte version_from_byte "\<lambda>_. True"
proof (unfold_locales, goal_cases)
  case (1 a) then show ?case by (cases a) (simp add: version_from_byte_def)
next
  case (2 b a) then show ?case by (auto simp: version_from_byte_def split: if_splits)
next
  case (3 b) then show ?case by (simp add: version_from_byte_def)
next
  case (4 a c) then show ?case by (cases a; cases c) simp
qed

subsection \<open>Signature algorithm\<close>

datatype pq_sig_algo = Dilithium2 | Dilithium5

fun algo_to_byte :: "pq_sig_algo \<Rightarrow> u8" where
  "algo_to_byte Dilithium2 = 0x01"
| "algo_to_byte Dilithium5 = 0x02"

definition algo_from_byte :: "bool \<Rightarrow> u8 \<Rightarrow> pq_sig_algo rgb_pq_result" where
  "algo_from_byte d5 b =
     (if d5 then
        if b = 0x01 then Ok Dilithium2
        else if b = 0x02 then Ok Dilithium5
        else Err (rgb_pq_of_owner_algo (OA_UnsupportedAlgo b))
      else
        if b = 0x01 then Ok Dilithium2
        else if b = 0x02 then Err (rgb_pq_of_owner_algo (OA_FeatureGated ''dilithium5''))
        else Err (rgb_pq_of_owner_algo (OA_UnsupportedAlgo b)))"

fun algo_name :: "pq_sig_algo \<Rightarrow> string" where
  "algo_name Dilithium2 = ''dilithium2''"
| "algo_name Dilithium5 = ''dilithium5''"

fun pk_len :: "pq_sig_algo \<Rightarrow> usize" where
  "pk_len Dilithium2 = 1312"
| "pk_len Dilithium5 = 2592"

fun sig_len :: "pq_sig_algo \<Rightarrow> usize" where
  "sig_len Dilithium2 = 2420"
| "sig_len Dilithium5 = 4627"

definition CHECKSIG_OPCODE :: u8 where
  "CHECKSIG_OPCODE = 0xbb"

definition show_algo :: "pq_sig_algo \<Rightarrow> string" where
  "show_algo a = algo_name a"

text \<open>The algorithms a build can decode.\<close>

definition algo_enabled :: "bool \<Rightarrow> pq_sig_algo \<Rightarrow> bool" where
  "algo_enabled d5 a \<longleftrightarrow> d5 \<or> a = Dilithium2"

interpretation algo_code: byte_code algo_to_byte "algo_from_byte d5" "algo_enabled d5"
  for d5
proof (unfold_locales, goal_cases)
  case (1 a) then show ?case by (cases a) (simp_all add: algo_from_byte_def algo_enabled_def)
next
  case (2 b a) then show ?case
    by (auto simp: algo_from_byte_def algo_enabled_def split: if_splits)
next
  case (3 b) then show ?case by (simp add: algo_from_byte_def)
next
  case (4 a c) then show ?case by (cases a; cases c) simp_all
qed

subsection \<open>Commitment locator\<close>

datatype commitment_locator = OpretVout u32 | OpretFirst | P2mrRetLeaf

definition TAG_OPRET_VOUT :: u8 where "TAG_OPRET_VOUT = 0x01"

definition TAG_OPRET_FIRST :: u8 where "TAG_OPRET_FIRST = 0x02"

definition TAG_P2MR_RET_LEAF :: u8 where "TAG_P2MR_RET_LEAF = 0x03"

fun resolve_vout :: "commitment_locator \<Rightarrow> u32 list \<Rightarrow> u32 option" where
  "resolve_vout (OpretVout v) opret_vouts = Some v"
| "resolve_vout OpretFirst opret_vouts = (case opret_vouts of [] \<Rightarrow> None | v # _ \<Rightarrow> Some v)"
| "resolve_vout P2mrRetLeaf opret_vouts = None"

fun is_p2mr_ret :: "commitment_locator \<Rightarrow> bool" where
  "is_p2mr_ret P2mrRetLeaf = True"
| "is_p2mr_ret _ = False"

fun locator_encode :: "commitment_locator \<Rightarrow> bytes" where
  "locator_encode (OpretVout v) = TAG_OPRET_VOUT # u32_to_le_bytes v"
| "locator_encode OpretFirst = [TAG_OPRET_FIRST]"
| "locator_encode P2mrRetLeaf = [TAG_P2MR_RET_LEAF]"

definition locator_decode :: "bytes \<Rightarrow> (commitment_locator \<times> usize) rgb_pq_result" where
  "locator_decode b =
     (case b of
        [] \<Rightarrow> Err (rgb_pq_of_malformed (MS_BadEncoding ''empty locator''))
      | tag # _ \<Rightarrow>
          if tag = TAG_OPRET_FIRST then Ok (OpretFirst, 1)
          else if tag = TAG_P2MR_RET_LEAF then Ok (P2mrRetLeaf, 1)
          else if tag = TAG_OPRET_VOUT then
            if length b < 1 + 4
            then Err (rgb_pq_of_malformed (MS_BadLength ''commitment_locator'' 5 (length b)))
            else and_then (slice_range b 1 5) (\<lambda>s. and_then (copy_arr 4 s) (\<lambda>buf.
              Ok (OpretVout (u32_from_le_bytes buf), 5)))
          else Err (rgb_pq_of_unsupported (UF_CommitmentLocator (''tag '' @ fmt_hash_x tag))))"

definition default_locator :: commitment_locator where
  "default_locator = OpretFirst"

text \<open>A four-byte integer behind a tag: what both tagged codecs read.\<close>

lemma tagged_u32_slice:
  assumes "4 \<le> length xs"
  shows "slice_range (x # xs) (Suc 0) 5 = Ok (take 4 xs)"
    "copy_arr 4 (take 4 xs) = Ok (take 4 xs)"
    "u32_to_le_bytes (u32_from_le_bytes (take 4 xs)) = take 4 xs"
  using assms by (simp_all add: slice_range_def u32_from_to_le_bytes)

lemmas locator_tags = TAG_OPRET_VOUT_def TAG_OPRET_FIRST_def TAG_P2MR_RET_LEAF_def

interpretation locator: self_delimiting locator_encode locator_decode
proof (unfold_locales, goal_cases)
  case (1 x rest)
  then show ?case
    by (cases x) (simp_all add: locator_decode_def locator_tags slice_range_def)
next
  case (2 b x n)
  then show ?case
    by (auto simp: locator_decode_def locator_tags tagged_u32_slice not_less
         split: list.splits if_splits)
next
  case (3 b)
  then show ?case
    by (auto simp: locator_decode_def tagged_u32_slice not_less split: list.splits)
next
  case (4 x)
  then show ?case by (cases x) simp_all
qed

subsection \<open>Confirmation policy\<close>

datatype confirmation_policy = OneConf | Depth u32

definition TAG_ONE_CONF :: u8 where "TAG_ONE_CONF = 0x01"

definition TAG_DEPTH :: u8 where "TAG_DEPTH = 0x02"

fun required_depth :: "confirmation_policy \<Rightarrow> u32" where
  "required_depth OneConf = 1"
| "required_depth (Depth n) = max n 1"

fun policy_encode :: "confirmation_policy \<Rightarrow> bytes" where
  "policy_encode OneConf = [TAG_ONE_CONF]"
| "policy_encode (Depth n) = TAG_DEPTH # u32_to_le_bytes n"

definition policy_decode :: "bytes \<Rightarrow> (confirmation_policy \<times> usize) rgb_pq_result" where
  "policy_decode b =
     (case b of
        [] \<Rightarrow> Err (rgb_pq_of_malformed (MS_BadEncoding ''empty policy''))
      | tag # _ \<Rightarrow>
          if tag = TAG_ONE_CONF then Ok (OneConf, 1)
          else if tag = TAG_DEPTH then
            if length b < 1 + 4
            then Err (rgb_pq_of_malformed (MS_BadLength ''confirmation_policy'' 5 (length b)))
            else and_then (slice_range b 1 5) (\<lambda>s. and_then (copy_arr 4 s) (\<lambda>buf.
              Ok (Depth (u32_from_le_bytes buf), 5)))
          else Err (rgb_pq_of_unsupported
            (UF_CommitmentLocator (''policy tag '' @ fmt_hash_x tag))))"

definition default_policy :: confirmation_policy where
  "default_policy = OneConf"

interpretation policy: self_delimiting policy_encode policy_decode
proof (unfold_locales, goal_cases)
  case (1 x rest)
  then show ?case
    by (cases x) (simp_all add: policy_decode_def TAG_ONE_CONF_def TAG_DEPTH_def slice_range_def)
next
  case (2 b x n)
  then show ?case
    by (auto simp: policy_decode_def TAG_ONE_CONF_def TAG_DEPTH_def tagged_u32_slice not_less
         split: list.splits if_splits)
next
  case (3 b)
  then show ?case
    by (auto simp: policy_decode_def tagged_u32_slice not_less split: list.splits)
next
  case (4 x)
  then show ?case by (cases x) simp_all
qed

lemma required_depth_pos: "1 \<le> required_depth p"
  by (cases p) simp_all

subsection \<open>Outpoint and txid\<close>

text \<open>
  A txid is 32 bytes (\<^verbatim>\<open>BtqTxid(pub [u8; 32])\<close>); its text is their hex in reversed order.
\<close>

type_synonym btq_txid = bytes

definition txid_from_bytes :: "bytes \<Rightarrow> btq_txid" where
  "txid_from_bytes b = b"

definition txid_as_bytes :: "btq_txid \<Rightarrow> bytes" where
  "txid_as_bytes t = t"

record btq_outpoint =
  op_txid :: btq_txid
  op_vout :: u32

definition outpoint_new :: "btq_txid \<Rightarrow> u32 \<Rightarrow> btq_outpoint" where
  "outpoint_new t v = \<lparr>op_txid = t, op_vout = v\<rparr>"

definition wf_outpoint :: "btq_outpoint \<Rightarrow> bool" where
  "wf_outpoint o' \<longleftrightarrow> length (op_txid o') = 32"

text \<open>\<^verbatim>\<open>bitcoin::OutPoint\<close> is the pair of its txid bytes and vout.\<close>

type_synonym bitcoin_outpoint = "bytes \<times> u32"

definition outpoint_from_bitcoin :: "bitcoin_outpoint \<Rightarrow> btq_outpoint" where
  "outpoint_from_bitcoin b = \<lparr>op_txid = fst b, op_vout = snd b\<rparr>"

definition outpoint_to_bitcoin :: "btq_outpoint \<Rightarrow> bitcoin_outpoint option" where
  "outpoint_to_bitcoin o' = Some (op_txid o', op_vout o')"

fun display_rev :: "bytes \<Rightarrow> string" where
  "display_rev [] = []"
| "display_rev (b # bs) = fmt_02x b @ display_rev bs"

definition txid_to_string :: "btq_txid \<Rightarrow> string" where
  "txid_to_string t = display_rev (rev t)"

text \<open>The loop \<^verbatim>\<open>for i in 0..32\<close>, over the indices still to come.\<close>

fun txid_loop :: "string \<Rightarrow> nat list \<Rightarrow> bytes \<Rightarrow> btq_txid rgb_pq_result" where
  "txid_loop s [] inner = Ok inner"
| "txid_loop s (i # js) inner =
     and_then (str_slice s (i * 2) (i * 2 + 2)) (\<lambda>h.
       case u8_from_hex_str h of
         None \<Rightarrow> Err (rgb_pq_of_malformed (MS_BadEncoding ''txid hex''))
       | Some b \<Rightarrow> txid_loop s js (inner[31 - i := b]))"

definition txid_from_str :: "string \<Rightarrow> btq_txid rgb_pq_result" where
  "txid_from_str s =
     (if length s \<noteq> 64
      then Err (rgb_pq_of_malformed
        (MS_BadEncoding (''txid hex length '' @ fmt_nat (length s) @ '' != 64'')))
      else txid_loop s [0..<32] (replicate 32 0))"

text \<open>
  \<^verbatim>\<open>mod txid_serde\<close>: the string handed to the serializer, and the bytes made of the string the
  deserializer gives; \<open>custom\<close> is the format's \<^verbatim>\<open>serde::de::Error::custom\<close>.
\<close>

definition txid_serialize :: "bytes \<Rightarrow> string" where
  "txid_serialize v = display_rev (rev v)"

definition txid_deserialize :: "(string \<Rightarrow> 'e) \<Rightarrow> (string, 'e) result \<Rightarrow> (bytes, 'e) result" where
  "txid_deserialize custom d =
     and_then d (\<lambda>s. map_err (\<lambda>e. custom (show_rgb_pq_error e)) (txid_from_str s))"

lemma display_rev_hex: "display_rev bs = hex_lower bs"
  by (induction bs) simp_all

lemma txid_to_string_hex: "txid_to_string t = hex_lower (rev t)"
  by (simp add: txid_to_string_def display_rev_hex)

lemma txid_to_string_inject [simp]: "txid_to_string a = txid_to_string b \<longleftrightarrow> a = b"
  by (simp add: txid_to_string_hex)

lemma outpoint_bitcoin_roundtrip:
  "map_option outpoint_from_bitcoin (outpoint_to_bitcoin o') = Some o'"
  by (simp add: outpoint_from_bitcoin_def outpoint_to_bitcoin_def)

text \<open>The loop writes the byte of each pair it visits at the mirrored index.\<close>

lemma txid_loop_hex:
  assumes "length bs = 32" and "set js \<subseteq> {..<32}" and "length inner = 32"
  shows "\<exists>r. txid_loop (hex_lower bs) js inner = Ok r \<and> length r = 32
    \<and> (\<forall>i<32. r ! (31 - i) = (if i \<in> set js then bs ! i else inner ! (31 - i)))"
  using assms(2,3)
proof (induction js arbitrary: inner)
  case Nil
  then show ?case by simp
next
  case (Cons i js)
  from Cons.prems have i: "i < 32" by simp
  have "(str_slice (hex_lower bs) (i * 2) (i * 2 + 2) :: string rgb_pq_result)
      = Ok (fmt_02x (bs ! i))"
    using i assms(1) hex_lower_pair [of i bs]
    by (simp add: str_slice_def ascii_boundary mult.commute)
  then have step: "txid_loop (hex_lower bs) (i # js) inner
      = txid_loop (hex_lower bs) js (inner[31 - i := bs ! i])"
    by simp
  obtain r where r: "txid_loop (hex_lower bs) js (inner[31 - i := bs ! i]) = Ok r"
      "length r = 32"
      "\<forall>k<32. r ! (31 - k) =
         (if k \<in> set js then bs ! k else inner[31 - i := bs ! i] ! (31 - k))"
    using Cons.IH [of "inner[31 - i := bs ! i]"] Cons.prems by auto
  have "31 - i = 31 - k \<longleftrightarrow> i = k" if "k < 32" for k using i that by linarith
  with r(3) i Cons.prems(2)
  have "\<forall>k<32. r ! (31 - k) = (if k \<in> set (i # js) then bs ! k else inner ! (31 - k))"
    by (auto simp: nth_list_update)
  with r(1,2) show ?case unfolding step by blast
qed

lemma txid_roundtrip_aux:
  assumes "length t = 32"
  shows "txid_from_str (txid_to_string t) = Ok t"
proof -
  obtain r where r: "txid_loop (hex_lower (rev t)) [0..<32] (replicate 32 0) = Ok r"
      "length r = 32" "\<forall>i<32. r ! (31 - i) = rev t ! i"
    using txid_loop_hex [of "rev t" "[0..<32]" "replicate 32 0"] assms
    by (force simp del: txid_loop.simps upt_Suc)
  have "r = t"
  proof (rule nth_equalityI)
    fix j assume "j < length r"
    then have "j < 32" using r by simp
    moreover have "31 - (31 - j) = j" using \<open>j < 32\<close> by linarith
    ultimately have "r ! j = rev t ! (31 - j)" using r(3) [rule_format, of "31 - j"] by simp
    with \<open>j < 32\<close> assms show "r ! j = t ! j" by (simp add: rev_nth)
  qed (simp add: r assms)
  with r assms show ?thesis by (simp add: txid_from_str_def txid_to_string_hex)
qed

lemma txid_serde_roundtrip:
  "length t = 32 \<Longrightarrow> txid_deserialize custom (Ok (txid_serialize t)) = Ok t"
  using txid_roundtrip_aux [of t]
  by (simp add: txid_deserialize_def txid_serialize_def txid_to_string_def)

lemma txid_loop_length: "txid_loop s js inner = Ok t \<Longrightarrow> length t = length inner"
  by (induction js arbitrary: inner) (auto simp: and_then_Ok_iff split: option.splits)

lemma txid_from_str_length: "txid_from_str s = Ok t \<Longrightarrow> length t = 32"
  by (auto simp: txid_from_str_def dest: txid_loop_length split: if_splits)

lemma txid_loop_no_panic:
  "(\<And>i. i \<in> set js \<Longrightarrow> is_char_boundary s (i * 2) \<and> is_char_boundary s (i * 2 + 2))
    \<Longrightarrow> \<not> panics (txid_loop s js inner)"
proof (induction js arbitrary: inner)
  case Nil
  then show ?case by simp
next
  case (Cons i js)
  then have "(str_slice s (i * 2) (i * 2 + 2) :: string rgb_pq_result)
      = Ok (take 2 (drop (i * 2) s))"
    by (simp add: str_slice_def)
  with Cons show ?case by (simp del: add_2_eq_Suc' split: option.split)
qed

end
