(* ===== verification/Seal.thy ===== *)
theory Seal
  imports Samples Domain_Sep Seal_Types
begin

section \<open>The canonical seal (\<open>crates/rgb-pq-seal/src/seal.rs\<close>)\<close>

text \<open>
  \<^verbatim>\<open>BtqP2mrSeal\<close> with its binary codec, its text codec and its digest. The decoder is written
  with every bounds check, slice and array copy of the source, each of which could panic;
  \<open>from_binary_total\<close> below is the proof that none does. The digest is \<^verbatim>\<open>sha256\<close> of
  \<open>digest_preimage\<close>, whose injectivity on well-formed seals is what "every field changes the
  digest" amounts to.
\<close>

definition BIN_MAGIC :: bytes where
  "BIN_MAGIC = as_bytes ''RGBPQSEAL''"

definition SEAL_HRP :: string where
  "SEAL_HRP = ''rgbpqseal''"

record btq_p2mr_seal =
  version :: seal_version
  chain_id :: btq_chain_id
  outpoint :: btq_outpoint
  p2mr_root :: bytes
  script_leaf_hash :: bytes
  owner_algo :: pq_sig_algo
  commitment_locator :: commitment_locator
  confirmation_policy :: confirmation_policy

text \<open>The array fields have 32 bytes (\<^verbatim>\<open>[u8; 32]\<close> in the source).\<close>

definition wf_seal :: "btq_p2mr_seal \<Rightarrow> bool" where
  "wf_seal s \<longleftrightarrow> wf_outpoint (outpoint s) \<and> length (p2mr_root s) = 32
     \<and> length (script_leaf_hash s) = 32"

definition seal_new ::
  "btq_chain_id \<Rightarrow> btq_outpoint \<Rightarrow> bytes \<Rightarrow> bytes \<Rightarrow> pq_sig_algo \<Rightarrow> commitment_locator
    \<Rightarrow> confirmation_policy \<Rightarrow> btq_p2mr_seal" where
  "seal_new c o' root leaf a loc pol = \<lparr>version = CURRENT, chain_id = c, outpoint = o',
     p2mr_root = root, script_leaf_hash = leaf, owner_algo = a,
     commitment_locator = loc, confirmation_policy = pol\<rparr>"

subsection \<open>Binary encoding\<close>

definition body_bytes :: "btq_p2mr_seal \<Rightarrow> bytes" where
  "body_bytes s =
     (let loc = locator_encode (commitment_locator s);
          pol = policy_encode (confirmation_policy s)
      in [chain_to_byte (chain_id s)]
        @ op_txid (outpoint s) @ u32_to_le_bytes (op_vout (outpoint s))
        @ p2mr_root s @ script_leaf_hash s
        @ [algo_to_byte (owner_algo s)]
        @ [of_nat (length loc)] @ loc
        @ [of_nat (length pol)] @ pol)"

definition to_binary :: "btq_p2mr_seal \<Rightarrow> bytes" where
  "to_binary s = BIN_MAGIC @ [version_to_byte (version s)] @ DOMAIN_TAG
     @ [DOMAIN_SEPARATION_VERSION] @ body_bytes s"

definition need :: "bytes \<Rightarrow> usize \<Rightarrow> usize \<Rightarrow> unit rgb_pq_result" where
  "need b pos n =
     (if length b < pos + n
      then Err (rgb_pq_of_malformed (MS_BadLength ''seal body'' (pos + n) (length b)))
      else Ok ())"

text \<open>
  The two length-prefixed fields are read by the same code, once with
  \<^verbatim>\<open>CommitmentLocator::decode\<close> and once with \<^verbatim>\<open>ConfirmationPolicy::decode\<close>; the result
  carries the position after the field.
\<close>

definition read_field ::
  "(bytes \<Rightarrow> ('a \<times> usize) rgb_pq_result) \<Rightarrow> string \<Rightarrow> bytes \<Rightarrow> usize
    \<Rightarrow> ('a \<times> usize) rgb_pq_result" where
  "read_field dec mismatch b pos =
     and_then (need b pos 1) (\<lambda>_.
     and_then (idx b pos) (\<lambda>l.
     let len = unat l; pos = pos + 1 in
     and_then (need b pos len) (\<lambda>_.
     and_then (slice_range b pos (pos + len)) (\<lambda>s.
     and_then (dec s) (\<lambda>(x, used).
     let pos = pos + used in
     if used \<noteq> len then Err (rgb_pq_of_malformed (MS_BadEncoding mismatch))
     else Ok (x, pos))))))"

definition read_array :: "nat \<Rightarrow> bytes \<Rightarrow> usize \<Rightarrow> bytes rgb_pq_result" where
  "read_array n b pos = and_then (slice_range b pos (pos + n)) (copy_arr n)"

definition decode_body :: "bool \<Rightarrow> seal_version \<Rightarrow> bytes \<Rightarrow> btq_p2mr_seal rgb_pq_result" where
  "decode_body d5 ver b =
     and_then (need b 0 1) (\<lambda>_.
     and_then (idx b 0) (\<lambda>c.
     and_then (chain_from_byte c) (\<lambda>chain.
     and_then (need b 1 (32 + 4)) (\<lambda>_.
     and_then (read_array 32 b 1) (\<lambda>txid.
     and_then (read_array 4 b 33) (\<lambda>vout_buf.
     and_then (need b 37 (32 + 32 + 1)) (\<lambda>_.
     and_then (read_array 32 b 37) (\<lambda>root.
     and_then (read_array 32 b 69) (\<lambda>leaf.
     and_then (idx b 101) (\<lambda>a.
     and_then (algo_from_byte d5 a) (\<lambda>algo.
     and_then (read_field locator_decode ''locator length mismatch'' b 102) (\<lambda>(loc, pos).
     and_then (read_field policy_decode ''policy length mismatch'' b pos) (\<lambda>(pol, pos).
     Ok \<lparr>version = ver, chain_id = chain,
         outpoint = outpoint_new txid (u32_from_le_bytes vout_buf),
         p2mr_root = root, script_leaf_hash = leaf, owner_algo = algo,
         commitment_locator = loc, confirmation_policy = pol\<rparr>)))))))))))))"

definition from_binary :: "bool \<Rightarrow> bytes \<Rightarrow> btq_p2mr_seal rgb_pq_result" where
  "from_binary d5 b =
     (let min = length BIN_MAGIC + 1 + length DOMAIN_TAG + 1 in
      if length b < min
      then Err (rgb_pq_of_malformed (MS_BadEncoding
        (''binary too short: '' @ fmt_nat (length b) @ '' < '' @ fmt_nat min)))
      else
     and_then (slice_range b 0 (length BIN_MAGIC)) (\<lambda>m.
      if m \<noteq> BIN_MAGIC then Err (rgb_pq_of_malformed (MS_BadEncoding ''bad magic''))
      else
     let pos = length BIN_MAGIC in
     and_then (idx b pos) (\<lambda>v.
     and_then (version_from_byte v) (\<lambda>ver.
     let pos = pos + 1; tag_end = pos + length DOMAIN_TAG in
     and_then (slice_range b pos tag_end) (\<lambda>t.
      if t \<noteq> DOMAIN_TAG then Err (rgb_pq_of_malformed (MS_BadEncoding ''bad domain tag''))
      else
     let pos = tag_end in
     and_then (idx b pos) (\<lambda>dv.
      if dv \<noteq> DOMAIN_SEPARATION_VERSION
      then Err (rgb_pq_of_malformed (MS_UnknownVersion dv))
      else and_then (slice_from b (pos + 1)) (decode_body d5 ver)))))))"

subsection \<open>Digest and text\<close>

definition digest_preimage :: "btq_p2mr_seal \<Rightarrow> bytes" where
  "digest_preimage s =
     prefixed (domain_p2mr (domain_str (chain_id s))) @ [version_to_byte (version s)]
       @ body_bytes s"

definition canonical_digest :: "crates \<Rightarrow> btq_p2mr_seal \<Rightarrow> bytes rgb_pq_result" where
  "canonical_digest L s = copy_arr 32 (sha256 L (digest_preimage s))"

text \<open>
  \<^verbatim>\<open>Hrp::parse\<close> is tried twice on the same constant before the \<^verbatim>\<open>unwrap\<close>, and a failed
  encoding gives the empty string (\<^verbatim>\<open>unwrap_or_default\<close>).
\<close>

definition to_text :: "crates \<Rightarrow> btq_p2mr_seal \<Rightarrow> (string, 'e) result" where
  "to_text L s =
     (let encode = (\<lambda>hrp. case bech32m_encode L hrp (body_bytes s) of
          Some t \<Rightarrow> Ok t | None \<Rightarrow> Ok [])
      in case hrp_parse L SEAL_HRP of
        Some hrp \<Rightarrow> encode hrp
      | None \<Rightarrow> (case hrp_parse L ''rgbpqseal'' of Some hrp \<Rightarrow> encode hrp | None \<Rightarrow> Panic))"

text \<open>\<^verbatim>\<open>bech32_decode\<close> gives the prefix in lower case, which is how the source reads it.\<close>

definition from_text :: "crates \<Rightarrow> bool \<Rightarrow> string \<Rightarrow> btq_p2mr_seal rgb_pq_result" where
  "from_text L d5 s =
     and_then (map_err (\<lambda>e. rgb_pq_of_malformed (MS_BadText (''bech32 decode: '' @ e)))
       (bech32_decode L s)) (\<lambda>(hrp, data).
     if hrp \<noteq> SEAL_HRP
     then Err (rgb_pq_of_malformed (MS_BadText
       (''wrong HRP '' @ [CHR 0x27] @ hrp @ [CHR 0x27])))
     else if data = [] then Err (rgb_pq_of_malformed (MS_BadText ''empty payload''))
     else decode_body d5 CURRENT data)"

text \<open>The \<^verbatim>\<open>Display\<close> and \<^verbatim>\<open>FromStr\<close> implementations.\<close>

definition show_seal :: "crates \<Rightarrow> btq_p2mr_seal \<Rightarrow> string rgb_pq_result" where
  "show_seal L s = to_text L s"

definition seal_from_str :: "crates \<Rightarrow> bool \<Rightarrow> string \<Rightarrow> btq_p2mr_seal rgb_pq_result" where
  "seal_from_str L d5 s = from_text L d5 s"

subsection \<open>The field reader, over any self-delimiting codec\<close>

lemma need_Ok_iff: "need b pos n = Ok () \<longleftrightarrow> pos + n \<le> length b"
  by (auto simp: need_def)

lemma need_no_panic [no_panic]: "\<not> panics (need b pos n)"
  by (simp add: need_def)

lemma read_array_no_panic [no_panic]: "pos + n \<le> length b \<Longrightarrow> \<not> panics (read_array n b pos)"
  by (simp add: read_array_def slice_range_def)

lemma read_array_Ok_iff:
  "read_array n b pos = Ok x \<longleftrightarrow> pos + n \<le> length b \<and> x = take n (drop pos b)"
  by (auto simp: read_array_def slice_range_def copy_arr_def and_then_Ok_iff)

text \<open>One step of reading a buffer from a position on.\<close>

lemma drop_step: "pos < length b \<Longrightarrow> drop pos b = b ! pos # drop (Suc pos) b"
  by (simp add: Cons_nth_drop_Suc)

lemma drop_chunk: "drop pos b = take n (drop pos b) @ drop (pos + n) b"
  by (metis append_take_drop_id drop_drop add.commute)

text \<open>The wire form of a field: its length in one byte, then its bytes.\<close>

definition field_bytes :: "('a \<Rightarrow> bytes) \<Rightarrow> 'a \<Rightarrow> bytes" where
  "field_bytes enc x = of_nat (length (enc x)) # enc x"

context self_delimiting
begin

lemma read_field_at:
  assumes "length pre = pos"
  shows "read_field decode mismatch (pre @ field_bytes encode x @ post) pos
    = Ok (x, pos + 1 + length (encode x))"
proof -
  have "(pre @ field_bytes encode x @ post) ! pos = of_nat (length (encode x))"
    using assms by (auto simp: field_bytes_def)
  with assms encode_length_byte [of x] show ?thesis
    by (simp add: read_field_def need_def idx_def slice_range_def Let_def decode_encode_exact
        field_bytes_def)
qed

lemma read_field_sound:
  assumes "read_field decode mismatch b pos = Ok (x, q)"
  shows "drop pos b = field_bytes encode x @ drop q b \<and> q = pos + 1 + length (encode x) \<and> q \<le> length b"
proof -
  let ?n = "unat (b ! pos)"
  from assms have len: "pos < length b" "pos + 1 + ?n \<le> length b"
    and dec: "decode (take ?n (drop (pos + 1) b)) = Ok (x, ?n)"
    and q: "q = pos + 1 + ?n"
    by (auto simp: read_field_def and_then_Ok_iff need_Ok_iff idx_def slice_range_def Let_def
        split: if_splits)
  from dec len have enc: "take ?n (drop (pos + 1) b) = encode x"
    using decode_whole [of "take ?n (drop (pos + 1) b)" x] by simp
  have "length (take ?n (drop (pos + 1) b)) = ?n" using len(2) by simp
  then have n: "?n = length (encode x)" unfolding enc by simp
  have "b ! pos = of_nat ?n" by simp
  then have byte: "b ! pos = of_nat (length (encode x))" unfolding n .
  have "drop pos b = b ! pos # take ?n (drop (pos + 1) b) @ drop q b"
    using drop_step [OF len(1)] drop_chunk [of "pos + 1" b ?n] q by simp
  with enc byte n q len(2) show ?thesis by (simp add: field_bytes_def)
qed

lemma read_field_no_panic: "\<not> panics (read_field decode mismatch b pos)"
  unfolding read_field_def Let_def
  by (intro no_panic decode_no_panic)
     (auto simp: need_Ok_iff slice_range_def decode_no_panic split: prod.splits)

lemma length_field: "length (field_bytes encode x) = 1 + length (encode x)"
  by (simp add: field_bytes_def)

lemma field_prefix_free:
  assumes "field_bytes encode x @ us = field_bytes encode y @ vs" shows "x = y \<and> us = vs"
  using assms encode_prefix_free [of x us y vs] by (simp add: field_bytes_def)

end

subsection \<open>The body: decoding what was encoded, and nothing else\<close>

lemma body_bytes_fields:
  "body_bytes s = chain_to_byte (chain_id s) # op_txid (outpoint s)
     @ u32_to_le_bytes (op_vout (outpoint s)) @ p2mr_root s @ script_leaf_hash s
     @ algo_to_byte (owner_algo s)
     # field_bytes locator_encode (commitment_locator s)
     @ field_bytes policy_encode (confirmation_policy s)"
  by (simp add: body_bytes_def field_bytes_def Let_def)

lemma length_body_bytes [wire_len]:
  "wf_seal s \<Longrightarrow> length (body_bytes s) = 104
     + length (locator_encode (commitment_locator s))
     + length (policy_encode (confirmation_policy s))"
  by (simp add: body_bytes_def wf_seal_def wf_outpoint_def Let_def)

text \<open>The fixed-size head of a body, as one list of 102 bytes.\<close>

definition body_head :: "btq_p2mr_seal \<Rightarrow> bytes" where
  "body_head s = chain_to_byte (chain_id s) # op_txid (outpoint s)
     @ u32_to_le_bytes (op_vout (outpoint s)) @ p2mr_root s @ script_leaf_hash s
     @ [algo_to_byte (owner_algo s)]"

lemma length_body_head: "wf_seal s \<Longrightarrow> length (body_head s) = 102"
  by (simp add: body_head_def wf_seal_def wf_outpoint_def)

lemma body_bytes_head:
  "body_bytes s = body_head s @ field_bytes locator_encode (commitment_locator s)
     @ field_bytes policy_encode (confirmation_policy s)"
  by (simp add: body_bytes_fields body_head_def)

lemma decode_body_encode:
  assumes wf: "wf_seal s" and algo: "algo_enabled d5 (owner_algo s)"
  shows "decode_body d5 (version s) (body_bytes s @ junk) = Ok s"
proof -
  let ?loc = "commitment_locator s" and ?pol = "confirmation_policy s"
  let ?b = "body_bytes s @ junk"
  let ?p = "103 + length (locator_encode ?loc)"
  from wf have lens: "length (op_txid (outpoint s)) = 32" "length (p2mr_root s) = 32"
      "length (script_leaf_hash s) = 32"
    by (simp_all add: wf_seal_def wf_outpoint_def)
  have b: "?b = [chain_to_byte (chain_id s)] @ op_txid (outpoint s)
      @ u32_to_le_bytes (op_vout (outpoint s)) @ p2mr_root s @ script_leaf_hash s
      @ algo_to_byte (owner_algo s) # drop 102 ?b"
    using lens by (simp add: body_bytes_fields)
  have head: "read_array 32 ?b 1 = (Ok (op_txid (outpoint s)) :: bytes rgb_pq_result)"
      "read_array 4 ?b 33 = (Ok (u32_to_le_bytes (op_vout (outpoint s))) :: bytes rgb_pq_result)"
      "read_array 32 ?b 37 = (Ok (p2mr_root s) :: bytes rgb_pq_result)"
      "read_array 32 ?b 69 = (Ok (script_leaf_hash s) :: bytes rgb_pq_result)"
      "idx ?b 0 = (Ok (chain_to_byte (chain_id s)) :: u8 rgb_pq_result)"
      "idx ?b 101 = (Ok (algo_to_byte (owner_algo s)) :: u8 rgb_pq_result)"
    using lens by (subst b, simp add: read_array_Ok_iff idx_def nth_append)+
  have len: "102 \<le> length ?b" using lens by (simp add: body_bytes_fields)
  have loc: "read_field locator_decode m ?b 102 = Ok (?loc, ?p)" for m
    using locator.read_field_at [of "body_head s" 102 m ?loc
        "field_bytes policy_encode ?pol @ junk"] length_body_head [OF wf]
    by (simp add: body_bytes_head)
  have pol: "read_field policy_decode m ?b ?p = Ok (?pol, ?p + 1 + length (policy_encode ?pol))"
    for m
    using policy.read_field_at [of "body_head s @ field_bytes locator_encode ?loc" ?p m ?pol junk]
      length_body_head [OF wf]
    by (simp add: body_bytes_head field_bytes_def)
  show ?thesis
    using len algo
    by (simp add: decode_body_def head loc pol chain_code.dec_enc algo_code.dec_enc
        need_Ok_iff [THEN iffD2] outpoint_new_def del: One_nat_def)
qed

lemma decode_body_sound:
  assumes "decode_body d5 ver b = Ok s"
  shows "wf_seal s \<and> version s = ver \<and> algo_enabled d5 (owner_algo s)
    \<and> (\<exists>junk. b = body_bytes s @ junk)"
proof -
  from assms obtain pos q where len: "102 \<le> length b"
    and chain: "chain_from_byte (b ! 0) = Ok (chain_id s)"
    and ver: "version s = ver"
    and txid: "op_txid (outpoint s) = take 32 (drop 1 b)"
    and vout: "op_vout (outpoint s) = u32_from_le_bytes (take 4 (drop 33 b))"
    and root: "p2mr_root s = take 32 (drop 37 b)"
    and leaf: "script_leaf_hash s = take 32 (drop 69 b)"
    and algo: "algo_from_byte d5 (b ! 101) = Ok (owner_algo s)"
    and loc: "read_field locator_decode ''locator length mismatch'' b 102
        = Ok (commitment_locator s, pos)"
    and pol: "read_field policy_decode ''policy length mismatch'' b pos
        = Ok (confirmation_policy s, q)"
    by (auto simp: decode_body_def and_then_Ok_iff need_Ok_iff read_array_Ok_iff idx_def
        outpoint_new_def split: if_splits)
  note L = locator.read_field_sound [OF loc] and P = policy.read_field_sound [OF pol]
  have rest: "drop 102 b = field_bytes locator_encode (commitment_locator s)
      @ field_bytes policy_encode (confirmation_policy s) @ drop q b"
    using L [THEN conjunct1] P [THEN conjunct1] by simp
  have "0 < length b" using len by linarith
  then have "b = b ! 0 # drop 1 b" using drop_step [of 0 b] by simp
  moreover have "drop 1 b = take 32 (drop 1 b) @ take 4 (drop 33 b) @ take 32 (drop 37 b)
      @ take 32 (drop 69 b) @ b ! 101 # drop 102 b"
    using drop_chunk [of 1 b 32] drop_chunk [of 33 b 4] drop_chunk [of 37 b 32]
      drop_chunk [of 69 b 32] drop_step [of 101 b] len by simp
  moreover have "u32_to_le_bytes (op_vout (outpoint s)) = take 4 (drop 33 b)"
    unfolding vout using len by (simp add: u32_from_to_le_bytes)
  ultimately have "b = body_bytes s @ drop q b"
    using chain algo rest
    by (simp add: body_bytes_fields txid root leaf chain_code.dec_Ok_iff algo_code.dec_Ok_iff)
  moreover have "wf_seal s" using len by (simp add: wf_seal_def wf_outpoint_def txid root leaf)
  ultimately show ?thesis using ver algo by (auto simp: algo_code.dec_Ok_iff)
qed

lemma decode_body_no_panic: "\<not> panics (decode_body d5 ver b)"
  unfolding decode_body_def
  by (intro no_panic chain_code.dec_no_panic algo_code.dec_no_panic
      locator.read_field_no_panic policy.read_field_no_panic) (auto simp: need_Ok_iff)

subsection \<open>The binary form\<close>

lemma to_binary_layout:
  "to_binary s @ junk = BIN_MAGIC @ version_to_byte (version s) # DOMAIN_TAG
     @ DOMAIN_SEPARATION_VERSION # body_bytes s @ junk"
  by (simp add: to_binary_def)

lemma length_BIN_MAGIC [wire_len]: "length BIN_MAGIC = 9"
  by (simp add: BIN_MAGIC_def)

lemma length_to_binary [wire_len]: "length (to_binary s) = 19 + length (body_bytes s)"
  by (simp add: to_binary_def wire_len)

lemma from_binary_encode:
  assumes "wf_seal s" and "algo_enabled d5 (owner_algo s)"
  shows "from_binary d5 (to_binary s @ junk) = Ok s"
proof -
  let ?v = "version_to_byte (version s)"
  let ?b = "BIN_MAGIC @ ?v # DOMAIN_TAG @ DOMAIN_SEPARATION_VERSION # body_bytes s @ junk"
  have "slice_range ?b 0 9 = (Ok BIN_MAGIC :: bytes rgb_pq_result)"
    and "idx ?b 9 = (Ok ?v :: u8 rgb_pq_result)"
    and "slice_range ?b 10 18 = (Ok DOMAIN_TAG :: bytes rgb_pq_result)"
    and "idx ?b 18 = (Ok DOMAIN_SEPARATION_VERSION :: u8 rgb_pq_result)"
    and "slice_from ?b 19 = (Ok (body_bytes s @ junk) :: bytes rgb_pq_result)"
    by (simp_all add: slice_range_def idx_def slice_from_def nth_append wire_len)
  then show ?thesis
    using decode_body_encode [OF assms, of junk]
    by (simp add: from_binary_def to_binary_layout wire_len Let_def version_code.dec_enc)
qed

lemma from_binary_sound:
  assumes "from_binary d5 b = Ok s"
  shows "wf_seal s \<and> algo_enabled d5 (owner_algo s) \<and> (\<exists>junk. b = to_binary s @ junk)"
proof -
  from assms have len: "19 \<le> length b"
    and magic: "take 9 b = BIN_MAGIC"
    and tag: "take 8 (drop 10 b) = DOMAIN_TAG"
    and dv: "b ! 18 = DOMAIN_SEPARATION_VERSION"
    and ver: "\<exists>ver. version_from_byte (b ! 9) = Ok ver \<and> decode_body d5 ver (drop 19 b) = Ok s"
    by (auto simp: from_binary_def wire_len Let_def and_then_Ok_iff slice_range_def idx_def
        slice_from_def split: if_splits)
  from ver obtain ver where ver: "version_from_byte (b ! 9) = Ok ver"
    and body: "decode_body d5 ver (drop 19 b) = Ok s" by blast
  from decode_body_sound [OF body] obtain junk where
    S: "wf_seal s" "version s = ver" "algo_enabled d5 (owner_algo s)"
      "drop 19 b = body_bytes s @ junk" by blast
  have "b = take 9 b @ b ! 9 # take 8 (drop 10 b) @ b ! 18 # drop 19 b"
    using drop_chunk [of 0 b 9] drop_step [of 9 b] drop_chunk [of 10 b 8] drop_step [of 18 b] len
    by simp
  then have "b = to_binary s @ junk"
    using ver S(2) unfolding magic tag dv S(4)
    by (simp add: to_binary_layout version_code.dec_Ok_iff)
  with S show ?thesis by blast
qed

lemma from_binary_no_panic: "\<not> panics (from_binary d5 b)"
  unfolding from_binary_def Let_def
  by (intro no_panic version_code.dec_no_panic decode_body_no_panic) (auto simp: wire_len)

subsection \<open>The digest preimage determines the seal\<close>

lemma nul_free_domain: "nul_free (domain_str c)" "nul_free ''p2mr''"
  by (cases c) (simp_all add: nul_free_def as_bytes_def)

lemma body_bytes_inject:
  assumes "wf_seal s" "wf_seal t" and eq: "body_bytes s = body_bytes t"
  shows "s = t"
proof -
  have "decode_body True (version s) (body_bytes s @ []) = Ok s"
    by (rule decode_body_encode) (simp_all add: assms algo_enabled_def)
  moreover have "decode_body True (version t) (body_bytes t @ []) = Ok t"
    by (rule decode_body_encode) (simp_all add: assms algo_enabled_def)
  moreover have "version s = version t" by (cases "version s"; cases "version t") simp
  ultimately show ?thesis using eq by simp
qed

lemma digest_preimage_inject:
  assumes wf: "wf_seal s" "wf_seal t" and eq: "digest_preimage s = digest_preimage t"
  shows "s = t"
proof -
  have "[version_to_byte (version s)] @ body_bytes s = [version_to_byte (version t)] @ body_bytes t"
    using write_prefix_append [of "domain_p2mr (domain_str (chain_id s))"
        "domain_p2mr (domain_str (chain_id t))"] eq
    by (auto simp: digest_preimage_def domain_p2mr_def P2MR_SEAL_TYPE_def nul_free_domain)
  with body_bytes_inject [OF wf] show ?thesis by simp
qed

lemma canonical_digest_sha: "sha256_ok L \<Longrightarrow> canonical_digest L s = Ok (sha256 L (digest_preimage s))"
  by (simp add: canonical_digest_def sha256_ok_def)

lemma to_text_ok:
  assumes L: "bech32_ok L SEAL_HRP" and wf: "wf_seal s"
  shows "\<exists>t. to_text L s = (Ok t :: (string, 'e) result)
    \<and> bech32_decode L t = Ok (SEAL_HRP, body_bytes s)
    \<and> bech32m_encode L SEAL_HRP (body_bytes s) = Some t"
proof -
  let ?d = "body_bytes s"
  have "length (locator_encode (commitment_locator s)) < 256"
    and "length (policy_encode (confirmation_policy s)) < 256"
    by (rule locator.encode_short policy.encode_short)+
  then have "length SEAL_HRP + 7 + (8 * length ?d + 4) div 5 \<le> 1023"
    using wf by (simp add: wire_len SEAL_HRP_def)
  with L obtain t where "bech32m_encode L SEAL_HRP ?d = Some t"
      and "bech32_decode L t = Ok (SEAL_HRP, ?d)"
    unfolding bech32_ok_def by blast
  moreover have "hrp_parse L SEAL_HRP = Some SEAL_HRP" using L by (simp add: bech32_ok_def)
  ultimately show ?thesis by (simp add: to_text_def)
qed

subsection \<open>A sample seal\<close>

definition sample_outpoint :: btq_outpoint where
  "sample_outpoint = outpoint_new (replicate 32 0x11) 7"

definition sample_seal :: btq_p2mr_seal where
  "sample_seal = seal_new BitcoinQuantumRegtest sample_outpoint (replicate 32 0x22)
     (replicate 32 0x33) Dilithium2 OpretFirst OneConf"

lemma wf_sample_outpoint: "wf_outpoint sample_outpoint"
  by (simp add: sample_outpoint_def outpoint_new_def wf_outpoint_def)

lemma sample_seal_wf: "wf_seal sample_seal"
  using wf_sample_outpoint by (simp add: sample_seal_def seal_new_def wf_seal_def)

lemma sample_seal_algo: "algo_enabled d5 (owner_algo sample_seal)"
  by (simp add: sample_seal_def seal_new_def algo_enabled_def)

lemma sample_seal_depth_wf: "wf_seal (sample_seal\<lparr>confirmation_policy := Depth 6\<rparr>)"
  using sample_seal_wf by (simp add: wf_seal_def)

lemma from_text_iff:
  "from_text L d5 x = Ok s \<longleftrightarrow> wf_seal s \<and> algo_enabled d5 (owner_algo s)
    \<and> (\<exists>junk. bech32_decode L x = Ok (SEAL_HRP, body_bytes s @ junk))"
proof
  assume "from_text L d5 x = Ok s"
  then obtain data where "bech32_decode L x = Ok (SEAL_HRP, data)" "decode_body d5 CURRENT data = Ok s"
    by (auto simp: from_text_def and_then_Ok_iff map_err_Ok_iff split: if_splits)
  with decode_body_sound show "wf_seal s \<and> algo_enabled d5 (owner_algo s)
    \<and> (\<exists>junk. bech32_decode L x = Ok (SEAL_HRP, body_bytes s @ junk))" by blast
next
  assume s: "wf_seal s \<and> algo_enabled d5 (owner_algo s)
    \<and> (\<exists>junk. bech32_decode L x = Ok (SEAL_HRP, body_bytes s @ junk))"
  have "version s = CURRENT" by (cases "version s") (simp add: CURRENT_def)
  with s show "from_text L d5 x = Ok s"
    using decode_body_encode [of s d5] by (auto simp: from_text_def body_bytes_fields)
qed

lemma to_text_inject:
  assumes "bech32_ok L SEAL_HRP" and "wf_seal s" "wf_seal s'"
    and "to_text L s = (Ok t :: string rgb_pq_result)" and "to_text L s' = (Ok t :: string rgb_pq_result)"
  shows "s' = s"
proof -
  have "bech32_decode L t = Ok (SEAL_HRP, body_bytes s)" "bech32_decode L t = Ok (SEAL_HRP, body_bytes s')"
    using to_text_ok [OF assms(1,2), where 'e = rgb_pq_error]
      to_text_ok [OF assms(1,3), where 'e = rgb_pq_error] assms(4,5) by auto
  then show ?thesis using body_bytes_inject [OF assms(3,2)] by simp
qed

lemma text_roundtrip_aux:
  assumes "bech32_ok L SEAL_HRP" and "wf_seal s" and "algo_enabled d5 (owner_algo s)"
  shows "\<exists>t. to_text L s = (Ok t :: string rgb_pq_result)
    \<and> bech32m_encode L SEAL_HRP (body_bytes s) = Some t \<and> from_text L d5 t = Ok s"
proof -
  obtain t where t: "to_text L s = (Ok t :: string rgb_pq_result)"
      "bech32_decode L t = Ok (SEAL_HRP, body_bytes s)"
      "bech32m_encode L SEAL_HRP (body_bytes s) = Some t"
    using to_text_ok [OF assms(1,2)] by blast
  have "version s = CURRENT" by (cases "version s") (simp add: CURRENT_def)
  moreover have "body_bytes s \<noteq> []" by (simp add: body_bytes_fields)
  moreover have "decode_body d5 (version s) (body_bytes s) = Ok s"
    using decode_body_encode [OF assms(2,3), of "[]"] by simp
  ultimately show ?thesis using t by (auto simp: from_text_def)
qed

lemma from_text_no_panic: "bech32_ok L hrp \<Longrightarrow> \<not> panics (from_text L d5 s)"
  unfolding from_text_def
  by (intro no_panic decode_body_no_panic) (auto simp: bech32_ok_def)

subsection \<open>Properties\<close>

text \<open>C1. The binary decoder accepts exactly the encodings of well-formed seals whose
  algorithm the build supports, each followed by any bytes, and returns the encoded seal: the
  round trip, the rejection of everything else, and the fact that trailing bytes are ignored
  (the source's comment says the body is "consumed exactly").\<close>

theorem from_binary_iff:
  "from_binary d5 b = Ok s \<longleftrightarrow>
     wf_seal s \<and> algo_enabled d5 (owner_algo s) \<and> (\<exists>junk. b = to_binary s @ junk)"
  using from_binary_sound [of d5 b s] from_binary_encode [of s d5] by blast

text \<open>Decoding a seal never panics, whatever the bytes: every index, slice and array copy of
  \<^verbatim>\<open>from_binary\<close> and \<^verbatim>\<open>decode_body\<close> is guarded.\<close>

theorem from_binary_total: "\<not> panics (from_binary d5 b) \<and> \<not> panics (decode_body d5 ver b')"
  by (simp add: from_binary_no_panic decode_body_no_panic)

text \<open>C2. The canonical digest binds the whole seal: two well-formed seals have the same digest
  only if they are equal, given that the hash does not collide on their two preimages.\<close>

theorem canonical_digest_binding:
  assumes "sha256_ok L" and "wf_seal s" "wf_seal t"
    and "collision_free L {digest_preimage s, digest_preimage t}"
  shows "canonical_digest L s = (canonical_digest L t :: bytes rgb_pq_result) \<longleftrightarrow> s = t"
  using assms digest_preimage_inject [of s t]
  by (auto simp: canonical_digest_sha dest: collision_freeD)

theorem canonical_digest_binding_witness:
  "canonical_digest toy_crates sample_seal
    \<noteq> (canonical_digest toy_crates (sample_seal\<lparr>confirmation_policy := Depth 6\<rparr>)
        :: bytes rgb_pq_result)"
proof -
  let ?t = "sample_seal\<lparr>confirmation_policy := Depth 6\<rparr>"
  have "last (u32_to_le_bytes 6) = 0" by (simp add: u32_to_le_bytes_expand Let_def)
  moreover have "u32_to_le_bytes 6 \<noteq> []" by (simp add: u32_to_le_bytes_expand Let_def)
  ultimately have "last (digest_preimage sample_seal) \<noteq> last (digest_preimage ?t)"
    by (simp add: digest_preimage_def body_bytes_head field_bytes_def sample_seal_def
        seal_new_def TAG_ONE_CONF_def last_append)
  then have "collision_free toy_crates {digest_preimage sample_seal, digest_preimage ?t}"
    by (intro toy_sha256_last) (simp_all add: digest_preimage_def)
  from canonical_digest_binding [OF toy_sha256_ok sample_seal_wf sample_seal_depth_wf this]
  show ?thesis by (simp add: sample_seal_def seal_new_def)
qed

text \<open>C27. The text form is exact. A text is read as a seal if and only if it decodes, under the
  prefix \<^verbatim>\<open>rgbpqseal\<close>, to the body of this seal (and anything after it), the seal is well-formed
  and the build supports its algorithm; any other prefix and an empty payload are errors. Under the
  documented contract of the \<^verbatim>\<open>bech32\<close> crate a well-formed seal is printed without panic and its
  text is read back as the seal, so two such seals with the same text are equal.\<close>

theorem seal_text_roundtrip:
  assumes "bech32_ok L SEAL_HRP"
  shows "(from_text L d5 x = Ok s \<longleftrightarrow> wf_seal s \<and> algo_enabled d5 (owner_algo s)
        \<and> (\<exists>junk. bech32_decode L x = Ok (SEAL_HRP, body_bytes s @ junk)))
    \<and> (bech32_decode L x = Ok (hrp, data) \<longrightarrow> hrp \<noteq> SEAL_HRP \<or> data = [] \<longrightarrow>
        (\<exists>e. from_text L d5 x = Err e))
    \<and> (wf_seal s \<longrightarrow> (\<exists>t. to_text L s = (Ok t :: string rgb_pq_result)
        \<and> (algo_enabled d5 (owner_algo s) \<longrightarrow> from_text L d5 t = Ok s)
        \<and> (\<forall>s'. wf_seal s' \<longrightarrow> to_text L s' = (Ok t :: string rgb_pq_result) \<longrightarrow> s' = s)))"
proof (intro conjI impI)
  show "from_text L d5 x = Ok s \<longleftrightarrow> wf_seal s \<and> algo_enabled d5 (owner_algo s)
      \<and> (\<exists>junk. bech32_decode L x = Ok (SEAL_HRP, body_bytes s @ junk))" by (rule from_text_iff)
  show "\<exists>e. from_text L d5 x = Err e" if "bech32_decode L x = Ok (hrp, data)" "hrp \<noteq> SEAL_HRP \<or> data = []"
    using that by (auto simp: from_text_def)
  assume wf: "wf_seal s"
  from to_text_ok [OF assms wf] obtain t where "to_text L s = (Ok t :: string rgb_pq_result)" by blast
  with to_text_inject [OF assms wf] text_roundtrip_aux [OF assms wf]
  show "\<exists>t. to_text L s = (Ok t :: string rgb_pq_result)
      \<and> (algo_enabled d5 (owner_algo s) \<longrightarrow> from_text L d5 t = Ok s)
      \<and> (\<forall>s'. wf_seal s' \<longrightarrow> to_text L s' = (Ok t :: string rgb_pq_result) \<longrightarrow> s' = s)"
    by (intro exI [of _ t]) auto
qed

theorem seal_text_roundtrip_witness:
  "\<exists>t. to_text toy_crates sample_seal = (Ok t :: string rgb_pq_result)
    \<and> from_text toy_crates False t = Ok sample_seal"
  using seal_text_roundtrip [of toy_crates False "[]" sample_seal, THEN conjunct2, THEN conjunct2]
    toy_bech32_ok sample_seal_wf sample_seal_algo [of False]
  by (auto simp: SEAL_HRP_def)

text \<open>A Dilithium5 seal can always be encoded, but a build without the \<^verbatim>\<open>dilithium5\<close> feature
  rejects it as feature-gated.\<close>

theorem dilithium5_gated:
  assumes "wf_seal s" and "owner_algo s = Dilithium5"
  shows "from_binary False (to_binary s)
      = Err (rgb_pq_of_owner_algo (OA_FeatureGated ''dilithium5''))
    \<and> from_binary True (to_binary s) = Ok s"
proof
  let ?b = "to_binary s" and ?body = "body_bytes s"
  from assms(1) have lens: "length (op_txid (outpoint s)) = 32" "length (p2mr_root s) = 32"
      "length (script_leaf_hash s) = 32"
    by (simp_all add: wf_seal_def wf_outpoint_def)
  have "decode_body False (version s) ?body
      = Err (rgb_pq_of_owner_algo (OA_FeatureGated ''dilithium5''))"
    using lens assms(2)
    by (simp add: decode_body_def body_bytes_fields idx_def need_def read_array_def slice_range_def
        chain_code.dec_enc nth_append algo_from_byte_def)
  then show "from_binary False ?b = Err (rgb_pq_of_owner_algo (OA_FeatureGated ''dilithium5''))"
    by (simp add: from_binary_def to_binary_def wire_len Let_def version_code.dec_enc
        slice_range_def idx_def slice_from_def nth_append)
  show "from_binary True ?b = Ok s"
    using from_binary_encode [OF assms(1), of True "[]"] by (simp add: algo_enabled_def)
qed

theorem dilithium5_gated_witness:
  "from_binary True (to_binary (sample_seal\<lparr>owner_algo := Dilithium5\<rparr>))
    = Ok (sample_seal\<lparr>owner_algo := Dilithium5\<rparr>)"
  by (rule dilithium5_gated [THEN conjunct2])
     (use sample_seal_wf in \<open>simp_all add: wf_seal_def\<close>)

text \<open>A txid prints to 64 hex digits in reversed byte order and parses back to itself.\<close>

theorem txid_text_roundtrip:
  assumes "length t = 32"
  shows "txid_from_str (txid_to_string t) = Ok t \<and> length (txid_to_string t) = 64"
  using txid_roundtrip_aux [OF assms] assms by (simp add: txid_to_string_hex)

theorem txid_text_roundtrip_witness:
  "txid_from_str (txid_to_string (0x01 # replicate 31 0x02)) = Ok (0x01 # replicate 31 0x02)"
  by (rule txid_text_roundtrip [THEN conjunct1]) simp

text \<open>Parsing a txid panics on some 64-byte inputs: slicing \<^verbatim>\<open>&s[i*2..i*2+2]\<close> inside a
  two-byte character is out of a character boundary. On ASCII input it never panics.\<close>

theorem txid_from_str_panics:
  "panics (txid_from_str (CHR ''a'' # CHR 0xC3 # CHR 0xA9 # replicate 61 (CHR ''0'')))
    \<and> \<not> (\<exists>s. ascii s \<and> panics (txid_from_str s))"
proof
  have "upt 0 32 = 0 # upt 1 32" by (simp add: upt_conv_Cons)
  then show "panics (txid_from_str (CHR ''a'' # CHR 0xC3 # CHR 0xA9 # replicate 61 (CHR ''0'')))"
    by (simp add: txid_from_str_def str_slice_def is_char_boundary_def is_utf8_continuation_def
        del: upt_Suc)
  have "\<not> panics (txid_from_str s)" if "ascii s" for s
    using that by (auto simp: txid_from_str_def ascii_boundary intro!: no_panic txid_loop_no_panic)
  then show "\<not> (\<exists>s. ascii s \<and> panics (txid_from_str s))" by blast
qed

end
