(* ===== verification/Limits.thy ===== *)
theory Limits
  imports Errors
begin

section \<open>Verification limits (\<open>crates/rgb-pq-core/src/limits.rs\<close>)\<close>

text \<open>
  The DoS-defence limits: the error enum \<^verbatim>\<open>DoSError\<close> with its texts, the record
  \<^verbatim>\<open>VerifyLimits\<close> with its defaults, one check per limit, and the wall-clock guard, whose
  clock reading (the elapsed milliseconds) is an argument.
\<close>

datatype dos_error =
    Dos_TreeDepthExceeded (td_depth: u32) (td_max: u32)
  | Dos_LeafSizeExceeded (ls_size: usize) (ls_max: usize)
  | Dos_ControlBlockSizeExceeded (cb_size: usize) (cb_max: usize)
  | Dos_WitnessSizeExceeded (ws_size: usize) (ws_max: usize)
  | Dos_TooManyCandidateSpends (cs_count: usize) (cs_max: usize)
  | Dos_ScanWindowExceeded (sw_count: usize) (sw_max: usize)
  | Dos_ResolverTimeExceeded (rt_elapsed_ms: u128) (rt_max_ms: u128)

fun show_dos_error :: "dos_error \<Rightarrow> string" where
  "show_dos_error (Dos_TreeDepthExceeded d m) =
     ''P2MR tree depth '' @ fmt_nat (unat d) @ '' exceeds max '' @ fmt_nat (unat m)"
| "show_dos_error (Dos_LeafSizeExceeded s m) =
     ''commitment leaf size '' @ fmt_nat s @ '' exceeds max '' @ fmt_nat m"
| "show_dos_error (Dos_ControlBlockSizeExceeded s m) =
     ''control block size '' @ fmt_nat s @ '' exceeds max '' @ fmt_nat m"
| "show_dos_error (Dos_WitnessSizeExceeded s m) =
     ''witness size '' @ fmt_nat s @ '' exceeds max '' @ fmt_nat m"
| "show_dos_error (Dos_TooManyCandidateSpends c m) =
     fmt_nat c @ '' candidate spends for one seal exceed max '' @ fmt_nat m"
| "show_dos_error (Dos_ScanWindowExceeded c m) =
     ''scan window '' @ fmt_nat c @ '' exceeds max '' @ fmt_nat m"
| "show_dos_error (Dos_ResolverTimeExceeded e m) =
     ''resolver time '' @ fmt_nat e @ ''ms exceeds max '' @ fmt_nat m @ ''ms''"

definition rgb_pq_of_dos :: "dos_error \<Rightarrow> rgb_pq_error" where
  "rgb_pq_of_dos e = RgbPq_Invariant (''DoS limit: '' @ show_dos_error e)"

record verify_limits =
  max_p2mr_tree_depth :: u32
  max_commitment_leaf_size :: usize
  max_control_block_size :: usize
  max_witness_size :: usize
  max_candidate_spends_per_seal :: usize
  max_scan_window :: usize
  max_resolver_time_ms :: u128

definition default_limits :: verify_limits where
  "default_limits = \<lparr>
     max_p2mr_tree_depth = 32,
     max_commitment_leaf_size = 256,
     max_control_block_size = 1 + 32 * 32,
     max_witness_size = 16 * 1024,
     max_candidate_spends_per_seal = 8,
     max_scan_window = 64,
     max_resolver_time_ms = 5000 \<rparr>"

definition check_tree_depth :: "verify_limits \<Rightarrow> u32 \<Rightarrow> (unit, dos_error) result" where
  "check_tree_depth l depth =
     (if depth > max_p2mr_tree_depth l
      then Err (Dos_TreeDepthExceeded depth (max_p2mr_tree_depth l)) else Ok ())"

definition check_leaf_size :: "verify_limits \<Rightarrow> usize \<Rightarrow> (unit, dos_error) result" where
  "check_leaf_size l sz =
     (if sz > max_commitment_leaf_size l
      then Err (Dos_LeafSizeExceeded sz (max_commitment_leaf_size l)) else Ok ())"

definition check_control_block_size :: "verify_limits \<Rightarrow> usize \<Rightarrow> (unit, dos_error) result" where
  "check_control_block_size l sz =
     (if sz > max_control_block_size l
      then Err (Dos_ControlBlockSizeExceeded sz (max_control_block_size l)) else Ok ())"

definition check_witness_size :: "verify_limits \<Rightarrow> usize \<Rightarrow> (unit, dos_error) result" where
  "check_witness_size l sz =
     (if sz > max_witness_size l
      then Err (Dos_WitnessSizeExceeded sz (max_witness_size l)) else Ok ())"

definition check_candidate_spends :: "verify_limits \<Rightarrow> usize \<Rightarrow> (unit, dos_error) result" where
  "check_candidate_spends l count =
     (if count > max_candidate_spends_per_seal l
      then Err (Dos_TooManyCandidateSpends count (max_candidate_spends_per_seal l)) else Ok ())"

definition check_scan_window :: "verify_limits \<Rightarrow> usize \<Rightarrow> (unit, dos_error) result" where
  "check_scan_window l count =
     (if count > max_scan_window l
      then Err (Dos_ScanWindowExceeded count (max_scan_window l)) else Ok ())"

definition check_resolver_time :: "verify_limits \<Rightarrow> u128 \<Rightarrow> (unit, dos_error) result" where
  "check_resolver_time l elapsed_ms =
     (if elapsed_ms > max_resolver_time_ms l
      then Err (Dos_ResolverTimeExceeded elapsed_ms (max_resolver_time_ms l)) else Ok ())"

text \<open>
  \<^verbatim>\<open>BudgetGuard\<close>: the start instant and the budget. Instants are milliseconds of a monotone
  clock, so \<^verbatim>\<open>start.elapsed().as_millis()\<close> at the instant \<open>now\<close> is their difference.
\<close>

record budget_guard =
  guard_start :: u128
  guard_max_ms :: u128

definition budget_start :: "u128 \<Rightarrow> u128 \<Rightarrow> budget_guard" where
  "budget_start now max_ms = \<lparr>guard_start = now, guard_max_ms = max_ms\<rparr>"

definition budget_check :: "budget_guard \<Rightarrow> u128 \<Rightarrow> (unit, dos_error) result" where
  "budget_check g now =
     (let elapsed = now - guard_start g
      in if elapsed > guard_max_ms g
         then Err (Dos_ResolverTimeExceeded elapsed (guard_max_ms g)) else Ok ())"

named_theorems limit_defs \<open>the limit checks\<close>

declare check_tree_depth_def [limit_defs] check_leaf_size_def [limit_defs]
  check_control_block_size_def [limit_defs] check_witness_size_def [limit_defs]
  check_candidate_spends_def [limit_defs] check_scan_window_def [limit_defs]
  check_resolver_time_def [limit_defs] budget_check_def [limit_defs]

lemma check_ok_iff:
  "check_tree_depth l d = Ok () \<longleftrightarrow> d \<le> max_p2mr_tree_depth l"
  "check_leaf_size l s = Ok () \<longleftrightarrow> s \<le> max_commitment_leaf_size l"
  "check_control_block_size l s = Ok () \<longleftrightarrow> s \<le> max_control_block_size l"
  "check_witness_size l s = Ok () \<longleftrightarrow> s \<le> max_witness_size l"
  "check_candidate_spends l s = Ok () \<longleftrightarrow> s \<le> max_candidate_spends_per_seal l"
  "check_scan_window l s = Ok () \<longleftrightarrow> s \<le> max_scan_window l"
  "check_resolver_time l t = Ok () \<longleftrightarrow> t \<le> max_resolver_time_ms l"
  by (auto simp: limit_defs not_less)

lemma check_no_panic [no_panic]:
  "\<not> panics (check_tree_depth l d)" "\<not> panics (check_leaf_size l s)"
  "\<not> panics (check_control_block_size l s)" "\<not> panics (check_witness_size l s)"
  "\<not> panics (check_candidate_spends l s)" "\<not> panics (check_scan_window l s)"
  "\<not> panics (check_resolver_time l t)" "\<not> panics (budget_check g n)"
  by (simp_all add: limit_defs Let_def)

lemma budget_check_started:
  "budget_check (budget_start t0 m) now = Ok () \<longleftrightarrow> now - t0 \<le> m"
  by (auto simp: budget_check_def budget_start_def Let_def not_less)

text \<open>The default limits are consistent with each other and with the payload sizes.\<close>

lemma default_limits_sane:
  "1 \<le> max_p2mr_tree_depth default_limits" "max_p2mr_tree_depth default_limits \<le> 128"
  "127 \<le> max_commitment_leaf_size default_limits"
  "max_control_block_size default_limits = 1 + 32 * unat (max_p2mr_tree_depth default_limits)"
  "4627 + 2592 \<le> max_witness_size default_limits"
  by (simp_all add: default_limits_def)

end
