(* ===== verification/Commitment.thy ===== *)
theory Commitment
  imports Seal Limits
begin

section \<open>The RGB-PQ commitment (\<open>crates/rgb-pq-commit/src/commitment.rs\<close>, \<open>anchor.rs\<close>)\<close>

text \<open>
  The payload written into an OP_RETURN output, its codec, its binding to a seal, the scan of a
  transaction's outputs, and the thin wrappers of \<open>anchor.rs\<close> over RGB's own types, which are
  the parameter record \<open>rgb_api\<close>.
\<close>

definition COMMITMENT_MAGIC :: bytes where
  "COMMITMENT_MAGIC = as_bytes ''RGBPQCM''"

definition COMMITMENT_PROTOCOL_TAG :: bytes where
  "COMMITMENT_PROTOCOL_TAG = as_bytes ''rgbpq:commitment:v0''"

type_synonym mpc_commitment = bytes

record rgb_pq_commitment =
  cm_chain :: btq_chain_id
  cm_seal_txid :: bytes
  cm_seal_vout :: u32
  cm_mpc :: mpc_commitment

definition wf_commitment :: "rgb_pq_commitment \<Rightarrow> bool" where
  "wf_commitment c \<longleftrightarrow> length (cm_seal_txid c) = 32 \<and> length (cm_mpc c) = 32"

definition commitment_new :: "btq_p2mr_seal \<Rightarrow> mpc_commitment \<Rightarrow> rgb_pq_commitment" where
  "commitment_new s mpc = \<lparr>cm_chain = chain_id s, cm_seal_txid = op_txid (outpoint s),
     cm_seal_vout = op_vout (outpoint s), cm_mpc = mpc\<rparr>"

definition seal_digest_preimage :: "rgb_pq_commitment \<Rightarrow> bytes" where
  "seal_digest_preimage c = prefixed (domain_p2mr (domain_str (cm_chain c)))
     @ cm_seal_txid c @ u32_to_le_bytes (cm_seal_vout c)"

definition seal_digest :: "crates \<Rightarrow> rgb_pq_commitment \<Rightarrow> (bytes, 'e) result" where
  "seal_digest L c = copy_arr 32 (sha256 L (seal_digest_preimage c))"

definition commitment_encode :: "crates \<Rightarrow> rgb_pq_commitment \<Rightarrow> (bytes, 'e) result" where
  "commitment_encode L c = and_then (seal_digest L c) (\<lambda>d.
     Ok (COMMITMENT_MAGIC @ COMMITMENT_PROTOCOL_TAG @ [chain_to_byte (cm_chain c)]
       @ cm_seal_txid c @ u32_to_le_bytes (cm_seal_vout c) @ cm_mpc c @ d))"

definition commitment_malformed :: "string \<Rightarrow> rgb_pq_error" where
  "commitment_malformed m = RgbPq_Commitment (CM_Malformed m)"

definition commitment_decode :: "crates \<Rightarrow> bytes \<Rightarrow> rgb_pq_commitment rgb_pq_result" where
  "commitment_decode L b =
     (let magic_len = length COMMITMENT_MAGIC;
          tag_len = length COMMITMENT_PROTOCOL_TAG;
          body_len = 1 + 32 + 4 + 32 + 32;
          needed = magic_len + tag_len + body_len
      in if length b \<noteq> needed
      then Err (commitment_malformed (''commitment payload length '' @ fmt_nat (length b)
        @ '' != '' @ fmt_nat needed))
      else
     and_then (slice_range b 0 magic_len) (\<lambda>m.
      if m \<noteq> COMMITMENT_MAGIC then Err (commitment_malformed ''bad magic'')
      else
     let tag_end = magic_len + tag_len in
     and_then (slice_range b magic_len tag_end) (\<lambda>t.
      if t \<noteq> COMMITMENT_PROTOCOL_TAG then Err (commitment_malformed ''bad protocol tag'')
      else
     let pos = tag_end in
     and_then (idx b pos) (\<lambda>ch.
     and_then (chain_from_byte ch) (\<lambda>chain.
     and_then (read_array 32 b (pos + 1)) (\<lambda>txid.
     and_then (read_array 4 b (pos + 33)) (\<lambda>vout_buf.
     and_then (read_array 32 b (pos + 37)) (\<lambda>mpc.
     and_then (read_array 32 b (pos + 69)) (\<lambda>digest.
     let c = \<lparr>cm_chain = chain, cm_seal_txid = txid,
              cm_seal_vout = u32_from_le_bytes vout_buf, cm_mpc = mpc\<rparr> in
     and_then (seal_digest L c) (\<lambda>d.
      if digest \<noteq> d then Err (commitment_malformed ''seal digest mismatch'')
      else Ok c))))))))))"

definition commitment_verify_against ::
  "rgb_pq_commitment \<Rightarrow> btq_p2mr_seal \<Rightarrow> unit rgb_pq_result" where
  "commitment_verify_against c expected =
     (if cm_chain c \<noteq> chain_id expected then Err (RgbPq_Commitment CM_WrongChain)
      else if cm_seal_txid c \<noteq> op_txid (outpoint expected)
          \<or> cm_seal_vout c \<noteq> op_vout (outpoint expected)
        then Err (RgbPq_Commitment CM_WrongSeal)
      else Ok ())"

definition commitment_decode_for ::
  "crates \<Rightarrow> bytes \<Rightarrow> btq_p2mr_seal \<Rightarrow> rgb_pq_commitment rgb_pq_result" where
  "commitment_decode_for L b expected =
     and_then (commitment_decode L b) (\<lambda>c.
     and_then (commitment_verify_against c expected) (\<lambda>_. Ok c))"

subsection \<open>Scanning the outputs\<close>

datatype commitment_payload =
    Found u32 rgb_pq_commitment
  | Duplicate "u32 list"
  | Missing

text \<open>Each \<^verbatim>\<open>&rest[k..]\<close> keeps its bound check.\<close>

definition strip_op_return :: "bytes \<Rightarrow> (bytes option, 'e) result" where
  "strip_op_return spk =
     (if \<not> (spk \<noteq> [] \<and> hd spk = 0x6a) then Ok None
      else and_then (slice_from spk 1) (\<lambda>rest.
        if rest = [] then Ok None
        else and_then (idx rest 0) (\<lambda>op.
        let n = unat op in
        if n \<le> 0x4b \<and> length rest = 1 + n
        then and_then (slice_from rest 1) (\<lambda>p. Ok (Some p))
        else if op = 0x4c \<and> length rest \<ge> 2
        then and_then (idx rest 1) (\<lambda>l. let n = unat l in
          if length rest = 2 + n then and_then (slice_from rest 2) (\<lambda>p. Ok (Some p))
          else Ok None)
        else Ok None)))"

definition MAX_SCAN :: usize where "MAX_SCAN = 64"

definition MAX_SPK :: usize where "MAX_SPK = 4096"

fun scan_loop ::
  "crates \<Rightarrow> usize \<Rightarrow> (u32 \<times> bytes) list \<Rightarrow> (u32 \<times> rgb_pq_commitment) list
    \<Rightarrow> ((u32 \<times> rgb_pq_commitment) list, 'e) result" where
  "scan_loop L scanned [] hits = Ok hits"
| "scan_loop L scanned ((vout, spk) # outs) hits =
     (let scanned = scanned + 1 in
      if scanned > MAX_SCAN \<or> length spk > MAX_SPK then Ok hits
      else and_then (strip_op_return spk) (\<lambda>p. case p of
        None \<Rightarrow> scan_loop L scanned outs hits
      | Some payload \<Rightarrow> if_let_ok (commitment_decode L payload)
          (\<lambda>c. scan_loop L scanned outs (hits @ [(vout, c)]))
          (scan_loop L scanned outs hits)))"

definition classify_hits :: "(u32 \<times> rgb_pq_commitment) list \<Rightarrow> commitment_payload" where
  "classify_hits hits = (case hits of
     [] \<Rightarrow> Missing
   | [(v, c)] \<Rightarrow> Found v c
   | _ \<Rightarrow> Duplicate (map fst hits))"

definition commitment_scan :: "crates \<Rightarrow> (u32 \<times> bytes) list \<Rightarrow> (commitment_payload, 'e) result"
where
  "commitment_scan L outs = and_then (scan_loop L 0 outs []) (\<lambda>hits. Ok (classify_hits hits))"

subsection \<open>The bridge to RGB\<close>

text \<open>
  RGB's types are opaque: \<^verbatim>\<open>'t\<close> is \<^verbatim>\<open>bitcoin::Transaction\<close>, \<^verbatim>\<open>'p\<close> the DBC proof, \<^verbatim>\<open>'a\<close> the
  anchor, \<^verbatim>\<open>'m\<close> RGB's MPC commitment, \<^verbatim>\<open>'i\<close> and \<^verbatim>\<open>'g\<close> the protocol id and message. Errors of
  these calls appear only through their text.
\<close>

record ('t, 'p, 'a, 'm, 'i, 'g) rgb_api =
  rgb_commitment_from_slice :: "bytes \<Rightarrow> ('m, string) result"
  rgb_embed_commit :: "'t \<Rightarrow> 'm \<Rightarrow> ('p, string) result \<times> 't"
  rgb_protocol_id_from_slice :: "bytes \<Rightarrow> ('i, string) result"
  rgb_message_from_slice :: "bytes \<Rightarrow> ('g, string) result"
  rgb_convolve :: "'a \<Rightarrow> 'i \<Rightarrow> 'g \<Rightarrow> ('m, string) result"
  rgb_dbc_verify :: "'a \<Rightarrow> 'm \<Rightarrow> 't \<Rightarrow> (unit, string) result"

datatype opret_anchor_error = OAE_Embed string | OAE_Verify string

fun show_opret_anchor_error :: "opret_anchor_error \<Rightarrow> string" where
  "show_opret_anchor_error (OAE_Embed m) = ''opret embed-commit failed: '' @ m"
| "show_opret_anchor_error (OAE_Verify m) = ''opret anchor verify failed: '' @ m"

definition rgb_pq_of_opret_anchor :: "opret_anchor_error \<Rightarrow> rgb_pq_error" where
  "rgb_pq_of_opret_anchor e = RgbPq_Commitment (CM_Malformed (show_opret_anchor_error e))"

definition embed_opret_commitment ::
  "('t, 'p, 'a, 'm, 'i, 'g) rgb_api \<Rightarrow> 't \<Rightarrow> mpc_commitment
    \<Rightarrow> ('p, opret_anchor_error) result \<times> 't" where
  "embed_opret_commitment R tx mpc =
     (case map_err OAE_Embed (rgb_commitment_from_slice R mpc) of
        Ok c \<Rightarrow> (case rgb_embed_commit R tx c of (r, tx') \<Rightarrow> (map_err OAE_Embed r, tx'))
      | Err e \<Rightarrow> (Err e, tx)
      | Panic \<Rightarrow> (Panic, tx))"

definition verify_opret_anchor ::
  "('t, 'p, 'a, 'm, 'i, 'g) rgb_api \<Rightarrow> 'a \<Rightarrow> 't \<Rightarrow> bytes \<Rightarrow> bytes
    \<Rightarrow> (unit, opret_anchor_error) result" where
  "verify_opret_anchor R anchor tx contract_id bundle_id =
     and_then (map_err OAE_Verify (rgb_protocol_id_from_slice R contract_id)) (\<lambda>pid.
     and_then (map_err OAE_Verify (rgb_message_from_slice R bundle_id)) (\<lambda>msg.
     and_then (map_err (\<lambda>e. OAE_Verify (''convolve: '' @ e)) (rgb_convolve R anchor pid msg)) (\<lambda>c.
     map_err (\<lambda>e. OAE_Verify (''dbc verify: '' @ e)) (rgb_dbc_verify R anchor c tx))))"

definition build_opret_payload :: "crates \<Rightarrow> btq_p2mr_seal \<Rightarrow> mpc_commitment \<Rightarrow> (bytes, 'e) result"
where
  "build_opret_payload L s mpc = commitment_encode L (commitment_new s mpc)"

subsection \<open>The codec\<close>

lemma length_commitment_consts [wire_len]:
  "length COMMITMENT_MAGIC = 7" "length COMMITMENT_PROTOCOL_TAG = 19"
  by (simp_all add: COMMITMENT_MAGIC_def COMMITMENT_PROTOCOL_TAG_def)

lemma seal_digest_sha: "sha256_ok L \<Longrightarrow> seal_digest L c = Ok (sha256 L (seal_digest_preimage c))"
  by (simp add: seal_digest_def sha256_ok_def)

text \<open>The payload of a commitment with an arbitrary digest field.\<close>

definition commitment_layout :: "rgb_pq_commitment \<Rightarrow> bytes \<Rightarrow> bytes" where
  "commitment_layout c d = COMMITMENT_MAGIC @ COMMITMENT_PROTOCOL_TAG
     @ chain_to_byte (cm_chain c) # cm_seal_txid c @ u32_to_le_bytes (cm_seal_vout c)
     @ cm_mpc c @ d"

lemma commitment_encode_layout:
  "sha256_ok L \<Longrightarrow>
    commitment_encode L c = Ok (commitment_layout c (sha256 L (seal_digest_preimage c)))"
  by (simp add: commitment_encode_def commitment_layout_def seal_digest_sha)

lemma length_commitment_layout [wire_len]:
  "wf_commitment c \<Longrightarrow> length (commitment_layout c d) = 95 + length d"
  by (simp add: commitment_layout_def wf_commitment_def wire_len)

lemma commitment_decode_layout:
  assumes L: "sha256_ok L" and wf: "wf_commitment c" and d: "length d = 32"
  shows "commitment_decode L (commitment_layout c d) =
    (if d = sha256 L (seal_digest_preimage c) then Ok c
     else Err (commitment_malformed ''seal digest mismatch''))"
proof -
  let ?b = "commitment_layout c d"
  from wf have lens: "length (cm_seal_txid c) = 32" "length (cm_mpc c) = 32"
    by (simp_all add: wf_commitment_def)
  have "slice_range ?b 0 7 = (Ok COMMITMENT_MAGIC :: bytes rgb_pq_result)"
    and "slice_range ?b 7 26 = (Ok COMMITMENT_PROTOCOL_TAG :: bytes rgb_pq_result)"
    and "idx ?b 26 = (Ok (chain_to_byte (cm_chain c)) :: u8 rgb_pq_result)"
    and "read_array 32 ?b 27 = (Ok (cm_seal_txid c) :: bytes rgb_pq_result)"
    and "read_array 4 ?b 59 = (Ok (u32_to_le_bytes (cm_seal_vout c)) :: bytes rgb_pq_result)"
    and "read_array 32 ?b 63 = (Ok (cm_mpc c) :: bytes rgb_pq_result)"
    and "read_array 32 ?b 95 = (Ok d :: bytes rgb_pq_result)"
    using lens d
    by (simp_all add: commitment_layout_def slice_range_def idx_def nth_append read_array_Ok_iff
        wire_len)
  moreover have eta: "\<lparr>cm_chain = cm_chain c, cm_seal_txid = cm_seal_txid c,
      cm_seal_vout = cm_seal_vout c, cm_mpc = cm_mpc c\<rparr> = c" by simp
  ultimately show ?thesis
    using L wf d
    by (simp add: eta commitment_decode_def Let_def wire_len chain_code.dec_enc seal_digest_sha)
qed

lemma commitment_decode_sound:
  assumes L: "sha256_ok L" and dec: "commitment_decode L b = Ok c"
  shows "wf_commitment c \<and> b = commitment_layout c (sha256 L (seal_digest_preimage c))"
proof -
  from dec have len: "length b = 127"
    and magic: "take 7 b = COMMITMENT_MAGIC"
    and tag: "take 19 (drop 7 b) = COMMITMENT_PROTOCOL_TAG"
    and chain: "chain_from_byte (b ! 26) = Ok (cm_chain c)"
    and txid: "cm_seal_txid c = take 32 (drop 27 b)"
    and vout: "cm_seal_vout c = u32_from_le_bytes (take 4 (drop 59 b))"
    and mpc: "cm_mpc c = take 32 (drop 63 b)"
    and digest: "take 32 (drop 95 b) = sha256 L (seal_digest_preimage c)"
    using L
    by (auto simp: commitment_decode_def Let_def wire_len and_then_Ok_iff slice_range_def idx_def
        read_array_Ok_iff seal_digest_sha split: if_splits)
  have "b = take 7 b @ take 19 (drop 7 b) @ b ! 26 # take 32 (drop 27 b) @ take 4 (drop 59 b)
      @ take 32 (drop 63 b) @ take 32 (drop 95 b)"
    using drop_chunk [of 0 b 7] drop_chunk [of 7 b 19] drop_step [of 26 b] drop_chunk [of 27 b 32]
      drop_chunk [of 59 b 4] drop_chunk [of 63 b 32] drop_chunk [of 95 b 32] len by simp
  moreover have "u32_to_le_bytes (cm_seal_vout c) = take 4 (drop 59 b)"
    unfolding vout using len by (simp add: u32_from_to_le_bytes)
  ultimately have "b = commitment_layout c (sha256 L (seal_digest_preimage c))"
    using chain unfolding magic tag digest
    by (simp add: commitment_layout_def txid mpc chain_code.dec_Ok_iff)
  with len show ?thesis by (simp add: wf_commitment_def txid mpc)
qed

lemma commitment_decode_no_panic:
  assumes "sha256_ok L" shows "\<not> panics (commitment_decode L b)"
  using assms unfolding commitment_decode_def Let_def
  by (intro no_panic chain_code.dec_no_panic) (auto simp: wire_len seal_digest_sha)

lemma commitment_new_wf: "wf_seal s \<Longrightarrow> length mpc = 32 \<Longrightarrow> wf_commitment (commitment_new s mpc)"
  by (simp add: wf_seal_def wf_outpoint_def wf_commitment_def commitment_new_def)

lemma verify_against_Ok_iff:
  "commitment_verify_against c s = Ok () \<longleftrightarrow> c = commitment_new s (cm_mpc c)"
  by (cases c) (auto simp: commitment_verify_against_def commitment_new_def)

lemma seal_digest_preimage_mpc: "seal_digest_preimage (c\<lparr>cm_mpc := m\<rparr>) = seal_digest_preimage c"
  by (simp add: seal_digest_preimage_def)

lemma seal_digest_preimage_inject:
  assumes "wf_commitment c" "wf_commitment d"
    and eq: "seal_digest_preimage c = seal_digest_preimage d"
  shows "cm_chain c = cm_chain d \<and> cm_seal_txid c = cm_seal_txid d
    \<and> cm_seal_vout c = cm_seal_vout d"
proof -
  have *: "domain_p2mr (domain_str (cm_chain c)) = domain_p2mr (domain_str (cm_chain d))
      \<and> cm_seal_txid c @ u32_to_le_bytes (cm_seal_vout c)
        = cm_seal_txid d @ u32_to_le_bytes (cm_seal_vout d)"
    by (rule write_prefix_append)
       (use eq in \<open>simp_all add: seal_digest_preimage_def domain_p2mr_def P2MR_SEAL_TYPE_def
          nul_free_domain\<close>)
  then have "cm_chain c = cm_chain d"
    by (cases "cm_chain c"; cases "cm_chain d") (simp_all add: domain_p2mr_def)
  with * assms(1,2) show ?thesis by (simp add: wf_commitment_def)
qed

subsection \<open>The scan\<close>

text \<open>What one scriptPubKey carries: an exact push of up to 75 bytes, or an exact
  \<^verbatim>\<open>OP_PUSHDATA1\<close> push, behind \<^verbatim>\<open>OP_RETURN\<close>.\<close>

definition opret_push :: "bytes \<Rightarrow> bytes \<Rightarrow> bool" where
  "opret_push spk p \<longleftrightarrow>
     (length p \<le> 75 \<and> spk = 0x6a # of_nat (length p) # p)
     \<or> (length p \<le> 255 \<and> spk = 0x6a # 0x4c # of_nat (length p) # p)"

lemma of_nat_unat_u8: "of_nat (unat (b :: u8)) = b"
  by simp

lemma u8_of_nat_iff: "n < 256 \<Longrightarrow> (b :: u8) = of_nat n \<longleftrightarrow> unat b = n"
  by (metis of_nat_unat_u8 unat_u8_of_nat mod_less)

lemma strip_op_return_no_panic: "\<not> panics (strip_op_return spk)"
  unfolding strip_op_return_def Let_def
  by (intro no_panic) (auto simp: slice_from_def Suc_le_eq)

definition stripped :: "bytes \<Rightarrow> bytes option" where
  "stripped spk = (case spk of
     x # op # data \<Rightarrow>
       if x = 0x6a then
         if unat op \<le> 75 \<and> length data = unat op then Some data
         else if op = 0x4c \<and> data \<noteq> [] \<and> length data = 1 + unat (hd data) then Some (tl data)
         else None
       else None
   | _ \<Rightarrow> None)"

lemma strip_op_return_total: "strip_op_return spk = Ok (stripped spk)"
proof (cases spk)
  case (Cons x xs)
  show ?thesis
  proof (cases xs)
    case Nil
    with Cons show ?thesis by (simp add: strip_op_return_def stripped_def slice_from_def)
  next
    case (Cons op data)
    with \<open>spk = x # xs\<close> show ?thesis
      by (cases data) (auto simp: strip_op_return_def stripped_def slice_from_def idx_def Let_def)
  qed
qed (simp add: strip_op_return_def stripped_def)

lemma stripped_iff: "stripped spk = Some p \<longleftrightarrow> opret_push spk p"
proof -
  have push: "unat op \<le> 75 \<and> length data = unat op
      \<longleftrightarrow> length data \<le> 75 \<and> op = of_nat (length data)" for op :: u8 and data :: bytes
    by (auto simp: u8_of_nat_iff)
  have data1: "data \<noteq> [] \<and> length data = 1 + unat (hd data)
      \<longleftrightarrow> length (tl data) \<le> 255 \<and> data = of_nat (length (tl data)) # tl data" for data :: bytes
    by (cases data) (auto simp: u8_of_nat_iff)
  show ?thesis
  proof
    assume "stripped spk = Some p"
    then obtain op data where spk: "spk = 0x6a # op # data"
      and c: "(unat op \<le> 75 \<and> length data = unat op \<and> p = data)
        \<or> (op = 0x4c \<and> data \<noteq> [] \<and> length data = 1 + unat (hd data) \<and> p = tl data)"
      by (auto simp: stripped_def split: list.splits if_splits)
    from c push [of op data] data1 [of data] show "opret_push spk p"
      unfolding spk opret_push_def by blast
  next
    assume "opret_push spk p"
    then consider "length p \<le> 75" "spk = 0x6a # of_nat (length p) # p"
      | "length p \<le> 255" "spk = 0x6a # 0x4c # of_nat (length p) # p"
      by (auto simp: opret_push_def)
    then show "stripped spk = Some p"
      by cases (auto simp: stripped_def)
  qed
qed

definition carried_commitment :: "crates \<Rightarrow> bytes \<Rightarrow> rgb_pq_commitment option" where
  "carried_commitment L spk = (case stripped spk of
     Some p \<Rightarrow> (case commitment_decode L p of Ok c \<Rightarrow> Some c | _ \<Rightarrow> None)
   | None \<Rightarrow> None)"

lemma carried_commitment_iff:
  "sha256_ok L \<Longrightarrow> carried_commitment L spk = Some c \<longleftrightarrow>
    (\<exists>p. opret_push spk p \<and> commitment_decode L p = Ok c)"
  by (auto simp: carried_commitment_def stripped_iff [symmetric]
      split: option.splits result.splits)

text \<open>The outputs the scan looks at: the first 64, up to the first one over 4096 bytes.\<close>

definition scan_window :: "(u32 \<times> bytes) list \<Rightarrow> (u32 \<times> bytes) list" where
  "scan_window outs = takeWhile (\<lambda>o'. length (snd o') \<le> 4096) (take 64 outs)"

definition scan_hits :: "crates \<Rightarrow> (u32 \<times> bytes) list \<Rightarrow> (u32 \<times> rgb_pq_commitment) list" where
  "scan_hits L outs = List.map_filter
     (\<lambda>(v, spk). map_option (\<lambda>c. (v, c)) (carried_commitment L spk)) outs"

lemma scan_hits_simps [simp]:
  "scan_hits L [] = []"
  "scan_hits L ((v, spk) # outs) =
     (case carried_commitment L spk of None \<Rightarrow> [] | Some c \<Rightarrow> [(v, c)]) @ scan_hits L outs"
  by (simp_all add: scan_hits_def List.map_filter_simps split: option.split)

lemma scan_loop_spec:
  assumes "sha256_ok L"
  shows "scan_loop L n outs hits
    = Ok (hits @ scan_hits L (takeWhile (\<lambda>o'. length (snd o') \<le> 4096) (take (64 - n) outs)))"
proof (induction outs arbitrary: n hits)
  case Nil
  then show ?case by simp
next
  case (Cons o' outs)
  obtain v spk where o': "o' = (v, spk)" by (cases o')
  show ?case
  proof (cases "n < 64 \<and> length spk \<le> 4096")
    case False
    then show ?thesis by (cases "64 - n") (auto simp: o' MAX_SCAN_def MAX_SPK_def Let_def)
  next
    case True
    then have "64 - n = Suc (64 - Suc n)" by linarith
    moreover note commitment_decode_no_panic [OF assms, unfolded panics_def]
    ultimately show ?thesis
      using True Cons
      by (cases "\<exists>p. stripped spk = Some p")
         (auto simp: o' MAX_SCAN_def MAX_SPK_def Let_def carried_commitment_def
           strip_op_return_total elim!: if_let_ok.elims split: result.split)
  qed
qed

text \<open>The script a 127-byte payload takes.\<close>

definition pushdata1_script :: "bytes \<Rightarrow> bytes" where
  "pushdata1_script p = 0x6a # 0x4c # of_nat (length p) # p"

lemma carried_encoded:
  assumes "sha256_ok L" "wf_commitment c" "commitment_encode L c = (Ok p :: bytes rgb_pq_result)"
  shows "carried_commitment L (pushdata1_script p) = Some c" "length (pushdata1_script p) = 130"
proof -
  have p: "p = commitment_layout c (sha256 L (seal_digest_preimage c))"
    using assms by (simp add: commitment_encode_layout)
  have len: "length p = 127" unfolding p using assms by (simp add: wire_len)
  show "length (pushdata1_script p) = 130" by (simp add: pushdata1_script_def len)
  have "opret_push (pushdata1_script p) p" by (simp add: opret_push_def pushdata1_script_def len)
  moreover have "commitment_decode L p = Ok c"
    unfolding p using assms by (simp add: commitment_decode_layout sha256_ok_def)
  ultimately show "carried_commitment L (pushdata1_script p) = Some c"
    using assms by (auto simp: carried_commitment_iff)
qed

lemma commitment_scan_window:
  "sha256_ok L \<Longrightarrow> commitment_scan L outs = Ok (classify_hits (scan_hits L (scan_window outs)))"
  by (simp add: commitment_scan_def scan_loop_spec scan_window_def)

definition sample_commitment :: rgb_pq_commitment where
  "sample_commitment = commitment_new sample_seal (replicate 32 0xa5)"

lemma sample_commitment_wf: "wf_commitment sample_commitment"
  unfolding sample_commitment_def by (rule commitment_new_wf [OF sample_seal_wf]) simp

subsection \<open>Properties\<close>

text \<open>C12. The commitment codec is exact: under a 32-byte hash, decoding accepts a payload if and
  only if it is the encoding of a well-formed commitment (127 bytes, with the digest of its own
  chain and outpoint), and returns that commitment; it never panics.\<close>

theorem commitment_codec_exact:
  assumes "sha256_ok L"
  shows "(commitment_decode L b = Ok c \<longleftrightarrow>
      wf_commitment c \<and> commitment_encode L c = (Ok b :: bytes rgb_pq_result))
    \<and> \<not> panics (commitment_decode L b)"
proof (intro conjI iffI)
  assume "commitment_decode L b = Ok c"
  from commitment_decode_sound [OF assms this]
  show "wf_commitment c" "commitment_encode L c = (Ok b :: bytes rgb_pq_result)"
    by (simp_all add: commitment_encode_layout [OF assms])
next
  let ?d = "sha256 L (seal_digest_preimage c)"
  assume "wf_commitment c \<and> commitment_encode L c = (Ok b :: bytes rgb_pq_result)"
  then have "wf_commitment c" and b: "b = commitment_layout c ?d"
    by (simp_all add: commitment_encode_layout [OF assms])
  moreover have "length ?d = 32" using assms by (rule sha256_okD)
  ultimately show "commitment_decode L b = Ok c"
    using commitment_decode_layout [OF assms, of c ?d] by simp
qed (rule commitment_decode_no_panic [OF assms])

theorem commitment_codec_exact_witness:
  "\<exists>b. commitment_encode toy_crates sample_commitment = (Ok b :: bytes rgb_pq_result)
    \<and> commitment_decode toy_crates b = Ok sample_commitment"
  using commitment_codec_exact [OF toy_sha256_ok] sample_commitment_wf
    commitment_encode_layout [OF toy_sha256_ok] by blast

text \<open>C13. Decoding for a seal succeeds exactly on the payloads built for that seal: the accepted
  commitment is \<^verbatim>\<open>RgbPqCommitment::new(seal, mpc)\<close> for some 32-byte MPC value.\<close>

theorem commitment_decode_for_iff:
  assumes "sha256_ok L" and "wf_seal s"
  shows "commitment_decode_for L b s = Ok c \<longleftrightarrow>
    (\<exists>mpc. length mpc = 32 \<and> c = commitment_new s mpc
      \<and> build_opret_payload L s mpc = (Ok b :: bytes rgb_pq_result))"
proof
  assume "commitment_decode_for L b s = Ok c"
  then have dec: "commitment_decode L b = Ok c" and c: "c = commitment_new s (cm_mpc c)"
    by (auto simp: commitment_decode_for_def and_then_Ok_iff verify_against_Ok_iff)
  from commitment_decode_sound [OF assms(1) dec] c
  show "\<exists>mpc. length mpc = 32 \<and> c = commitment_new s mpc
      \<and> build_opret_payload L s mpc = (Ok b :: bytes rgb_pq_result)"
    by (auto simp: build_opret_payload_def commitment_encode_layout [OF assms(1)]
        wf_commitment_def intro!: exI [of _ "cm_mpc c"])
next
  assume "\<exists>mpc. length mpc = 32 \<and> c = commitment_new s mpc
      \<and> build_opret_payload L s mpc = (Ok b :: bytes rgb_pq_result)"
  then obtain mpc where m: "length mpc = 32" and c: "c = commitment_new s mpc"
    and b: "b = commitment_layout c (sha256 L (seal_digest_preimage c))"
    by (auto simp: build_opret_payload_def commitment_encode_layout [OF assms(1)])
  have "commitment_verify_against c s = Ok ()"
    unfolding verify_against_Ok_iff by (simp add: c commitment_new_def)
  then show "commitment_decode_for L b s = Ok c"
    using commitment_decode_layout [OF assms(1) commitment_new_wf [OF assms(2) m]] assms(1) b c
    by (simp add: commitment_decode_for_def sha256_ok_def)
qed

theorem commitment_decode_for_iff_witness:
  "\<exists>b. commitment_decode_for toy_crates b sample_seal = Ok sample_commitment"
  using commitment_decode_for_iff [OF toy_sha256_ok sample_seal_wf, of _ sample_commitment]
    commitment_encode_layout [OF toy_sha256_ok, of sample_commitment]
  by (fastforce simp: build_opret_payload_def sample_commitment_def)

text \<open>The embedded digest binds chain and outpoint: two well-formed commitments whose digests
  agree are for the same chain, txid and vout, unless the hash collides on their preimages.\<close>

theorem seal_digest_binding:
  assumes "sha256_ok L" and "wf_commitment c" "wf_commitment d"
    and "collision_free L {seal_digest_preimage c, seal_digest_preimage d}"
    and "seal_digest L c = (seal_digest L d :: bytes rgb_pq_result)"
  shows "cm_chain c = cm_chain d \<and> cm_seal_txid c = cm_seal_txid d
    \<and> cm_seal_vout c = cm_seal_vout d"
proof (rule seal_digest_preimage_inject [OF assms(2,3)])
  from assms(1,5) have "sha256 L (seal_digest_preimage c) = sha256 L (seal_digest_preimage d)"
    by (simp add: seal_digest_sha)
  with assms(4) show "seal_digest_preimage c = seal_digest_preimage d"
    by (rule collision_freeD) simp_all
qed

theorem seal_digest_binding_witness:
  "cm_seal_txid sample_commitment
    = cm_seal_txid (sample_commitment\<lparr>cm_mpc := replicate 32 0\<rparr>)"
proof -
  let ?d = "sample_commitment\<lparr>cm_mpc := replicate 32 0\<rparr>"
  have wf: "wf_commitment ?d" using sample_commitment_wf by (simp add: wf_commitment_def)
  have "collision_free toy_crates {seal_digest_preimage sample_commitment, seal_digest_preimage ?d}"
    unfolding seal_digest_preimage_mpc by (simp add: collision_free_def)
  moreover have "seal_digest toy_crates sample_commitment
      = (seal_digest toy_crates ?d :: bytes rgb_pq_result)"
    unfolding seal_digest_def seal_digest_preimage_mpc by (rule refl)
  ultimately show ?thesis
    by (rule seal_digest_binding [OF toy_sha256_ok sample_commitment_wf wf, THEN conjunct2,
          THEN conjunct1])
qed

text \<open>C39. The digest does not cover the MPC value: replacing the 32 bytes at offset 63 of any
  accepted payload gives a payload that is accepted, with the replaced value. (The test
  \<^verbatim>\<open>decode_rejects_tampered_digest\<close> flips offset 100 and calls it the mpc; that offset is in the
  digest.)\<close>

theorem mpc_not_authenticated:
  assumes "sha256_ok L" and "commitment_decode L b = Ok c" and "length m = 32"
  shows "commitment_decode L (take 63 b @ m @ drop 95 b) = Ok (c\<lparr>cm_mpc := m\<rparr>)"
proof -
  let ?c = "c\<lparr>cm_mpc := m\<rparr>" and ?d = "sha256 L (seal_digest_preimage c)"
  from commitment_decode_sound [OF assms(1,2)]
  have wf: "wf_commitment c" and b: "b = commitment_layout c ?d" by auto
  have "take 63 b @ m @ drop 95 b = commitment_layout ?c ?d"
    using wf by (simp add: b commitment_layout_def wf_commitment_def wire_len)
  moreover have "wf_commitment ?c" using wf assms(3) by (simp add: wf_commitment_def)
  ultimately show ?thesis
    using commitment_decode_layout [OF assms(1), of ?c ?d] assms(1)
    by (simp add: seal_digest_preimage_mpc sha256_ok_def)
qed

theorem mpc_not_authenticated_witness:
  "\<exists>b. commitment_decode toy_crates (take 63 b @ replicate 32 0 @ drop 95 b)
    = Ok (sample_commitment\<lparr>cm_mpc := replicate 32 0\<rparr>)"
proof -
  obtain b where "commitment_decode toy_crates b = Ok sample_commitment"
    using commitment_decode_layout [OF toy_sha256_ok sample_commitment_wf] toy_sha256_ok
    by (metis sha256_ok_def)
  from mpc_not_authenticated [OF toy_sha256_ok this, of "replicate 32 0"] show ?thesis
    by (intro exI [of _ b]) simp
qed

text \<open>C6. The scan is the classification of what its window carries: the first 64 outputs up to the
  first scriptPubKey over 4096 bytes, each hit an \<^verbatim>\<open>OP_RETURN\<close> with one exact push of a decodable
  payload; none is \<^verbatim>\<open>Missing\<close>, one is \<^verbatim>\<open>Found\<close>, more are \<^verbatim>\<open>Duplicate\<close> with their vouts in order.\<close>

theorem commitment_scan_spec:
  assumes "sha256_ok L"
  shows "commitment_scan L outs = (Ok (case scan_hits L (scan_window outs) of
        [] \<Rightarrow> Missing | [(v, c)] \<Rightarrow> Found v c | hits \<Rightarrow> Duplicate (map fst hits))
        :: (commitment_payload, rgb_pq_error) result)
    \<and> (carried_commitment L spk = Some c \<longleftrightarrow>
        (\<exists>p. opret_push spk p \<and> commitment_decode L p = Ok c))"
  using assms by (simp add: commitment_scan_window carried_commitment_iff classify_hits_def
      split: list.split)

theorem commitment_scan_spec_witness:
  "\<exists>p. commitment_encode toy_crates sample_commitment = (Ok p :: bytes rgb_pq_result)
    \<and> commitment_scan toy_crates [(3, [0x51]), (7, pushdata1_script p)]
      = (Ok (Found 7 sample_commitment) :: (commitment_payload, rgb_pq_error) result)"
proof -
  obtain p where p: "commitment_encode toy_crates sample_commitment = (Ok p :: bytes rgb_pq_result)"
    using sample_commitment_wf by (simp add: commitment_encode_layout [OF toy_sha256_ok])
  note carried = carried_encoded [OF toy_sha256_ok sample_commitment_wf p]
  have "carried_commitment toy_crates [0x51] = None"
    by (simp add: carried_commitment_def stripped_def)
  then show ?thesis
    using p carried commitment_scan_spec [OF toy_sha256_ok,
      of "[(3, [0x51]), (7, pushdata1_script p)]", THEN conjunct1]
    by (intro exI [of _ p]) (simp add: scan_window_def)
qed

text \<open>An oversized output ends the scan instead of being skipped: two commitments for a seal
  are a duplicate when adjacent, but the second is not seen behind an output of more than 4096
  bytes. (The comment says such outputs are "ignored".)\<close>

theorem scan_stops_at_oversized:
  assumes "sha256_ok L" and "wf_commitment c" "wf_commitment d"
    and "commitment_encode L c = (Ok p :: bytes rgb_pq_result)"
    and "commitment_encode L d = (Ok q :: bytes rgb_pq_result)"
    and "4096 < length big"
  shows "commitment_scan L [(0, pushdata1_script p), (1, pushdata1_script q)]
      = (Ok (Duplicate [0, 1]) :: (commitment_payload, rgb_pq_error) result)
    \<and> commitment_scan L [(0, pushdata1_script p), (1, big), (2, pushdata1_script q)]
      = (Ok (Found 0 c) :: (commitment_payload, rgb_pq_error) result)"
  using carried_encoded [OF assms(1,2,4)] carried_encoded [OF assms(1,3,5)] assms(1,6)
  by (simp add: commitment_scan_window scan_window_def classify_hits_def)

theorem scan_stops_at_oversized_witness:
  "\<exists>p. commitment_scan toy_crates
      [(0, pushdata1_script p), (1, replicate 5000 0), (2, pushdata1_script p)]
    = (Ok (Found 0 sample_commitment) :: (commitment_payload, rgb_pq_error) result)"
proof -
  obtain p where p: "commitment_encode toy_crates sample_commitment
      = (Ok p :: bytes rgb_pq_result)"
    using commitment_encode_layout [OF toy_sha256_ok] by blast
  have "4096 < length (replicate 5000 (0 :: u8))" by simp
  from scan_stops_at_oversized [OF toy_sha256_ok sample_commitment_wf sample_commitment_wf p p this]
  show ?thesis by blast
qed

end
