(* ===== verification/P2mr_Ret.thy ===== *)
theory P2mr_Ret
  imports Commitment
begin

section \<open>P2MR-ret: the commitment in the script tree (\<open>crates/rgb-pq-commit/src/p2mrret.rs\<close>)\<close>

text \<open>
  Tagged hashes, leaf and branch hashes, the two-leaf tree with its inclusion proof, the
  commitment leaf and its payload, and the verification of a seal's root. \<^verbatim>\<open>finalize()\<close> has the
  type of a 32-byte array, so the copies of digests into \<^verbatim>\<open>[u8; 32]\<close> are the identity here;
  where a length matters it comes from \<open>sha256_ok\<close>.

  Proof checking is a fold of the branch hash over the siblings. All it needs of the branch hash
  is that it does not depend on the order of its two children, the interface
  \<open>symmetric_branch\<close>; \<open>Multi\<close> reuses its lemmas.
\<close>

definition P2MR_COMMITMENT_LEAF_VERSION :: u8 where
  "P2MR_COMMITMENT_LEAF_VERSION = 0xc0"

type_synonym node_hash = bytes

record placed_leaf =
  leaf_depth :: u8
  leaf_version :: u8
  leaf_script :: bytes

record p2mr_ret_proof =
  proof_leaf :: placed_leaf
  proof_branch :: "node_hash list"

definition tagged_message :: "crates \<Rightarrow> bytes \<Rightarrow> bytes \<Rightarrow> bytes" where
  "tagged_message L tag msg = sha256 L tag @ sha256 L tag @ msg"

definition tagged_hash :: "crates \<Rightarrow> bytes \<Rightarrow> bytes \<Rightarrow> bytes" where
  "tagged_hash L tag msg = sha256 L (tagged_message L tag msg)"

definition compact_size :: "usize \<Rightarrow> bytes" where
  "compact_size n =
     (if n < 0xfd then [of_nat n]
      else if n \<le> 0xffff then 0xfd # u16_to_le_bytes (of_nat n)
      else if n \<le> 0xffffffff then 0xfe # u32_to_le_bytes (of_nat n)
      else 0xff # u64_to_le_bytes (of_nat n))"

definition tapleaf_message :: "u8 \<Rightarrow> bytes \<Rightarrow> bytes" where
  "tapleaf_message v script = [v] @ compact_size (length script) @ script"

definition compute_tapleaf_hash :: "crates \<Rightarrow> u8 \<Rightarrow> bytes \<Rightarrow> node_hash" where
  "compute_tapleaf_hash L v script = tagged_hash L (as_bytes ''TapLeaf'') (tapleaf_message v script)"

text \<open>\<^verbatim>\<open><\<close> on byte arrays is lexicographic.\<close>

fun bytes_less :: "bytes \<Rightarrow> bytes \<Rightarrow> bool" where
  "bytes_less [] ys = (ys \<noteq> [])"
| "bytes_less (x # xs) [] = False"
| "bytes_less (x # xs) (y # ys) = (x < y \<or> (x = y \<and> bytes_less xs ys))"

definition tapbranch_message :: "node_hash \<Rightarrow> node_hash \<Rightarrow> bytes" where
  "tapbranch_message a b = (case if bytes_less a b then (a, b) else (b, a) of
     (first, second) \<Rightarrow> first @ second)"

definition compute_tapbranch_hash :: "crates \<Rightarrow> node_hash \<Rightarrow> node_hash \<Rightarrow> node_hash" where
  "compute_tapbranch_hash L a b = tagged_hash L (as_bytes ''TapBranch'') (tapbranch_message a b)"

definition proof_verify_against :: "crates \<Rightarrow> p2mr_ret_proof \<Rightarrow> node_hash \<Rightarrow> bool" where
  "proof_verify_against L p expected_root =
     (let leaf_hash = compute_tapleaf_hash L (leaf_version (proof_leaf p)) (leaf_script (proof_leaf p));
          computed = foldl (compute_tapbranch_hash L) leaf_hash (proof_branch p)
      in computed = expected_root)"

subsection \<open>Symmetric branch hashes\<close>

lemma bytes_less_linear: "a \<noteq> b \<Longrightarrow> bytes_less a b \<or> bytes_less b a"
  by (induction a b rule: bytes_less.induct) (auto simp: neq_Nil_conv)

lemma bytes_less_asym: "bytes_less a b \<Longrightarrow> \<not> bytes_less b a"
  by (induction a b rule: bytes_less.induct) (auto simp: neq_Nil_conv)

lemma tapbranch_message_comm: "tapbranch_message a b = tapbranch_message b a"
  using bytes_less_linear [of a b] bytes_less_asym [of a b]
  by (auto simp: tapbranch_message_def)

text \<open>
  The path of the \<open>i\<close>-th leaf hung onto a comb: first the subtree below it, then the later
  leaves. The last leaf's path has one sibling, the first ones' are the longest.
\<close>

definition comb_path :: "('h \<Rightarrow> 'h \<Rightarrow> 'h) \<Rightarrow> 'h \<Rightarrow> 'h list \<Rightarrow> nat \<Rightarrow> 'h list" where
  "comb_path branch x ys i = foldl branch x (take i ys) # drop (Suc i) ys"

lemma length_comb_path: "i < length ys \<Longrightarrow> length (comb_path branch x ys i) = length ys - i"
  by (simp add: comb_path_def)

locale symmetric_branch =
  fixes branch :: "'h \<Rightarrow> 'h \<Rightarrow> 'h"
  assumes branch_comm: "branch a b = branch b a"
begin

lemma comb_path_root:
  assumes "i < length ys"
  shows "foldl branch (ys ! i) (comb_path branch x ys i) = foldl branch x ys"
proof -
  have "foldl branch x ys = foldl branch x (take i ys @ ys ! i # drop (Suc i) ys)"
    using assms by (simp add: Cons_nth_drop_Suc)
  also have "\<dots> = foldl branch (branch (foldl branch x (take i ys)) (ys ! i)) (drop (Suc i) ys)"
    by simp
  finally show ?thesis by (simp add: comb_path_def branch_comm)
qed

lemma sibling_root: "foldl branch a [b] = branch b a"
  by (simp add: branch_comm)

end

interpretation tapbranch: symmetric_branch "compute_tapbranch_hash L" for L
  by unfold_locales (simp add: compute_tapbranch_hash_def tapbranch_message_comm)

subsection \<open>The commitment leaf\<close>

definition p2mr_ret_payload :: "btq_chain_id \<Rightarrow> mpc_commitment \<Rightarrow> bytes" where
  "p2mr_ret_payload chain mpc =
     COMMITMENT_MAGIC @ COMMITMENT_PROTOCOL_TAG @ [chain_to_byte chain] @ mpc"

definition commitment_leaf_script :: "btq_chain_id \<Rightarrow> mpc_commitment \<Rightarrow> bytes" where
  "commitment_leaf_script chain mpc =
     (let payload = p2mr_ret_payload chain mpc in
      [0x6a] @ (if length payload \<le> 0x4b then [of_nat (length payload)]
                else [0x4c, of_nat (length payload)])
        @ payload)"

definition decode_p2mr_ret_payload ::
  "bytes \<Rightarrow> (btq_chain_id \<times> mpc_commitment) rgb_pq_result" where
  "decode_p2mr_ret_payload b =
     (let needed = 7 + 19 + 1 + 32 in
      if length b \<noteq> needed
      then Err (commitment_malformed (''p2mr-ret payload length '' @ fmt_nat (length b)
        @ '' != '' @ fmt_nat needed))
      else
     and_then (slice_range b 0 7) (\<lambda>m.
      if m \<noteq> COMMITMENT_MAGIC then Err (commitment_malformed ''bad magic'')
      else
     and_then (slice_range b 7 26) (\<lambda>t.
      if t \<noteq> COMMITMENT_PROTOCOL_TAG then Err (commitment_malformed ''bad protocol tag'')
      else
     and_then (idx b 26) (\<lambda>ch.
     and_then (chain_from_byte ch) (\<lambda>chain.
     and_then (slice_range b 27 59) (\<lambda>s.
     and_then (copy_arr 32 s) (\<lambda>mpc.
     Ok (chain, mpc))))))))"

subsection \<open>The two-leaf tree\<close>

record p2mr_ret_tree =
  tree_pq_leaf :: placed_leaf
  tree_commitment_leaf :: placed_leaf
  tree_root :: node_hash
  tree_commitment_proof :: p2mr_ret_proof

definition build_p2mr_ret_tree :: "crates \<Rightarrow> bytes \<Rightarrow> u8 \<Rightarrow> bytes \<Rightarrow> p2mr_ret_tree" where
  "build_p2mr_ret_tree L pq_script pq_version comm_script =
     (let pq_leaf = \<lparr>leaf_depth = 1, leaf_version = pq_version, leaf_script = pq_script\<rparr>;
          comm_leaf = \<lparr>leaf_depth = 1, leaf_version = P2MR_COMMITMENT_LEAF_VERSION,
            leaf_script = comm_script\<rparr>;
          pq_hash = compute_tapleaf_hash L (leaf_version pq_leaf) (leaf_script pq_leaf);
          comm_hash = compute_tapleaf_hash L (leaf_version comm_leaf) (leaf_script comm_leaf);
          root = compute_tapbranch_hash L pq_hash comm_hash
      in \<lparr>tree_pq_leaf = pq_leaf, tree_commitment_leaf = comm_leaf, tree_root = root,
          tree_commitment_proof = \<lparr>proof_leaf = comm_leaf, proof_branch = [pq_hash]\<rparr>\<rparr>)"

definition build_p2mr_ret_tree_for_seal ::
  "crates \<Rightarrow> btq_chain_id \<Rightarrow> mpc_commitment \<Rightarrow> bytes \<Rightarrow> p2mr_ret_tree" where
  "build_p2mr_ret_tree_for_seal L chain mpc pq_script =
     build_p2mr_ret_tree L pq_script P2MR_COMMITMENT_LEAF_VERSION (commitment_leaf_script chain mpc)"

definition verify_p2mr_ret_bounded ::
  "crates \<Rightarrow> btq_p2mr_seal \<Rightarrow> mpc_commitment \<Rightarrow> bytes \<Rightarrow> verify_limits \<Rightarrow> unit rgb_pq_result"
where
  "verify_p2mr_ret_bounded L s mpc pq_script limits =
     and_then (map_err rgb_pq_of_dos (check_leaf_size limits (length pq_script))) (\<lambda>_.
     let tree = build_p2mr_ret_tree_for_seal L (chain_id s) mpc pq_script in
     and_then (map_err rgb_pq_of_dos
       (check_tree_depth limits (ucast (leaf_depth (tree_commitment_leaf tree))))) (\<lambda>_.
     and_then (map_err rgb_pq_of_dos
       (check_leaf_size limits (length (leaf_script (tree_commitment_leaf tree))))) (\<lambda>_.
      if tree_root tree \<noteq> p2mr_root s
      then Err (commitment_malformed (''p2mr-ret root mismatch: seal=''
        @ hex_encode L (p2mr_root s) @ '' tree='' @ hex_encode L (tree_root tree)))
      else if \<not> proof_verify_against L (tree_commitment_proof tree) (tree_root tree)
      then Err (commitment_malformed ''p2mr-ret proof invalid'')
      else Ok ())))"

definition verify_p2mr_ret ::
  "crates \<Rightarrow> btq_p2mr_seal \<Rightarrow> mpc_commitment \<Rightarrow> bytes \<Rightarrow> unit rgb_pq_result" where
  "verify_p2mr_ret L s mpc pq_script = verify_p2mr_ret_bounded L s mpc pq_script default_limits"

subsection \<open>Finding the commitment among a tree's leaves\<close>

definition strip_opreturn_script :: "bytes \<Rightarrow> (bytes option, 'e) result" where
  "strip_opreturn_script script =
     (if \<not> (script \<noteq> [] \<and> hd script = 0x6a) then Ok None
      else and_then (slice_from script 1) (\<lambda>rest.
       if rest = [] then Ok None
       else and_then (idx rest 0) (\<lambda>first.
        let finish = (\<lambda>len off.
          if length rest < off + len then Ok None
          else and_then (slice_range rest off (off + len)) (\<lambda>p. Ok (Some p)))
        in if first < 0xfd then finish (unat first) 1
           else if first = 0xfd then
             if length rest < 3 then Ok None
             else and_then (idx rest 1) (\<lambda>a. and_then (idx rest 2) (\<lambda>b.
               finish (unat (u16_from_le_bytes [a, b])) 3))
           else Ok None)))"

fun find_hits ::
  "btq_p2mr_seal \<Rightarrow> placed_leaf list \<Rightarrow> (placed_leaf \<times> btq_chain_id \<times> mpc_commitment) list
    \<Rightarrow> (placed_leaf \<times> btq_chain_id \<times> mpc_commitment) list rgb_pq_result" where
  "find_hits s [] hits = Ok hits"
| "find_hits s (leaf # leaves) hits =
     (if leaf_script leaf \<noteq> [] \<and> hd (leaf_script leaf) = 0x6a then
        and_then (strip_opreturn_script (leaf_script leaf)) (\<lambda>p. case p of
          None \<Rightarrow> find_hits s leaves hits
        | Some payload \<Rightarrow> if_let_ok (decode_p2mr_ret_payload payload)
            (\<lambda>(chain, mpc).
              if chain = chain_id s then find_hits s leaves (hits @ [(leaf, chain, mpc)])
              else find_hits s leaves hits)
            (find_hits s leaves hits))
      else find_hits s leaves hits)"

definition find_commitment_in_tree ::
  "btq_p2mr_seal \<Rightarrow> placed_leaf list \<Rightarrow> node_hash
    \<Rightarrow> (btq_chain_id \<times> mpc_commitment) option rgb_pq_result" where
  "find_commitment_in_tree s leaves expected_root =
     and_then (find_hits s leaves []) (\<lambda>hits. case hits of
       [] \<Rightarrow> Ok None
     | [(leaf, hit)] \<Rightarrow> Ok (Some hit)
     | _ \<Rightarrow> Err (RgbPq_Commitment (CM_Duplicate ''multiple commitment leaves'')))"

subsection \<open>Hash messages determine what they hash\<close>

lemma length_u8_list [simp]: "length (compact_size n) = (if n < 0xfd then 1 else if n \<le> 0xffff then 3
    else if n \<le> 0xffffffff then 5 else 9)"
  by (simp add: compact_size_def)

lemma compact_size_mono: "m \<le> n \<Longrightarrow> length (compact_size m) \<le> length (compact_size n)"
  by simp

lemma compact_size_self_delimiting:
  assumes "compact_size (length s) @ s = compact_size (length t) @ t" shows "s = t"
proof -
  have "length (compact_size (length s)) + length s = length (compact_size (length t)) + length t"
    using arg_cong [OF assms, of length] by simp
  moreover have "length (compact_size (length s)) \<le> length (compact_size (length t))"
    if "length s \<le> length t" using that by (rule compact_size_mono)
  moreover have "length (compact_size (length t)) \<le> length (compact_size (length s))"
    if "length t \<le> length s" using that by (rule compact_size_mono)
  ultimately have "length s = length t" by linarith
  with assms show ?thesis by simp
qed

lemma tapleaf_message_inject:
  "tapleaf_message v s = tapleaf_message w t \<longleftrightarrow> v = w \<and> s = t"
  using compact_size_self_delimiting [of s t] by (auto simp: tapleaf_message_def)

lemma tapbranch_message_inject:
  assumes "length a = 32" "length b = 32" "length c = 32" "length d = 32"
  shows "tapbranch_message a b = tapbranch_message c d
    \<longleftrightarrow> (a = c \<and> b = d) \<or> (a = d \<and> b = c)"
proof
  assume "tapbranch_message a b = tapbranch_message c d"
  then show "(a = c \<and> b = d) \<or> (a = d \<and> b = c)"
    using assms by (simp add: tapbranch_message_def split: if_splits)
next
  assume "(a = c \<and> b = d) \<or> (a = d \<and> b = c)"
  then show "tapbranch_message a b = tapbranch_message c d"
    using tapbranch_message_comm [of a b] by blast
qed

lemma tagged_message_inject [simp]: "tagged_message L tag m = tagged_message L tag n \<longleftrightarrow> m = n"
  by (simp add: tagged_message_def)

lemma length_tapleaf_hash [wire_len]: "sha256_ok L \<Longrightarrow> length (compute_tapleaf_hash L v s) = 32"
  by (simp add: compute_tapleaf_hash_def tagged_hash_def sha256_okD)

definition leaf_hash_message :: "crates \<Rightarrow> u8 \<Rightarrow> bytes \<Rightarrow> bytes" where
  "leaf_hash_message L v s = tagged_message L (as_bytes ''TapLeaf'') (tapleaf_message v s)"

definition branch_hash_message :: "crates \<Rightarrow> node_hash \<Rightarrow> node_hash \<Rightarrow> bytes" where
  "branch_hash_message L a b = tagged_message L (as_bytes ''TapBranch'') (tapbranch_message a b)"

text \<open>The three messages the root of a two-leaf tree hashes.\<close>

definition tree_messages :: "crates \<Rightarrow> bytes \<Rightarrow> bytes \<Rightarrow> bytes set" where
  "tree_messages L pq comm =
     {leaf_hash_message L 0xc0 pq, leaf_hash_message L 0xc0 comm,
      branch_hash_message L (compute_tapleaf_hash L 0xc0 pq) (compute_tapleaf_hash L 0xc0 comm)}"

lemma two_leaf_root_inject:
  assumes L: "sha256_ok L"
    and cf: "collision_free L (tree_messages L pq comm \<union> tree_messages L pq' comm')"
    and eq: "compute_tapbranch_hash L (compute_tapleaf_hash L 0xc0 pq) (compute_tapleaf_hash L 0xc0 comm)
      = compute_tapbranch_hash L (compute_tapleaf_hash L 0xc0 pq') (compute_tapleaf_hash L 0xc0 comm')"
  shows "(pq = pq' \<and> comm = comm') \<or> (pq = comm' \<and> comm = pq')"
proof -
  have leaf: "s = t" if "compute_tapleaf_hash L 0xc0 s = compute_tapleaf_hash L 0xc0 t"
    "s \<in> {pq, comm}" "t \<in> {pq', comm'}" for s t
  proof -
    have "leaf_hash_message L 0xc0 s = leaf_hash_message L 0xc0 t"
      by (rule collision_freeD [OF cf])
         (use that in \<open>auto simp: tree_messages_def compute_tapleaf_hash_def tagged_hash_def
            leaf_hash_message_def\<close>)
    then show ?thesis by (simp add: leaf_hash_message_def tapleaf_message_inject)
  qed
  have "branch_hash_message L (compute_tapleaf_hash L 0xc0 pq) (compute_tapleaf_hash L 0xc0 comm)
      = branch_hash_message L (compute_tapleaf_hash L 0xc0 pq') (compute_tapleaf_hash L 0xc0 comm')"
    by (rule collision_freeD [OF cf])
       (use eq in \<open>simp_all add: tree_messages_def compute_tapbranch_hash_def tagged_hash_def
          branch_hash_message_def\<close>)
  then show ?thesis
    using leaf by (auto simp: branch_hash_message_def tapbranch_message_inject wire_len L)
qed

subsection \<open>The payload and its leaf\<close>

lemma length_p2mr_ret_payload [wire_len]:
  "length (p2mr_ret_payload chain mpc) = 27 + length mpc"
  by (simp add: p2mr_ret_payload_def wire_len)

lemma p2mr_ret_payload_inject:
  "p2mr_ret_payload c m = p2mr_ret_payload d n \<longleftrightarrow> c = d \<and> m = n"
  by (auto simp: p2mr_ret_payload_def chain_code.enc_eq_iff)

lemma commitment_leaf_script_direct:
  "length mpc = 32 \<Longrightarrow> commitment_leaf_script c mpc = 0x6a # 59 # p2mr_ret_payload c mpc"
  by (simp add: commitment_leaf_script_def wire_len Let_def)

lemma decode_payload_iff:
  "decode_p2mr_ret_payload b = Ok (c, mpc) \<longleftrightarrow> length mpc = 32 \<and> b = p2mr_ret_payload c mpc"
proof
  assume "decode_p2mr_ret_payload b = Ok (c, mpc)"
  then have len: "length b = 59" and magic: "take 7 b = COMMITMENT_MAGIC"
    and tag: "take 19 (drop 7 b) = COMMITMENT_PROTOCOL_TAG"
    and chain: "chain_from_byte (b ! 26) = Ok c" and mpc: "mpc = take 32 (drop 27 b)"
    by (auto simp: decode_p2mr_ret_payload_def and_then_Ok_iff slice_range_def idx_def
        copy_arr_Ok_iff split: if_splits)
  have "b = take 7 b @ take 19 (drop 7 b) @ b ! 26 # take 32 (drop 27 b)"
    using drop_chunk [of 0 b 7] drop_chunk [of 7 b 19] drop_step [of 26 b] drop_chunk [of 27 b 32] len
    by simp
  then show "length mpc = 32 \<and> b = p2mr_ret_payload c mpc"
    using chain len unfolding magic tag
    by (simp add: p2mr_ret_payload_def mpc chain_code.dec_Ok_iff)
next
  assume *: "length mpc = 32 \<and> b = p2mr_ret_payload c mpc"
  let ?b = "COMMITMENT_MAGIC @ COMMITMENT_PROTOCOL_TAG @ chain_to_byte c # mpc"
  have "slice_range ?b 0 7 = (Ok COMMITMENT_MAGIC :: bytes rgb_pq_result)"
    and "slice_range ?b 7 26 = (Ok COMMITMENT_PROTOCOL_TAG :: bytes rgb_pq_result)"
    and "idx ?b 26 = (Ok (chain_to_byte c) :: u8 rgb_pq_result)"
    and "slice_range ?b 27 59 = (Ok mpc :: bytes rgb_pq_result)"
    using * by (simp_all add: slice_range_def idx_def nth_append wire_len)
  with * show "decode_p2mr_ret_payload b = Ok (c, mpc)"
    by (simp add: decode_p2mr_ret_payload_def p2mr_ret_payload_def wire_len chain_code.dec_enc)
qed

lemma decode_payload_no_panic: "\<not> panics (decode_p2mr_ret_payload b)"
  unfolding decode_p2mr_ret_payload_def Let_def
  by (intro no_panic chain_code.dec_no_panic) (auto simp: slice_range_def split: if_splits)

text \<open>The stripper without its bound checks: none of them can fail.\<close>

definition opreturn_stripped :: "bytes \<Rightarrow> bytes option" where
  "opreturn_stripped script = (case script of
     x # first # rest \<Rightarrow>
       if x \<noteq> 0x6a then None
       else if first < 0xfd then
         if length rest < unat first then None else Some (take (unat first) rest)
       else if first = 0xfd then (case rest of
           a # b # data \<Rightarrow> let n = unat (u16_from_le_bytes [a, b]) in
             if length data < n then None else Some (take n data)
         | _ \<Rightarrow> None)
       else None
   | _ \<Rightarrow> None)"

lemma opreturn_stripped_None:
  "(script \<noteq> [] \<longrightarrow> hd script \<noteq> 0x6a) \<Longrightarrow> opreturn_stripped script = None"
  by (auto simp: opreturn_stripped_def split: list.split)

lemma strip_opreturn_script_total: "strip_opreturn_script script = Ok (opreturn_stripped script)"
proof (cases script)
  case (Cons x xs)
  show ?thesis
  proof (cases xs)
    case Nil
    with Cons show ?thesis
      by (simp add: strip_opreturn_script_def opreturn_stripped_def slice_from_def)
  next
    case (Cons first rest)
    then show ?thesis unfolding \<open>script = x # xs\<close> Cons
      by (auto simp: strip_opreturn_script_def opreturn_stripped_def slice_from_def idx_def
          slice_range_def Let_def split: list.split)
  qed
qed (simp add: strip_opreturn_script_def opreturn_stripped_def)

definition leaf_commitment :: "placed_leaf \<Rightarrow> (btq_chain_id \<times> mpc_commitment) option" where
  "leaf_commitment leaf = (case opreturn_stripped (leaf_script leaf) of
     None \<Rightarrow> None
   | Some p \<Rightarrow> (case decode_p2mr_ret_payload p of Ok hit \<Rightarrow> Some hit | _ \<Rightarrow> None))"

lemma leaf_commitment_iff:
  "leaf_commitment leaf = Some (c, mpc) \<longleftrightarrow>
     length mpc = 32 \<and> opreturn_stripped (leaf_script leaf) = Some (p2mr_ret_payload c mpc)"
  by (auto simp: leaf_commitment_def decode_payload_iff split: option.splits result.splits)
     (metis decode_payload_iff result.distinct(1,3) result.inject(1) prod.inject)+

lemma find_hits_spec:
  "find_hits s leaves hits = Ok (hits @ List.map_filter (\<lambda>leaf.
     case leaf_commitment leaf of
       Some (c, mpc) \<Rightarrow> if c = chain_id s then Some (leaf, c, mpc) else None
     | None \<Rightarrow> None) leaves)"
proof (induction leaves arbitrary: hits)
  case Nil
  then show ?case by (simp add: List.map_filter_simps)
next
  case (Cons leaf leaves)
  have head: "opreturn_stripped (leaf_script leaf) = None"
    if "\<not> (leaf_script leaf \<noteq> [] \<and> hd (leaf_script leaf) = 0x6a)"
    using that by (auto simp: opreturn_stripped_def split: list.split)
  show ?case
  proof (cases "opreturn_stripped (leaf_script leaf)")
    case None
    with Cons show ?thesis
      by (simp add: strip_opreturn_script_total leaf_commitment_def List.map_filter_simps)
  next
    case (Some p)
    with Cons head decode_payload_no_panic [of p] show ?thesis
      by (cases "decode_p2mr_ret_payload p")
         (auto simp: strip_opreturn_script_total leaf_commitment_def List.map_filter_simps)
  qed
qed

subsection \<open>Verifying a root\<close>

lemma tree_for_seal_simps [simp]:
  "leaf_depth (tree_commitment_leaf (build_p2mr_ret_tree_for_seal L c m pq)) = 1"
  "leaf_script (tree_commitment_leaf (build_p2mr_ret_tree_for_seal L c m pq))
    = commitment_leaf_script c m"
  "tree_root (build_p2mr_ret_tree_for_seal L c m pq)
    = compute_tapbranch_hash L (compute_tapleaf_hash L 0xc0 pq)
        (compute_tapleaf_hash L 0xc0 (commitment_leaf_script c m))"
  by (simp_all add: build_p2mr_ret_tree_for_seal_def build_p2mr_ret_tree_def Let_def
      P2MR_COMMITMENT_LEAF_VERSION_def)

lemma tree_proof_verifies:
  "proof_verify_against L (tree_commitment_proof (build_p2mr_ret_tree L pq v comm))
     (tree_root (build_p2mr_ret_tree L pq v comm))"
  by (simp add: build_p2mr_ret_tree_def proof_verify_against_def Let_def tapbranch.branch_comm)

lemma verify_bounded_Ok_iff:
  assumes "length mpc = 32"
  shows "verify_p2mr_ret_bounded L s mpc pq limits = Ok () \<longleftrightarrow>
    length pq \<le> max_commitment_leaf_size limits \<and> 1 \<le> max_p2mr_tree_depth limits
    \<and> 61 \<le> max_commitment_leaf_size limits
    \<and> p2mr_root s = tree_root (build_p2mr_ret_tree_for_seal L (chain_id s) mpc pq)"
proof -
  let ?t = "build_p2mr_ret_tree_for_seal L (chain_id s) mpc pq"
  have "proof_verify_against L (tree_commitment_proof ?t) (tree_root ?t)"
    unfolding build_p2mr_ret_tree_for_seal_def by (rule tree_proof_verifies)
  moreover have "length (commitment_leaf_script (chain_id s) mpc) = 61"
    by (simp add: commitment_leaf_script_direct wire_len assms)
  moreover have "(ucast (1 :: u8) :: u32) = 1" by simp
  ultimately show ?thesis
    by (auto simp: verify_p2mr_ret_bounded_def and_then_Ok_iff check_ok_iff Let_def
        simp del: tree_for_seal_simps(3))
qed

lemma verify_bounded_no_panic: "\<not> panics (verify_p2mr_ret_bounded L s mpc pq limits)"
  unfolding verify_p2mr_ret_bounded_def Let_def by (intro no_panic)

subsection \<open>Properties\<close>


definition sample_mpc :: mpc_commitment where
  "sample_mpc = 0xb0 # replicate 31 0xa5"

definition sample_p2mr_seal :: btq_p2mr_seal where
  "sample_p2mr_seal = sample_seal\<lparr>p2mr_root := tree_root (build_p2mr_ret_tree_for_seal toy_crates
     BitcoinQuantumRegtest sample_mpc [0x51])\<rparr>"

lemma length_sample_mpc: "length sample_mpc = 32"
  by (simp add: sample_mpc_def)

lemma sample_chain: "chain_id sample_p2mr_seal = BitcoinQuantumRegtest"
  by (simp add: sample_p2mr_seal_def sample_seal_def seal_new_def)

lemma sample_p2mr_verifies:
  "verify_p2mr_ret_bounded toy_crates sample_p2mr_seal sample_mpc [0x51] default_limits = Ok ()"
  by (subst verify_bounded_Ok_iff)
     (simp_all add: length_sample_mpc sample_chain default_limits_def sample_p2mr_seal_def
       sample_seal_def seal_new_def del: tree_for_seal_simps)

text \<open>The toy hash separates the messages of the sample trees by their first byte.\<close>

definition other_mpc :: mpc_commitment where
  "other_mpc = 0xb1 # replicate 31 0xa6"

lemma length_other_mpc: "length other_mpc = 32"
  by (simp add: other_mpc_def)

lemma sample_tree_hds:
  assumes "length mpc = 32" and "0x51 < last mpc" and "m \<in> tree_messages toy_crates [0x51]
    (commitment_leaf_script BitcoinQuantumRegtest mpc)"
  shows "m = leaf_hash_message toy_crates 0xc0 [0x51] \<and> hd (sha256 toy_crates m) = 0x51
    \<or> m = leaf_hash_message toy_crates 0xc0 (commitment_leaf_script BitcoinQuantumRegtest mpc)
      \<and> hd (sha256 toy_crates m) = last mpc
    \<or> m = branch_hash_message toy_crates (compute_tapleaf_hash toy_crates 0xc0 [0x51])
        (compute_tapleaf_hash toy_crates 0xc0 (commitment_leaf_script BitcoinQuantumRegtest mpc))
      \<and> hd (sha256 toy_crates m) = hd mpc"
proof -
  let ?comm = "commitment_leaf_script BitcoinQuantumRegtest mpc"
  let ?a = "compute_tapleaf_hash toy_crates 0xc0 [0x51]"
  let ?b = "compute_tapleaf_hash toy_crates 0xc0 ?comm"
  have comm: "?comm = 0x6a # 59 # COMMITMENT_MAGIC @ COMMITMENT_PROTOCOL_TAG @ 1 # mpc"
    by (simp add: commitment_leaf_script_direct assms(1) p2mr_ret_payload_def)
  have a: "hd ?a = 0x51" and a_ne: "?a \<noteq> []"
    by (simp_all add: compute_tapleaf_hash_def tagged_hash_def tagged_message_def
        tapleaf_message_def toy_sha256_hd last_append)
       (simp add: toy_crates_def toy_sha256_def)
  have "?b = rev mpc"
    by (simp add: compute_tapleaf_hash_def tagged_hash_def tagged_message_def tapleaf_message_def
        comm toy_crates_def toy_sha256_def assms(1))
  moreover have "mpc \<noteq> []" using assms(1) by auto
  ultimately have b: "hd ?b = last mpc" "last ?b = hd mpc" "?b \<noteq> []"
    by (simp_all add: hd_rev last_rev)
  have less: "bytes_less ?a ?b" using a a_ne b assms(2) by (cases ?a; cases ?b) simp_all
  have "hd (sha256 toy_crates (leaf_hash_message toy_crates 0xc0 [0x51])) = 0x51"
    "hd (sha256 toy_crates (leaf_hash_message toy_crates 0xc0 ?comm)) = last mpc"
    using a b(1)
    by (simp_all add: compute_tapleaf_hash_def tagged_hash_def leaf_hash_message_def)
  moreover have "hd (sha256 toy_crates (branch_hash_message toy_crates ?a ?b)) = hd mpc"
    using less b
    by (simp add: toy_sha256_hd branch_hash_message_def tagged_message_def tapbranch_message_def
        last_append)
  ultimately show ?thesis using assms(3) by (auto simp: tree_messages_def)
qed

lemma sample_trees_collision_free:
  "collision_free toy_crates
    (tree_messages toy_crates [0x51] (commitment_leaf_script BitcoinQuantumRegtest sample_mpc)
     \<union> tree_messages toy_crates [0x51] (commitment_leaf_script BitcoinQuantumRegtest other_mpc))"
proof -
  let ?comm = "commitment_leaf_script BitcoinQuantumRegtest" and ?h = "\<lambda>m. hd (sha256 toy_crates m)"
  let ?M = "\<lambda>mpc. tree_messages toy_crates [0x51] (?comm mpc)"
    and ?l = "leaf_hash_message toy_crates 0xc0 [0x51]"
    and ?c = "\<lambda>mpc. leaf_hash_message toy_crates 0xc0 (?comm mpc)"
    and ?b = "\<lambda>mpc. branch_hash_message toy_crates (compute_tapleaf_hash toy_crates 0xc0 [0x51])
      (compute_tapleaf_hash toy_crates 0xc0 (?comm mpc))"
  have ends: "hd sample_mpc = 0xb0" "last sample_mpc = 0xa5" "hd other_mpc = 0xb1" "last other_mpc = 0xa6"
    by (simp_all add: sample_mpc_def other_mpc_def)
  have one: "m = ?l \<and> ?h m = 0x51 \<or> m = ?c sample_mpc \<and> ?h m = 0xa5 \<or> m = ?b sample_mpc \<and> ?h m = 0xb0"
    if "m \<in> ?M sample_mpc" for m
    using sample_tree_hds [OF length_sample_mpc _ that] by (simp add: ends)
  have two: "m = ?l \<and> ?h m = 0x51 \<or> m = ?c other_mpc \<and> ?h m = 0xa6 \<or> m = ?b other_mpc \<and> ?h m = 0xb1"
    if "m \<in> ?M other_mpc" for m
    using sample_tree_hds [OF length_other_mpc _ that] by (simp add: ends)
  have five: "m = ?l \<and> ?h m = 0x51 \<or> m = ?c sample_mpc \<and> ?h m = 0xa5 \<or> m = ?b sample_mpc \<and> ?h m = 0xb0
      \<or> m = ?c other_mpc \<and> ?h m = 0xa6 \<or> m = ?b other_mpc \<and> ?h m = 0xb1"
    if "m \<in> ?M sample_mpc \<union> ?M other_mpc" for m
    using that one two by blast
  show ?thesis unfolding collision_free_def
  proof (rule inj_onI)
    fix m n assume "m \<in> ?M sample_mpc \<union> ?M other_mpc" and "n \<in> ?M sample_mpc \<union> ?M other_mpc"
      and eq: "sha256 toy_crates m = sha256 toy_crates n"
    from five [OF this(1)] five [OF this(2)] eq show "m = n" by (elim disjE conjE) simp_all
  qed
qed


text \<open>C17. A verified root binds the MPC value and the PQ leaf: if two openings of the same seal both
  verify and the first PQ leaf is not itself an \<^verbatim>\<open>OP_RETURN\<close> script, they are the same opening,
  unless the hash collides on the six messages of the two trees.\<close>

theorem p2mr_ret_binding:
  assumes "sha256_ok L"
    and "length mpc = 32" "length mpc' = 32"
    and "verify_p2mr_ret_bounded L s mpc pq limits = Ok ()"
    and "verify_p2mr_ret_bounded L s mpc' pq' limits' = Ok ()"
    and "pq \<noteq> [] \<longrightarrow> hd pq \<noteq> 0x6a"
    and "collision_free L (tree_messages L pq (commitment_leaf_script (chain_id s) mpc)
      \<union> tree_messages L pq' (commitment_leaf_script (chain_id s) mpc'))"
  shows "mpc = mpc' \<and> pq = pq'"
proof -
  have "(pq = pq' \<and> commitment_leaf_script (chain_id s) mpc = commitment_leaf_script (chain_id s) mpc')
    \<or> (pq = commitment_leaf_script (chain_id s) mpc'
      \<and> commitment_leaf_script (chain_id s) mpc = pq')"
    using assms(4,5) two_leaf_root_inject [OF assms(1,7)]
    by (simp add: verify_bounded_Ok_iff assms(2,3))
  then show ?thesis
    using assms(6) by (auto simp: commitment_leaf_script_direct assms(2,3) p2mr_ret_payload_inject)
qed

theorem p2mr_ret_binding_witness:
  "verify_p2mr_ret_bounded toy_crates sample_p2mr_seal sample_mpc [0x51] default_limits = Ok ()
    \<and> verify_p2mr_ret_bounded toy_crates sample_p2mr_seal other_mpc [0x51] default_limits \<noteq> Ok ()"
proof (rule conjI [OF sample_p2mr_verifies], rule notI)
  assume "verify_p2mr_ret_bounded toy_crates sample_p2mr_seal other_mpc [0x51] default_limits = Ok ()"
  then have "sample_mpc = other_mpc \<and> [0x51 :: u8] = [0x51]"
    using sample_trees_collision_free
    by (intro p2mr_ret_binding [OF toy_sha256_ok length_sample_mpc length_other_mpc
        sample_p2mr_verifies]) (simp_all add: sample_chain)
  then show False by (simp add: sample_mpc_def other_mpc_def)
qed

text \<open>Under the default limits no PQ leaf over 256 bytes verifies, whatever the root: the call
  fails with the leaf-size limit. A Dilithium2 \<^verbatim>\<open>CHECKSIG\<close> leaf holds a 1312-byte key, so the
  default verifier rejects every real ownership leaf.\<close>

theorem verify_p2mr_ret_default_rejects_pq_leaf:
  assumes "256 < length pq"
  shows "verify_p2mr_ret L s mpc pq
      = Err (rgb_pq_of_dos (Dos_LeafSizeExceeded (length pq) 256))
    \<and> 256 < pk_len algo"
  using assms by (cases algo)
    (simp_all add: verify_p2mr_ret_def verify_p2mr_ret_bounded_def check_leaf_size_def
      default_limits_def)

theorem verify_p2mr_ret_default_rejects_pq_leaf_witness:
  "verify_p2mr_ret toy_crates sample_seal sample_mpc (replicate 1316 0xbb)
    = Err (rgb_pq_of_dos (Dos_LeafSizeExceeded 1316 256))"
  using verify_p2mr_ret_default_rejects_pq_leaf [of "replicate 1316 0xbb" toy_crates sample_seal
      sample_mpc Dilithium2]
  by simp

text \<open>The commitment payload of a tree leaf has an exact codec: 59 bytes, accepted exactly when
  built for some chain and 32-byte MPC value, and decoding never panics.\<close>

theorem p2mr_ret_payload_exact:
  "(decode_p2mr_ret_payload b = Ok (c, mpc) \<longleftrightarrow> length mpc = 32 \<and> b = p2mr_ret_payload c mpc)
    \<and> \<not> panics (decode_p2mr_ret_payload b)"
  by (rule conjI [OF decode_payload_iff decode_payload_no_panic])

text \<open>Searching a tree's leaves finds the commitment that was built into it: for every leaf list
  in which one leaf is the commitment leaf of the seal's chain and no other leaf is an
  \<^verbatim>\<open>OP_RETURN\<close> script, the search returns that chain and MPC value.\<close>

theorem find_commitment_in_built_tree:
  assumes "length mpc = 32"
    and "\<forall>leaf \<in> set (before @ after). leaf_script leaf \<noteq> [] \<longrightarrow> hd (leaf_script leaf) \<noteq> 0x6a"
  shows "find_commitment_in_tree s
    (before @ tree_commitment_leaf (build_p2mr_ret_tree_for_seal L (chain_id s) mpc pq) # after) root
    = Ok (Some (chain_id s, mpc))"
proof -
  have other: "leaf_commitment leaf = None" if "leaf \<in> set (before @ after)" for leaf
    using assms(2) that by (simp add: leaf_commitment_def opreturn_stripped_None)
  have none: "List.map_filter (\<lambda>leaf. case leaf_commitment leaf of
       Some (c, mpc) \<Rightarrow> if c = chain_id s then Some (leaf, c, mpc) else None
     | None \<Rightarrow> None) leaves = []" if "set leaves \<subseteq> set (before @ after)" for leaves
    using that by (induction leaves) (simp_all add: List.map_filter_simps other)
  let ?leaf = "tree_commitment_leaf (build_p2mr_ret_tree_for_seal L (chain_id s) mpc pq)"
  have "leaf_commitment ?leaf = Some (chain_id s, mpc)"
    by (simp add: leaf_commitment_iff commitment_leaf_script_direct opreturn_stripped_def assms(1)
        wire_len)
  then show ?thesis
    using none [of before] none [of after]
    by (simp add: find_commitment_in_tree_def find_hits_spec List.map_filter_def)
qed

theorem find_commitment_in_built_tree_witness:
  "find_commitment_in_tree sample_p2mr_seal
    [tree_pq_leaf (build_p2mr_ret_tree toy_crates [0x51] 0xc0 []),
     tree_commitment_leaf (build_p2mr_ret_tree_for_seal toy_crates (chain_id sample_p2mr_seal)
       sample_mpc [0x51])] (p2mr_root sample_p2mr_seal)
    = Ok (Some (chain_id sample_p2mr_seal, sample_mpc))"
  using find_commitment_in_built_tree [OF length_sample_mpc,
      of "[tree_pq_leaf (build_p2mr_ret_tree toy_crates [0x51] 0xc0 [])]" "[]"
        sample_p2mr_seal toy_crates "[0x51]" "p2mr_root sample_p2mr_seal"]
  by (simp add: build_p2mr_ret_tree_def Let_def)

text \<open>C9. The search in a tree's leaves is exact: it returns nothing, the one commitment or a duplicate
  error as none, one or more of the leaves are commitment leaves for the seal's chain, wherever they
  stand; a leaf is one for a chain and MPC value exactly if the stripped script is their payload, and
  the leaf built for a chain and a 32-byte MPC value is one. The root is not looked at, so the leaves
  need not belong to it.\<close>

theorem find_commitment_in_tree_exact:
  "find_commitment_in_tree s leaves root
      = (case filter (\<lambda>leaf. map_option fst (leaf_commitment leaf) = Some (chain_id s)) leaves of
           [] \<Rightarrow> Ok None | [leaf] \<Rightarrow> Ok (leaf_commitment leaf)
         | _ \<Rightarrow> Err (RgbPq_Commitment (CM_Duplicate ''multiple commitment leaves'')))
    \<and> (leaf_commitment leaf = Some (c, mpc) \<longleftrightarrow>
        length mpc = 32 \<and> opreturn_stripped (leaf_script leaf) = Some (p2mr_ret_payload c mpc))
    \<and> (length mpc = 32 \<longrightarrow>
        leaf_commitment (tree_commitment_leaf (build_p2mr_ret_tree_for_seal L c mpc pq)) = Some (c, mpc))"
proof (intro conjI impI)
  let ?hit = "\<lambda>leaf. case leaf_commitment leaf of
      Some (c, mpc) \<Rightarrow> if c = chain_id s then Some (leaf, c, mpc) else None | None \<Rightarrow> None"
  let ?ours = "\<lambda>leaf. map_option fst (leaf_commitment leaf) = Some (chain_id s)"
  have hits: "List.map_filter ?hit leaves
      = map (\<lambda>leaf. (leaf, the (leaf_commitment leaf))) (filter ?ours leaves)"
    by (induction leaves) (auto simp: List.map_filter_simps split: option.splits)
  have "leaf_commitment leaf = Some (the (leaf_commitment leaf))" if "filter ?ours leaves = [leaf]" for leaf
  proof -
    have "leaf \<in> set (filter ?ours leaves)" using that by (metis list.set_intros(1))
    then show ?thesis by auto
  qed
  then show "find_commitment_in_tree s leaves root = (case filter ?ours leaves of
      [] \<Rightarrow> Ok None | [leaf] \<Rightarrow> Ok (leaf_commitment leaf)
    | _ \<Rightarrow> Err (RgbPq_Commitment (CM_Duplicate ''multiple commitment leaves'')))"
    by (auto simp: find_commitment_in_tree_def find_hits_spec hits split: list.split)
  show "leaf_commitment leaf = Some (c, mpc) \<longleftrightarrow>
      length mpc = 32 \<and> opreturn_stripped (leaf_script leaf) = Some (p2mr_ret_payload c mpc)"
    by (rule leaf_commitment_iff)
  assume "length mpc = 32"
  then show "leaf_commitment (tree_commitment_leaf (build_p2mr_ret_tree_for_seal L c mpc pq)) = Some (c, mpc)"
    by (simp add: leaf_commitment_iff commitment_leaf_script_direct opreturn_stripped_def wire_len)
qed

theorem find_commitment_in_tree_exact_witness:
  "\<exists>leaf. find_commitment_in_tree sample_p2mr_seal [leaf] []
      = Ok (Some (chain_id sample_p2mr_seal, sample_mpc))
    \<and> find_commitment_in_tree sample_p2mr_seal [leaf, leaf] []
      = Err (RgbPq_Commitment (CM_Duplicate ''multiple commitment leaves''))"
proof -
  obtain leaf where leaf: "leaf_commitment leaf = Some (chain_id sample_p2mr_seal, sample_mpc)"
    using find_commitment_in_tree_exact length_sample_mpc by blast
  then show ?thesis
    using find_commitment_in_tree_exact [of sample_p2mr_seal "[leaf]" "[]", THEN conjunct1]
      find_commitment_in_tree_exact [of sample_p2mr_seal "[leaf, leaf]" "[]", THEN conjunct1]
    by (intro exI [of _ leaf]) simp
qed

text \<open>The leaf stripper reads the byte after \<^verbatim>\<open>OP_RETURN\<close> as a CompactSize, not as a push
  opcode: on a script with \<^verbatim>\<open>OP_PUSHDATA1\<close> it takes 0x4c for the length 76, and gives nothing (a
  payload under 75 bytes) or the length byte with the first 75 bytes, where the scan of OP_RETURN
  outputs reads the payload from the same script. (The comment says PUSHDATA1 is handled.)\<close>

theorem strip_opreturn_misreads_pushdata1:
  assumes "length p \<le> 255"
  shows "strip_op_return (pushdata1_script p) = (Ok (Some p) :: bytes option rgb_pq_result)
    \<and> strip_opreturn_script (pushdata1_script p)
      = (Ok (if length p < 75 then None else Some (of_nat (length p) # take 75 p))
          :: bytes option rgb_pq_result)"
proof -
  have "stripped (pushdata1_script p) = Some p"
    using assms by (simp add: stripped_iff opret_push_def pushdata1_script_def)
  then show ?thesis
    by (simp add: strip_op_return_total strip_opreturn_script_total opreturn_stripped_def
        pushdata1_script_def)
qed

theorem strip_opreturn_misreads_pushdata1_witness:
  "strip_opreturn_script (pushdata1_script (replicate 59 7))
    \<noteq> (Ok (Some (replicate 59 7)) :: bytes option rgb_pq_result)"
  using strip_opreturn_misreads_pushdata1 [of "replicate 59 7"] by simp

end
