(* ===== verification/Multi.thy ===== *)
theory Multi
  imports P2mr_Ret
begin

section \<open>Several commitments in one tree (\<open>crates/rgb-pq-commit/src/multi.rs\<close>)\<close>

text \<open>
  The multi-protocol tree: the PQ leaf with the first commitment leaf, and every further
  commitment leaf hung on top, \<^verbatim>\<open>Branch(Branch(pq, c0), c1)\<close> and so on. The root is the fold of
  the branch hash, so inclusion proofs come from \<open>symmetric_branch\<close>.
\<close>

record multi_tree =
  multi_pq_leaf :: placed_leaf
  multi_leaves :: "placed_leaf list"
  multi_root :: node_hash

text \<open>The loop \<^verbatim>\<open>for (i, leaf) in leaves.iter_mut().enumerate()\<close>; \<^verbatim>\<open>(1 + i) as u8\<close> wraps.\<close>

fun set_depths :: "usize \<Rightarrow> placed_leaf list \<Rightarrow> placed_leaf list" where
  "set_depths i [] = []"
| "set_depths i (leaf # leaves) = leaf\<lparr>leaf_depth := of_nat (1 + i)\<rparr> # set_depths (Suc i) leaves"

definition build_multi_protocol_tree ::
  "crates \<Rightarrow> bytes \<Rightarrow> bytes list \<Rightarrow> multi_tree rgb_pq_result" where
  "build_multi_protocol_tree L pq_script comm_scripts =
     (if comm_scripts = []
      then Err (commitment_malformed ''multi-protocol tree needs at least one commitment leaf'')
      else
      let pq_leaf = \<lparr>leaf_depth = 1, leaf_version = P2MR_COMMITMENT_LEAF_VERSION,
            leaf_script = pq_script\<rparr>;
          leaves = map (\<lambda>s. \<lparr>leaf_depth = 1, leaf_version = P2MR_COMMITMENT_LEAF_VERSION,
            leaf_script = s\<rparr>) comm_scripts;
          pq_hash = compute_tapleaf_hash L (leaf_version pq_leaf) (leaf_script pq_leaf);
          hashes = map (\<lambda>l. compute_tapleaf_hash L (leaf_version l) (leaf_script l)) leaves
      in and_then (idx hashes 0) (\<lambda>h0.
      let root = compute_tapbranch_hash L pq_hash h0;
          root = foldl (compute_tapbranch_hash L) root (drop 1 hashes)
      in Ok \<lparr>multi_pq_leaf = pq_leaf, multi_leaves = set_depths 0 leaves, multi_root = root\<rparr>))"

definition multi_protocol_commitment_leaf :: "btq_chain_id \<Rightarrow> mpc_commitment \<Rightarrow> u8 \<Rightarrow> bytes" where
  "multi_protocol_commitment_leaf chain mpc protocol_index =
     (let payload = p2mr_ret_payload chain mpc in
      [0x6a, 0x01, protocol_index]
        @ (if length payload \<le> 0x4b then [of_nat (length payload)]
           else [0x4c, of_nat (length payload)])
        @ payload)"

definition verify_multi_protocol_commitment ::
  "crates \<Rightarrow> node_hash \<Rightarrow> bytes \<Rightarrow> bytes list \<Rightarrow> unit rgb_pq_result" where
  "verify_multi_protocol_commitment L root pq_script comm_scripts =
     and_then (build_multi_protocol_tree L pq_script comm_scripts) (\<lambda>tree.
      if multi_root tree \<noteq> root
      then Err (commitment_malformed (''multi-protocol root mismatch: expected=''
        @ hex_encode L root @ '' got='' @ hex_encode L (multi_root tree)))
      else Ok ())"

subsection \<open>The root and the paths to it\<close>

definition multi_leaf_hash :: "crates \<Rightarrow> bytes \<Rightarrow> node_hash" where
  "multi_leaf_hash L s = compute_tapleaf_hash L P2MR_COMMITMENT_LEAF_VERSION s"

definition multi_root_of :: "crates \<Rightarrow> bytes \<Rightarrow> bytes list \<Rightarrow> node_hash" where
  "multi_root_of L pq comms =
     foldl (compute_tapbranch_hash L) (multi_leaf_hash L pq) (map (multi_leaf_hash L) comms)"

lemma length_set_depths [simp]: "length (set_depths i leaves) = length leaves"
  by (induction leaves arbitrary: i) simp_all

lemma set_depths_nth:
  "k < length leaves \<Longrightarrow> set_depths i leaves ! k = (leaves ! k)\<lparr>leaf_depth := of_nat (1 + i + k)\<rparr>"
  by (induction leaves arbitrary: i k) (simp_all add: nth_Cons' )

lemma build_multi_ok:
  assumes "comms \<noteq> []"
  shows "\<exists>t. build_multi_protocol_tree L pq comms = Ok t \<and> multi_root t = multi_root_of L pq comms
    \<and> multi_pq_leaf t = \<lparr>leaf_depth = 1, leaf_version = P2MR_COMMITMENT_LEAF_VERSION, leaf_script = pq\<rparr>
    \<and> length (multi_leaves t) = length comms
    \<and> (\<forall>i < length comms. multi_leaves t ! i = \<lparr>leaf_depth = of_nat (1 + i),
        leaf_version = P2MR_COMMITMENT_LEAF_VERSION, leaf_script = comms ! i\<rparr>)"
  using assms
  by (cases comms)
     (simp_all add: build_multi_protocol_tree_def Let_def idx_def multi_root_of_def
       multi_leaf_hash_def [abs_def] comp_def set_depths_nth nth_Cons' del: set_depths.simps)

lemma verify_multi_iff:
  "verify_multi_protocol_commitment L root pq comms = Ok () \<longleftrightarrow>
    comms \<noteq> [] \<and> root = multi_root_of L pq comms"
proof (cases "comms = []")
  case True
  then show ?thesis
    by (simp add: verify_multi_protocol_commitment_def build_multi_protocol_tree_def)
next
  case False
  from build_multi_ok [OF this, of L pq] show ?thesis
    using False by (auto simp: verify_multi_protocol_commitment_def split: if_splits)
qed

text \<open>The proof of the leaf at position \<open>i\<close>, and of the PQ leaf, which lies deepest.\<close>

definition multi_proof :: "crates \<Rightarrow> multi_tree \<Rightarrow> bytes \<Rightarrow> bytes list \<Rightarrow> nat \<Rightarrow> p2mr_ret_proof" where
  "multi_proof L t pq comms i = \<lparr>proof_leaf = multi_leaves t ! i,
     proof_branch = comb_path (compute_tapbranch_hash L) (multi_leaf_hash L pq)
       (map (multi_leaf_hash L) comms) i\<rparr>"

definition multi_pq_proof :: "crates \<Rightarrow> multi_tree \<Rightarrow> bytes list \<Rightarrow> p2mr_ret_proof" where
  "multi_pq_proof L t comms = \<lparr>proof_leaf = multi_pq_leaf t,
     proof_branch = map (multi_leaf_hash L) comms\<rparr>"

lemma multi_proof_verifies:
  assumes "comms \<noteq> []" "i < length comms"
  shows "\<exists>t. build_multi_protocol_tree L pq comms = Ok t
    \<and> proof_verify_against L (multi_proof L t pq comms i) (multi_root t)"
proof -
  from build_multi_ok [OF assms(1), of L pq] assms(2) obtain t where
    t: "build_multi_protocol_tree L pq comms = Ok t" "multi_root t = multi_root_of L pq comms"
      "multi_leaves t ! i = \<lparr>leaf_depth = of_nat (1 + i),
        leaf_version = P2MR_COMMITMENT_LEAF_VERSION, leaf_script = comms ! i\<rparr>"
    by blast
  have "foldl (compute_tapbranch_hash L) (map (multi_leaf_hash L) comms ! i)
      (comb_path (compute_tapbranch_hash L) (multi_leaf_hash L pq) (map (multi_leaf_hash L) comms) i)
    = multi_root t"
    unfolding t(2) multi_root_of_def by (rule tapbranch.comb_path_root) (simp add: assms(2))
  then have "proof_verify_against L (multi_proof L t pq comms i) (multi_root t)"
    using assms(2) by (simp add: proof_verify_against_def multi_proof_def t(3) multi_leaf_hash_def)
  with t(1) show ?thesis by blast
qed

lemma multi_leaf_direct:
  "length mpc = 32 \<Longrightarrow>
    multi_protocol_commitment_leaf c mpc i = 0x6a # 0x01 # i # 59 # p2mr_ret_payload c mpc"
  by (simp add: multi_protocol_commitment_leaf_def wire_len Let_def)

subsection \<open>Properties\<close>

text \<open>C29. Every leaf of a multi-protocol tree is included in its root: for each position \<open>i\<close> of \<open>n\<close>
  commitment leaves there is a path of \<open>n - i\<close> siblings whose proof verifies, and for the PQ leaf one
  of \<open>n\<close>. The depth the tree records is \<open>1 + i\<close> (modulo 256) for the commitment leaf at \<open>i\<close> and 1
  for the PQ leaf, so the records are not the true depths: with two commitments the PQ leaf and the
  commitment leaves have the recorded depths 1, 1, 2 and lie at the depths 2, 2, 1.\<close>

theorem multi_leaf_included:
  assumes "i < length comms"
  shows "\<exists>t. build_multi_protocol_tree L pq comms = Ok t
    \<and> proof_verify_against L (multi_proof L t pq comms i) (multi_root t)
    \<and> length (proof_branch (multi_proof L t pq comms i)) = length comms - i
    \<and> leaf_script (multi_leaves t ! i) = comms ! i
    \<and> leaf_depth (multi_leaves t ! i) = of_nat (1 + i)
    \<and> proof_verify_against L (multi_pq_proof L t comms) (multi_root t)
    \<and> length (proof_branch (multi_pq_proof L t comms)) = length comms
    \<and> leaf_script (multi_pq_leaf t) = pq \<and> leaf_depth (multi_pq_leaf t) = 1"
proof -
  from assms have "comms \<noteq> []" by auto
  from multi_proof_verifies [OF this assms, of L pq] build_multi_ok [OF this, of L pq] assms
  show ?thesis by (auto simp: multi_proof_def length_comb_path multi_pq_proof_def
      proof_verify_against_def multi_root_of_def multi_leaf_hash_def)
qed

theorem multi_leaf_included_witness:
  "\<exists>t. build_multi_protocol_tree toy_crates [0x51] [[0x6a, 1, 0], [0x6a, 1, 1]] = Ok t
    \<and> length (proof_branch (multi_proof toy_crates t [0x51] [[0x6a, 1, 0], [0x6a, 1, 1]] 1)) = 1
    \<and> leaf_depth (multi_leaves t ! 1) = 2
    \<and> length (proof_branch (multi_pq_proof toy_crates t [[0x6a, 1, 0], [0x6a, 1, 1]])) = 2
    \<and> leaf_depth (multi_pq_leaf t) = 1"
  using multi_leaf_included [of 1 "[[0x6a, 1, 0], [0x6a, 1, 1]]" toy_crates "[0x51]"] by auto

text \<open>Verification of a multi-protocol root is exact: it accepts the fold of the branch hash over
  the PQ leaf and the commitment leaves in order, rejects an empty list, and with one commitment
  leaf the root is that of the standard two-leaf tree.\<close>

theorem verify_multi_protocol_iff:
  "(verify_multi_protocol_commitment L root pq comms = Ok () \<longleftrightarrow>
      comms \<noteq> [] \<and> root = multi_root_of L pq comms)
    \<and> multi_root_of L pq [comm]
      = tree_root (build_p2mr_ret_tree L pq P2MR_COMMITMENT_LEAF_VERSION comm)"
  by (simp add: verify_multi_iff)
     (simp add: multi_root_of_def multi_leaf_hash_def build_p2mr_ret_tree_def Let_def)

text \<open>The leaf of a multi-protocol tree determines chain, MPC value and protocol index.\<close>

theorem multi_leaf_domain_separation:
  assumes "length m = 32" "length n = 32"
  shows "multi_protocol_commitment_leaf c m i = multi_protocol_commitment_leaf d n j
    \<longleftrightarrow> c = d \<and> m = n \<and> i = j"
  using assms by (auto simp: multi_leaf_direct p2mr_ret_payload_inject)

theorem multi_leaf_domain_separation_witness:
  "multi_protocol_commitment_leaf BitcoinQuantumRegtest sample_mpc 0
    \<noteq> multi_protocol_commitment_leaf BitcoinQuantumRegtest sample_mpc 1"
  using multi_leaf_domain_separation [OF length_sample_mpc length_sample_mpc,
      of BitcoinQuantumRegtest 0 BitcoinQuantumRegtest 1] by simp

text \<open>The search for a commitment in a tree's leaves does not see multi-protocol leaves: it reads
  the one-byte push of the protocol index as the payload, so a list of such leaves gives no
  commitment, whatever chain and MPC values they carry.\<close>

theorem multi_leaves_not_found:
  assumes "\<forall>leaf \<in> set leaves. \<exists>c mpc i. length mpc = 32
    \<and> leaf_script leaf = multi_protocol_commitment_leaf c mpc i"
  shows "find_commitment_in_tree s leaves root = Ok None"
proof -
  have leaf: "leaf_commitment leaf = None" if "leaf \<in> set leaves" for leaf
  proof -
    from assms that obtain c mpc i where "length mpc = 32"
        "leaf_script leaf = multi_protocol_commitment_leaf c mpc i" by blast
    then have "opreturn_stripped (leaf_script leaf) = Some [i]"
      by (simp add: multi_leaf_direct opreturn_stripped_def)
    then show ?thesis
      by (simp add: leaf_commitment_def decode_p2mr_ret_payload_def)
  qed
  have "find_hits s leaves [] = Ok []"
    unfolding find_hits_spec using leaf
    by (induction leaves) (simp_all add: List.map_filter_simps)
  then show ?thesis by (simp add: find_commitment_in_tree_def)
qed

theorem multi_leaves_not_found_witness:
  "find_commitment_in_tree sample_seal [\<lparr>leaf_depth = 1, leaf_version = 0xc0,
     leaf_script = multi_protocol_commitment_leaf BitcoinQuantumRegtest sample_mpc 0\<rparr>] []
    = Ok None"
  by (rule multi_leaves_not_found) (use length_sample_mpc in auto)

end
