(* ===== verification/Chain.thy ===== *)
theory Chain
  imports Seal
begin

section \<open>Chain data, backend and connection settings
  (\<open>crates/rgb-pq-chain/src/backend.rs\<close>, \<open>network.rs\<close>)\<close>

text \<open>
  The data every component exchanges about the chain, the backend trait as a record of its
  methods, and the connection configuration. A method that talks to a node reads and changes the
  world: it is a function from a world \<open>'w\<close> to a result and the next world, so that calls made
  one after the other may see different chains.
\<close>

record chain_tip =
  tip_height :: u32
  tip_hash :: string

datatype tx_status =
    Confirmed (st_height: u32) (st_block_hash: string) (st_confirmations: u32) (st_time: i64)
  | Unconfirmed

fun confirmations :: "tx_status \<Rightarrow> u32" where
  "confirmations (Confirmed height block_hash confs time) = confs"
| "confirmations Unconfirmed = 0"

record btq_tx =
  tx_txid :: string
  tx_raw :: bytes
  tx_status :: tx_status

record btq_tx_out =
  to_outpoint :: btq_outpoint
  to_value :: u64
  to_script_pubkey :: bytes
  to_spent :: bool

record btq_inclusion_proof =
  ip_txid :: string
  ip_block_hash :: string
  ip_proof_hex :: string

type_synonym ('w, 'a) io = "'w \<Rightarrow> 'a rgb_pq_result \<times> 'w"

definition io_return :: "'a \<Rightarrow> ('w, 'a) io" where
  "io_return x = (\<lambda>w. (Ok x, w))"

definition io_result :: "'a rgb_pq_result \<Rightarrow> ('w, 'a) io" where
  "io_result r = (\<lambda>w. (r, w))"

text \<open>\<^verbatim>\<open>?\<close> on a call.\<close>

definition io_bind :: "('w, 'a) io \<Rightarrow> ('a \<Rightarrow> ('w, 'b) io) \<Rightarrow> ('w, 'b) io" where
  "io_bind m f = (\<lambda>w. case m w of
     (Ok x, w') \<Rightarrow> f x w'
   | (Err e, w') \<Rightarrow> (Err e, w')
   | (Panic, w') \<Rightarrow> (Panic, w'))"

lemma io_bind_simps [simp]:
  "m w = (Ok x, w') \<Longrightarrow> io_bind m f w = f x w'"
  "m w = (Err e, w') \<Longrightarrow> io_bind m f w = (Err e, w')"
  "m w = (Panic, w') \<Longrightarrow> io_bind m f w = (Panic, w')"
  by (simp_all add: io_bind_def)

text \<open>The trait; \<^verbatim>\<open>broadcast_tx\<close> has the default body below.\<close>

record 'w btq_chain_backend =
  be_network_id :: btq_chain_id
  be_current_tip :: "('w, chain_tip) io"
  be_get_tx :: "string \<Rightarrow> ('w, btq_tx option) io"
  be_get_tx_status :: "string \<Rightarrow> ('w, tx_status) io"
  be_get_output :: "btq_outpoint \<Rightarrow> ('w, btq_tx_out option) io"
  be_get_spending_tx :: "btq_outpoint \<Rightarrow> ('w, btq_tx option) io"
  be_prove_tx_inclusion :: "string \<Rightarrow> ('w, btq_inclusion_proof) io"
  be_confirmation_depth :: "string \<Rightarrow> ('w, u32 option) io"
  be_broadcast_tx :: "string \<Rightarrow> ('w, string) io"

definition default_broadcast_tx :: "string \<Rightarrow> ('w, string) io" where
  "default_broadcast_tx raw_hex =
     io_result (Err (RgbPq_Resolve (RE_Feature (BF_RpcMethodUnsupported ''broadcast_tx''))))"

definition node_unavailable :: "string \<Rightarrow> resolve_error" where
  "node_unavailable detail = RE_NodeUnavailable (NodeUnavailable detail)"

subsection \<open>Connection settings\<close>

datatype btq_auth = NoAuth | UserPass (auth_user: string) (auth_pass: string)

record btq_rpc_config =
  cfg_chain :: btq_chain_id
  cfg_url :: string
  cfg_auth :: btq_auth
  cfg_timeout_secs :: "u64 option"
  cfg_retries :: "u32 option"
  cfg_wallet :: "string option"

definition local_regtest :: "string \<Rightarrow> string \<Rightarrow> u16 \<Rightarrow> btq_rpc_config" where
  "local_regtest rpc_user rpc_pass port = \<lparr>cfg_chain = BitcoinQuantumRegtest,
     cfg_url = ''http://127.0.0.1:'' @ fmt_nat (unat port),
     cfg_auth = UserPass rpc_user rpc_pass,
     cfg_timeout_secs = None, cfg_retries = None, cfg_wallet = None\<rparr>"

definition local_testnet :: "string \<Rightarrow> string \<Rightarrow> u16 \<Rightarrow> btq_rpc_config" where
  "local_testnet rpc_user rpc_pass port = \<lparr>cfg_chain = BitcoinQuantumTestnet,
     cfg_url = ''http://127.0.0.1:'' @ fmt_nat (unat port),
     cfg_auth = UserPass rpc_user rpc_pass,
     cfg_timeout_secs = None, cfg_retries = None, cfg_wallet = None\<rparr>"

fun btq_chain_name :: "btq_chain_id \<Rightarrow> string" where
  "btq_chain_name BitcoinQuantumRegtest = ''regtest''"
| "btq_chain_name BitcoinQuantumTestnet = ''test''"

end
