(* ===== verification/Indexer.thy ===== *)
theory Indexer
  imports Chain
begin

section \<open>The indexer (\<open>crates/rgb-pq-chain/src/indexer.rs\<close>)\<close>

text \<open>
  The trait \<^verbatim>\<open>Indexer\<close> is the record \<open>indexer\<close> of its methods, over the state \<open>'s\<close> of an
  implementation. \<open>index_step\<close> says what each method does to the tip and to the facts about each
  outpoint; the locale \<open>indexer_laws\<close> states that an implementation refines it, is interpreted
  for the in-memory and for the SQLite indexer, and gives their agreement on every sequence of
  operations.

  The SQL statements are translated to their effect on the two tables. Whether a statement fails
  (a third-party matter) is the parameter \<open>db_err\<close>: the error text of a statement on a database,
  if it fails there; a failing statement leaves the tables as they are.
\<close>

record indexed_outpoint =
  ix_output :: "btq_tx_out option"
  ix_spending_txid :: "string option"
  ix_spending_confirmations :: u32

definition indexed_default :: indexed_outpoint where
  "indexed_default = \<lparr>ix_output = None, ix_spending_txid = None, ix_spending_confirmations = 0\<rparr>"

record 's indexer =
  idx_tip :: "'s \<Rightarrow> chain_tip"
  idx_watch :: "'s \<Rightarrow> btq_outpoint \<Rightarrow> unit rgb_pq_result \<times> 's"
  idx_record_output :: "'s \<Rightarrow> btq_outpoint \<Rightarrow> btq_tx_out \<Rightarrow> unit rgb_pq_result \<times> 's"
  idx_record_spend :: "'s \<Rightarrow> btq_outpoint \<Rightarrow> btq_tx \<Rightarrow> unit rgb_pq_result \<times> 's"
  idx_update_confirmations :: "'s \<Rightarrow> btq_outpoint \<Rightarrow> u32 \<Rightarrow> unit rgb_pq_result \<times> 's"
  idx_get :: "'s \<Rightarrow> btq_outpoint \<Rightarrow> indexed_outpoint option"
  idx_rollback :: "'s \<Rightarrow> u32 \<Rightarrow> unit rgb_pq_result \<times> 's"
  idx_rescan_from :: "'s \<Rightarrow> u32 \<Rightarrow> unit rgb_pq_result \<times> 's"
  idx_set_tip :: "'s \<Rightarrow> chain_tip \<Rightarrow> 's"

record entry =
  view :: indexed_outpoint
  spend_height :: "u32 option"

definition entry_default :: entry where
  "entry_default = \<lparr>view = indexed_default, spend_height = None\<rparr>"

definition entry_key :: "btq_outpoint \<Rightarrow> string" where
  "entry_key o' = txid_to_string (op_txid o') @ '':'' @ fmt_nat (unat (op_vout o'))"

subsection \<open>The in-memory indexer\<close>

record mem_indexer =
  mem_height :: u32
  mem_tip_hash :: string
  mem_entries :: "string \<rightharpoonup> entry"

definition mem_new :: mem_indexer where
  "mem_new = \<lparr>mem_height = 0, mem_tip_hash = [], mem_entries = Map.empty\<rparr>"

text \<open>\<^verbatim>\<open>entry(key).or_default()\<close> followed by an update through the reference.\<close>

definition or_default :: "entry option \<Rightarrow> entry" where
  "or_default e = (case e of Some e \<Rightarrow> e | None \<Rightarrow> entry_default)"

definition mem_modify :: "mem_indexer \<Rightarrow> btq_outpoint \<Rightarrow> (entry \<Rightarrow> entry) \<Rightarrow> mem_indexer" where
  "mem_modify m o' f = m\<lparr>mem_entries := (mem_entries m)(entry_key o' \<mapsto>
     f (or_default (mem_entries m (entry_key o'))))\<rparr>"

definition mem_tip :: "mem_indexer \<Rightarrow> chain_tip" where
  "mem_tip m = \<lparr>tip_height = mem_height m, tip_hash = mem_tip_hash m\<rparr>"

definition mem_watch :: "mem_indexer \<Rightarrow> btq_outpoint \<Rightarrow> unit rgb_pq_result \<times> mem_indexer" where
  "mem_watch m o' = (Ok (), mem_modify m o' (\<lambda>e. e))"

definition mem_record_output ::
  "mem_indexer \<Rightarrow> btq_outpoint \<Rightarrow> btq_tx_out \<Rightarrow> unit rgb_pq_result \<times> mem_indexer" where
  "mem_record_output m o' out =
     (Ok (), mem_modify m o' (\<lambda>e. e\<lparr>view := (view e)\<lparr>ix_output := Some out\<rparr>\<rparr>))"

definition mem_record_spend ::
  "mem_indexer \<Rightarrow> btq_outpoint \<Rightarrow> btq_tx \<Rightarrow> unit rgb_pq_result \<times> mem_indexer" where
  "mem_record_spend m o' tx = (Ok (), mem_modify m o' (\<lambda>e.
     e\<lparr>view := (view e)\<lparr>ix_spending_txid := Some (tx_txid tx),
         ix_spending_confirmations := confirmations (tx_status tx)\<rparr>,
       spend_height := Some (mem_height m)\<rparr>))"

definition mem_update_confirmations ::
  "mem_indexer \<Rightarrow> btq_outpoint \<Rightarrow> u32 \<Rightarrow> unit rgb_pq_result \<times> mem_indexer" where
  "mem_update_confirmations m o' depth =
     (Ok (), mem_modify m o' (\<lambda>e. e\<lparr>view := (view e)\<lparr>ix_spending_confirmations := depth\<rparr>\<rparr>))"

definition mem_get :: "mem_indexer \<Rightarrow> btq_outpoint \<Rightarrow> indexed_outpoint option" where
  "mem_get m o' = map_option view (mem_entries m (entry_key o'))"

text \<open>The bodies of the two loops over \<^verbatim>\<open>values_mut()\<close>.\<close>

definition rollback_entry :: "u32 \<Rightarrow> entry \<Rightarrow> entry" where
  "rollback_entry to_height e = (case spend_height e of
     Some h \<Rightarrow> if h > to_height
       then e\<lparr>view := (view e)\<lparr>ix_spending_txid := None, ix_spending_confirmations := 0\<rparr>,
              spend_height := None\<rparr>
       else e
   | None \<Rightarrow> e)"

definition rescan_entry :: "u32 \<Rightarrow> entry \<Rightarrow> entry" where
  "rescan_entry from_height e = (case spend_height e of
     Some h \<Rightarrow> if h \<ge> from_height
       then e\<lparr>view := (view e)\<lparr>ix_spending_confirmations := 0\<rparr>\<rparr> else e
   | None \<Rightarrow> e)"

definition mem_rollback :: "mem_indexer \<Rightarrow> u32 \<Rightarrow> unit rgb_pq_result \<times> mem_indexer" where
  "mem_rollback m to_height = (Ok (),
     m\<lparr>mem_entries := map_option (rollback_entry to_height) \<circ> mem_entries m,
       mem_height := to_height\<rparr>)"

definition mem_rescan_from :: "mem_indexer \<Rightarrow> u32 \<Rightarrow> unit rgb_pq_result \<times> mem_indexer" where
  "mem_rescan_from m from_height = (Ok (),
     m\<lparr>mem_entries := map_option (rescan_entry from_height) \<circ> mem_entries m\<rparr>)"

definition mem_set_tip :: "mem_indexer \<Rightarrow> chain_tip \<Rightarrow> mem_indexer" where
  "mem_set_tip m t = m\<lparr>mem_height := tip_height t, mem_tip_hash := tip_hash t\<rparr>"

definition mem_len :: "mem_indexer \<Rightarrow> nat" where
  "mem_len m = card (dom (mem_entries m))"

definition mem_is_empty :: "mem_indexer \<Rightarrow> bool" where
  "mem_is_empty m \<longleftrightarrow> dom (mem_entries m) = {}"

definition mem_indexer_ops :: "mem_indexer indexer" where
  "mem_indexer_ops = \<lparr>idx_tip = mem_tip, idx_watch = mem_watch,
     idx_record_output = mem_record_output, idx_record_spend = mem_record_spend,
     idx_update_confirmations = mem_update_confirmations, idx_get = mem_get,
     idx_rollback = mem_rollback, idx_rescan_from = mem_rescan_from, idx_set_tip = mem_set_tip\<rparr>"

subsection \<open>The SQLite indexer\<close>

text \<open>A row of the table \<^verbatim>\<open>outpoints\<close>, keyed by \<^verbatim>\<open>k\<close>; INTEGER columns are integers, a nullable
  column is an option. The defaults are those of the \<^verbatim>\<open>CREATE TABLE\<close>.\<close>

record sql_row =
  r_txid :: string
  r_vout :: int
  r_value :: int
  r_spk :: "bytes option"
  r_spent :: int
  r_spending_txid :: "string option"
  r_spending_confs :: int
  r_spend_height :: "int option"

record sql_db =
  db_outpoints :: "string \<rightharpoonup> sql_row"
  db_meta :: "string \<rightharpoonup> string"

definition empty_db :: sql_db where
  "empty_db = \<lparr>db_outpoints = Map.empty, db_meta = Map.empty\<rparr>"

datatype sql_stmt =
    SqlOpen | SqlCreateTables | SqlSelectMeta string | SqlReplaceMeta string string
  | SqlInsertOutpoint string | SqlUpdateOutput string | SqlUpdateSpend string
  | SqlUpdateConfs string | SqlRollback u32 | SqlRescan u32
  | SqlPrepareSelect | SqlSelectOutpoint string

type_synonym db_errors = "sql_stmt \<Rightarrow> sql_db \<Rightarrow> string option"

text \<open>\<^verbatim>\<open>execute(...).map_err(|e| IndexError::Persistence(e.to_string()))?\<close>.\<close>

definition sql_exec ::
  "db_errors \<Rightarrow> sql_stmt \<Rightarrow> (sql_db \<Rightarrow> sql_db) \<Rightarrow> sql_db \<Rightarrow> unit rgb_pq_result \<times> sql_db" where
  "sql_exec db_err stmt effect db = (case db_err stmt db of
     Some e \<Rightarrow> (Err (RgbPq_Index (IX_Persistence e)), db)
   | None \<Rightarrow> (Ok (), effect db))"

definition update_where ::
  "(string \<Rightarrow> sql_row \<Rightarrow> bool) \<Rightarrow> (sql_row \<Rightarrow> sql_row) \<Rightarrow> sql_db \<Rightarrow> sql_db" where
  "update_where P f db = db\<lparr>db_outpoints := (\<lambda>k. map_option (\<lambda>r. if P k r then f r else r)
     (db_outpoints db k))\<rparr>"

record sqlite_indexer =
  sq_conn :: sql_db
  sq_height :: u32
  sq_tip_hash :: string

text \<open>\<^verbatim>\<open>str::parse::<u32>\<close>: an optional plus sign and decimal digits, within range.\<close>

definition dec_digit :: "char \<Rightarrow> nat option" where
  "dec_digit c = (let n = of_char c in if 48 \<le> n \<and> n \<le> 57 then Some (n - 48) else None)"

fun dec_digits_u32 :: "nat \<Rightarrow> string \<Rightarrow> u32 option" where
  "dec_digits_u32 acc [] = Some (of_nat acc)"
| "dec_digits_u32 acc (c # cs) = (case dec_digit c of
     None \<Rightarrow> None
   | Some d \<Rightarrow> if acc * 10 + d < 2 ^ 32 then dec_digits_u32 (acc * 10 + d) cs else None)"

definition parse_u32 :: "string \<Rightarrow> u32 option" where
  "parse_u32 s = (case s of
     [] \<Rightarrow> None
   | c # rest \<Rightarrow>
       if c = CHR ''+'' then (if rest = [] then None else dec_digits_u32 0 rest)
       else dec_digits_u32 0 s)"

definition query_meta :: "db_errors \<Rightarrow> string \<Rightarrow> sql_db \<Rightarrow> string option" where
  "query_meta db_err k db = (case db_err (SqlSelectMeta k) db of
     Some e \<Rightarrow> None | None \<Rightarrow> db_meta db k)"

definition read_meta :: "db_errors \<Rightarrow> sql_db \<Rightarrow> (u32 \<times> string) rgb_pq_result" where
  "read_meta db_err db =
     (let height = (case Option.bind (query_meta db_err ''height'' db) parse_u32 of
            Some h \<Rightarrow> h | None \<Rightarrow> 0);
          tip = (case query_meta db_err ''tip'' db of Some t \<Rightarrow> t | None \<Rightarrow> [])
      in Ok (height, tip))"

definition replace_meta :: "string \<Rightarrow> string \<Rightarrow> sql_db \<Rightarrow> sql_db" where
  "replace_meta k v db = db\<lparr>db_meta := (db_meta db)(k \<mapsto> v)\<rparr>"

definition write_meta ::
  "db_errors \<Rightarrow> u32 \<Rightarrow> string \<Rightarrow> sql_db \<Rightarrow> unit rgb_pq_result \<times> sql_db" where
  "write_meta db_err height tip db =
     (case sql_exec db_err (SqlReplaceMeta ''height'' (fmt_nat (unat height)))
        (replace_meta ''height'' (fmt_nat (unat height))) db of
        (Ok _, db1) \<Rightarrow> sql_exec db_err (SqlReplaceMeta ''tip'' tip) (replace_meta ''tip'' tip) db1
      | (r, db1) \<Rightarrow> (r, db1))"

text \<open>\<^verbatim>\<open>open\<close>: the file's tables (\<open>file\<close>) are created when absent, which in this representation
  changes nothing.\<close>

definition sqlite_open :: "db_errors \<Rightarrow> sql_db \<Rightarrow> sqlite_indexer rgb_pq_result" where
  "sqlite_open db_err file =
     (case db_err SqlOpen file of
        Some e \<Rightarrow> Err (RgbPq_Index (IX_Persistence e))
      | None \<Rightarrow> (case sql_exec db_err SqlCreateTables (\<lambda>db. db) file of
          (Ok _, conn) \<Rightarrow> and_then (read_meta db_err conn) (\<lambda>(height, tip_hash).
            Ok \<lparr>sq_conn = conn, sq_height = height, sq_tip_hash = tip_hash\<rparr>)
        | (Err e, _) \<Rightarrow> Err e
        | (Panic, _) \<Rightarrow> Panic))"

definition sqlite_open_memory :: "db_errors \<Rightarrow> sqlite_indexer rgb_pq_result" where
  "sqlite_open_memory db_err = sqlite_open db_err empty_db"

definition sqlite_exec ::
  "db_errors \<Rightarrow> sql_stmt \<Rightarrow> (sql_db \<Rightarrow> sql_db) \<Rightarrow> sqlite_indexer
    \<Rightarrow> unit rgb_pq_result \<times> sqlite_indexer" where
  "sqlite_exec db_err stmt effect s = (case sql_exec db_err stmt effect (sq_conn s) of
     (r, db) \<Rightarrow> (r, s\<lparr>sq_conn := db\<rparr>))"

definition sqlite_tip :: "sqlite_indexer \<Rightarrow> chain_tip" where
  "sqlite_tip s = \<lparr>tip_height = sq_height s, tip_hash = sq_tip_hash s\<rparr>"

definition insert_outpoint :: "btq_outpoint \<Rightarrow> sql_db \<Rightarrow> sql_db" where
  "insert_outpoint o' db = (case db_outpoints db (entry_key o') of
     Some r \<Rightarrow> db
   | None \<Rightarrow> db\<lparr>db_outpoints := (db_outpoints db)(entry_key o' \<mapsto>
       \<lparr>r_txid = txid_to_string (op_txid o'), r_vout = uint (op_vout o'), r_value = 0,
        r_spk = None, r_spent = 0, r_spending_txid = None, r_spending_confs = 0,
        r_spend_height = None\<rparr>)\<rparr>)"

definition sqlite_watch ::
  "db_errors \<Rightarrow> sqlite_indexer \<Rightarrow> btq_outpoint \<Rightarrow> unit rgb_pq_result \<times> sqlite_indexer" where
  "sqlite_watch db_err s o' =
     sqlite_exec db_err (SqlInsertOutpoint (entry_key o')) (insert_outpoint o') s"

text \<open>\<^verbatim>\<open>out.value as i64\<close> is the signed reading of the same 64 bits.\<close>

definition sqlite_record_output ::
  "db_errors \<Rightarrow> sqlite_indexer \<Rightarrow> btq_outpoint \<Rightarrow> btq_tx_out
    \<Rightarrow> unit rgb_pq_result \<times> sqlite_indexer" where
  "sqlite_record_output db_err s o' out =
     sqlite_exec db_err (SqlUpdateOutput (entry_key o'))
       (update_where (\<lambda>k r. k = entry_key o') (\<lambda>r. r\<lparr>r_value := sint (to_value out),
         r_spk := Some (to_script_pubkey out), r_spent := (if to_spent out then 1 else 0)\<rparr>)) s"

definition sqlite_record_spend ::
  "db_errors \<Rightarrow> sqlite_indexer \<Rightarrow> btq_outpoint \<Rightarrow> btq_tx
    \<Rightarrow> unit rgb_pq_result \<times> sqlite_indexer" where
  "sqlite_record_spend db_err s o' tx =
     sqlite_exec db_err (SqlUpdateSpend (entry_key o'))
       (update_where (\<lambda>k r. k = entry_key o') (\<lambda>r. r\<lparr>r_spending_txid := Some (tx_txid tx),
         r_spending_confs := uint (confirmations (tx_status tx)),
         r_spend_height := Some (uint (sq_height s))\<rparr>)) s"

definition sqlite_update_confirmations ::
  "db_errors \<Rightarrow> sqlite_indexer \<Rightarrow> btq_outpoint \<Rightarrow> u32
    \<Rightarrow> unit rgb_pq_result \<times> sqlite_indexer" where
  "sqlite_update_confirmations db_err s o' depth =
     sqlite_exec db_err (SqlUpdateConfs (entry_key o'))
       (update_where (\<lambda>k r. k = entry_key o') (\<lambda>r. r\<lparr>r_spending_confs := uint depth\<rparr>)) s"

definition sqlite_get :: "sqlite_indexer \<Rightarrow> btq_outpoint \<Rightarrow> indexed_outpoint option" where
  "sqlite_get s o' = None"

text \<open>A comparison with NULL is not true in SQL.\<close>

definition sqlite_rollback ::
  "db_errors \<Rightarrow> sqlite_indexer \<Rightarrow> u32 \<Rightarrow> unit rgb_pq_result \<times> sqlite_indexer" where
  "sqlite_rollback db_err s to_height =
     (case sqlite_exec db_err (SqlRollback to_height)
        (update_where (\<lambda>k r. case r_spend_height r of Some h \<Rightarrow> h > uint to_height | None \<Rightarrow> False)
          (\<lambda>r. r\<lparr>r_spending_txid := None, r_spending_confs := 0, r_spend_height := None\<rparr>)) s of
        (Ok _, s1) \<Rightarrow> (case write_meta db_err to_height (sq_tip_hash s1) (sq_conn s1) of
          (r, db) \<Rightarrow> (r, s1\<lparr>sq_height := to_height, sq_conn := db\<rparr>))
      | (r, s1) \<Rightarrow> (r, s1))"

definition sqlite_rescan_from ::
  "db_errors \<Rightarrow> sqlite_indexer \<Rightarrow> u32 \<Rightarrow> unit rgb_pq_result \<times> sqlite_indexer" where
  "sqlite_rescan_from db_err s from_height =
     sqlite_exec db_err (SqlRescan from_height)
       (update_where (\<lambda>k r. case r_spend_height r of Some h \<Rightarrow> h \<ge> uint from_height | None \<Rightarrow> False)
         (\<lambda>r. r\<lparr>r_spending_confs := 0\<rparr>)) s"

definition sqlite_set_tip :: "db_errors \<Rightarrow> sqlite_indexer \<Rightarrow> chain_tip \<Rightarrow> sqlite_indexer" where
  "sqlite_set_tip db_err s t = s\<lparr>sq_height := tip_height t, sq_tip_hash := tip_hash t,
     sq_conn := snd (write_meta db_err (tip_height t) (tip_hash t) (sq_conn s))\<rparr>"

definition sqlite_get_owned ::
  "db_errors \<Rightarrow> sqlite_indexer \<Rightarrow> btq_outpoint \<Rightarrow> indexed_outpoint option rgb_pq_result" where
  "sqlite_get_owned db_err s o' =
     (case db_err SqlPrepareSelect (sq_conn s) of
        Some e \<Rightarrow> Err (RgbPq_Index (IX_Persistence e))
      | None \<Rightarrow>
        let row = (case db_err (SqlSelectOutpoint (entry_key o')) (sq_conn s) of
            Some e \<Rightarrow> None
          | None \<Rightarrow> (case db_outpoints (sq_conn s) (entry_key o') of
              None \<Rightarrow> None
            | Some r \<Rightarrow> (case r_spk r of
                None \<Rightarrow> None
              | Some spk \<Rightarrow> Some (r_value r, spk, r_spent r, r_spending_txid r, r_spending_confs r))))
        in case row of
          None \<Rightarrow> Ok None
        | Some (value, spk, spent, spending_txid, confs) \<Rightarrow> Ok (Some
            \<lparr>ix_output = Some \<lparr>to_outpoint = o', to_value = word_of_int value,
               to_script_pubkey = spk, to_spent = (spent \<noteq> 0)\<rparr>,
             ix_spending_txid = spending_txid,
             ix_spending_confirmations = word_of_int confs\<rparr>))"

definition sqlite_indexer_ops :: "db_errors \<Rightarrow> sqlite_indexer indexer" where
  "sqlite_indexer_ops db_err = \<lparr>idx_tip = sqlite_tip, idx_watch = sqlite_watch db_err,
     idx_record_output = sqlite_record_output db_err,
     idx_record_spend = sqlite_record_spend db_err,
     idx_update_confirmations = sqlite_update_confirmations db_err, idx_get = sqlite_get,
     idx_rollback = sqlite_rollback db_err, idx_rescan_from = sqlite_rescan_from db_err,
     idx_set_tip = sqlite_set_tip db_err\<rparr>"

subsection \<open>What the methods promise\<close>

datatype index_op =
    OpWatch btq_outpoint
  | OpRecordOutput btq_outpoint btq_tx_out
  | OpRecordSpend btq_outpoint btq_tx
  | OpUpdateConfirmations btq_outpoint u32
  | OpRollback u32
  | OpRescanFrom u32
  | OpSetTip chain_tip

text \<open>One call of a trait method on an implementation, and a sequence of calls.\<close>

fun apply_op :: "'s indexer \<Rightarrow> 's \<Rightarrow> index_op \<Rightarrow> unit rgb_pq_result \<times> 's" where
  "apply_op I s (OpWatch o') = idx_watch I s o'"
| "apply_op I s (OpRecordOutput o' out) = idx_record_output I s o' out"
| "apply_op I s (OpRecordSpend o' tx) = idx_record_spend I s o' tx"
| "apply_op I s (OpUpdateConfirmations o' d) = idx_update_confirmations I s o' d"
| "apply_op I s (OpRollback h) = idx_rollback I s h"
| "apply_op I s (OpRescanFrom h) = idx_rescan_from I s h"
| "apply_op I s (OpSetTip t) = (Ok (), idx_set_tip I s t)"

fun run_ops :: "'s indexer \<Rightarrow> 's \<Rightarrow> index_op list \<Rightarrow> unit rgb_pq_result \<times> 's" where
  "run_ops I s [] = (Ok (), s)"
| "run_ops I s (a # as) = (case apply_op I s a of
     (Ok _, s') \<Rightarrow> run_ops I s' as
   | (r, s') \<Rightarrow> (r, s'))"

text \<open>The abstract state: the tip and the facts about each watched outpoint.\<close>

type_synonym index_state = "chain_tip \<times> (btq_outpoint \<rightharpoonup> entry)"

definition modify_fact :: "btq_outpoint \<Rightarrow> (entry \<Rightarrow> entry) \<Rightarrow> (btq_outpoint \<rightharpoonup> entry)
    \<Rightarrow> (btq_outpoint \<rightharpoonup> entry)" where
  "modify_fact o' f F = F(o' := map_option f (F o'))"

fun index_step :: "index_state \<Rightarrow> index_op \<Rightarrow> index_state" where
  "index_step (t, F) (OpWatch o') = (t, F(o' \<mapsto> or_default (F o')))"
| "index_step (t, F) (OpRecordOutput o' out) =
     (t, modify_fact o' (\<lambda>e. e\<lparr>view := (view e)\<lparr>ix_output := Some out\<rparr>\<rparr>) F)"
| "index_step (t, F) (OpRecordSpend o' tx) =
     (t, modify_fact o' (\<lambda>e. e\<lparr>view := (view e)\<lparr>ix_spending_txid := Some (tx_txid tx),
         ix_spending_confirmations := confirmations (tx_status tx)\<rparr>,
       spend_height := Some (tip_height t)\<rparr>) F)"
| "index_step (t, F) (OpUpdateConfirmations o' d) =
     (t, modify_fact o' (\<lambda>e. e\<lparr>view := (view e)\<lparr>ix_spending_confirmations := d\<rparr>\<rparr>) F)"
| "index_step (t, F) (OpRollback h) =
     (t\<lparr>tip_height := h\<rparr>, map_option (rollback_entry h) \<circ> F)"
| "index_step (t, F) (OpRescanFrom h) = (t, map_option (rescan_entry h) \<circ> F)"
| "index_step (t, F) (OpSetTip t') = (t', F)"

text \<open>Calls as the callers make them: facts are recorded for watched outpoints only, and an output
  is recorded under its own outpoint.\<close>

fun admissible :: "index_state \<Rightarrow> index_op \<Rightarrow> bool" where
  "admissible (t, F) (OpRecordOutput o' out) = (F o' \<noteq> None \<and> to_outpoint out = o')"
| "admissible (t, F) (OpRecordSpend o' tx) = (F o' \<noteq> None)"
| "admissible (t, F) (OpUpdateConfirmations o' d) = (F o' \<noteq> None)"
| "admissible st op = True"

fun admissible_run :: "index_state \<Rightarrow> index_op list \<Rightarrow> bool" where
  "admissible_run st [] = True"
| "admissible_run st (a # as) = (admissible st a \<and> admissible_run (index_step st a) as)"

locale indexer_laws =
  fixes I :: "'s indexer"
    and inv :: "'s \<Rightarrow> bool"
    and facts :: "'s \<Rightarrow> btq_outpoint \<Rightarrow> entry option"
  assumes step_refines: "inv s \<Longrightarrow> admissible (idx_tip I s, facts s) a \<Longrightarrow> apply_op I s a = (r, s')
      \<Longrightarrow> r = Ok () \<and> inv s' \<and> (idx_tip I s', facts s') = index_step (idx_tip I s, facts s) a"
begin

lemma run_refines:
  "inv s \<Longrightarrow> admissible_run (idx_tip I s, facts s) as \<Longrightarrow> \<exists>s'. run_ops I s as = (Ok (), s')
    \<and> inv s' \<and> (idx_tip I s', facts s') = foldl index_step (idx_tip I s, facts s) as"
proof (induction as arbitrary: s)
  case (Cons a as)
  obtain r s1 where step: "apply_op I s a = (r, s1)" by (cases "apply_op I s a")
  with step_refines [OF Cons.prems(1)] Cons.prems(2)
  have "r = Ok ()" "inv s1"
    "(idx_tip I s1, facts s1) = index_step (idx_tip I s, facts s) a" by auto
  with Cons.IH [of s1] Cons.prems(2) step show ?case by simp
qed simp

text \<open>After a rollback no spend is recorded above its height, and every other fact is kept.\<close>

lemma rollback_facts:
  assumes "inv s" and "apply_op I s (OpRollback h) = (r, s')"
  shows "r = Ok () \<and> tip_height (idx_tip I s') = h \<and> tip_hash (idx_tip I s') = tip_hash (idx_tip I s)
    \<and> facts s' = map_option (rollback_entry h) \<circ> facts s"
  using step_refines [OF assms(1) _ assms(2)] by simp

end

lemma rollback_entry_bound:
  "spend_height (rollback_entry h e) = Some k \<Longrightarrow> k \<le> h"
  by (auto simp: rollback_entry_def split: option.splits if_splits)

lemma rollback_entry_keeps:
  "spend_height e = None \<or> the (spend_height e) \<le> h \<Longrightarrow> rollback_entry h e = e"
  by (auto simp: rollback_entry_def split: option.splits)

subsection \<open>Keys\<close>

lemma colon_not_hex: "CHR '':'' \<notin> set (hex_lower bs)"
proof -
  have "digit_char d \<noteq> CHR '':''" if "d < 16" for d
  proof
    assume "digit_char d = CHR '':''"
    then have "(of_char (digit_char d) :: nat) = of_char (CHR '':'')" by simp
    with that show False by (simp split: if_splits)
  qed
  then have "CHR '':'' \<notin> set (fmt_02x b)" for b
    using u8_div_mod_16 [of b] unfolding fmt_02x_def by (metis empty_iff empty_set set_ConsD)
  then show ?thesis by (induction bs) simp_all
qed

lemma entry_key_inject [simp]: "entry_key a = entry_key b \<longleftrightarrow> a = b"
proof
  assume "entry_key a = entry_key b"
  then have "txid_to_string (op_txid a) @ CHR '':'' # fmt_nat (unat (op_vout a))
      = txid_to_string (op_txid b) @ CHR '':'' # fmt_nat (unat (op_vout b))"
    by (simp add: entry_key_def)
  then have "txid_to_string (op_txid a) = txid_to_string (op_txid b)
      \<and> fmt_nat (unat (op_vout a)) = fmt_nat (unat (op_vout b))"
    by (rule delimited_append_inject [rotated 2])
       (simp_all add: txid_to_string_hex colon_not_hex)
  then show "a = b" by (cases a; cases b) (auto intro: unsigned_word_eqI)
qed simp

subsection \<open>The in-memory indexer refines the steps\<close>

definition mem_facts :: "mem_indexer \<Rightarrow> btq_outpoint \<Rightarrow> entry option" where
  "mem_facts m o' = mem_entries m (entry_key o')"

lemma mem_modify_facts [simp]:
  "mem_facts (mem_modify m o' f) = (mem_facts m)(o' \<mapsto> f (or_default (mem_facts m o')))"
  "mem_tip (mem_modify m o' f) = mem_tip m"
  "mem_height (mem_modify m o' f) = mem_height m"
  "mem_tip_hash (mem_modify m o' f) = mem_tip_hash m"
  by (auto simp: mem_facts_def mem_modify_def mem_tip_def fun_eq_iff)

interpretation mem: indexer_laws mem_indexer_ops "\<lambda>_. True" mem_facts
proof (unfold_locales, goal_cases)
  case (1 s a r s')
  show ?case
  proof (cases a)
    case (OpRollback h)
    with 1 show ?thesis
      by (auto simp: mem_indexer_ops_def mem_rollback_def mem_facts_def mem_tip_def fun_eq_iff)
  next
    case (OpRescanFrom h)
    with 1 show ?thesis
      by (auto simp: mem_indexer_ops_def mem_rescan_from_def mem_facts_def mem_tip_def fun_eq_iff)
  next
    case (OpSetTip t)
    with 1 show ?thesis
      by (auto simp: mem_indexer_ops_def mem_set_tip_def mem_facts_def mem_tip_def fun_eq_iff)
  qed (use 1 in \<open>auto simp: mem_indexer_ops_def mem_watch_def mem_record_output_def
        mem_record_spend_def mem_update_confirmations_def modify_fact_def or_default_def mem_tip_def\<close>)
qed

subsection \<open>The SQLite indexer refines the same steps\<close>

text \<open>The facts a row stands for: an output is known once its \<^verbatim>\<open>spk\<close> is not NULL.\<close>

definition entry_of_row :: "btq_outpoint \<Rightarrow> sql_row \<Rightarrow> entry" where
  "entry_of_row o' r = \<lparr>view =
     \<lparr>ix_output = map_option (\<lambda>spk. \<lparr>to_outpoint = o', to_value = word_of_int (r_value r),
        to_script_pubkey = spk, to_spent = (r_spent r \<noteq> 0)\<rparr>) (r_spk r),
      ix_spending_txid = r_spending_txid r,
      ix_spending_confirmations = word_of_int (r_spending_confs r)\<rparr>,
     spend_height = map_option word_of_int (r_spend_height r)\<rparr>"

definition sqlite_facts :: "sqlite_indexer \<Rightarrow> btq_outpoint \<Rightarrow> entry option" where
  "sqlite_facts s o' = map_option (entry_of_row o') (db_outpoints (sq_conn s) (entry_key o'))"

definition row_ok :: "sql_row \<Rightarrow> bool" where
  "row_ok r \<longleftrightarrow> (\<forall>h. r_spend_height r = Some h \<longrightarrow> 0 \<le> h \<and> h < 2 ^ 32)"

text \<open>The invariant of the refinement: stored heights are \<^verbatim>\<open>u32\<close> values, and no statement fails.\<close>

definition sqlite_inv :: "db_errors \<Rightarrow> sqlite_indexer \<Rightarrow> bool" where
  "sqlite_inv db_err s \<longleftrightarrow> (\<forall>stmt db. db_err stmt db = None)
     \<and> (\<forall>k r. db_outpoints (sq_conn s) k = Some r \<longrightarrow> row_ok r)"

lemma row_height:
  assumes "row_ok r" "r_spend_height r = Some h"
  shows "uint (word_of_int h :: u32) = h"
  using assms by (simp add: row_ok_def uint_word_of_int)

lemma rollback_row:
  "row_ok r \<Longrightarrow> rollback_entry h (entry_of_row o' r) = entry_of_row o'
    (if (case r_spend_height r of Some k \<Rightarrow> k > uint h | None \<Rightarrow> False)
     then r\<lparr>r_spending_txid := None, r_spending_confs := 0, r_spend_height := None\<rparr> else r)"
  by (auto simp: rollback_entry_def entry_of_row_def word_less_def row_height split: option.split)

lemma rescan_row:
  "row_ok r \<Longrightarrow> rescan_entry h (entry_of_row o' r) = entry_of_row o'
    (if (case r_spend_height r of Some k \<Rightarrow> k \<ge> uint h | None \<Rightarrow> False)
     then r\<lparr>r_spending_confs := 0\<rparr> else r)"
  by (auto simp: rescan_entry_def entry_of_row_def word_le_def row_height split: option.split)

lemma write_meta_ok:
  "(\<And>stmt db. db_err stmt db = None) \<Longrightarrow> write_meta db_err h t db
    = (Ok (), replace_meta ''tip'' t (replace_meta ''height'' (fmt_nat (unat h)) db))"
  by (simp add: write_meta_def sql_exec_def)

lemma replace_meta_outpoints [simp]: "db_outpoints (replace_meta k v db) = db_outpoints db"
  by (simp add: replace_meta_def)

lemma sqlite_exec_ok:
  "(\<And>stmt db. db_err stmt db = None) \<Longrightarrow>
    sqlite_exec db_err stmt f s = (Ok (), s\<lparr>sq_conn := f (sq_conn s)\<rparr>)"
  by (simp add: sqlite_exec_def sql_exec_def)

lemma row_ok_update_where:
  assumes "\<forall>k r. db_outpoints db k = Some r \<longrightarrow> row_ok r"
    and "\<And>r. row_ok r \<Longrightarrow> row_ok (f r)"
  shows "\<forall>k r. db_outpoints (update_where P f db) k = Some r \<longrightarrow> row_ok r"
  using assms by (auto simp: update_where_def)

text \<open>An \<^verbatim>\<open>UPDATE ... WHERE k = ?\<close> changes the facts of one outpoint.\<close>

lemma update_one_facts:
  assumes "\<And>r. entry_of_row o' (f r) = g (entry_of_row o' r)"
  shows "sqlite_facts (s\<lparr>sq_conn := update_where (\<lambda>k r. k = entry_key o') f (sq_conn s)\<rparr>)
    = modify_fact o' g (sqlite_facts s)"
  using assms
  by (auto simp: sqlite_facts_def update_where_def modify_fact_def fun_eq_iff option.map_comp comp_def)

text \<open>An \<^verbatim>\<open>UPDATE\<close> over all rows maps the facts.\<close>

lemma update_all_facts:
  assumes "\<And>o' r. row_ok r \<Longrightarrow> entry_of_row o' (if P r then f r else r) = g (entry_of_row o' r)"
    and "\<forall>k r. db_outpoints (sq_conn s) k = Some r \<longrightarrow> row_ok r"
  shows "sqlite_facts (s\<lparr>sq_conn := update_where (\<lambda>k r. P r) f (sq_conn s)\<rparr>)
    = map_option g \<circ> sqlite_facts s"
proof
  fix o'
  show "sqlite_facts (s\<lparr>sq_conn := update_where (\<lambda>k r. P r) f (sq_conn s)\<rparr>) o'
    = (map_option g \<circ> sqlite_facts s) o'"
    using assms by (cases "db_outpoints (sq_conn s) (entry_key o')")
      (simp_all add: sqlite_facts_def update_where_def)
qed

lemma sqlite_facts_conn: "sqlite_facts s = sqlite_facts t"
  if "db_outpoints (sq_conn s) = db_outpoints (sq_conn t)"
  using that by (simp add: sqlite_facts_def fun_eq_iff)

lemma insert_outpoint_facts:
  "sqlite_facts (s\<lparr>sq_conn := insert_outpoint o' (sq_conn s)\<rparr>)
    = (sqlite_facts s)(o' \<mapsto> or_default (sqlite_facts s o'))"
  by (auto simp: sqlite_facts_def insert_outpoint_def or_default_def fun_eq_iff entry_of_row_def
      entry_default_def indexed_default_def split: option.split)

lemma insert_outpoint_ok:
  "\<forall>k r. db_outpoints db k = Some r \<longrightarrow> row_ok r \<Longrightarrow>
   \<forall>k r. db_outpoints (insert_outpoint o' db) k = Some r \<longrightarrow> row_ok r"
  by (auto simp: insert_outpoint_def row_ok_def split: option.splits)

lemma record_output_facts:
  assumes "to_outpoint out = o'"
  shows "sqlite_facts (s\<lparr>sq_conn := update_where (\<lambda>k r. k = entry_key o')
      (\<lambda>r. r\<lparr>r_value := sint (to_value out), r_spk := Some (to_script_pubkey out),
         r_spent := (if to_spent out then 1 else 0)\<rparr>) (sq_conn s)\<rparr>)
    = modify_fact o' (\<lambda>e. e\<lparr>view := (view e)\<lparr>ix_output := Some out\<rparr>\<rparr>) (sqlite_facts s)"
  by (rule update_one_facts) (cases out, use assms in \<open>simp add: entry_of_row_def\<close>)

lemma record_spend_facts:
  "sqlite_facts (s\<lparr>sq_conn := update_where (\<lambda>k r. k = entry_key o')
      (\<lambda>r. r\<lparr>r_spending_txid := Some t, r_spending_confs := uint c, r_spend_height := Some (uint h)\<rparr>)
      (sq_conn s)\<rparr>)
    = modify_fact o' (\<lambda>e. e\<lparr>view := (view e)\<lparr>ix_spending_txid := Some t,
        ix_spending_confirmations := c\<rparr>, spend_height := Some h\<rparr>) (sqlite_facts s)"
  by (rule update_one_facts) (simp add: entry_of_row_def)

lemma update_confirmations_facts:
  "sqlite_facts (s\<lparr>sq_conn := update_where (\<lambda>k r. k = entry_key o')
      (\<lambda>r. r\<lparr>r_spending_confs := uint d\<rparr>) (sq_conn s)\<rparr>)
    = modify_fact o' (\<lambda>e. e\<lparr>view := (view e)\<lparr>ix_spending_confirmations := d\<rparr>\<rparr>) (sqlite_facts s)"
  by (rule update_one_facts) (simp add: entry_of_row_def)

lemma rollback_facts_all:
  assumes "\<forall>k r. db_outpoints (sq_conn s) k = Some r \<longrightarrow> row_ok r"
  shows "sqlite_facts (s\<lparr>sq_conn := update_where
      (\<lambda>k r. case r_spend_height r of Some k \<Rightarrow> k > uint h | None \<Rightarrow> False)
      (\<lambda>r. r\<lparr>r_spending_txid := None, r_spending_confs := 0, r_spend_height := None\<rparr>) (sq_conn s)\<rparr>)
    = map_option (rollback_entry h) \<circ> sqlite_facts s"
  by (rule update_all_facts [OF _ assms]) (simp only: rollback_row)

lemma rescan_facts_all:
  assumes "\<forall>k r. db_outpoints (sq_conn s) k = Some r \<longrightarrow> row_ok r"
  shows "sqlite_facts (s\<lparr>sq_conn := update_where
      (\<lambda>k r. case r_spend_height r of Some k \<Rightarrow> k \<ge> uint h | None \<Rightarrow> False)
      (\<lambda>r. r\<lparr>r_spending_confs := 0\<rparr>) (sq_conn s)\<rparr>)
    = map_option (rescan_entry h) \<circ> sqlite_facts s"
  by (rule update_all_facts [OF _ assms]) (simp only: rescan_row)

lemma uint_u32_bounds: "0 \<le> uint (h :: u32) \<and> uint h < 4294967296"
  using uint_lt2p [of h] by simp

interpretation sqlite: indexer_laws "sqlite_indexer_ops db_err" "sqlite_inv db_err" sqlite_facts
  for db_err
proof (unfold_locales, goal_cases)
  case (1 s a r s')
  have noerr: "db_err stmt db = None" for stmt db using 1(1) by (simp add: sqlite_inv_def)
  have rows: "\<forall>k r. db_outpoints (sq_conn s) k = Some r \<longrightarrow> row_ok r"
    using 1(1) by (simp add: sqlite_inv_def)
  note ops = sqlite_indexer_ops_def sqlite_exec_ok [OF noerr] write_meta_ok [OF noerr]
    sqlite_tip_def
  have inv: "sqlite_inv db_err t" if "\<forall>k r. db_outpoints (sq_conn t) k = Some r \<longrightarrow> row_ok r" for t
    using that noerr by (simp add: sqlite_inv_def)
  have upd: "sqlite_inv db_err (s\<lparr>sq_conn := update_where P f (sq_conn s)\<rparr>)"
    if "\<And>r. row_ok r \<Longrightarrow> row_ok (f r)" for P f
    using row_ok_update_where [where f = f and P = P, OF rows] that by (intro inv) simp
  show ?case
  proof (cases a)
    case (OpWatch o')
    with 1(3) show ?thesis
      by (auto simp: ops sqlite_watch_def insert_outpoint_facts
          intro!: inv dest: insert_outpoint_ok [OF rows, rule_format])
  next
    case (OpRecordOutput o' out)
    with 1(2) have "to_outpoint out = o'" by (simp add: sqlite_indexer_ops_def)
    with 1(3) OpRecordOutput show ?thesis
      by (auto simp: ops sqlite_record_output_def record_output_facts row_ok_def intro!: upd)
  next
    case (OpRecordSpend o' tx)
    with 1(3) show ?thesis
      by (auto simp: ops sqlite_record_spend_def record_spend_facts row_ok_def uint_u32_bounds
          intro!: upd)
  next
    case (OpUpdateConfirmations o' d)
    with 1(3) show ?thesis
      by (auto simp: ops sqlite_update_confirmations_def update_confirmations_facts row_ok_def
          intro!: upd)
  next
    case (OpRollback h)
    let ?s1 = "s\<lparr>sq_conn := update_where
      (\<lambda>k r. case r_spend_height r of Some k \<Rightarrow> k > uint h | None \<Rightarrow> False)
      (\<lambda>r. r\<lparr>r_spending_txid := None, r_spending_confs := 0, r_spend_height := None\<rparr>) (sq_conn s)\<rparr>"
    from 1(3) OpRollback have r: "r = Ok ()"
      and outs: "db_outpoints (sq_conn s') = db_outpoints (sq_conn ?s1)"
      and tip: "sqlite_tip s' = (sqlite_tip s)\<lparr>tip_height := h\<rparr>"
      by (auto simp: ops sqlite_rollback_def)
    have "sqlite_facts s' = map_option (rollback_entry h) \<circ> sqlite_facts s"
      unfolding sqlite_facts_conn [OF outs] by (rule rollback_facts_all [OF rows])
    moreover have "sqlite_inv db_err ?s1" by (rule upd) (simp add: row_ok_def)
    then have "sqlite_inv db_err s'" unfolding sqlite_inv_def outs .
    ultimately show ?thesis using r tip OpRollback by (simp add: sqlite_indexer_ops_def)
  next
    case (OpRescanFrom h)
    with 1(3) show ?thesis
      by (auto simp: ops sqlite_rescan_from_def rescan_facts_all [OF rows] row_ok_def
          intro!: upd)
  next
    case (OpSetTip t)
    with 1(3) rows show ?thesis
      by (auto simp: ops sqlite_set_tip_def intro!: inv sqlite_facts_conn)
  qed
qed

subsection \<open>Decimal text of a height\<close>

lemma dec_digits_u32_append:
  "dec_digits_u32 acc xs = Some w \<Longrightarrow> acc < 2 ^ 32
    \<Longrightarrow> dec_digits_u32 acc (xs @ ys) = dec_digits_u32 (unat w) ys"
proof (induction xs arbitrary: acc)
  case Nil
  then have "unat w = acc" by (auto simp: unat_of_nat)
  then show ?case by simp
next
  case (Cons c xs)
  then show ?case by (auto split: option.splits if_splits)
qed

lemma dec_digit_digit_char: "d < 10 \<Longrightarrow> dec_digit (digit_char d) = Some d"
  by (simp add: dec_digit_def Let_def)

lemma dec_digits_fmt_nat: "n < 2 ^ 32 \<Longrightarrow> dec_digits_u32 0 (fmt_nat n) = Some (of_nat n)"
proof (induction n rule: fmt_nat.induct)
  case (1 n)
  show ?case
  proof (cases "n < 10")
    case True
    then show ?thesis by (simp add: fmt_nat.simps [of n] dec_digit_digit_char)
  next
    case False
    with 1 have "dec_digits_u32 0 (fmt_nat (n div 10)) = Some (of_nat (n div 10))" by simp
    then have "dec_digits_u32 0 (fmt_nat n)
        = dec_digits_u32 (unat (of_nat (n div 10) :: u32)) [digit_char (n mod 10)]"
      using False by (simp add: fmt_nat.simps [of n] dec_digits_u32_append)
    moreover have "unat (of_nat (n div 10) :: u32) = n div 10"
      using 1(2) by (simp add: unat_of_nat)
    moreover have "n div 10 * 10 + n mod 10 = n" by simp
    ultimately show ?thesis using 1(2) by (simp add: dec_digit_digit_char)
  qed
qed

lemma fmt_nat_no_plus: "hd (fmt_nat n) \<noteq> CHR ''+''"
proof (induction n rule: fmt_nat.induct)
  case (1 n)
  then show ?case
    by (cases "n < 10") (simp_all add: fmt_nat.simps [of n] digit_char_not_plus hd_append)
qed

lemma parse_u32_fmt: "parse_u32 (fmt_nat (unat h)) = Some h"
proof -
  obtain c cs where s: "fmt_nat (unat h) = c # cs" by (cases "fmt_nat (unat h)") simp_all
  have "unat h < 2 ^ 32" using unsigned_less [of h, where 'a = nat] by simp
  from dec_digits_fmt_nat [OF this] fmt_nat_no_plus [of "unat h"]
  show ?thesis unfolding s by (simp add: parse_u32_def)
qed

subsection \<open>Properties\<close>

definition index_initial :: index_state where
  "index_initial = (\<lparr>tip_height = 0, tip_hash = []\<rparr>, Map.empty)"

lemma get_owned_facts:
  assumes "\<And>stmt db. db_err stmt db = None"
  shows "sqlite_get_owned db_err s o' = Ok (case sqlite_facts s o' of
    Some e \<Rightarrow> if ix_output (view e) = None then None else Some (view e) | None \<Rightarrow> None)"
  using assms
  by (auto simp: sqlite_get_owned_def sqlite_facts_def entry_of_row_def split: option.split)

text \<open>C14. The two indexers agree: on every sequence of calls that records facts for watched
  outpoints, started empty and with no failing SQL statement, both accept every call, report the
  same tip, and the owned read of the SQLite indexer returns what the in-memory indexer returns
  for every outpoint whose output has been recorded (and nothing for the others).\<close>

theorem mem_sqlite_agree:
  assumes "\<forall>stmt db. db_err stmt db = None" and "admissible_run index_initial ops"
  shows "\<exists>m s0 s. run_ops mem_indexer_ops mem_new ops = (Ok (), m)
    \<and> sqlite_open_memory db_err = Ok s0
    \<and> run_ops (sqlite_indexer_ops db_err) s0 ops = (Ok (), s)
    \<and> sqlite_tip s = mem_tip m
    \<and> (\<forall>o'. sqlite_get_owned db_err s o' = Ok (case mem_get m o' of
        Some v \<Rightarrow> if ix_output v = None then None else Some v | None \<Rightarrow> None))"
proof -
  have noerr: "db_err stmt db = None" for stmt db using assms(1) by blast
  let ?s0 = "\<lparr>sq_conn = empty_db, sq_height = 0, sq_tip_hash = []\<rparr>"
  have s0: "sqlite_open_memory db_err = Ok ?s0"
    by (simp add: sqlite_open_memory_def sqlite_open_def noerr sql_exec_def read_meta_def
        query_meta_def empty_db_def Let_def)
  have "(idx_tip mem_indexer_ops mem_new, mem_facts mem_new) = index_initial"
    by (simp add: index_initial_def mem_indexer_ops_def mem_tip_def mem_new_def mem_facts_def
        fun_eq_iff)
  with mem.run_refines [of mem_new ops] assms(2) obtain m where
    m: "run_ops mem_indexer_ops mem_new ops = (Ok (), m)"
      "(mem_tip m, mem_facts m) = foldl index_step index_initial ops"
    by (auto simp: mem_indexer_ops_def)
  have init: "(idx_tip (sqlite_indexer_ops db_err) ?s0, sqlite_facts ?s0) = index_initial"
    by (simp add: index_initial_def sqlite_indexer_ops_def sqlite_tip_def sqlite_facts_def
        empty_db_def fun_eq_iff)
  then have adm: "admissible_run (idx_tip (sqlite_indexer_ops db_err) ?s0, sqlite_facts ?s0) ops"
    using assms(2) by simp
  have inv: "sqlite_inv db_err ?s0" by (simp add: sqlite_inv_def noerr empty_db_def)
  obtain s where
    s: "run_ops (sqlite_indexer_ops db_err) ?s0 ops = (Ok (), s)"
      "(sqlite_tip s, sqlite_facts s) = foldl index_step index_initial ops"
    using sqlite.run_refines [OF inv adm] init by (auto simp: sqlite_indexer_ops_def)
  from m(2) s(2) have "sqlite_tip s = mem_tip m" "sqlite_facts s = mem_facts m"
    by (metis prod.inject)+
  moreover have "mem_get m o' = map_option view (mem_facts m o')" for o'
    by (simp add: mem_get_def mem_facts_def)
  ultimately show ?thesis
    using m(1) s(1) s0 get_owned_facts [OF noerr, where s = s]
    by (auto split: option.split)
qed

definition sample_spend :: btq_tx where
  "sample_spend = \<lparr>tx_txid = ''01'', tx_raw = [], tx_status = Confirmed 100 ''ab'' 3 0\<rparr>"

theorem mem_sqlite_agree_witness:
  "\<exists>m. run_ops mem_indexer_ops mem_new [OpSetTip \<lparr>tip_height = 10, tip_hash = ''h''\<rparr>,
      OpWatch sample_outpoint, OpRecordSpend sample_outpoint sample_spend, OpRollback 5]
    = (Ok (), m)"
  using mem_sqlite_agree [of "\<lambda>_ _. None" "[OpSetTip \<lparr>tip_height = 10, tip_hash = ''h''\<rparr>,
      OpWatch sample_outpoint, OpRecordSpend sample_outpoint sample_spend, OpRollback 5]"]
  by (auto simp: index_initial_def)

text \<open>C16. Rolling back the in-memory indexer drops exactly the spends recorded above the height:
  afterwards no recorded spend height exceeds it, facts recorded at or below it are unchanged, the
  tip has the new height - and still the old hash.\<close>

theorem mem_rollback_spec:
  "\<exists>m'. mem_rollback m h = (Ok (), m')
    \<and> mem_tip m' = (mem_tip m)\<lparr>tip_height := h\<rparr>
    \<and> (\<forall>o'. mem_get m' o' = map_option (\<lambda>e.
          if pred_option (\<lambda>k. k \<le> h) (spend_height e) then view e
          else (view e)\<lparr>ix_spending_txid := None, ix_spending_confirmations := 0\<rparr>)
        (mem_entries m (entry_key o')))
    \<and> (\<forall>o'. pred_option (\<lambda>e. pred_option (\<lambda>k. k \<le> h) (spend_height e))
        (mem_entries m' (entry_key o')))"
proof -
  let ?m = "snd (mem_rollback m h)"
  have *: "mem_facts ?m o' = map_option (rollback_entry h) (mem_facts m o')" for o'
    using mem.rollback_facts [of m h "fst (mem_rollback m h)" ?m]
    by (simp add: mem_indexer_ops_def fun_eq_iff)
  have "view (rollback_entry h e) = (if pred_option (\<lambda>k. k \<le> h) (spend_height e) then view e
      else (view e)\<lparr>ix_spending_txid := None, ix_spending_confirmations := 0\<rparr>)" for e
    by (auto simp: rollback_entry_def split: option.split)
  moreover have "pred_option (\<lambda>k. k \<le> h) (spend_height (rollback_entry h e))" for e
    by (auto simp: option.pred_set dest: rollback_entry_bound)
  ultimately show ?thesis
    using * by (auto simp: mem_rollback_def mem_tip_def mem_get_def mem_facts_def
        option.map_comp comp_def option.pred_map option.pred_True)
qed

text \<open>A spend is recorded at the indexer's own height, not at the height of the block that
  confirmed it: a spend confirmed below the rollback height is dropped all the same, if it was
  recorded while the indexer's tip was above it. (The trait promises to drop the facts recorded at
  heights above the target.)\<close>

theorem spend_height_is_indexer_height:
  assumes "h < mem_height m"
  shows "map_option ix_spending_txid
    (mem_get (snd (mem_rollback (snd (mem_record_spend m o' tx)) h)) o') = Some None"
  using assms
  by (simp add: mem_record_spend_def mem_rollback_def mem_modify_def mem_get_def rollback_entry_def)

theorem spend_height_is_indexer_height_witness:
  "map_option ix_spending_txid (mem_get (snd (mem_rollback (snd (mem_record_spend
      (mem_set_tip mem_new \<lparr>tip_height = 200, tip_hash = ''h''\<rparr>) sample_outpoint sample_spend)) 150))
    sample_outpoint) = Some None"
  by (rule spend_height_is_indexer_height) (simp add: mem_set_tip_def)

text \<open>C35. The SQLite indexer persists: after the tip is set, closing and reopening the file gives
  back that tip and all recorded facts, when no statement fails.\<close>

theorem sqlite_reopen:
  assumes "\<forall>stmt db. db_err stmt db = None"
  shows "\<exists>s'. sqlite_open db_err (sq_conn (sqlite_set_tip db_err s t)) = Ok s'
    \<and> sqlite_tip s' = t
    \<and> (\<forall>o'. sqlite_get_owned db_err s' o' = sqlite_get_owned db_err s o')"
proof -
  have noerr: "db_err stmt db = None" for stmt db using assms by blast
  let ?db = "replace_meta ''tip'' (tip_hash t)
      (replace_meta ''height'' (fmt_nat (unat (tip_height t))) (sq_conn s))"
  let ?s = "\<lparr>sq_conn = ?db, sq_height = tip_height t, sq_tip_hash = tip_hash t\<rparr>"
  have "sqlite_open db_err (sq_conn (sqlite_set_tip db_err s t)) = Ok ?s"
    by (simp add: sqlite_open_def noerr sql_exec_def read_meta_def query_meta_def Let_def
        sqlite_set_tip_def write_meta_ok replace_meta_def parse_u32_fmt)
  moreover have "sqlite_facts ?s = sqlite_facts s" by (rule sqlite_facts_conn) simp
  moreover have "sqlite_tip ?s = t" by (simp add: sqlite_tip_def)
  ultimately show ?thesis by (auto simp: get_owned_facts [OF noerr])
qed

theorem sqlite_reopen_witness:
  "\<exists>s'. sqlite_open (\<lambda>_ _. None) (sq_conn (sqlite_set_tip (\<lambda>_ _. None)
      \<lparr>sq_conn = empty_db, sq_height = 0, sq_tip_hash = []\<rparr> \<lparr>tip_height = 4096, tip_hash = ''ab''\<rparr>))
    = Ok s' \<and> sqlite_tip s' = \<lparr>tip_height = 4096, tip_hash = ''ab''\<rparr>"
  using sqlite_reopen [of "\<lambda>_ _. None"] by blast

text \<open>Recording a spend for an outpoint that is not watched: the in-memory indexer starts to
  track it, the SQLite indexer reports success and stores nothing, because its \<^verbatim>\<open>UPDATE\<close> matches no
  row. And a watched outpoint whose spend is recorded before its output reads as unknown from
  SQLite, because its \<^verbatim>\<open>spk\<close> column is still NULL.\<close>

theorem unwatched_spend_differs:
  assumes "\<forall>stmt db. db_err stmt db = None"
    and "db_outpoints (sq_conn s) (entry_key o') = None"
  shows "sqlite_record_spend db_err s o' tx = (Ok (), s)
    \<and> map_option ix_spending_txid (mem_get (snd (mem_record_spend m o' tx)) o')
      = Some (Some (tx_txid tx))
    \<and> sqlite_get_owned db_err (snd (sqlite_record_spend db_err
        (snd (sqlite_watch db_err s o')) o' tx)) o' = Ok None"
proof -
  have noerr: "db_err stmt db = None" for stmt db using assms(1) by blast
  have "update_where (\<lambda>k r. k = entry_key o') f (sq_conn s) = sq_conn s" for f
  proof -
    have "(\<lambda>k. map_option (\<lambda>r. if k = entry_key o' then f r else r) (db_outpoints (sq_conn s) k))
        = db_outpoints (sq_conn s)"
    proof
      fix k show "map_option (\<lambda>r. if k = entry_key o' then f r else r) (db_outpoints (sq_conn s) k)
        = db_outpoints (sq_conn s) k"
        using assms(2) by (cases "db_outpoints (sq_conn s) k") auto
    qed
    then show ?thesis by (simp add: update_where_def)
  qed
  then show ?thesis
    using assms(2)
    by (simp add: sqlite_record_spend_def sqlite_watch_def sqlite_exec_ok [OF noerr]
        mem_record_spend_def mem_modify_def mem_get_def sqlite_get_owned_def noerr
        insert_outpoint_def update_where_def)
qed

theorem unwatched_spend_differs_witness:
  "sqlite_record_spend (\<lambda>_ _. None) \<lparr>sq_conn = empty_db, sq_height = 0, sq_tip_hash = []\<rparr>
      sample_outpoint sample_spend
    = (Ok (), \<lparr>sq_conn = empty_db, sq_height = 0, sq_tip_hash = []\<rparr>)"
  by (rule unwatched_spend_differs [THEN conjunct1]) (simp_all add: empty_db_def)

end
