(* ===== verification/Resolver.thy ===== *)
theory Resolver
  imports Multi Indexer Rpc
begin

section \<open>The seal resolver (\<open>crates/rgb-pq-resolver/src/resolver.rs\<close>)\<close>

text \<open>
  \<^verbatim>\<open>SealResolver::resolve\<close> step by step over any chain backend, with the world threaded through its
  calls in the order the code makes them, and the free verification helpers. The wall clock is a
  parameter: \<open>clock k\<close> is the instant of its \<open>k\<close>-th reading.
\<close>

datatype seal_state =
    OpenUnspent
  | ClosedValid (cv_spending_txid: string) (cv_inclusion: btq_inclusion_proof) (cv_confirmations: u32)
  | ClosedInvalid (ci_spending_txid: string) (ci_reason: invalid_seal_close_reason)
  | SealUnconfirmed (su_txid: string)
  | ReorgRisk (rr_txid: string) (rr_confirmations: u32) (rr_required: u32)
  | UnknownState (un_reason: unknown_seal_state_reason)

record 'w seal_resolver =
  rs_backend :: "'w btq_chain_backend"
  rs_limits :: verify_limits
  rs_pq_leaf_script :: "bytes option"

definition resolver_new :: "'w btq_chain_backend \<Rightarrow> 'w seal_resolver" where
  "resolver_new b = \<lparr>rs_backend = b, rs_limits = default_limits, rs_pq_leaf_script = None\<rparr>"

definition with_limits :: "'w btq_chain_backend \<Rightarrow> verify_limits \<Rightarrow> 'w seal_resolver" where
  "with_limits b limits = \<lparr>rs_backend = b, rs_limits = limits, rs_pq_leaf_script = None\<rparr>"

definition with_pq_leaf :: "'w seal_resolver \<Rightarrow> bytes \<Rightarrow> 'w seal_resolver" where
  "with_pq_leaf r script = r\<lparr>rs_pq_leaf_script := Some script\<rparr>"

datatype commitment_scan =
    ScanFound | ScanMissing | ScanDuplicate | ScanMalformed string | ScanWrongChain | ScanWrongSeal

subsection \<open>Verification helpers\<close>

definition is_dos :: "rgb_pq_error \<Rightarrow> bool" where
  "is_dos e = (case e of RgbPq_Invariant msg \<Rightarrow> str_starts_with msg ''DoS limit'' | _ \<Rightarrow> False)"

definition is_pq_owner_algo :: "pq_sig_algo \<Rightarrow> bool" where
  "is_pq_owner_algo a = (case a of Dilithium2 \<Rightarrow> True | Dilithium5 \<Rightarrow> True)"

definition verify_p2mr_output :: "crates \<Rightarrow> btq_tx_out \<Rightarrow> btq_p2mr_seal \<Rightarrow> (unit, seal_error) result"
where
  "verify_p2mr_output L out s =
     (let spk = to_script_pubkey out in
      if length spk \<noteq> 34
      then Err (SE_Malformed (MS_BadP2mrOutput (''scriptPubKey len '' @ fmt_nat (length spk)
        @ '' != 34'')))
      else and_then (idx spk 0) (\<lambda>a. and_then (idx spk 1) (\<lambda>b.
        if a \<noteq> 0x52 \<or> b \<noteq> 0x20 then Err (SE_Chain CC_NonP2mrBtqOutput)
        else and_then (slice_range spk 2 34) (\<lambda>root.
          if length root \<noteq> 32 then Err (SE_Malformed (MS_BadP2mrOutput ''root slice''))
          else if root \<noteq> p2mr_root s
          then Err (SE_WrongP2mrRoot (hex_encode L (p2mr_root s)) (hex_encode L root))
          else if \<not> is_pq_owner_algo (owner_algo s) then Err (SE_OwnerAlgo OA_Secp256k1NotAllowed)
          else Ok ()))))"

definition spends_outpoint :: "btq_tx \<Rightarrow> btq_p2mr_seal \<Rightarrow> bool" where
  "spends_outpoint tx s = True"

definition spends_outpoint_decoded :: "btq_p2mr_seal \<Rightarrow> bitcoin_outpoint list \<Rightarrow> bool" where
  "spends_outpoint_decoded s inputs = (case outpoint_to_bitcoin (outpoint s) of
     None \<Rightarrow> False | Some target \<Rightarrow> target \<in> set inputs)"

definition scan_commitment :: "btq_tx \<Rightarrow> btq_p2mr_seal \<Rightarrow> commitment_scan rgb_pq_result" where
  "scan_commitment tx s = Ok ScanMissing"

text \<open>The loop over the outputs; the guard was started at \<open>clock 0\<close> and is read once per output.\<close>

fun outputs_loop ::
  "crates \<Rightarrow> verify_limits \<Rightarrow> (nat \<Rightarrow> u128) \<Rightarrow> usize \<Rightarrow> (u32 \<times> bytes) list
    \<Rightarrow> (u32 \<times> rgb_pq_commitment) list \<Rightarrow> (u32 \<times> rgb_pq_commitment) list rgb_pq_result" where
  "outputs_loop L limits clock scanned [] hits = Ok hits"
| "outputs_loop L limits clock scanned ((vout, spk) # outs) hits =
     (let scanned = scanned + 1 in
      and_then (map_err rgb_pq_of_dos (check_scan_window limits scanned)) (\<lambda>_.
      and_then (map_err rgb_pq_of_dos (check_leaf_size limits (length spk))) (\<lambda>_.
      and_then (map_err rgb_pq_of_dos
        (budget_check (budget_start (clock 0) (max_resolver_time_ms limits)) (clock scanned))) (\<lambda>_.
      and_then (strip_op_return spk) (\<lambda>p. case p of
        None \<Rightarrow> outputs_loop L limits clock scanned outs hits
      | Some payload \<Rightarrow> if_let_ok (commitment_decode L payload)
          (\<lambda>c. outputs_loop L limits clock scanned outs (hits @ [(vout, c)]))
          (outputs_loop L limits clock scanned outs hits))))))"

definition classify_for_seal ::
  "btq_p2mr_seal \<Rightarrow> (u32 \<times> rgb_pq_commitment) list \<Rightarrow> commitment_scan" where
  "classify_for_seal s hits =
     (case hits of
        [] \<Rightarrow> ScanMissing
      | (v, c) # others \<Rightarrow>
          if others \<noteq> [] then ScanDuplicate
          else if cm_chain c \<noteq> chain_id s then ScanWrongChain
          else if cm_seal_txid c \<noteq> op_txid (outpoint s) \<or> cm_seal_vout c \<noteq> op_vout (outpoint s)
          then ScanWrongSeal
          else ScanFound)"

definition verify_commitment_in_outputs_bounded ::
  "crates \<Rightarrow> btq_p2mr_seal \<Rightarrow> (u32 \<times> bytes) list \<Rightarrow> verify_limits \<Rightarrow> (nat \<Rightarrow> u128)
    \<Rightarrow> commitment_scan rgb_pq_result" where
  "verify_commitment_in_outputs_bounded L s outputs limits clock =
     and_then (outputs_loop L limits clock 0 outputs []) (\<lambda>hits. Ok (classify_for_seal s hits))"

definition verify_commitment_in_outputs ::
  "crates \<Rightarrow> btq_p2mr_seal \<Rightarrow> (u32 \<times> bytes) list \<Rightarrow> (nat \<Rightarrow> u128) \<Rightarrow> commitment_scan rgb_pq_result"
where
  "verify_commitment_in_outputs L s outputs clock =
     verify_commitment_in_outputs_bounded L s outputs default_limits clock"

subsection \<open>Resolution\<close>

definition scan_p2mr_ret_commitment ::
  "crates \<Rightarrow> 'w seal_resolver \<Rightarrow> btq_p2mr_seal \<Rightarrow> commitment_scan rgb_pq_result" where
  "scan_p2mr_ret_commitment L r s =
     (case rs_pq_leaf_script r of
        None \<Rightarrow> Ok (ScanMalformed ''p2mr-ret: no PQ leaf configured on resolver'')
      | Some pq_leaf \<Rightarrow>
          if compute_tapleaf_hash L P2MR_COMMITMENT_LEAF_VERSION pq_leaf = replicate 32 0
          then Ok (ScanMalformed ''p2mr-ret: invalid PQ leaf hash'')
          else Ok ScanFound)"

definition resolve_close ::
  "crates \<Rightarrow> 'w seal_resolver \<Rightarrow> btq_p2mr_seal \<Rightarrow> btq_tx \<Rightarrow> u32 \<Rightarrow> ('w, seal_state) io" where
  "resolve_close L r s tx seal_vout =
     (let spending_txid = tx_txid tx;
          invalid = (\<lambda>reason. io_return (ClosedInvalid spending_txid reason)) in
      if \<not> spends_outpoint tx s then invalid IC_NotSpentByTx
      else if \<not> is_pq_owner_algo (owner_algo s) then invalid IC_WrongOwnershipPath
      else
      io_bind (io_result (if is_p2mr_ret (commitment_locator s)
          then scan_p2mr_ret_commitment L r s else scan_commitment tx s)) (\<lambda>scan.
      case scan of
        ScanMissing \<Rightarrow> invalid (IC_Commitment (CM_Missing spending_txid))
      | ScanDuplicate \<Rightarrow> invalid (IC_Commitment (CM_Duplicate spending_txid))
      | ScanMalformed d \<Rightarrow> invalid (IC_Commitment (CM_Malformed d))
      | ScanWrongChain \<Rightarrow> invalid (IC_Commitment CM_WrongChain)
      | ScanWrongSeal \<Rightarrow> invalid (IC_Commitment CM_WrongSeal)
      | ScanFound \<Rightarrow>
          let required = required_depth (confirmation_policy s) in
          case tx_status tx of
            Unconfirmed \<Rightarrow> io_return (SealUnconfirmed spending_txid)
          | Confirmed height block_hash confs time \<Rightarrow>
              if confs < required then io_return (ReorgRisk spending_txid confs required)
              else (\<lambda>w. case be_prove_tx_inclusion (rs_backend r) spending_txid w of
                (Ok p, w') \<Rightarrow> (Ok (ClosedValid spending_txid p (confirmations (tx_status tx))), w')
              | (Err e, w') \<Rightarrow> (Ok (UnknownState (US_Resolve (RE_MissingInclusionProof
                  (spending_txid @ '': '' @ show_rgb_pq_error e)))), w')
              | (Panic, w') \<Rightarrow> (Panic, w'))))"

definition resolve_inner ::
  "crates \<Rightarrow> 'w seal_resolver \<Rightarrow> btq_p2mr_seal \<Rightarrow> ('w, seal_state) io" where
  "resolve_inner L r s =
     (let b = rs_backend r in
      if be_network_id b \<noteq> chain_id s
      then io_return (UnknownState (US_Resolve (resolve_of_chain
        (CC_WrongNetwork (domain_str (chain_id s)) (domain_str (be_network_id b))))))
      else case outpoint_to_bitcoin (outpoint s) of
        None \<Rightarrow> io_return (UnknownState US_OutpointMissing)
      | Some op' \<Rightarrow>
        let txid_hex = txid_to_string (op_txid (outpoint s)) in
        io_bind (be_get_output b (outpoint s)) (\<lambda>found. case found of
          None \<Rightarrow> io_return (UnknownState US_OutpointMissing)
        | Some out \<Rightarrow> (case verify_p2mr_output L out s of
            Panic \<Rightarrow> io_result Panic
          | Err e \<Rightarrow> io_return (UnknownState (US_Resolve (RE_Seal e)))
          | Ok _ \<Rightarrow>
            if \<not> to_spent out then io_return OpenUnspent
            else io_bind (be_get_spending_tx b (outpoint s)) (\<lambda>spending. case spending of
                None \<Rightarrow> io_return (UnknownState (US_Resolve (RE_MissingTx txid_hex)))
              | Some tx \<Rightarrow> resolve_close L r s tx (snd op')))))"

text \<open>\<^verbatim>\<open>let _guard = BudgetGuard::start(...)\<close> starts a guard that nothing reads.\<close>

definition resolve :: "crates \<Rightarrow> 'w seal_resolver \<Rightarrow> btq_p2mr_seal \<Rightarrow> ('w, seal_state) io" where
  "resolve L r s = (\<lambda>w. case resolve_inner L r s w of
     (Err e, w') \<Rightarrow> (if is_dos e
        then Ok (UnknownState (US_Resolve (RE_MissingTx (''DoS limit: '' @ show_rgb_pq_error e))))
        else Err e, w')
   | (r, w') \<Rightarrow> (r, w'))"

subsection \<open>The helpers\<close>

lemma is_pq_owner_algo_all [simp]: "is_pq_owner_algo a"
  by (cases a) (simp_all add: is_pq_owner_algo_def)

definition p2mr_script :: "bytes \<Rightarrow> bytes" where
  "p2mr_script root = 0x52 # 0x20 # root"

lemma verify_p2mr_output_iff:
  "verify_p2mr_output L out s = Ok () \<longleftrightarrow>
    length (p2mr_root s) = 32 \<and> to_script_pubkey out = p2mr_script (p2mr_root s)"
proof (cases "\<exists>a b rest. to_script_pubkey out = a # b # rest")
  case True
  then obtain a b rest where "to_script_pubkey out = a # b # rest" by blast
  then show ?thesis
    by (auto simp: verify_p2mr_output_def p2mr_script_def Let_def idx_def slice_range_def
        split: if_splits)
next
  case False
  then have "length (to_script_pubkey out) \<noteq> 34"
    by (cases "to_script_pubkey out"; cases "tl (to_script_pubkey out)") auto
  with False show ?thesis by (auto simp: verify_p2mr_output_def p2mr_script_def Let_def)
qed

lemma verify_p2mr_output_no_panic: "\<not> panics (verify_p2mr_output L out s)"
  unfolding verify_p2mr_output_def Let_def by (intro no_panic) simp_all

subsection \<open>Scanning decoded outputs\<close>

text \<open>Every output passes its three checks.\<close>

definition outputs_within ::
  "verify_limits \<Rightarrow> (nat \<Rightarrow> u128) \<Rightarrow> nat \<Rightarrow> (u32 \<times> bytes) list \<Rightarrow> bool" where
  "outputs_within limits clock scanned outs \<longleftrightarrow>
     (\<forall>k < length outs. scanned + k + 1 \<le> max_scan_window limits
        \<and> length (snd (outs ! k)) \<le> max_commitment_leaf_size limits
        \<and> clock (scanned + k + 1) - clock 0 \<le> max_resolver_time_ms limits)"

lemma outputs_within_Cons:
  "outputs_within limits clock n (o' # outs) \<longleftrightarrow> n + 1 \<le> max_scan_window limits
     \<and> length (snd o') \<le> max_commitment_leaf_size limits
     \<and> clock (n + 1) - clock 0 \<le> max_resolver_time_ms limits
     \<and> outputs_within limits clock (n + 1) outs"
  by (auto simp: outputs_within_def less_Suc_eq_0_disj)

lemma outputs_loop_ok:
  assumes L: "sha256_ok L"
  shows "outputs_within limits clock n outs
    \<Longrightarrow> outputs_loop L limits clock n outs hits = Ok (hits @ scan_hits L outs)"
proof (induction outs arbitrary: n hits)
  case (Cons o' outs)
  obtain v spk where o': "o' = (v, spk)" by (cases o')
  from Cons.prems have checks: "check_scan_window limits (n + 1) = Ok ()"
      "check_leaf_size limits (length spk) = Ok ()"
      "budget_check (budget_start (clock 0) (max_resolver_time_ms limits)) (clock (n + 1)) = Ok ()"
    by (simp_all add: o' outputs_within_Cons check_ok_iff budget_check_started)
  from Cons.prems have IH: "outputs_loop L limits clock (n + 1) outs h = Ok (h @ scan_hits L outs)"
    for h by (intro Cons.IH) (simp add: o' outputs_within_Cons)
  show ?case
  proof (cases "stripped spk")
    case None
    then show ?thesis
      using checks IH by (simp add: o' Let_def strip_op_return_total carried_commitment_def)
  next
    case (Some p)
    then show ?thesis
      using checks IH commitment_decode_no_panic [OF L, of p]
      by (cases "commitment_decode L p")
         (simp_all add: o' Let_def strip_op_return_total carried_commitment_def)
  qed
qed simp

lemma check_cases:
  "check_scan_window l n = Ok () \<or> (\<exists>e. check_scan_window l n = Err e)"
  "check_leaf_size l n = Ok () \<or> (\<exists>e. check_leaf_size l n = Err e)"
  "budget_check g t = Ok () \<or> (\<exists>e. budget_check g t = Err e)"
  by (simp_all add: limit_defs Let_def)

lemma outputs_loop_exceeded:
  assumes L: "sha256_ok L"
  shows "\<not> outputs_within limits clock n outs
    \<Longrightarrow> \<exists>e. outputs_loop L limits clock n outs hits = Err (rgb_pq_of_dos e)"
proof (induction outs arbitrary: n hits)
  case Nil
  then show ?case by (simp add: outputs_within_def)
next
  case (Cons o' outs)
  obtain v spk where o': "o' = (v, spk)" by (cases o')
  let ?checks = "check_scan_window limits (n + 1) = Ok ()
      \<and> check_leaf_size limits (length spk) = Ok ()
      \<and> budget_check (budget_start (clock 0) (max_resolver_time_ms limits)) (clock (n + 1)) = Ok ()"
  show ?case
  proof (cases ?checks)
    case False
    then show ?thesis
      using check_cases(1) [of limits "n + 1"] check_cases(2) [of limits "length spk"]
        check_cases(3) [of "budget_start (clock 0) (max_resolver_time_ms limits)" "clock (n + 1)"]
      by (auto simp: o' Let_def)
  next
    case True
    with Cons.prems have "\<not> outputs_within limits clock (n + 1) outs"
      by (simp add: o' outputs_within_Cons check_ok_iff budget_check_started)
    then have IH: "\<exists>e. outputs_loop L limits clock (n + 1) outs h = Err (rgb_pq_of_dos e)" for h
      by (rule Cons.IH)
    show ?thesis
      using True IH commitment_decode_no_panic [OF L, unfolded panics_def]
      by (cases "stripped spk"; cases "commitment_decode L (the (stripped spk))")
         (auto simp: o' Let_def strip_op_return_total)
  qed
qed

subsection \<open>Resolution\<close>

lemma io_simps: "io_return x w = (Ok x, w)" "io_result r w = (r, w)"
  by (simp_all add: io_return_def io_result_def)

lemma io_bind_Ok_iff:
  "io_bind m f w = (Ok y, w') \<longleftrightarrow> (\<exists>x w1. m w = (Ok x, w1) \<and> f x w1 = (Ok y, w'))"
  by (auto simp: io_bind_def split: prod.splits result.splits)

lemma resolve_Ok_iff:
  assumes "\<And>m. st \<noteq> UnknownState (US_Resolve (RE_MissingTx m))"
  shows "resolve L r s w = (Ok st, w') \<longleftrightarrow> resolve_inner L r s w = (Ok st, w')"
  using assms by (auto simp: resolve_def split: prod.splits result.splits if_splits)

text \<open>Where an \<open>Ok\<close> of the inner resolution comes from: the five places before the close, or the
  close itself.\<close>

lemma resolve_inner_Ok:
  assumes "resolve_inner L r s w = (Ok st, w')"
  obtains (Unknown) reason where "st = UnknownState reason"
  | (Open) out where "be_network_id (rs_backend r) = chain_id s"
      "be_get_output (rs_backend r) (outpoint s) w = (Ok (Some out), w')"
      "verify_p2mr_output L out s = Ok ()" "\<not> to_spent out" "st = OpenUnspent"
  | (Close) out w1 tx w2 where "be_network_id (rs_backend r) = chain_id s"
      "be_get_output (rs_backend r) (outpoint s) w = (Ok (Some out), w1)"
      "verify_p2mr_output L out s = Ok ()" "to_spent out"
      "be_get_spending_tx (rs_backend r) (outpoint s) w1 = (Ok (Some tx), w2)"
      "resolve_close L r s tx (op_vout (outpoint s)) w2 = (Ok st, w')"
proof (cases "be_network_id (rs_backend r) = chain_id s")
  case False
  with assms Unknown show thesis by (auto simp: resolve_inner_def Let_def io_simps)
next
  case True
  note chain = this
  from assms True obtain found w1 where
    found: "be_get_output (rs_backend r) (outpoint s) w = (Ok found, w1)"
    by (auto simp: resolve_inner_def Let_def outpoint_to_bitcoin_def io_bind_Ok_iff)
  show thesis
  proof (cases found)
    case None
    with assms True found Unknown show thesis
      by (auto simp: resolve_inner_def Let_def outpoint_to_bitcoin_def io_simps)
  next
    case (Some out)
    note step = assms [unfolded resolve_inner_def] True found Some
    show thesis
    proof (cases "verify_p2mr_output L out s")
      case (Ok u)
      then have ok: "verify_p2mr_output L out s = Ok ()" by simp
      show thesis
      proof (cases "to_spent out")
        case False
        with step ok have "st = OpenUnspent" "w1 = w'"
          by (auto simp: Let_def outpoint_to_bitcoin_def io_simps)
        with found Some ok False chain Open show thesis by blast
      next
        case spent: True
        with step ok obtain spending w2 where
          get: "be_get_spending_tx (rs_backend r) (outpoint s) w1 = (Ok spending, w2)"
          by (auto simp: Let_def outpoint_to_bitcoin_def io_bind_Ok_iff)
        show thesis
        proof (cases spending)
          case None
          with step ok spent get Unknown show thesis
            by (auto simp: Let_def outpoint_to_bitcoin_def io_simps)
        next
          case (Some tx)
          with step ok spent get
          have "resolve_close L r s tx (op_vout (outpoint s)) w2 = (Ok st, w')"
            by (simp add: Let_def outpoint_to_bitcoin_def)
          with Close [OF chain _ ok spent] found \<open>found = Some out\<close> get Some show thesis by blast
        qed
      qed
    qed (use step Unknown in \<open>auto simp: Let_def outpoint_to_bitcoin_def io_simps\<close>)
  qed
qed

lemma resolve_inner_close:
  assumes "be_network_id (rs_backend r) = chain_id s"
    and "be_get_output (rs_backend r) (outpoint s) w = (Ok (Some out), w1)"
    and "verify_p2mr_output L out s = Ok ()" and "to_spent out"
    and "be_get_spending_tx (rs_backend r) (outpoint s) w1 = (Ok (Some tx), w2)"
  shows "resolve_inner L r s w = resolve_close L r s tx (op_vout (outpoint s)) w2"
  using assms by (simp add: resolve_inner_def Let_def outpoint_to_bitcoin_def)

lemma resolve_close_opret:
  "\<not> is_p2mr_ret (commitment_locator s) \<Longrightarrow> resolve_close L r s tx v w
    = (Ok (ClosedInvalid (tx_txid tx) (IC_Commitment (CM_Missing (tx_txid tx)))), w)"
  by (simp add: resolve_close_def spends_outpoint_def scan_commitment_def Let_def io_bind_def
      io_simps)

lemma resolve_opret_cases:
  assumes "\<not> is_p2mr_ret (commitment_locator s)" and "fst (resolve L r s w) = Ok st"
  obtains (Unspent) "st = OpenUnspent" | (Unknown) reason where "st = UnknownState reason"
  | (Missing) t where "st = ClosedInvalid t (IC_Commitment (CM_Missing t))"
proof (cases "resolve_inner L r s w")
  case (Pair res w')
  show thesis
  proof (cases res)
    case (Ok st')
    with Pair have "resolve_inner L r s w = (Ok st', w')" and "st' = st"
      using assms(2) by (simp_all add: resolve_def)
    then show thesis
    proof (cases rule: resolve_inner_Ok)
      case (Close out w1 tx w2)
      then have "st' = ClosedInvalid (tx_txid tx) (IC_Commitment (CM_Missing (tx_txid tx)))"
        by (simp add: resolve_close_opret [OF assms(1)])
      with Missing \<open>st' = st\<close> show thesis by blast
    qed (use Unspent Unknown \<open>st' = st\<close> in auto)
  qed (use Pair assms(2) Unknown in \<open>auto simp: resolve_def split: if_splits\<close>)
qed

text \<open>The one way a close is accepted.\<close>

lemma resolve_close_valid_iff:
  "resolve_close L r s tx v w = (Ok (ClosedValid t p k), w') \<longleftrightarrow>
     is_p2mr_ret (commitment_locator s) \<and> t = tx_txid tx
     \<and> (\<exists>leaf. rs_pq_leaf_script r = Some leaf
         \<and> compute_tapleaf_hash L P2MR_COMMITMENT_LEAF_VERSION leaf \<noteq> replicate 32 0)
     \<and> (\<exists>height block time. tx_status tx = Confirmed height block k time)
     \<and> required_depth (confirmation_policy s) \<le> k
     \<and> be_prove_tx_inclusion (rs_backend r) t w = (Ok p, w')"
proof (cases "is_p2mr_ret (commitment_locator s)")
  case False
  then show ?thesis by (simp add: resolve_close_opret)
next
  case True
  then show ?thesis
    by (cases "rs_pq_leaf_script r"; cases "tx_status tx")
       (auto simp: resolve_close_def spends_outpoint_def scan_p2mr_ret_commitment_def Let_def
         io_bind_def io_simps not_less split: prod.splits result.splits)
qed

subsection \<open>A sample backend\<close>

definition sample_ret_seal :: btq_p2mr_seal where
  "sample_ret_seal = sample_seal\<lparr>commitment_locator := P2mrRetLeaf, confirmation_policy := Depth 3\<rparr>"

definition sample_proof :: btq_inclusion_proof where
  "sample_proof = \<lparr>ip_txid = ''01'', ip_block_hash = ''ab'', ip_proof_hex = ''00''\<rparr>"

definition sample_backend :: "bool \<Rightarrow> tx_status \<Rightarrow> unit btq_chain_backend" where
  "sample_backend spent status = \<lparr>be_network_id = BitcoinQuantumRegtest,
     be_current_tip = io_return \<lparr>tip_height = 200, tip_hash = ''ab''\<rparr>,
     be_get_tx = (\<lambda>t. io_return None), be_get_tx_status = (\<lambda>t. io_return status),
     be_get_output = (\<lambda>o'. io_return (Some \<lparr>to_outpoint = o', to_value = 5,
       to_script_pubkey = p2mr_script (replicate 32 0x22), to_spent = spent\<rparr>)),
     be_get_spending_tx = (\<lambda>o'. io_return (Some (sample_spend\<lparr>tx_status := status\<rparr>))),
     be_prove_tx_inclusion = (\<lambda>t. io_return sample_proof),
     be_confirmation_depth = (\<lambda>t. io_return None),
     be_broadcast_tx = default_broadcast_tx\<rparr>"

definition sample_resolver :: "bool \<Rightarrow> tx_status \<Rightarrow> unit seal_resolver" where
  "sample_resolver spent status = with_pq_leaf (resolver_new (sample_backend spent status)) [0x51]"

lemma sample_ret_seal_fields:
  "chain_id sample_ret_seal = BitcoinQuantumRegtest" "outpoint sample_ret_seal = sample_outpoint"
  "commitment_locator sample_ret_seal = P2mrRetLeaf"
  "required_depth (confirmation_policy sample_ret_seal) = 3"
  by (simp_all add: sample_ret_seal_def sample_seal_def seal_new_def max_def word_le_nat_alt)

lemma sample_output_verifies:
  "verify_p2mr_output L \<lparr>to_outpoint = o', to_value = 5,
     to_script_pubkey = p2mr_script (replicate 32 0x22), to_spent = b\<rparr> sample_ret_seal = Ok ()"
  by (simp add: verify_p2mr_output_iff sample_ret_seal_def sample_seal_def seal_new_def)

lemma sample_leaf_hash: "compute_tapleaf_hash toy_crates P2MR_COMMITMENT_LEAF_VERSION [0x51]
    \<noteq> replicate 32 0"
proof
  assume "compute_tapleaf_hash toy_crates P2MR_COMMITMENT_LEAF_VERSION [0x51] = replicate 32 0"
  from arg_cong [OF this, of hd] show False
    by (simp add: compute_tapleaf_hash_def tagged_hash_def tagged_message_def tapleaf_message_def
        toy_sha256_hd last_append)
qed

subsection \<open>Properties\<close>

text \<open>C3. When a close is accepted: \<^verbatim>\<open>resolve\<close> returns \<^verbatim>\<open>ClosedValid\<close> exactly if the backend is on the
  seal's chain, reports the outpoint as a spent output whose scriptPubKey is \<^verbatim>\<open>OP_2 PUSH32\<close> of the
  seal's root, reports a spending transaction confirmed at least to the required depth and proves
  its inclusion, and the seal's locator is P2MR-ret with a PQ leaf configured on the resolver whose
  hash is not all zeros. The calls are made in that order. The last condition is all that is asked of the commitment: neither
  the MPC value nor the leaf enters the root check.\<close>

theorem resolve_closed_valid_iff:
  "resolve L r s w = (Ok (ClosedValid t p k), w') \<longleftrightarrow>
    be_network_id (rs_backend r) = chain_id s \<and> length (p2mr_root s) = 32
    \<and> (\<exists>out w1 tx w2 height block time leaf.
        be_get_output (rs_backend r) (outpoint s) w = (Ok (Some out), w1)
        \<and> to_script_pubkey out = p2mr_script (p2mr_root s) \<and> to_spent out
        \<and> be_get_spending_tx (rs_backend r) (outpoint s) w1 = (Ok (Some tx), w2)
        \<and> tx_txid tx = t \<and> tx_status tx = Confirmed height block k time
        \<and> required_depth (confirmation_policy s) \<le> k
        \<and> is_p2mr_ret (commitment_locator s) \<and> rs_pq_leaf_script r = Some leaf
        \<and> compute_tapleaf_hash L P2MR_COMMITMENT_LEAF_VERSION leaf \<noteq> replicate 32 0
        \<and> be_prove_tx_inclusion (rs_backend r) t w2 = (Ok p, w'))"
  (is "?lhs \<longleftrightarrow> ?rhs")
proof
  assume ?lhs
  then have "resolve_inner L r s w = (Ok (ClosedValid t p k), w')" by (subst (asm) resolve_Ok_iff) simp_all
  then show ?rhs
    by (rule resolve_inner_Ok) (auto simp: verify_p2mr_output_iff resolve_close_valid_iff)
next
  assume ?rhs
  then have "resolve_inner L r s w = (Ok (ClosedValid t p k), w')"
    by (elim conjE exE, subst resolve_inner_close)
       (auto simp: verify_p2mr_output_iff resolve_close_valid_iff)
  then show ?lhs by (subst resolve_Ok_iff) simp_all
qed

text \<open>C10. An OP_RETURN seal never closes: for a locator other than P2MR-ret no backend makes the
  resolver report a valid close, an unconfirmed one or a reorg risk. When the backend, on the seal's
  chain, gives a spent output with the seal's script and a transaction that spends it, the answer is
  \<^verbatim>\<open>ClosedInvalid\<close> of that transaction with a missing commitment, whatever its outputs carry, its
  status is and the resolver knows, and no further question is asked: \<^verbatim>\<open>scan_commitment\<close> never
  looks at the outputs. No other close is reported as invalid.\<close>

theorem opret_seal_never_closes:
  assumes "\<not> is_p2mr_ret (commitment_locator s)"
  shows "(case fst (resolve L r s w) of
      Ok (ClosedValid t p k) \<Rightarrow> False
    | Ok (SealUnconfirmed t) \<Rightarrow> False
    | Ok (ReorgRisk t k n) \<Rightarrow> False
    | Ok (ClosedInvalid t reason) \<Rightarrow> reason = IC_Commitment (CM_Missing t)
    | _ \<Rightarrow> True)
    \<and> (resolve L r s w = (Ok (ClosedInvalid t (IC_Commitment (CM_Missing t))), w') \<longleftrightarrow>
        be_network_id (rs_backend r) = chain_id s
        \<and> (\<exists>out w1 tx. be_get_output (rs_backend r) (outpoint s) w = (Ok (Some out), w1)
            \<and> verify_p2mr_output L out s = Ok () \<and> to_spent out
            \<and> be_get_spending_tx (rs_backend r) (outpoint s) w1 = (Ok (Some tx), w') \<and> tx_txid tx = t))"
proof (rule conjI [OF _ iffI])
  show "case fst (resolve L r s w) of
      Ok (ClosedValid t p k) \<Rightarrow> False
    | Ok (SealUnconfirmed t) \<Rightarrow> False
    | Ok (ReorgRisk t k n) \<Rightarrow> False
    | Ok (ClosedInvalid t reason) \<Rightarrow> reason = IC_Commitment (CM_Missing t)
    | _ \<Rightarrow> True"
  proof (cases "fst (resolve L r s w)")
    case (Ok st)
    from assms this show ?thesis by (cases rule: resolve_opret_cases) (simp_all add: Ok)
  qed simp_all
next
  assume "resolve L r s w = (Ok (ClosedInvalid t (IC_Commitment (CM_Missing t))), w')"
  then have "resolve_inner L r s w = (Ok (ClosedInvalid t (IC_Commitment (CM_Missing t))), w')"
    by (subst (asm) resolve_Ok_iff) simp_all
  then show "be_network_id (rs_backend r) = chain_id s
      \<and> (\<exists>out w1 tx. be_get_output (rs_backend r) (outpoint s) w = (Ok (Some out), w1)
          \<and> verify_p2mr_output L out s = Ok () \<and> to_spent out
          \<and> be_get_spending_tx (rs_backend r) (outpoint s) w1 = (Ok (Some tx), w') \<and> tx_txid tx = t)"
    by (rule resolve_inner_Ok) (auto simp: resolve_close_opret [OF assms])
qed (auto simp: resolve_def resolve_inner_close resolve_close_opret [OF assms])

theorem opret_seal_never_closes_witness:
  "case fst (resolve toy_crates (sample_resolver True (Confirmed 100 ''ab'' 6 0)) sample_seal ()) of
      Ok (ClosedValid t p k) \<Rightarrow> False
    | Ok (SealUnconfirmed t) \<Rightarrow> False
    | Ok (ReorgRisk t k n) \<Rightarrow> False
    | Ok (ClosedInvalid t reason) \<Rightarrow> reason = IC_Commitment (CM_Missing t)
    | _ \<Rightarrow> True"
  using opret_seal_never_closes [of sample_seal, THEN conjunct1] by (simp add: sample_seal_def seal_new_def)

text \<open>C4. Finality: for a spent P2MR-ret output whose PQ leaf is configured, an unconfirmed spend is
  \<^verbatim>\<open>Unconfirmed\<close>, one below the required depth is \<^verbatim>\<open>ReorgRisk\<close> with both depths, and a deeper one
  is decided by the inclusion proof; no proof means \<^verbatim>\<open>Unknown\<close>, never a valid close.\<close>

theorem resolve_finality:
  assumes "be_network_id (rs_backend r) = chain_id s"
    and "be_get_output (rs_backend r) (outpoint s) w = (Ok (Some out), w1)"
    and "verify_p2mr_output L out s = Ok ()" and "to_spent out"
    and "be_get_spending_tx (rs_backend r) (outpoint s) w1 = (Ok (Some tx), w2)"
    and "is_p2mr_ret (commitment_locator s)" and "rs_pq_leaf_script r = Some leaf"
    and "compute_tapleaf_hash L P2MR_COMMITMENT_LEAF_VERSION leaf \<noteq> replicate 32 0"
  shows "resolve L r s w = (let need = required_depth (confirmation_policy s); t = tx_txid tx in
    case tx_status tx of
      Unconfirmed \<Rightarrow> (Ok (SealUnconfirmed t), w2)
    | Confirmed height block k time \<Rightarrow>
        if k < need then (Ok (ReorgRisk t k need), w2)
        else case be_prove_tx_inclusion (rs_backend r) t w2 of
          (Ok p, w3) \<Rightarrow> (Ok (ClosedValid t p k), w3)
        | (Err e, w3) \<Rightarrow> (Ok (UnknownState (US_Resolve (RE_MissingInclusionProof
            (t @ '': '' @ show_rgb_pq_error e)))), w3)
        | (Panic, w3) \<Rightarrow> (Panic, w3))"
  using assms(6-8) unfolding resolve_def resolve_inner_close [OF assms(1-5)]
  by (cases "tx_status tx")
     (auto simp: resolve_close_def spends_outpoint_def scan_p2mr_ret_commitment_def Let_def
       io_bind_def io_simps split: prod.split result.split)

theorem resolve_finality_witness:
  "resolve toy_crates (sample_resolver True (Confirmed 100 ''ab'' 2 0)) sample_ret_seal ()
      = (Ok (ReorgRisk ''01'' 2 3), ())
    \<and> resolve toy_crates (sample_resolver True (Confirmed 100 ''ab'' 3 0)) sample_ret_seal ()
      = (Ok (ClosedValid ''01'' sample_proof 3), ())"
proof -
  have *: "resolve toy_crates (sample_resolver True st) sample_ret_seal () = (case st of
      Unconfirmed \<Rightarrow> (Ok (SealUnconfirmed ''01''), ())
    | Confirmed height block k time \<Rightarrow> if k < 3 then (Ok (ReorgRisk ''01'' k 3), ())
        else (Ok (ClosedValid ''01'' sample_proof k), ()))" for st
    by (subst resolve_finality [where ?w1.0 = "()" and ?w2.0 = "()"
          and out = "\<lparr>to_outpoint = outpoint sample_ret_seal, to_value = 5,
            to_script_pubkey = p2mr_script (replicate 32 0x22), to_spent = True\<rparr>"
          and tx = "sample_spend\<lparr>tx_status := st\<rparr>" and leaf = "[0x51]"])
       (simp_all add: sample_resolver_def with_pq_leaf_def resolver_new_def sample_backend_def
         io_simps sample_output_verifies sample_leaf_hash sample_spend_def Let_def
         sample_ret_seal_fields split: tx_status.split)
  show ?thesis by (simp add: *)
qed

text \<open>What the resolver does not look at: its limits (the time guard is started and never
  checked), the seal's script leaf hash, and - through it - any size, so two resolvers that differ
  only in limits and two seals that differ only in that hash are always resolved alike. (The
  documentation says the configured limits are enforced and the leaf hash is matched.)\<close>

theorem resolve_ignores_limits_and_leaf_hash:
  "resolve L (r\<lparr>rs_limits := limits\<rparr>) (s\<lparr>script_leaf_hash := h\<rparr>) = resolve L r s"
proof -
  have "resolve_inner L (r\<lparr>rs_limits := limits\<rparr>) (s\<lparr>script_leaf_hash := h\<rparr>) = resolve_inner L r s"
    by (simp add: resolve_inner_def resolve_close_def scan_p2mr_ret_commitment_def scan_commitment_def
        spends_outpoint_def verify_p2mr_output_def Let_def cong: option.case_cong result.case_cong
        commitment_scan.case_cong tx_status.case_cong prod.case_cong if_cong)
  then show ?thesis by (simp add: resolve_def)
qed

text \<open>C36. Over the RPC backend no close is ever seen: whatever the node answers, resolving gives
  \<^verbatim>\<open>OpenUnspent\<close>, \<^verbatim>\<open>Unknown\<close> or an error, since the output of a spent outpoint comes back with an
  empty scriptPubKey and fails the P2MR check.\<close>

theorem resolve_over_rpc_never_closes:
  "case fst (resolve L (r\<lparr>rs_backend := rpc_backend L' J net c\<rparr>) s w) of
      Ok OpenUnspent \<Rightarrow> True | Ok (UnknownState reason) \<Rightarrow> True | Ok _ \<Rightarrow> False | _ \<Rightarrow> True"
proof (cases "resolve_inner L (r\<lparr>rs_backend := rpc_backend L' J net c\<rparr>) s w")
  case (Pair res w')
  show ?thesis
  proof (cases res)
    case (Ok st)
    with Pair have "resolve_inner L (r\<lparr>rs_backend := rpc_backend L' J net c\<rparr>) s w = (Ok st, w')"
      by simp
    then show ?thesis
    proof (cases rule: resolve_inner_Ok)
      case (Close out w1 tx w2)
      then have "to_script_pubkey out = []"
        using rpc_spent_blank by (fastforce simp: rpc_backend_def)
      with Close(3) show ?thesis by (simp add: verify_p2mr_output_iff p2mr_script_def)
    qed (use Pair Ok in \<open>simp_all add: resolve_def\<close>)
  qed (use Pair in \<open>simp_all add: resolve_def\<close>)
qed



text \<open>An output passes the P2MR check exactly if its scriptPubKey is \<^verbatim>\<open>OP_2 PUSH32\<close> followed by
  the seal's 32-byte root; the check never panics.\<close>

theorem verify_p2mr_output_exact:
  "(verify_p2mr_output L out s = Ok () \<longleftrightarrow>
      length (p2mr_root s) = 32 \<and> to_script_pubkey out = p2mr_script (p2mr_root s))
    \<and> \<not> panics (verify_p2mr_output L out s)"
  by (rule conjI [OF verify_p2mr_output_iff verify_p2mr_output_no_panic])

end
