(* ===== verification/Lifecycle.thy ===== *)
theory Lifecycle
  imports Resolver
begin

section \<open>The phases of a seal\<close>

text \<open>
  What the resolver's answers mean. The backend trait of \<open>crates/rgb-pq-chain/src/backend.rs\<close>
  documents what a node reports of an outpoint; \<open>chain_view\<close> states that contract over an abstract
  view (outputs, and the spend of an outpoint with its depth), and the resolver of
  \<open>crates/rgb-pq-resolver/src/resolver.rs\<close> is shown to compute the phase of the view. The contract
  is discharged for the backend of \<open>crates/rgb-pq-bench\<close> in \<open>Bench\<close>; the backend over the RPC client
  does not meet it, since it loses the script of a spent output.
\<close>

subsection \<open>Phases\<close>

datatype phase = Open | Pending | Shallow nat | Final nat

text \<open>The specification: the phase of an output whose spend is at a depth (0 in the mempool).\<close>

fun phase_at :: "nat \<Rightarrow> nat option \<Rightarrow> phase" where
  "phase_at required None = Open"
| "phase_at required (Some d) =
     (if d = 0 then Pending else if d < required then Shallow d else Final d)"

text \<open>What a resolver state says about the phase; \<open>ClosedInvalid\<close> and \<open>Unknown\<close> say nothing.\<close>

fun phase_of :: "seal_state \<Rightarrow> phase option" where
  "phase_of OpenUnspent = Some Open"
| "phase_of (SealUnconfirmed t) = Some Pending"
| "phase_of (ReorgRisk t k n) = Some (Shallow (unat k))"
| "phase_of (ClosedValid t p k) = Some (Final (unat k))"
| "phase_of (ClosedInvalid t reason) = None"
| "phase_of (UnknownState reason) = None"

definition reports :: "'w seal_resolver \<Rightarrow> crates \<Rightarrow> btq_p2mr_seal \<Rightarrow> 'w \<Rightarrow> phase \<Rightarrow> bool" where
  "reports r L s w ph \<longleftrightarrow> (\<exists>st. resolve L r s w = (Ok st, w) \<and> phase_of st = Some ph)"

definition depth_status :: "nat \<Rightarrow> tx_status \<Rightarrow> bool" where
  "depth_status d st \<longleftrightarrow> (if d = 0 then st = Unconfirmed
     else \<exists>height block time. st = Confirmed height block (of_nat d) time)"

text \<open>A p2mr-ret seal whose leaf the resolver knows: what the resolver needs beside the chain.\<close>

definition resolvable :: "'w seal_resolver \<Rightarrow> crates \<Rightarrow> btq_p2mr_seal \<Rightarrow> bool" where
  "resolvable r L s \<longleftrightarrow> be_network_id (rs_backend r) = chain_id s \<and> length (p2mr_root s) = 32
     \<and> is_p2mr_ret (commitment_locator s)
     \<and> (\<exists>leaf. rs_pq_leaf_script r = Some leaf
          \<and> compute_tapleaf_hash L P2MR_COMMITMENT_LEAF_VERSION leaf \<noteq> replicate 32 0)"

subsection \<open>The backend's contract\<close>

locale chain_view =
  fixes backend :: "'w btq_chain_backend"
    and outs :: "'w \<Rightarrow> btq_outpoint \<Rightarrow> (u64 \<times> bytes) option"
    and spender :: "'w \<Rightarrow> btq_outpoint \<Rightarrow> (string \<times> bytes \<times> nat) option"
    and valid :: "'w \<Rightarrow> bool"
  assumes get_output: "valid w \<Longrightarrow> \<exists>found. be_get_output backend o' w = (Ok found, w)
      \<and> map_option (\<lambda>out. (to_value out, to_script_pubkey out, to_spent out)) found
        = map_option (\<lambda>(v, spk). (v, spk, spender w o' \<noteq> None)) (outs w o')"
    and get_spending_tx: "valid w \<Longrightarrow> spender w o' = Some (t, raw, d) \<Longrightarrow>
      \<exists>st. be_get_spending_tx backend o' w
          = (Ok (Some \<lparr>tx_txid = t, tx_raw = raw, tx_status = st\<rparr>), w) \<and> depth_status d st"
    and prove_inclusion: "valid w \<Longrightarrow> spender w o' = Some (t, raw, d) \<Longrightarrow> 0 < d \<Longrightarrow>
      \<exists>p. be_prove_tx_inclusion backend t w = (Ok p, w)"
    and depth_bound: "valid w \<Longrightarrow> spender w o' = Some (t, raw, d) \<Longrightarrow> d < 2 ^ 32"
begin

lemma output_verifies:
  assumes "valid w" and "resolvable r L s"
    and "outs w (outpoint s) = Some (v, p2mr_script (p2mr_root s))"
  obtains out where "be_get_output backend (outpoint s) w = (Ok (Some out), w)"
    and "verify_p2mr_output L out s = Ok ()" and "to_spent out \<longleftrightarrow> spender w (outpoint s) \<noteq> None"
proof -
  from get_output [OF assms(1), of "outpoint s"] assms(3) obtain out where
    "be_get_output backend (outpoint s) w = (Ok (Some out), w)"
    "to_script_pubkey out = p2mr_script (p2mr_root s)"
    "to_spent out \<longleftrightarrow> spender w (outpoint s) \<noteq> None" by auto
  with assms(2) show thesis by (intro that) (simp_all add: verify_p2mr_output_iff resolvable_def)
qed

lemma resolve_spent:
  assumes "valid w" and "rs_backend r = backend" and "resolvable r L s"
    and "outs w (outpoint s) = Some (v, p2mr_script (p2mr_root s))"
    and "spender w (outpoint s) = Some (t, raw, d)"
  shows "reports r L s w (phase_at (unat (required_depth (confirmation_policy s))) (Some d))"
proof -
  let ?need = "required_depth (confirmation_policy s)"
  from get_spending_tx [OF assms(1,5)] obtain st where
    tx: "be_get_spending_tx backend (outpoint s) w
      = (Ok (Some \<lparr>tx_txid = t, tx_raw = raw, tx_status = st\<rparr>), w)" and st: "depth_status d st"
    by blast
  obtain out where out: "be_get_output backend (outpoint s) w = (Ok (Some out), w)"
    "verify_p2mr_output L out s = Ok ()" "to_spent out"
    using output_verifies [OF assms(1,3,4)] assms(5) by auto
  from assms(3) obtain leaf where leaf: "rs_pq_leaf_script r = Some leaf"
    "compute_tapleaf_hash L P2MR_COMMITMENT_LEAF_VERSION leaf \<noteq> replicate 32 0"
    and chain: "be_network_id (rs_backend r) = chain_id s" and ret: "is_p2mr_ret (commitment_locator s)"
    by (auto simp: resolvable_def)
  have "\<exists>x. resolve_close L r s \<lparr>tx_txid = t, tx_raw = raw, tx_status = st\<rparr>
      (op_vout (outpoint s)) w = (Ok x, w)
    \<and> phase_of x = Some (phase_at (unat ?need) (Some d))"
  proof (cases "d = 0")
    case True
    with st show ?thesis
      by (simp add: depth_status_def resolve_close_def spends_outpoint_def
          scan_p2mr_ret_commitment_def Let_def io_bind_def io_simps ret leaf)
  next
    case False
    with prove_inclusion [OF assms(1,5)] obtain p where
      p: "be_prove_tx_inclusion backend t w = (Ok p, w)" by blast
    have "unat (word_of_nat d :: u32) = d"
      using depth_bound [OF assms(1,5)] by (simp add: unat_of_nat)
    with False st p show ?thesis
      by (auto simp: depth_status_def resolve_close_def spends_outpoint_def
          scan_p2mr_ret_commitment_def Let_def io_bind_def io_simps ret leaf assms(2)
          word_less_nat_alt)
  qed
  then show ?thesis
    using resolve_inner_close [OF chain _ out(2,3), of w w _ w] out(1) tx
    by (auto simp: reports_def resolve_def assms(2))
qed

lemma resolve_unspent:
  assumes "valid w" and "rs_backend r = backend" and "resolvable r L s"
    and "outs w (outpoint s) = Some (v, p2mr_script (p2mr_root s))"
    and "spender w (outpoint s) = None"
  shows "reports r L s w (phase_at n None)"
proof -
  obtain out where "be_get_output backend (outpoint s) w = (Ok (Some out), w)"
    "verify_p2mr_output L out s = Ok ()" "\<not> to_spent out"
    using output_verifies [OF assms(1,3,4)] assms(5) by auto
  then show ?thesis using assms(3)
    by (simp add: reports_def resolve_def resolve_inner_def resolvable_def Let_def
        outpoint_to_bitcoin_def assms(2) io_simps)
qed

text \<open>The resolver computes the phase of the view.\<close>

lemma resolve_phase:
  assumes "valid w" and "rs_backend r = backend" and "resolvable r L s"
    and "outs w (outpoint s) = Some (v, p2mr_script (p2mr_root s))"
  shows "reports r L s w (phase_at (unat (required_depth (confirmation_policy s)))
    (map_option (\<lambda>(t, raw, d). d) (spender w (outpoint s))))"
proof (cases "spender w (outpoint s)")
  case None
  with resolve_unspent [OF assms None] show ?thesis by simp
next
  case (Some x)
  with resolve_spent [OF assms] show ?thesis by (cases x) simp
qed

end

end
