(* ===== verification/Bench.thy ===== *)
theory Bench
  imports Lifecycle
begin

section \<open>The verification benchmarks (\<open>crates/rgb-pq-bench/src/lib.rs\<close>)\<close>

text \<open>
  The harness that runs a closure a number of times and keeps the mean, least and greatest
  latency, and the seven targets it is run on. A \<^verbatim>\<open>Duration\<close> is its nanoseconds; the time each
  iteration takes is an argument, since it comes from the machine's clock. \<^verbatim>\<open>Duration\<close>'s sum panics
  above \<open>2 ^ 64\<close> seconds and its division panics at zero. The closures discard their results, but a
  panic inside one ends the run. The report is the list of the lines printed.
\<close>

subsection \<open>The harness\<close>

type_synonym duration = nat

definition MAX_DURATION :: nat where
  "MAX_DURATION = 2 ^ 64 * 1000000000"

definition duration_sum :: "duration list \<Rightarrow> (duration, 'e) result" where
  "duration_sum ds = (if sum_list ds < MAX_DURATION then Ok (sum_list ds) else Panic)"

definition duration_div :: "duration \<Rightarrow> u32 \<Rightarrow> (duration, 'e) result" where
  "duration_div d n = (if n = 0 then Panic else Ok (d div unat n))"

text \<open>\<^verbatim>\<open>iter().copied().min().unwrap_or_default()\<close>, and \<^verbatim>\<open>max\<close>.\<close>

fun min_or_zero :: "duration list \<Rightarrow> duration" where
  "min_or_zero [] = 0"
| "min_or_zero (d # ds) = fold min ds d"

fun max_or_zero :: "duration list \<Rightarrow> duration" where
  "max_or_zero [] = 0"
| "max_or_zero (d # ds) = fold max ds d"

record bench_result =
  br_name :: string
  br_iters :: u32
  br_mean :: duration
  br_min :: duration
  br_max :: duration

text \<open>\<open>elapsed i\<close> is what the clock shows for iteration \<open>i\<close>.\<close>

fun bench_loop ::
  "(nat \<Rightarrow> duration) \<Rightarrow> (unit, 'e) result \<Rightarrow> nat \<Rightarrow> nat \<Rightarrow> duration list \<Rightarrow> (duration list, 'e) result"
where
  "bench_loop elapsed f i 0 ds = Ok ds"
| "bench_loop elapsed f i (Suc n) ds =
     and_then f (\<lambda>_. bench_loop elapsed f (Suc i) n (ds @ [elapsed i]))"

definition bench_run ::
  "string \<Rightarrow> u32 \<Rightarrow> (nat \<Rightarrow> duration) \<Rightarrow> (unit, 'e) result \<Rightarrow> (bench_result, 'e) result" where
  "bench_run name iters elapsed f =
     and_then (bench_loop elapsed f 0 (unat iters) []) (\<lambda>durations.
     and_then (duration_sum durations) (\<lambda>total.
     and_then (duration_div total iters) (\<lambda>mean.
     Ok \<lparr>br_name = name, br_iters = iters, br_mean = mean, br_min = min_or_zero durations,
         br_max = max_or_zero durations\<rparr>)))"

text \<open>\<^verbatim>\<open>let _ = call;\<close> in a closure.\<close>

definition discard :: "('a, 'f) result \<Rightarrow> (unit, 'e) result" where
  "discard m = if_let_ok m (\<lambda>_. Ok ()) (Ok ())"

subsection \<open>The targets\<close>

definition bench_seal :: "crates \<Rightarrow> btq_p2mr_seal \<times> mpc_commitment" where
  "bench_seal L = (seal_new BitcoinQuantumRegtest (outpoint_new (replicate 32 0x11) 0)
     (replicate 32 0x22) (compute_tapleaf_hash L 0xc0 [0x51]) Dilithium2 P2mrRetLeaf OneConf,
     replicate 32 0xa5)"

definition bench_p2mr_out :: "btq_p2mr_seal \<Rightarrow> bool \<Rightarrow> btq_tx_out" where
  "bench_p2mr_out s spent = \<lparr>to_outpoint = outpoint s, to_value = 1000,
     to_script_pubkey = [0x52, 0x20] @ p2mr_root s, to_spent = spent\<rparr>"

definition bench_p2mr_leaf_verify ::
  "crates \<Rightarrow> u32 \<Rightarrow> (nat \<Rightarrow> duration) \<Rightarrow> (bench_result, 'e) result" where
  "bench_p2mr_leaf_verify L iters elapsed = bench_run ''bench_p2mr_leaf_verify'' iters elapsed
     (discard (Ok (compute_tapleaf_hash L 0xc0 [0x51]) :: (node_hash, rgb_pq_error) result))"

definition bench_p2mr_ret_commitment_verify ::
  "crates \<Rightarrow> u32 \<Rightarrow> (nat \<Rightarrow> duration) \<Rightarrow> (bench_result, 'e) result" where
  "bench_p2mr_ret_commitment_verify L iters elapsed =
     (let (seal, mpc) = bench_seal L; pq_leaf = [0x51];
          tree = build_p2mr_ret_tree_for_seal L (chain_id seal) mpc pq_leaf;
          seal = seal\<lparr>p2mr_root := tree_root tree\<rparr>
      in bench_run ''bench_p2mr_ret_commitment_verify'' iters elapsed
           (discard (verify_p2mr_ret L seal mpc pq_leaf)))"

definition bench_dilithium_verify :: "u32 \<Rightarrow> (nat \<Rightarrow> duration) \<Rightarrow> (bench_result, 'e) result" where
  "bench_dilithium_verify iters elapsed =
     (let witness = replicate (2420 + 1312 + 256) (0 :: u8)
      in bench_run ''bench_dilithium_verify (size budget)'' iters elapsed
           (discard (check_witness_size default_limits (length witness))))"

record bench_backend_state =
  bb_chain :: btq_chain_id
  bb_out :: "btq_tx_out option"
  bb_spend :: "btq_tx option"

definition bench_backend :: "bench_backend_state \<Rightarrow> unit btq_chain_backend" where
  "bench_backend b = \<lparr>be_network_id = bb_chain b,
     be_current_tip = io_return \<lparr>tip_height = 200, tip_hash = ''deadbeef''\<rparr>,
     be_get_tx = (\<lambda>txid. io_return (bb_spend b)),
     be_get_tx_status = (\<lambda>txid. io_return (Confirmed 100 ''ab'' 6 0)),
     be_get_output = (\<lambda>o'. io_return (bb_out b)),
     be_get_spending_tx = (\<lambda>o'. io_return (bb_spend b)),
     be_prove_tx_inclusion = (\<lambda>txid. io_return
       \<lparr>ip_txid = ''01'', ip_block_hash = ''ab'', ip_proof_hex = ''00''\<rparr>),
     be_confirmation_depth = (\<lambda>txid. io_return (Some 6)),
     be_broadcast_tx = default_broadcast_tx\<rparr>"

definition bench_closed_valid_backend :: "btq_p2mr_seal \<Rightarrow> bench_backend_state" where
  "bench_closed_valid_backend s = \<lparr>bb_chain = BitcoinQuantumRegtest,
     bb_out = Some (bench_p2mr_out s False), bb_spend = None\<rparr>"

definition bench_closed_invalid_backend :: "btq_p2mr_seal \<Rightarrow> bench_backend_state" where
  "bench_closed_invalid_backend s = \<lparr>bb_chain = BitcoinQuantumTestnet,
     bb_out = Some (bench_p2mr_out s False), bb_spend = None\<rparr>"

definition bench_resolve_closed_valid ::
  "crates \<Rightarrow> u32 \<Rightarrow> (nat \<Rightarrow> duration) \<Rightarrow> (bench_result, 'e) result" where
  "bench_resolve_closed_valid L iters elapsed =
     (let (seal, mpc) = bench_seal L;
          r = resolver_new (bench_backend (bench_closed_valid_backend seal))
      in bench_run ''bench_resolve_closed_valid'' iters elapsed (discard (fst (resolve L r seal ()))))"

definition bench_resolve_closed_invalid ::
  "crates \<Rightarrow> u32 \<Rightarrow> (nat \<Rightarrow> duration) \<Rightarrow> (bench_result, 'e) result" where
  "bench_resolve_closed_invalid L iters elapsed =
     (let (seal, mpc) = bench_seal L;
          r = resolver_new (bench_backend (bench_closed_invalid_backend seal))
      in bench_run ''bench_resolve_closed_invalid'' iters elapsed (discard (fst (resolve L r seal ()))))"

definition bench_indexer_reorg_rollback :: "u32 \<Rightarrow> (nat \<Rightarrow> duration) \<Rightarrow> (bench_result, 'e) result"
where
  "bench_indexer_reorg_rollback iters elapsed =
     bench_run ''bench_indexer_reorg_rollback'' iters elapsed
       (let idx = mem_set_tip mem_new \<lparr>tip_height = 1000, tip_hash = ''h''\<rparr>;
            o' = outpoint_new (replicate 32 0xaa) 0;
            (watched, idx) = mem_watch idx o';
            (rolled, idx) = mem_rollback idx 500
        in and_then (discard watched) (\<lambda>_. discard rolled))"

definition bench_full_transfer_verify ::
  "crates \<Rightarrow> u32 \<Rightarrow> (nat \<Rightarrow> duration) \<Rightarrow> (bench_result, 'e) result" where
  "bench_full_transfer_verify L iters elapsed =
     (let (seal, mpc) = bench_seal L; pq_leaf = [0x51];
          tree = build_p2mr_ret_tree_for_seal L (chain_id seal) mpc pq_leaf;
          seal = seal\<lparr>p2mr_root := tree_root tree\<rparr>
      in bench_run ''bench_full_transfer_verify'' iters elapsed
           (and_then (discard (verify_p2mr_ret L seal mpc pq_leaf)) (\<lambda>_.
            discard (canonical_digest L seal))))"

text \<open>The targets run one after the other; \<open>elapsed k\<close> are the times of the \<open>k\<close>-th.\<close>

fun run_all :: "(bench_result, 'e) result list \<Rightarrow> (bench_result list, 'e) result" where
  "run_all [] = Ok []"
| "run_all (b # bs) = and_then b (\<lambda>r. and_then (run_all bs) (\<lambda>rs. Ok (r # rs)))"

definition run_suite ::
  "crates \<Rightarrow> u32 \<Rightarrow> (nat \<Rightarrow> nat \<Rightarrow> duration) \<Rightarrow> (bench_result list, 'e) result" where
  "run_suite L iters elapsed = run_all
     [bench_p2mr_leaf_verify L iters (elapsed 0),
      bench_p2mr_ret_commitment_verify L iters (elapsed 1),
      bench_dilithium_verify iters (elapsed 2),
      bench_resolve_closed_valid L iters (elapsed 3),
      bench_resolve_closed_invalid L iters (elapsed 4),
      bench_indexer_reorg_rollback iters (elapsed 5),
      bench_full_transfer_verify L iters (elapsed 6)]"

subsection \<open>The report\<close>

text \<open>\<open>show_duration\<close> is the text of \<^verbatim>\<open>{:.3?}\<close> on a \<^verbatim>\<open>Duration\<close>, whose rounding differs between
versions of the standard library; \<^verbatim>\<open>{:<n}\<close> and \<^verbatim>\<open>{:>n}\<close> pad with spaces on the right and the left.
Widths count the characters of the UTF-8 text: the micro sign has two bytes.\<close>

definition char_count :: "string \<Rightarrow> nat" where
  "char_count s = length (filter (\<lambda>c. \<not> is_utf8_continuation c) s)"

definition pad_end :: "nat \<Rightarrow> string \<Rightarrow> string" where
  "pad_end n s = s @ replicate (n - char_count s) CHR '' ''"

definition pad_start :: "nat \<Rightarrow> string \<Rightarrow> string" where
  "pad_start n s = replicate (n - char_count s) CHR '' '' @ s"

definition report :: "(duration \<Rightarrow> string) \<Rightarrow> bench_result \<Rightarrow> string" where
  "report show_duration r = pad_end 38 (br_name r)
     @ '' iters='' @ pad_start 5 (fmt_nat (unat (br_iters r)))
     @ ''  mean='' @ pad_start 10 (show_duration (br_mean r))
     @ ''  min='' @ pad_start 10 (show_duration (br_min r))
     @ ''  max='' @ pad_start 10 (show_duration (br_max r))"

text \<open>The lines \<^verbatim>\<open>run_suite\<close> prints after the runs.\<close>

definition suite_report :: "(duration \<Rightarrow> string) \<Rightarrow> bench_result list \<Rightarrow> string list" where
  "suite_report show_duration results =
     ['''', ''=== RGB-PQ verification-latency benchmarks (separate from finality) ==='']
     @ map (report show_duration) results @ ['''']"

lemma char_count_append [simp]: "char_count (s @ t) = char_count s + char_count t"
  by (simp add: char_count_def)

lemma char_count_pad [simp]:
  "char_count (pad_end n s) = max n (char_count s)" "char_count (pad_start n s) = max n (char_count s)"
proof -
  have "\<not> is_utf8_continuation CHR '' ''" by (simp add: is_utf8_continuation_def)
  then have "char_count (replicate k CHR '' '') = k" for k by (simp add: char_count_def)
  then show "char_count (pad_end n s) = max n (char_count s)"
    "char_count (pad_start n s) = max n (char_count s)"
    by (simp_all add: pad_end_def pad_start_def)
qed

text \<open>The columns of the report line up as long as no field is wider than its column.\<close>

lemma report_aligned:
  assumes "char_count (br_name r) \<le> 38" and "char_count (fmt_nat (unat (br_iters r))) \<le> 5"
    and "\<forall>d \<in> {br_mean r, br_min r, br_max r}. char_count (show_duration d) \<le> 10"
  shows "char_count (report show_duration r) = 99"
proof -
  have "char_count '' iters='' = 7" "char_count ''  mean='' = 7" "char_count ''  min='' = 6"
    "char_count ''  max='' = 6"
    by (simp_all add: char_count_def is_utf8_continuation_def)
  then show ?thesis
    using assms by (simp only: report_def char_count_append char_count_pad) simp
qed

subsection \<open>Statistics\<close>

lemma min_max_or_zero:
  assumes "ds \<noteq> []"
  shows "min_or_zero ds = Min (set ds)" and "max_or_zero ds = Max (set ds)"
proof -
  obtain d ds' where ds: "ds = d # ds'" using assms by (cases ds) auto
  show "min_or_zero ds = Min (set ds)" unfolding ds min_or_zero.simps by (rule Min.set_eq_fold [symmetric])
  show "max_or_zero ds = Max (set ds)" unfolding ds max_or_zero.simps by (rule Max.set_eq_fold [symmetric])
qed

lemma bench_loop_Ok: "bench_loop elapsed (Ok ()) i n ds = Ok (ds @ map elapsed [i..<i + n])"
  by (induction n arbitrary: i ds) (simp_all add: upt_conv_Cons del: upt_Suc)

lemma sum_list_upt: "sum_list (map f [0..<n]) = (\<Sum>i<n. f i :: nat)"
  by (simp add: interv_sum_list_conv_sum_set_nat atLeast0LessThan)

text \<open>The mean lies between the extremes.\<close>

lemma mean_bounds:
  fixes f :: "nat \<Rightarrow> nat"
  assumes "0 < n"
  shows "Min (f ` {..<n}) \<le> (\<Sum>i<n. f i) div n" and "(\<Sum>i<n. f i) div n \<le> Max (f ` {..<n})"
proof -
  have "n * Min (f ` {..<n}) \<le> (\<Sum>i<n. f i)"
    using sum_bounded_below [of "{..<n}" "Min (f ` {..<n})" f] by simp
  then show "Min (f ` {..<n}) \<le> (\<Sum>i<n. f i) div n"
    using assms by (simp add: less_eq_div_iff_mult_less_eq mult.commute)
  have "(\<Sum>i<n. f i) \<le> n * Max (f ` {..<n})"
    using sum_bounded_above [of "{..<n}" f "Max (f ` {..<n})"] by simp
  then show "(\<Sum>i<n. f i) div n \<le> Max (f ` {..<n})"
    using assms by (metis div_le_mono nonzero_mult_div_cancel_left neq0_conv)
qed

definition bench_stats :: "string \<Rightarrow> u32 \<Rightarrow> (nat \<Rightarrow> duration) \<Rightarrow> bench_result" where
  "bench_stats name iters elapsed = \<lparr>br_name = name, br_iters = iters,
     br_mean = (\<Sum>i<unat iters. elapsed i) div unat iters,
     br_min = Min (elapsed ` {..<unat iters}), br_max = Max (elapsed ` {..<unat iters})\<rparr>"

lemma bench_run_Ok:
  assumes "0 < iters" and "(\<Sum>i<unat iters. elapsed i) < MAX_DURATION"
  shows "bench_run name iters elapsed (Ok ()) = Ok (bench_stats name iters elapsed)"
proof -
  have "[0..<unat iters] \<noteq> []" using assms(1) by (simp add: word_less_nat_alt)
  moreover from this have "min_or_zero (map elapsed [0..<unat iters]) = Min (elapsed ` {..<unat iters})"
    "max_or_zero (map elapsed [0..<unat iters]) = Max (elapsed ` {..<unat iters})"
    by (simp_all add: min_max_or_zero atLeast0LessThan)
  ultimately show ?thesis using assms
    by (simp add: bench_run_def bench_loop_Ok duration_sum_def duration_div_def sum_list_upt
        bench_stats_def)
qed

lemma bench_run_zero: "bench_run name 0 elapsed f = Panic"
  by (simp add: bench_run_def duration_sum_def MAX_DURATION_def duration_div_def)

subsection \<open>What the targets run\<close>

lemma discard_Ok: "\<not> panics m \<Longrightarrow> discard m = Ok ()"
  by (cases m) (simp_all add: discard_def)

lemma bench_verify_Ok:
  "verify_p2mr_ret L (fst (bench_seal L)\<lparr>p2mr_root := tree_root (build_p2mr_ret_tree_for_seal L
     (chain_id (fst (bench_seal L))) (snd (bench_seal L)) [0x51])\<rparr>) (snd (bench_seal L)) [0x51] = Ok ()"
  unfolding verify_p2mr_ret_def
  by (subst verify_bounded_Ok_iff)
     (simp_all add: bench_seal_def seal_new_def default_limits_def del: tree_for_seal_simps)

lemma bench_resolve_Ok:
  "resolve L (resolver_new (bench_backend (bench_closed_valid_backend (fst (bench_seal L)))))
     (fst (bench_seal L)) () = (Ok OpenUnspent, ())"
proof -
  have "verify_p2mr_output L (bench_p2mr_out (fst (bench_seal L)) False) (fst (bench_seal L)) = Ok ()"
    by (simp add: verify_p2mr_output_iff bench_p2mr_out_def p2mr_script_def bench_seal_def seal_new_def)
  moreover have "bb_chain (bench_closed_valid_backend s) = chain_id (fst (bench_seal L))" for s
    by (simp add: bench_seal_def seal_new_def bench_closed_valid_backend_def)
  ultimately show ?thesis
    by (simp add: resolve_def resolve_inner_def resolver_new_def bench_backend_def
        bench_closed_valid_backend_def Let_def outpoint_to_bitcoin_def io_simps bench_p2mr_out_def)
qed

lemma bench_resolve_Unknown:
  "resolve L (resolver_new (bench_backend (bench_closed_invalid_backend (fst (bench_seal L)))))
     (fst (bench_seal L)) () = (Ok (UnknownState (US_Resolve (resolve_of_chain
       (CC_WrongNetwork ''bitcoin-quantum-regtest'' ''bitcoin-quantum-testnet'')))), ())"
  by (simp add: resolve_def resolve_inner_def resolver_new_def bench_backend_def
      bench_closed_invalid_backend_def bench_seal_def seal_new_def Let_def io_simps)

subsection \<open>The benchmark backend honours the contract\<close>

text \<open>A backend whose output is spent exactly if it has a spend, with a sensible status.\<close>

definition bench_consistent :: "bench_backend_state \<Rightarrow> bool" where
  "bench_consistent b \<longleftrightarrow>
     (case bb_out b of None \<Rightarrow> True | Some out \<Rightarrow> to_spent out \<longleftrightarrow> bb_spend b \<noteq> None)
     \<and> (case bb_spend b of None \<Rightarrow> True
        | Some tx \<Rightarrow> (case tx_status tx of Unconfirmed \<Rightarrow> True | Confirmed h bl k t \<Rightarrow> k \<noteq> 0))"

definition bench_outs :: "bench_backend_state \<Rightarrow> (u64 \<times> bytes) option" where
  "bench_outs b = map_option (\<lambda>out. (to_value out, to_script_pubkey out)) (bb_out b)"

definition bench_spender :: "bench_backend_state \<Rightarrow> (string \<times> bytes \<times> nat) option" where
  "bench_spender b = map_option
     (\<lambda>tx. (tx_txid tx, tx_raw tx, unat (confirmations (tx_status tx)))) (bb_spend b)"

interpretation bench: chain_view "bench_backend b" "\<lambda>_ _. bench_outs b" "\<lambda>_ _. bench_spender b"
  "\<lambda>_. bench_consistent b" for b
proof unfold_locales
  fix w o' t raw and d :: nat
  assume ok: "bench_consistent b" and "bench_spender b = Some (t, raw, d)"
  then obtain tx where tx: "bb_spend b = Some tx" "t = tx_txid tx" "raw = tx_raw tx"
    "d = unat (confirmations (tx_status tx))" by (auto simp: bench_spender_def)
  then show "d < 2 ^ 32" using unsigned_less [of "confirmations (tx_status tx)", where 'a = nat] by simp
  have "depth_status d (tx_status tx)"
    using ok tx by (cases "tx_status tx") (simp_all add: bench_consistent_def depth_status_def unat_eq_0)
  then show "\<exists>st. be_get_spending_tx (bench_backend b) o' w
      = (Ok (Some \<lparr>tx_txid = t, tx_raw = raw, tx_status = st\<rparr>), w) \<and> depth_status d st"
    using tx by (intro exI [of _ "tx_status tx"]) (simp add: bench_backend_def io_simps)
qed (auto simp: bench_backend_def io_simps bench_outs_def bench_spender_def bench_consistent_def
      split: option.splits)

subsection \<open>Properties\<close>

text \<open>C7. The harness reports true statistics: for at least one iteration and a total below the
  range of \<^verbatim>\<open>Duration\<close>, a run of a closure that does not panic gives the least and the greatest of
  the measured times and their mean rounded down, which lies between the two. With no iterations
  it panics, dividing by zero, and a panic of the closure is passed on.\<close>

theorem bench_run_stats:
  assumes "0 < iters" and "(\<Sum>i<unat iters. elapsed i) < 2 ^ 64 * 1000000000"
  shows "(\<exists>b. bench_run name iters elapsed (Ok ()) = Ok b
      \<and> br_min b = Min (elapsed ` {..<unat iters}) \<and> br_max b = Max (elapsed ` {..<unat iters})
      \<and> br_mean b = (\<Sum>i<unat iters. elapsed i) div unat iters
      \<and> br_min b \<le> br_mean b \<and> br_mean b \<le> br_max b \<and> br_iters b = iters)
    \<and> bench_run name 0 elapsed f = Panic \<and> bench_run name iters elapsed Panic = Panic"
proof (intro conjI)
  have pos: "0 < unat iters" using assms(1) by (simp add: word_less_nat_alt)
  show "\<exists>b. bench_run name iters elapsed (Ok ()) = Ok b
      \<and> br_min b = Min (elapsed ` {..<unat iters}) \<and> br_max b = Max (elapsed ` {..<unat iters})
      \<and> br_mean b = (\<Sum>i<unat iters. elapsed i) div unat iters
      \<and> br_min b \<le> br_mean b \<and> br_mean b \<le> br_max b \<and> br_iters b = iters"
    using bench_run_Ok [OF assms(1), of elapsed name] assms(2) mean_bounds [OF pos, of elapsed]
    by (intro exI [of _ "bench_stats name iters elapsed"]) (simp add: MAX_DURATION_def bench_stats_def)
  show "bench_run name 0 elapsed f = Panic" by (rule bench_run_zero)
  show "bench_run name iters elapsed Panic = Panic"
    using pos by (cases "unat iters") (simp_all add: bench_run_def)
qed

theorem bench_run_stats_witness:
  "\<exists>b. bench_run ''x'' 3 (\<lambda>i. 10 + i) (Ok () :: (unit, string) result) = Ok b
    \<and> br_min b \<le> br_mean b \<and> br_mean b \<le> br_max b \<and> br_mean b = 11"
proof -
  have "unat (3 :: u32) = 3" "(\<Sum>i<3. 10 + i) = (33 :: nat)"
    by (simp, simp add: eval_nat_numeral)
  then show ?thesis
    using bench_run_stats [of 3 "\<lambda>i. 10 + i" "''x''", THEN conjunct1] by auto
qed

lemma run_suite_aux:
  assumes "sha256_ok L" and "\<forall>k < 7. (\<Sum>i<unat iters. elapsed k i) < MAX_DURATION"
  shows "run_suite L iters elapsed = (if iters = 0 then Panic
    else Ok (map (\<lambda>(k, name). bench_stats name iters (elapsed k))
      [(0, ''bench_p2mr_leaf_verify''), (1, ''bench_p2mr_ret_commitment_verify''),
       (2, ''bench_dilithium_verify (size budget)''), (3, ''bench_resolve_closed_valid''),
       (4, ''bench_resolve_closed_invalid''), (5, ''bench_indexer_reorg_rollback''),
       (6, ''bench_full_transfer_verify'')]))"
proof (cases "iters = 0")
  case True
  then show ?thesis by (simp add: run_suite_def bench_p2mr_leaf_verify_def bench_run_zero)
next
  case False
  then have pos: "0 < iters" by (simp add: word_neq_0_conv)
  have run: "bench_run name iters (elapsed k) (Ok ()) = Ok (bench_stats name iters (elapsed k))"
    if "k < 7" for name k
    using assms(2) that by (intro bench_run_Ok [OF pos]) simp
  note targets = bench_p2mr_leaf_verify_def bench_p2mr_ret_commitment_verify_def
    bench_dilithium_verify_def bench_resolve_closed_valid_def bench_resolve_closed_invalid_def
    bench_indexer_reorg_rollback_def bench_full_transfer_verify_def
  have "check_witness_size default_limits 3988 = Ok ()"
    by (simp add: check_witness_size_def default_limits_def)
  with False show ?thesis
    unfolding run_suite_def targets
    by (simp add: Let_def split_beta bench_verify_Ok bench_resolve_Ok bench_resolve_Unknown
        discard_Ok run mem_watch_def mem_rollback_def canonical_digest_sha [OF assms(1)]
        del: tree_for_seal_simps)
qed

text \<open>The suite reports all seven targets or panics: with no iterations it panics, and with
  at least one, times in range and a 32-byte hash, it returns seven results in the documented
  order, each over the requested number of iterations; no target's closure ever panics.\<close>

theorem run_suite_results:
  assumes "sha256_ok L" and "\<forall>k < 7. (\<Sum>i<unat iters. elapsed k i) < MAX_DURATION"
  shows "run_suite L iters elapsed = (if iters = 0 then Panic
    else Ok (map (\<lambda>(k, name). bench_stats name iters (elapsed k))
      [(0, ''bench_p2mr_leaf_verify''), (1, ''bench_p2mr_ret_commitment_verify''),
       (2, ''bench_dilithium_verify (size budget)''), (3, ''bench_resolve_closed_valid''),
       (4, ''bench_resolve_closed_invalid''), (5, ''bench_indexer_reorg_rollback''),
       (6, ''bench_full_transfer_verify'')]))"
  by (rule run_suite_aux [OF assms])

theorem run_suite_results_witness:
  "\<exists>rs. run_suite toy_crates 2 (\<lambda>k i. k + i) = (Ok rs :: (bench_result list, string) result)
    \<and> length rs = 7"
proof -
  have "(\<Sum>i<unat (2 :: u32). k + i) < MAX_DURATION" if "k < 7" for k
  proof -
    have "unat (2 :: u32) = Suc (Suc 0)" by simp
    then show ?thesis using that by (simp only: MAX_DURATION_def) simp
  qed
  then show ?thesis by (subst run_suite_results [OF toy_sha256_ok]) simp_all
qed

text \<open>What the two resolver targets measure: the one named for a valid close resolves an open
  seal, whatever the hash, and the one named for an invalid close stops at the chain comparison;
  neither sees a close. Over the same backend a resolver that knows a leaf reports a valid close
  with \<open>k\<close> confirmations as soon as the output is spent by a transaction with \<open>k > 0\<close> of them.\<close>

theorem bench_resolve_targets:
  fixes L :: crates
  defines "s \<equiv> fst (bench_seal L)"
  assumes "compute_tapleaf_hash L P2MR_COMMITMENT_LEAF_VERSION leaf \<noteq> replicate 32 0" and "k \<noteq> 0"
  shows "fst (resolve L (resolver_new (bench_backend (bench_closed_valid_backend s))) s ())
      = Ok OpenUnspent
    \<and> (\<exists>e. fst (resolve L (resolver_new (bench_backend (bench_closed_invalid_backend s))) s ())
      = Ok (UnknownState (US_Resolve e)))
    \<and> (\<exists>st. fst (resolve L (with_pq_leaf (resolver_new (bench_backend
        \<lparr>bb_chain = BitcoinQuantumRegtest, bb_out = Some (bench_p2mr_out s True),
         bb_spend = Some \<lparr>tx_txid = t, tx_raw = raw, tx_status = Confirmed h b k tm\<rparr>\<rparr>)) leaf) s ())
      = Ok st \<and> phase_of st = Some (Final (unat k)))"
proof (intro conjI)
  show "fst (resolve L (resolver_new (bench_backend (bench_closed_valid_backend s))) s ())
      = Ok OpenUnspent"
    by (simp add: s_def bench_resolve_Ok)
  show "\<exists>e. fst (resolve L (resolver_new (bench_backend (bench_closed_invalid_backend s))) s ())
      = Ok (UnknownState (US_Resolve e))"
    by (simp add: s_def bench_resolve_Unknown)
  let ?b = "\<lparr>bb_chain = BitcoinQuantumRegtest, bb_out = Some (bench_p2mr_out s True),
    bb_spend = Some \<lparr>tx_txid = t, tx_raw = raw, tx_status = Confirmed h b k tm\<rparr>\<rparr>"
  let ?r = "with_pq_leaf (resolver_new (bench_backend ?b)) leaf"
  have fields: "chain_id s = BitcoinQuantumRegtest" "length (p2mr_root s) = 32"
    "is_p2mr_ret (commitment_locator s)" "unat (required_depth (confirmation_policy s)) = 1"
    by (simp_all add: s_def bench_seal_def seal_new_def)
  have "reports ?r L s () (phase_at (unat (required_depth (confirmation_policy s))) (Some (unat k)))"
    using assms(3) fields assms(2)
    by (intro bench.resolve_spent [where b = ?b and v = 1000 and t = t and raw = raw])
       (simp_all add: bench_consistent_def bench_outs_def bench_spender_def resolvable_def
         with_pq_leaf_def resolver_new_def bench_backend_def bench_p2mr_out_def p2mr_script_def)
  moreover have "unat k \<noteq> 0" using assms(3) by (simp add: unat_eq_0)
  ultimately show "\<exists>st. fst (resolve L ?r s ()) = Ok st \<and> phase_of st = Some (Final (unat k))"
    using fields(4) by (auto simp: reports_def split: if_splits)
qed

theorem bench_resolve_targets_witness:
  "\<exists>st. fst (resolve toy_crates (with_pq_leaf (resolver_new (bench_backend
        \<lparr>bb_chain = BitcoinQuantumRegtest, bb_out = Some (bench_p2mr_out (fst (bench_seal toy_crates)) True),
         bb_spend = Some \<lparr>tx_txid = ''01'', tx_raw = [], tx_status = Confirmed 9 ''ab'' 6 0\<rparr>\<rparr>)) [0x51])
      (fst (bench_seal toy_crates)) ()) = Ok st \<and> phase_of st = Some (Final 6)"
  using bench_resolve_targets [OF sample_leaf_hash, of 6 "''01''" "[]" 9 "''ab''" 0] by simp

end
