(* ===== verification/Witness.thy ===== *)
theory Witness
  imports Resolver
begin

section \<open>The RGB witness resolver (\<open>crates/rgb-pq-resolver/src/witness.rs\<close>)\<close>

text \<open>
  The bridge that answers RGB's \<^verbatim>\<open>ResolveWitness\<close> from a chain backend. The transaction codec of
  the \<^verbatim>\<open>bitcoin\<close> crate and the \<^verbatim>\<open>WitnessPos\<close> constructor of RGB are the parameter record
  \<open>witness_api\<close> (\<open>'t\<close> transactions, \<open>'p\<close> positions); of RGB's result types only the constructors
  the source builds are named.
\<close>

datatype chain_net = BitcoinMainnet | BitcoinTestnet3 | BitcoinRegtest | OtherChainNet string

fun chain_net_of :: "btq_chain_id \<Rightarrow> chain_net" where
  "chain_net_of BitcoinQuantumRegtest = BitcoinRegtest"
| "chain_net_of BitcoinQuantumTestnet = BitcoinTestnet3"

datatype witness_resolver_error = ResolverIssue string | InvalidResolverData | WrongChainNet

datatype 'p witness_ord = Mined 'p | Tentative

datatype ('t, 'p) witness_status = WitnessUnresolved | WitnessResolved 't "'p witness_ord"

record ('t, 'p) witness_api =
  wa_deserialize :: "bytes \<Rightarrow> ('t, string) result"
  wa_txid_string :: "'t \<Rightarrow> string"
  wa_pos_bitcoin :: "u32 \<Rightarrow> i64 \<Rightarrow> 'p option"
  wa_chain_hash :: "chain_net \<Rightarrow> bytes"

definition stand_in_chain_hash :: "('t, 'p) witness_api \<Rightarrow> btq_chain_id \<Rightarrow> (bytes, 'e) result" where
  "stand_in_chain_hash W chain = copy_arr 32 (wa_chain_hash W (chain_net_of chain))"

record 'w witness_resolver =
  wr_backend :: "'w btq_chain_backend"
  wr_chain :: btq_chain_id

definition witness_resolver_new :: "'w btq_chain_backend \<Rightarrow> btq_chain_id \<Rightarrow> 'w witness_resolver" where
  "witness_resolver_new b chain = \<lparr>wr_backend = b, wr_chain = chain\<rparr>"

definition witness_map_err :: "rgb_pq_error \<Rightarrow> witness_resolver_error" where
  "witness_map_err e = ResolverIssue (show_rgb_pq_error e)"

definition fetch_tx ::
  "('t, 'p) witness_api \<Rightarrow> 'w witness_resolver \<Rightarrow> string \<Rightarrow> ('w, 't option) io" where
  "fetch_tx W r txid_hex =
     io_bind (be_get_tx (wr_backend r) txid_hex) (\<lambda>found. io_result (case found of
       None \<Rightarrow> Ok None
     | Some tx \<Rightarrow> if_let_ok (wa_deserialize W (tx_raw tx))
         (\<lambda>t. if wa_txid_string W t = txid_hex then Ok (Some t) else Ok None) (Ok None)))"

text \<open>\<^verbatim>\<open>NonZeroU32::new(height)\<close> is \<^verbatim>\<open>None\<close> for 0.\<close>

definition witness_ord_of ::
  "('t, 'p) witness_api \<Rightarrow> tx_status \<Rightarrow> ('p witness_ord, witness_resolver_error) result" where
  "witness_ord_of W status = (case status of
     Unconfirmed \<Rightarrow> Ok Tentative
   | Confirmed height block_hash confs time \<Rightarrow>
       if height = 0 then Err InvalidResolverData
       else case wa_pos_bitcoin W height time of
         None \<Rightarrow> Err InvalidResolverData
       | Some p \<Rightarrow> Ok (Mined p))"

text \<open>\<open>txid_hex\<close> is \<^verbatim>\<open>witness_id.to_string()\<close>.\<close>

definition resolve_witness ::
  "('t, 'p) witness_api \<Rightarrow> 'w witness_resolver \<Rightarrow> string \<Rightarrow> 'w
    \<Rightarrow> (('t, 'p) witness_status, witness_resolver_error) result \<times> 'w" where
  "resolve_witness W r txid_hex w =
     (case fetch_tx W r txid_hex w of
        (Err e, w1) \<Rightarrow> (Err (witness_map_err e), w1)
      | (Panic, w1) \<Rightarrow> (Panic, w1)
      | (Ok None, w1) \<Rightarrow> (Ok WitnessUnresolved, w1)
      | (Ok (Some tx), w1) \<Rightarrow>
          (case be_get_tx_status (wr_backend r) txid_hex w1 of
             (Err e, w2) \<Rightarrow> (Err (witness_map_err e), w2)
           | (Panic, w2) \<Rightarrow> (Panic, w2)
           | (Ok status, w2) \<Rightarrow>
               (and_then (witness_ord_of W status) (\<lambda>ord. Ok (WitnessResolved tx ord)), w2)))"

definition check_chain_net ::
  "'w witness_resolver \<Rightarrow> chain_net \<Rightarrow> (unit, witness_resolver_error) result" where
  "check_chain_net r net =
     (if net \<noteq> chain_net_of (wr_chain r) then Err WrongChainNet else Ok ())"

subsection \<open>What a resolution shows\<close>

lemma fetch_tx_Some_iff:
  fixes W :: "('t, 'p) witness_api"
  shows "fetch_tx W r txid w = (Ok (Some t), w1) \<longleftrightarrow>
    (\<exists>tx. be_get_tx (wr_backend r) txid w = (Ok (Some tx), w1)
      \<and> wa_deserialize W (tx_raw tx) = Ok t \<and> wa_txid_string W t = txid)"
proof -
  have "if_let_ok m (\<lambda>t. if wa_txid_string W t = txid then Ok (Some t) else Ok None) (Ok None)
      = (Ok (Some t) :: 't option rgb_pq_result)
    \<longleftrightarrow> m = Ok t \<and> wa_txid_string W t = txid" for m :: "('t, string) result"
    by (cases m) auto
  then show ?thesis
    by (auto simp: fetch_tx_def io_bind_Ok_iff io_simps split: option.splits) 
qed

lemma witness_ord_of_Ok_iff:
  "witness_ord_of W st = Ok ord \<longleftrightarrow>
    (st = Unconfirmed \<and> ord = Tentative)
    \<or> (\<exists>height block confs time p. st = Confirmed height block confs time \<and> height \<noteq> 0
        \<and> wa_pos_bitcoin W height time = Some p \<and> ord = Mined p)"
  by (cases st) (auto simp: witness_ord_of_def split: option.splits)

subsection \<open>Properties\<close>

text \<open>C31. A witness is resolved exactly if the backend has the transaction, its bytes decode to a
  transaction whose own id is the requested one, and its status is reported: unconfirmed as
  tentative, confirmed as mined at a nonzero height that RGB accepts. A backend that serves another
  transaction's bytes is never believed.\<close>

theorem resolve_witness_iff:
  "resolve_witness W r txid w = (Ok (WitnessResolved t ord), w2) \<longleftrightarrow>
    (\<exists>tx w1 st. be_get_tx (wr_backend r) txid w = (Ok (Some tx), w1)
      \<and> wa_deserialize W (tx_raw tx) = Ok t \<and> wa_txid_string W t = txid
      \<and> be_get_tx_status (wr_backend r) txid w1 = (Ok st, w2)
      \<and> ((st = Unconfirmed \<and> ord = Tentative)
        \<or> (\<exists>height block confs time p. st = Confirmed height block confs time \<and> height \<noteq> 0
            \<and> wa_pos_bitcoin W height time = Some p \<and> ord = Mined p)))"
proof -
  have "resolve_witness W r txid w = (Ok (WitnessResolved t ord), w2) \<longleftrightarrow>
    (\<exists>w1 st. fetch_tx W r txid w = (Ok (Some t), w1)
      \<and> be_get_tx_status (wr_backend r) txid w1 = (Ok st, w2) \<and> witness_ord_of W st = Ok ord)"
    by (auto simp: resolve_witness_def and_then_Ok_iff
        split: prod.splits result.splits option.splits)
  then show ?thesis by (simp only: fetch_tx_Some_iff witness_ord_of_Ok_iff) blast
qed

text \<open>The chain stand-ins are kept apart: the check accepts one RGB network per BTQ chain, and
  the two chains have different ones, never Bitcoin mainnet.\<close>

theorem check_chain_net_exact:
  "(check_chain_net r net = Ok () \<longleftrightarrow> net = chain_net_of (wr_chain r))
    \<and> chain_net_of BitcoinQuantumRegtest \<noteq> chain_net_of BitcoinQuantumTestnet
    \<and> check_chain_net r BitcoinMainnet = Err WrongChainNet"
  by (cases "wr_chain r") (simp_all add: check_chain_net_def)

end
