(* ===== verification/Rgb.thy ===== *)
theory Rgb
  imports Witness
begin

section \<open>The bridge to the RGB stack (\<open>crates/rgb-pq-rgb/src/lib.rs\<close>)\<close>

text \<open>
  Issuing an asset to a BTQ seal, validating a consignment and building a transfer transition.
  The RGB crates these functions call are the parameter record \<open>rgb_std\<close>: their values (kits,
  stocks, builders, seals, contracts, ...) are one opaque type \<open>'v\<close>, their errors the text that
  the source formats. A method with \<^verbatim>\<open>&mut self\<close> returns the new stock, the builder methods
  consume and return the builder. \<^verbatim>\<open>new_random\<close> draws the blinding factor of a seal, which is an
  argument here; \<^verbatim>\<open>Identity::default()\<close>, the NIA schema id and the default contract terms are
  constants of the record. The record describes these crates at one moment: the time that RGB itself
  reads when it issues a contract is part of \<open>rgb_issue_contract\<close>, so two runs that are compared are
  runs at the same time.
\<close>

subsection \<open>The RGB crates\<close>

text \<open>RGB's trait \<^verbatim>\<open>ResolveWitness\<close>, with the transaction id as its text.\<close>

record ('w, 't, 'p) resolve_witness_trait =
  rw_resolve_witness ::
    "string \<Rightarrow> 'w \<Rightarrow> (('t, 'p) witness_status, witness_resolver_error) result \<times> 'w"
  rw_check_chain_net :: "chain_net \<Rightarrow> (unit, witness_resolver_error) result"

record ('v, 'w, 't, 'p) rgb_std =
  rgb_kit_load_file :: "string \<Rightarrow> ('v, string) result"
  rgb_kit_validate :: "'v \<Rightarrow> ('v, string) result"
  rgb_stock_in_memory :: 'v
  rgb_import_kit :: "'v \<Rightarrow> 'v \<Rightarrow> (unit, string) result \<times> 'v"
  rgb_identity_default :: 'v
  rgb_nia_schema_id :: 'v
  rgb_contract_builder :: "'v \<Rightarrow> 'v \<Rightarrow> 'v \<Rightarrow> chain_net \<Rightarrow> ('v, string) result"
  rgb_centi_micro :: 'v
  rgb_asset_spec :: "string \<Rightarrow> string \<Rightarrow> 'v \<Rightarrow> 'v"
  rgb_default_terms :: 'v
  rgb_amount :: "u64 \<Rightarrow> 'v"
  rgb_add_global_state :: "'v \<Rightarrow> string \<Rightarrow> 'v \<Rightarrow> ('v, string) result"
  rgb_genesis_seal :: "string \<Rightarrow> u32 \<Rightarrow> u64 \<Rightarrow> 'v"
  rgb_graph_seal :: "string \<Rightarrow> u32 \<Rightarrow> u64 \<Rightarrow> 'v"
  rgb_add_fungible_state :: "'v \<Rightarrow> string \<Rightarrow> 'v \<Rightarrow> u64 \<Rightarrow> ('v, string) result"
  rgb_issue_contract :: "'v \<Rightarrow> ('v, string) result"
  rgb_contract_id :: "'v \<Rightarrow> 'v"
  rgb_import_contract ::
    "'v \<Rightarrow> 'v \<Rightarrow> (unit, 't, 'p) resolve_witness_trait \<Rightarrow> (unit, string) result \<times> 'v"
  rgb_validate ::
    "'v \<Rightarrow> ('w, 't, 'p) resolve_witness_trait \<Rightarrow> 'v \<Rightarrow> 'w \<Rightarrow> ('v, string) result \<times> 'w"
  rgb_contract_state :: "'v \<Rightarrow> 'v \<Rightarrow> ('v, string) result"
  rgb_fungible_all :: "'v \<Rightarrow> ('v \<times> 'v) list"
  rgb_transition_builder :: "'v \<Rightarrow> 'v \<Rightarrow> string \<Rightarrow> ('v, string) result"
  rgb_add_input :: "'v \<Rightarrow> 'v \<Rightarrow> 'v \<Rightarrow> ('v, string) result"
  rgb_complete_transition :: "'v \<Rightarrow> ('v, string) result"

subsection \<open>The demo asset and the genesis resolver\<close>

record 'v demo_asset_spec =
  das_ticker :: string
  das_name :: string
  das_precision :: 'v
  das_supply :: u64

definition demo_asset :: "('v, 'w, 't, 'p) rgb_std \<Rightarrow> 'v demo_asset_spec" where
  "demo_asset G = \<lparr>das_ticker = ''RGBPQ'', das_name = ''RGB-PQ demo asset'',
     das_precision = rgb_centi_micro G, das_supply = 100000\<rparr>"

definition demo_from_strings :: "string \<Rightarrow> string \<Rightarrow> 'v \<Rightarrow> u64 \<Rightarrow> 'v demo_asset_spec" where
  "demo_from_strings ticker name prec supply = \<lparr>das_ticker = ticker, das_name = name,
     das_precision = prec, das_supply = supply\<rparr>"

record 'v issued_asset =
  ia_contract :: 'v
  ia_contract_id :: 'v

definition genesis_resolver :: "(unit, 't, 'p) resolve_witness_trait" where
  "genesis_resolver = \<lparr>rw_resolve_witness = (\<lambda>txid w. (Ok WitnessUnresolved, w)),
     rw_check_chain_net = (\<lambda>net. Ok ())\<rparr>"

text \<open>The trait's implementation for \<^verbatim>\<open>BtqWitnessResolver\<close> (from \<open>Witness\<close>).\<close>

definition btq_witness_trait ::
  "('t, 'p) witness_api \<Rightarrow> 'w witness_resolver \<Rightarrow> ('w, 't, 'p) resolve_witness_trait" where
  "btq_witness_trait W r =
     \<lparr>rw_resolve_witness = resolve_witness W r, rw_check_chain_net = check_chain_net r\<rparr>"

subsection \<open>Issuing\<close>

definition rgb_validation :: "string \<Rightarrow> string \<Rightarrow> rgb_pq_error" where
  "rgb_validation stage e = RgbPq_RgbValidation (stage @ '': '' @ e)"

definition stock_err :: "string \<Rightarrow> rgb_pq_error" where
  "stock_err e = rgb_validation ''stock'' e"

definition builder_err :: "string \<Rightarrow> rgb_pq_error" where
  "builder_err e = rgb_validation ''builder'' e"

definition load_nia_kit :: "('v, 'w, 't, 'p) rgb_std \<Rightarrow> string \<Rightarrow> 'v rgb_pq_result" where
  "load_nia_kit G path =
     and_then (map_err (rgb_validation ''load NIA kit'') (rgb_kit_load_file G path)) (\<lambda>kit.
     map_err (rgb_validation ''validate NIA kit'') (rgb_kit_validate G kit))"

definition issue_nia_to_btq_seal ::
  "('v, 'w, 't, 'p) rgb_std \<Rightarrow> string \<Rightarrow> chain_net \<Rightarrow> 'v demo_asset_spec \<Rightarrow> string \<Rightarrow> u32 \<Rightarrow> u64
    \<Rightarrow> 'v issued_asset rgb_pq_result" where
  "issue_nia_to_btq_seal G path net spec txid vout blinding =
     and_then (load_nia_kit G path) (\<lambda>kit.
     case rgb_import_kit G (rgb_stock_in_memory G) kit of (imported, stock) \<Rightarrow>
     and_then (map_err (rgb_validation ''import kit'') imported) (\<lambda>_.
     let asset_spec = rgb_asset_spec G (das_ticker spec) (das_name spec) (das_precision spec);
         terms = rgb_default_terms G in
     and_then (map_err stock_err (rgb_contract_builder G stock (rgb_identity_default G)
       (rgb_nia_schema_id G) net)) (\<lambda>b.
     and_then (map_err builder_err (rgb_add_global_state G b ''spec'' asset_spec)) (\<lambda>b.
     and_then (map_err builder_err (rgb_add_global_state G b ''terms'' terms)) (\<lambda>b.
     and_then (map_err builder_err (rgb_add_global_state G b ''issuedSupply''
       (rgb_amount G (das_supply spec)))) (\<lambda>b.
     and_then (map_err builder_err (rgb_add_fungible_state G b ''assetOwner''
       (rgb_genesis_seal G txid vout blinding) (das_supply spec))) (\<lambda>b.
     and_then (map_err builder_err (rgb_issue_contract G b)) (\<lambda>issued.
     Ok \<lparr>ia_contract = issued, ia_contract_id = rgb_contract_id G issued\<rparr>))))))))"

definition issue_and_import ::
  "('v, 'w, 't, 'p) rgb_std \<Rightarrow> string \<Rightarrow> chain_net \<Rightarrow> 'v demo_asset_spec \<Rightarrow> string \<Rightarrow> u32 \<Rightarrow> u64
    \<Rightarrow> ('v \<times> 'v) rgb_pq_result" where
  "issue_and_import G path net spec txid vout blinding =
     and_then (load_nia_kit G path) (\<lambda>kit.
     case rgb_import_kit G (rgb_stock_in_memory G) kit of (imported, stock) \<Rightarrow>
     and_then (map_err (rgb_validation ''import kit'') imported) (\<lambda>_.
     let asset_spec = rgb_asset_spec G (das_ticker spec) (das_name spec) (das_precision spec);
         terms = rgb_default_terms G in
     and_then (map_err stock_err (rgb_contract_builder G stock (rgb_identity_default G)
       (rgb_nia_schema_id G) net)) (\<lambda>b.
     and_then (map_err builder_err (rgb_add_global_state G b ''spec'' asset_spec)) (\<lambda>b.
     and_then (map_err builder_err (rgb_add_global_state G b ''terms'' terms)) (\<lambda>b.
     and_then (map_err builder_err (rgb_add_global_state G b ''issuedSupply''
       (rgb_amount G (das_supply spec)))) (\<lambda>b.
     and_then (map_err builder_err (rgb_add_fungible_state G b ''assetOwner''
       (rgb_genesis_seal G txid vout blinding) (das_supply spec))) (\<lambda>b.
     and_then (map_err builder_err (rgb_issue_contract G b)) (\<lambda>issued.
     let contract_id = rgb_contract_id G issued in
     case rgb_import_contract G stock issued genesis_resolver of (done, stock') \<Rightarrow>
     and_then (map_err (rgb_validation ''import contract'') done) (\<lambda>_.
     Ok (stock', contract_id))))))))))"

subsection \<open>Validation and transfer\<close>

definition validate_consignment ::
  "('v, 'w, 't, 'p) rgb_std \<Rightarrow> 'v \<Rightarrow> ('w, 't, 'p) resolve_witness_trait \<Rightarrow> 'v \<Rightarrow> ('w, 'v) io" where
  "validate_consignment G consignment resolver config = (\<lambda>w.
     case rgb_validate G consignment resolver config w of
       (r, w') \<Rightarrow> (map_err (rgb_validation ''consignment invalid'') r, w'))"

definition transfer_nia_btq ::
  "('v, 'w, 't, 'p) rgb_std \<Rightarrow> 'v \<Rightarrow> 'v \<Rightarrow> string \<Rightarrow> u32 \<Rightarrow> u64 \<Rightarrow> u64 \<Rightarrow> 'v rgb_pq_result" where
  "transfer_nia_btq G stock contract_id txid vout amount blinding =
     and_then (map_err stock_err (rgb_contract_state G stock contract_id)) (\<lambda>state.
     case rgb_fungible_all G state of
       [] \<Rightarrow> Err (RgbPq_RgbValidation ''no fungible allocation to transfer'')
     | (input_opout, prev_state) # _ \<Rightarrow>
     and_then (map_err stock_err (rgb_transition_builder G stock contract_id ''transfer'')) (\<lambda>b.
     and_then (map_err builder_err (rgb_add_fungible_state G b ''assetOwner''
       (rgb_graph_seal G txid vout blinding) amount)) (\<lambda>b.
     and_then (map_err builder_err (rgb_add_input G b input_opout prev_state)) (\<lambda>b.
     map_err builder_err (rgb_complete_transition G b)))))"

definition chain_net_for :: "btq_p2mr_seal \<Rightarrow> chain_net" where
  "chain_net_for s = chain_net_of (chain_id s)"

subsection \<open>Stages\<close>

text \<open>The stock with the kit imported, from which both issuing functions start.\<close>

definition stock_with_kit :: "('v, 'w, 't, 'p) rgb_std \<Rightarrow> string \<Rightarrow> 'v rgb_pq_result" where
  "stock_with_kit G path = and_then (load_nia_kit G path) (\<lambda>kit.
     case rgb_import_kit G (rgb_stock_in_memory G) kit of (imported, stock) \<Rightarrow>
       and_then (map_err (rgb_validation ''import kit'') imported) (\<lambda>_. Ok stock))"

text \<open>Errors of a given shape, through \<open>and_then\<close>.\<close>

definition errs_in :: "'e set \<Rightarrow> ('a, 'e) result \<Rightarrow> bool" where
  "errs_in E r \<longleftrightarrow> (case r of Err e \<Rightarrow> e \<in> E | _ \<Rightarrow> True)"

lemma errs_in_simps [simp]:
  "errs_in E (Ok x)" "errs_in E Panic" "errs_in E (Err e) \<longleftrightarrow> e \<in> E"
  by (simp_all add: errs_in_def)

lemma errs_in_and_then: "errs_in E m \<Longrightarrow> (\<And>x. errs_in E (f x)) \<Longrightarrow> errs_in E (and_then m f)"
  by (cases m) auto

lemma errs_in_map_err: "(\<And>e. g e \<in> E) \<Longrightarrow> errs_in E (map_err g m)"
  by (cases m) auto

definition validation_errors :: "string set \<Rightarrow> rgb_pq_error set" where
  "validation_errors stages = {rgb_validation stage e | stage e. stage \<in> stages}"

lemma rgb_validation_in [intro]: "stage \<in> stages \<Longrightarrow> rgb_validation stage e \<in> validation_errors stages"
  by (auto simp: validation_errors_def)

definition rgb_stages :: "string set" where
  "rgb_stages = {''load NIA kit'', ''validate NIA kit'', ''import kit'', ''stock'', ''builder'',
     ''import contract''}"

lemma load_nia_kit_errors: "errs_in (validation_errors rgb_stages) (load_nia_kit G path)"
  unfolding load_nia_kit_def by (intro errs_in_and_then errs_in_map_err rgb_validation_in)
    (simp_all add: rgb_stages_def)

lemma import_kit_errors:
  "errs_in (validation_errors rgb_stages) (map_err (rgb_validation ''import kit'') m)"
  by (intro errs_in_map_err rgb_validation_in) (simp add: rgb_stages_def)

lemma builder_errors:
  "errs_in (validation_errors rgb_stages) (map_err stock_err m)"
  "errs_in (validation_errors rgb_stages) (map_err builder_err m)"
  "errs_in (validation_errors rgb_stages) (map_err (rgb_validation ''import contract'') n)"
  by (rule errs_in_map_err,
      auto simp: stock_err_def builder_err_def rgb_stages_def intro!: rgb_validation_in)+

lemma first_Ok_iff:
  "(case xs of [] \<Rightarrow> Err e | (a, b) # _ \<Rightarrow> f a b) = Ok y
    \<longleftrightarrow> (\<exists>a b rest. xs = (a, b) # rest \<and> f a b = Ok y)"
  by (auto split: list.split)

lemma errs_in_prod: "(\<And>x y. errs_in E (f x y)) \<Longrightarrow> errs_in E (case p of (x, y) \<Rightarrow> f x y)"
  by (cases p) simp

lemma issue_and_import_errors:
  "errs_in (validation_errors rgb_stages) (issue_and_import G path net spec txid vout blinding)"
  unfolding issue_and_import_def Let_def
  by (intro errs_in_and_then errs_in_prod load_nia_kit_errors import_kit_errors builder_errors
      errs_in_simps)

lemma issue_nia_errors:
  "errs_in (validation_errors rgb_stages) (issue_nia_to_btq_seal G path net spec txid vout blinding)"
  unfolding issue_nia_to_btq_seal_def Let_def
  by (intro errs_in_and_then errs_in_prod load_nia_kit_errors import_kit_errors builder_errors
      errs_in_simps)

subsection \<open>Properties\<close>

text \<open>C34. Issuing with import is issuing followed by import: \<^verbatim>\<open>issue_and_import\<close> repeats the whole of
  \<^verbatim>\<open>issue_nia_to_btq_seal\<close>, and for every behaviour of the RGB crates it is the same as preparing
  a stock with the kit, issuing the asset with that function, and importing its contract under the
  genesis resolver, with the same contract id and the same error of the first failing stage.\<close>

theorem issue_and_import_eq:
  "issue_and_import G path net spec txid vout blinding =
    and_then (stock_with_kit G path) (\<lambda>stock.
    and_then (issue_nia_to_btq_seal G path net spec txid vout blinding) (\<lambda>asset.
    case rgb_import_contract G stock (ia_contract asset) genesis_resolver of (done, stock') \<Rightarrow>
      and_then (map_err (rgb_validation ''import contract'') done)
        (\<lambda>_. Ok (stock', ia_contract_id asset))))"
proof (cases "load_nia_kit G path")
  case (Ok kit)
  obtain imported stock where "rgb_import_kit G (rgb_stock_in_memory G) kit = (imported, stock)"
    by (cases "rgb_import_kit G (rgb_stock_in_memory G) kit")
  with Ok show ?thesis
    by (cases imported)
       (simp_all add: issue_and_import_def issue_nia_to_btq_seal_def stock_with_kit_def
         and_then_assoc Let_def)
qed (simp_all add: issue_and_import_def stock_with_kit_def)

text \<open>Every failure of issuing is an RGB validation error that names its stage: the error text
  starts with the loading, the validation or the import of the kit, with the stock, the builder or
  the import of the contract, followed by the text of the RGB crate's own error.\<close>

theorem issue_error_stage:
  "case issue_and_import G path net spec txid vout blinding of
      Err e \<Rightarrow> \<exists>stage m. e = RgbPq_RgbValidation (stage @ '': '' @ m) \<and> stage \<in>
        {''load NIA kit'', ''validate NIA kit'', ''import kit'', ''stock'', ''builder'',
         ''import contract''}
    | _ \<Rightarrow> True"
  using issue_and_import_errors [of G path net spec txid vout blinding]
  by (auto simp: errs_in_def validation_errors_def rgb_validation_def rgb_stages_def
      split: result.splits)

text \<open>What a transfer transition is made of: a transition is built exactly if the contract has
  an allocation and the builder accepts, in this order, the recipient's seal with the amount and
  the first allocation as the only input. The amount is never compared with the allocation and
  nothing is assigned back to the issuer, so the transition moves the allocation whole or not at
  all.\<close>

theorem transfer_uses_first_allocation:
  "transfer_nia_btq G stock contract_id txid vout amount blinding = Ok transition \<longleftrightarrow>
    (\<exists>state opout prev others b1 b2 b3. rgb_contract_state G stock contract_id = Ok state
      \<and> rgb_fungible_all G state = (opout, prev) # others
      \<and> rgb_transition_builder G stock contract_id ''transfer'' = Ok b1
      \<and> rgb_add_fungible_state G b1 ''assetOwner'' (rgb_graph_seal G txid vout blinding) amount = Ok b2
      \<and> rgb_add_input G b2 opout prev = Ok b3 \<and> rgb_complete_transition G b3 = Ok transition)"
  unfolding transfer_nia_btq_def and_then_Ok_iff map_err_Ok_iff first_Ok_iff by blast

text \<open>Contracts are issued and validated for the same network: the network derived from a seal
  is accepted by the BTQ witness resolver exactly if that resolver is bound to the seal's chain,
  while the genesis resolver accepts every network and resolves no witness.\<close>

theorem issue_network_matches_resolver:
  "(rw_check_chain_net (btq_witness_trait W r) (chain_net_for s) = Ok () \<longleftrightarrow> wr_chain r = chain_id s)
    \<and> rw_check_chain_net genesis_resolver net = Ok ()
    \<and> rw_resolve_witness genesis_resolver txid w = (Ok WitnessUnresolved, w)"
  by (cases "chain_id s"; cases "wr_chain r")
     (simp_all add: btq_witness_trait_def check_chain_net_def chain_net_for_def genesis_resolver_def)

end
