(* ===== verification/Index_Invariant.thy ===== *)
theory Index_Invariant
  imports Indexer
begin

section \<open>What an indexer's state always satisfies\<close>

text \<open>
  The state of both indexers of \<open>crates/rgb-pq-chain/src/indexer.rs\<close> over whole sequences of
  calls: a spend is recorded with its txid and its height together, and its height never exceeds
  the tip's. The invariant is shown once for the abstract steps, carried to every implementation of
  the interface inside the locale, and read off the two implementations.
\<close>

definition index_consistent :: "index_state \<Rightarrow> bool" where
  "index_consistent st \<longleftrightarrow> (\<forall>o' e. snd st o' = Some e \<longrightarrow>
     (ix_spending_txid (view e) = None \<longleftrightarrow> spend_height e = None)
     \<and> pred_option (\<lambda>h. h \<le> tip_height (fst st)) (spend_height e))"

text \<open>The height only goes down by a rollback.\<close>

fun tip_monotone :: "index_state \<Rightarrow> index_op \<Rightarrow> bool" where
  "tip_monotone (t, F) (OpSetTip t') = (tip_height t \<le> tip_height t')"
| "tip_monotone st a = True"

fun monotone_run :: "index_state \<Rightarrow> index_op list \<Rightarrow> bool" where
  "monotone_run st [] = True"
| "monotone_run st (a # as) = (tip_monotone st a \<and> monotone_run (index_step st a) as)"

lemma entry_simps:
  "view entry_default = indexed_default" "spend_height entry_default = None"
  "ix_spending_txid indexed_default = None"
  by (simp_all add: entry_default_def indexed_default_def)

lemma rollback_entry_consistent:
  "ix_spending_txid (view e) = None \<longleftrightarrow> spend_height e = None \<Longrightarrow>
    (ix_spending_txid (view (rollback_entry h e)) = None \<longleftrightarrow> spend_height (rollback_entry h e) = None)
    \<and> pred_option (\<lambda>k. k \<le> h) (spend_height (rollback_entry h e))"
  by (auto simp: rollback_entry_def split: option.split)

lemma rescan_entry_frame:
  "ix_spending_txid (view (rescan_entry h e)) = ix_spending_txid (view e)"
  "spend_height (rescan_entry h e) = spend_height e"
  by (simp_all add: rescan_entry_def split: option.split)

lemma index_step_consistent:
  assumes "index_consistent st" and "tip_monotone st a"
  shows "index_consistent (index_step st a)"
proof (cases st; cases a)
  fix t F h assume "st = (t, F)" and "a = OpRollback h"
  with assms(1) show ?thesis
    by (auto simp: index_consistent_def rollback_entry_consistent)
next
  fix t F t' assume "st = (t, F)" and "a = OpSetTip t'"
  with assms show ?thesis
    by (fastforce simp: index_consistent_def option.pred_set intro: order_trans)
qed (use assms(1) in \<open>auto simp: index_consistent_def modify_fact_def or_default_def entry_simps
      rescan_entry_frame split: option.splits\<close>)

lemma index_initial_consistent: "index_consistent index_initial"
  by (simp add: index_consistent_def index_initial_def)

lemma index_run_consistent:
  "index_consistent st \<Longrightarrow> monotone_run st as \<Longrightarrow> index_consistent (foldl index_step st as)"
proof (induction as arbitrary: st)
  case (Cons a as)
  from Cons.prems(2) have "tip_monotone st a" and "monotone_run (index_step st a) as" by simp_all
  with Cons.IH [of "index_step st a"] index_step_consistent [OF Cons.prems(1)] show ?case by simp
qed simp

context indexer_laws
begin

text \<open>Every implementation of the interface keeps the invariant over a run.\<close>

lemma run_consistent:
  assumes "inv s" and "admissible_run (idx_tip I s, facts s) as"
    and "monotone_run (idx_tip I s, facts s) as" and "index_consistent (idx_tip I s, facts s)"
  shows "\<exists>s'. run_ops I s as = (Ok (), s') \<and> inv s' \<and> index_consistent (idx_tip I s', facts s')"
  using run_refines [OF assms(1,2)] index_run_consistent [OF assms(4,3)] by auto

end

lemma mem_initial: "(idx_tip mem_indexer_ops mem_new, mem_facts mem_new) = index_initial"
  by (simp add: index_initial_def mem_indexer_ops_def mem_tip_def mem_new_def mem_facts_def fun_eq_iff)

lemma sqlite_initial:
  assumes "\<forall>stmt db. db_err stmt db = None" and "s0 = \<lparr>sq_conn = empty_db, sq_height = 0, sq_tip_hash = []\<rparr>"
  shows "sqlite_open_memory db_err = Ok s0" and "sqlite_inv db_err s0"
    and "(idx_tip (sqlite_indexer_ops db_err) s0, sqlite_facts s0) = index_initial"
  using assms
  by (simp_all add: sqlite_open_memory_def sqlite_open_def sql_exec_def read_meta_def query_meta_def
      empty_db_def Let_def sqlite_inv_def index_initial_def sqlite_indexer_ops_def sqlite_tip_def
      sqlite_facts_def fun_eq_iff)

subsection \<open>Properties\<close>

text \<open>C15. An index never holds half a spend or a spend from the future: after any sequence of calls
  that records facts for watched outpoints and lowers the height only by rollbacks, started empty,
  each entry of the in-memory indexer and each row of the SQLite indexer for an outpoint has a
  spending txid exactly if it has a spend height, and that height is at most the tip's.\<close>

theorem index_keeps_spends_below_tip:
  assumes "\<forall>stmt db. db_err stmt db = None"
    and "admissible_run index_initial ops" and "monotone_run index_initial ops"
  shows "\<exists>m s0 s. run_ops mem_indexer_ops mem_new ops = (Ok (), m)
    \<and> sqlite_open_memory db_err = Ok s0 \<and> run_ops (sqlite_indexer_ops db_err) s0 ops = (Ok (), s)
    \<and> (\<forall>o'. pred_option (\<lambda>e. (ix_spending_txid (view e) = None \<longleftrightarrow> spend_height e = None)
          \<and> pred_option (\<lambda>h. h \<le> mem_height m) (spend_height e)) (mem_entries m (entry_key o')))
    \<and> (\<forall>o'. pred_option (\<lambda>r. (r_spending_txid r = None \<longleftrightarrow> r_spend_height r = None)
          \<and> pred_option (\<lambda>h. 0 \<le> h \<and> h \<le> uint (sq_height s)) (r_spend_height r))
        (db_outpoints (sq_conn s) (entry_key o')))"
proof -
  let ?s0 = "\<lparr>sq_conn = empty_db, sq_height = 0, sq_tip_hash = []\<rparr>"
  note s0 = sqlite_initial [OF assms(1) refl]
  obtain m where m: "run_ops mem_indexer_ops mem_new ops = (Ok (), m)"
    "index_consistent (mem_tip m, mem_facts m)"
    using mem.run_consistent [of mem_new, where as = ops] assms(2,3) index_initial_consistent
    unfolding mem_initial by (auto simp: mem_indexer_ops_def)
  obtain s where s: "run_ops (sqlite_indexer_ops db_err) ?s0 ops = (Ok (), s)"
    "sqlite_inv db_err s" "index_consistent (sqlite_tip s, sqlite_facts s)"
    using sqlite.run_consistent [OF s0(2), where as = ops] assms(2,3) index_initial_consistent
    unfolding s0(3) by (auto simp: sqlite_indexer_ops_def)
  have mem: "pred_option (\<lambda>e. (ix_spending_txid (view e) = None \<longleftrightarrow> spend_height e = None)
      \<and> pred_option (\<lambda>h. h \<le> mem_height m) (spend_height e)) (mem_entries m (entry_key o'))" for o'
    using m(2) by (auto simp: index_consistent_def mem_tip_def mem_facts_def option.pred_set)
  have "pred_option (\<lambda>r. (r_spending_txid r = None \<longleftrightarrow> r_spend_height r = None)
      \<and> pred_option (\<lambda>h. 0 \<le> h \<and> h \<le> uint (sq_height s)) (r_spend_height r))
    (db_outpoints (sq_conn s) (entry_key o'))" for o'
  proof (cases "db_outpoints (sq_conn s) (entry_key o')")
    case (Some r)
    with s(2) have row: "row_ok r" by (auto simp: sqlite_inv_def)
    have "sqlite_facts s o' = Some (entry_of_row o' r)"
      using Some by (simp add: sqlite_facts_def)
    with s(3) have half: "ix_spending_txid (view (entry_of_row o' r)) = None
        \<longleftrightarrow> spend_height (entry_of_row o' r) = None"
      and below: "pred_option (\<lambda>h. h \<le> sq_height s) (spend_height (entry_of_row o' r))"
      by (simp_all add: index_consistent_def sqlite_tip_def)
    show ?thesis
    proof (cases "r_spend_height r")
      case (Some h)
      have "uint (word_of_int h :: u32) = h" by (rule row_height [OF row Some])
      with half below Some uint_u32_bounds [of "word_of_int h"] \<open>db_outpoints (sq_conn s) (entry_key o') = Some r\<close>
      show ?thesis by (auto simp: entry_of_row_def word_le_def)
    qed (use half \<open>db_outpoints (sq_conn s) (entry_key o') = Some r\<close> in \<open>simp add: entry_of_row_def\<close>)
  qed simp
  with mem m(1) s(1) s0(1) show ?thesis by blast
qed

theorem index_keeps_spends_below_tip_witness:
  "\<exists>m. run_ops mem_indexer_ops mem_new [OpSetTip \<lparr>tip_height = 10, tip_hash = ''h''\<rparr>,
      OpWatch sample_outpoint, OpRecordSpend sample_outpoint sample_spend, OpRollback 12] = (Ok (), m)
    \<and> pred_option (\<lambda>e. pred_option (\<lambda>h. h \<le> mem_height m) (spend_height e))
        (mem_entries m (entry_key sample_outpoint))"
proof -
  have "\<forall>stmt db. (\<lambda>_ _. None :: string option) (stmt :: sql_stmt) (db :: sql_db) = None" by simp
  from index_keeps_spends_below_tip [OF this, of "[OpSetTip \<lparr>tip_height = 10, tip_hash = ''h''\<rparr>,
      OpWatch sample_outpoint, OpRecordSpend sample_outpoint sample_spend, OpRollback 12]"]
  show ?thesis by (force simp: index_initial_def option.pred_set)
qed

text \<open>The in-memory indexer forgets nothing: after any sequence of calls it holds exactly the
  outpoints that a call named, each once; a rollback, a rescan and a new tip change none of that.\<close>

fun op_outpoints :: "index_op \<Rightarrow> btq_outpoint set" where
  "op_outpoints (OpWatch o') = {o'}"
| "op_outpoints (OpRecordOutput o' out) = {o'}"
| "op_outpoints (OpRecordSpend o' tx) = {o'}"
| "op_outpoints (OpUpdateConfirmations o' d) = {o'}"
| "op_outpoints _ = {}"

lemma mem_op_outpoints:
  "\<exists>m'. apply_op mem_indexer_ops m a = (Ok (), m')
    \<and> dom (mem_entries m') = dom (mem_entries m) \<union> entry_key ` op_outpoints a"
  by (cases a) (auto simp: mem_indexer_ops_def mem_watch_def mem_record_output_def
      mem_record_spend_def mem_update_confirmations_def mem_modify_def mem_rollback_def
      mem_rescan_from_def mem_set_tip_def)

lemma mem_run_outpoints:
  "dom (mem_entries (snd (run_ops mem_indexer_ops m ops)))
    = dom (mem_entries m) \<union> entry_key ` (\<Union> (op_outpoints ` set ops))"
proof (induction ops arbitrary: m)
  case (Cons a ops)
  obtain m' where "apply_op mem_indexer_ops m a = (Ok (), m')"
      "dom (mem_entries m') = dom (mem_entries m) \<union> entry_key ` op_outpoints a"
    using mem_op_outpoints by blast
  with Cons [of m'] show ?case by (auto simp: image_Un)
qed simp

theorem mem_len_counts:
  "mem_len (snd (run_ops mem_indexer_ops mem_new ops)) = card (\<Union> (op_outpoints ` set ops))
    \<and> (mem_is_empty (snd (run_ops mem_indexer_ops mem_new ops)) \<longleftrightarrow> \<Union> (op_outpoints ` set ops) = {})"
  by (simp add: mem_len_def mem_is_empty_def mem_run_outpoints mem_new_def card_image inj_on_def)

end
