(* ===== verification/Index_Failures.thy ===== *)
theory Index_Failures
  imports Indexer
begin

section \<open>Failing statements in the SQLite indexer\<close>

text \<open>
  What is left behind when a statement of \<open>sqlite::SqliteIndexer\<close> in
  \<open>crates/rgb-pq-chain/src/indexer.rs\<close> fails. A method that runs one statement is atomic. \<^verbatim>\<open>rollback\<close>
  runs three without a transaction, and \<^verbatim>\<open>set_tip\<close> discards the outcome of its two, so the struct and
  the file can come apart.
\<close>

lemma sqlite_exec_cases:
  "sqlite_exec db_err stmt f s = (case db_err stmt (sq_conn s) of
     None \<Rightarrow> (Ok (), s\<lparr>sq_conn := f (sq_conn s)\<rparr>)
   | Some m \<Rightarrow> (Err (RgbPq_Index (IX_Persistence m)), s))"
  by (simp add: sqlite_exec_def sql_exec_def split: option.split)

lemma write_meta_cases:
  "write_meta db_err h t db = (case db_err (SqlReplaceMeta ''height'' (fmt_nat (unat h))) db of
     Some m \<Rightarrow> (Err (RgbPq_Index (IX_Persistence m)), db)
   | None \<Rightarrow> let db1 = replace_meta ''height'' (fmt_nat (unat h)) db in
       (case db_err (SqlReplaceMeta ''tip'' t) db1 of
          Some m \<Rightarrow> (Err (RgbPq_Index (IX_Persistence m)), db1)
        | None \<Rightarrow> (Ok (), replace_meta ''tip'' t db1)))"
  by (simp add: write_meta_def sql_exec_def Let_def split: option.split)

lemmas sqlite_methods = sqlite_indexer_ops_def sqlite_watch_def sqlite_record_output_def
  sqlite_record_spend_def sqlite_update_confirmations_def sqlite_rescan_from_def sqlite_exec_cases

lemma sqlite_rollback_cases:
  "sqlite_rollback db_err s h = (case db_err (SqlRollback h) (sq_conn s) of
     Some m \<Rightarrow> (Err (RgbPq_Index (IX_Persistence m)), s)
   | None \<Rightarrow>
       let db = update_where (\<lambda>k r. case r_spend_height r of Some x \<Rightarrow> x > uint h | None \<Rightarrow> False)
         (\<lambda>r. r\<lparr>r_spending_txid := None, r_spending_confs := 0, r_spend_height := None\<rparr>) (sq_conn s);
         (r, db') = write_meta db_err h (sq_tip_hash s) db
       in (r, s\<lparr>sq_height := h, sq_conn := db'\<rparr>))"
  by (simp add: sqlite_rollback_def sqlite_exec_cases Let_def split: option.split prod.split)

lemma rolled_back_rows:
  "db_outpoints (update_where (\<lambda>k r. case r_spend_height r of Some x \<Rightarrow> x > uint h | None \<Rightarrow> False)
      (\<lambda>r. r\<lparr>r_spending_txid := None, r_spending_confs := 0, r_spend_height := None\<rparr>) db) k = Some r
    \<Longrightarrow> pred_option (\<lambda>x. x \<le> uint (h :: u32)) (r_spend_height r)"
  by (auto simp: update_where_def option.pred_set dest: arg_cong [where f = r_spend_height]
      split: if_splits option.splits)

lemma sqlite_failure:
  assumes "apply_op (sqlite_indexer_ops db_err) s a = (Err e, s')"
  shows "(\<exists>m. e = RgbPq_Index (IX_Persistence m)) \<and> (s' = s \<or> (\<exists>h. a = OpRollback h \<and> sq_height s' = h
    \<and> sq_tip_hash s' = sq_tip_hash s \<and> db_err (SqlRollback h) (sq_conn s) = None))"
proof (cases a)
  case (OpRollback h)
  with assms show ?thesis
    by (auto simp: sqlite_indexer_ops_def sqlite_rollback_cases write_meta_cases Let_def
        split: option.splits)
qed (use assms in \<open>auto simp: sqlite_methods split: option.splits\<close>)

lemma sqlite_apply_no_panic: "\<not> panics (fst (apply_op (sqlite_indexer_ops db_err) s a))"
proof (cases a)
  case (OpRollback h)
  then show ?thesis
    by (simp add: sqlite_indexer_ops_def sqlite_rollback_cases write_meta_cases Let_def
        split: option.split)
qed (simp_all add: sqlite_methods split: option.split)

subsection \<open>Properties\<close>

text \<open>C40. What a failing statement leaves behind: a method of the SQLite indexer that returns an error
  returns the persistence error of the statement and leaves everything as it was, except
  \<^verbatim>\<open>rollback\<close> once its first statement has succeeded: if then the height cannot be written, the
  struct is at the new height and the rows are rolled back, but the file keeps the old tip. And
  \<^verbatim>\<open>set_tip\<close> reports success when nothing was written: reopening then gives the old tip.\<close>

theorem sqlite_failed_writes:
  shows "(apply_op (sqlite_indexer_ops db_err) s a = (Err e, s') \<longrightarrow>
      (\<exists>m. e = RgbPq_Index (IX_Persistence m))
      \<and> (s' = s \<or> (\<exists>h. a = OpRollback h \<and> db_err (SqlRollback h) (sq_conn s) = None)))
    \<and> (db_err (SqlRollback h) (sq_conn s) = None
        \<and> (\<forall>db. db_err (SqlReplaceMeta ''height'' (fmt_nat (unat h))) db = Some m) \<longrightarrow>
      (\<exists>s2. apply_op (sqlite_indexer_ops db_err) s (OpRollback h)
          = (Err (RgbPq_Index (IX_Persistence m)), s2)
        \<and> sq_height s2 = h \<and> db_meta (sq_conn s2) = db_meta (sq_conn s)
        \<and> (\<forall>k r. db_outpoints (sq_conn s2) k = Some r \<longrightarrow>
             pred_option (\<lambda>x. x \<le> uint h) (r_spend_height r))))
    \<and> (db_err (SqlReplaceMeta ''height'' (fmt_nat (unat (tip_height t)))) (sq_conn s) = Some m \<longrightarrow>
      fst (apply_op (sqlite_indexer_ops db_err) s (OpSetTip t)) = Ok ()
      \<and> sqlite_tip (snd (apply_op (sqlite_indexer_ops db_err) s (OpSetTip t))) = t
      \<and> sqlite_open later (sq_conn (snd (apply_op (sqlite_indexer_ops db_err) s (OpSetTip t))))
        = sqlite_open later (sq_conn s))"
proof (intro conjI impI, goal_cases)
  case 1
  then show ?case using sqlite_failure by blast
next
  case 2
  then show ?case using sqlite_failure by blast
next
  case 3
  then show ?case
    by (simp add: sqlite_indexer_ops_def sqlite_rollback_cases write_meta_cases)
       (simp add: update_where_def rolled_back_rows [unfolded update_where_def, simplified])
qed (simp_all add: sqlite_indexer_ops_def sqlite_set_tip_def sqlite_tip_def write_meta_cases)

theorem sqlite_failed_writes_witness:
  "\<exists>db_err s. fst (apply_op (sqlite_indexer_ops db_err) s (OpSetTip \<lparr>tip_height = 9, tip_hash = ''h''\<rparr>)) = Ok ()
    \<and> sqlite_open (\<lambda>_ _. None) (sq_conn (snd (apply_op (sqlite_indexer_ops db_err) s
        (OpSetTip \<lparr>tip_height = 9, tip_hash = ''h''\<rparr>)))) = sqlite_open (\<lambda>_ _. None) empty_db"
proof -
  let ?err = "\<lambda>stmt db. case stmt of SqlReplaceMeta _ _ \<Rightarrow> Some ''disk full'' | _ \<Rightarrow> None"
  let ?s = "\<lparr>sq_conn = empty_db, sq_height = 0, sq_tip_hash = []\<rparr>"
  show ?thesis
    using sqlite_failed_writes [of ?err ?s "OpRollback 0" "RgbPq_RgbValidation []" ?s 0 "''disk full''"
        "\<lparr>tip_height = 9, tip_hash = ''h''\<rparr>" "\<lambda>_ _. None"]
    by (intro exI [of _ ?err] exI [of _ ?s]) simp
qed

end
