(* ===== verification/Multi_Binding.thy ===== *)
theory Multi_Binding
  imports Multi "HOL-Library.Multiset"
begin

section \<open>What the root of a multi-protocol tree binds\<close>

text \<open>
  The root of \<open>crates/rgb-pq-commit/src/multi.rs\<close> is a comb of branch hashes, and the branch hash
  forgets the order of its two inputs. Equal roots of two combs, of whatever lengths, still mean
  equal leaves: the tags keep leaf hashes and branch hashes apart, so the combs have the same
  length, agree on every leaf after the first two, and hold the same first two leaves in some order.
\<close>

text \<open>The messages hashed by the branches of a comb that starts at the hash \<open>r\<close>.\<close>

fun comb_messages :: "crates \<Rightarrow> node_hash \<Rightarrow> node_hash list \<Rightarrow> bytes list" where
  "comb_messages L r [] = []"
| "comb_messages L r (h # hs) =
     branch_hash_message L r h # comb_messages L (compute_tapbranch_hash L r h) hs"

definition multi_message_list :: "crates \<Rightarrow> bytes \<Rightarrow> bytes list \<Rightarrow> bytes list" where
  "multi_message_list L pq comms =
     [as_bytes ''TapLeaf'', as_bytes ''TapBranch'']
     @ map (leaf_hash_message L P2MR_COMMITMENT_LEAF_VERSION) (pq # comms)
     @ comb_messages L (multi_leaf_hash L pq) (map (multi_leaf_hash L) comms)"

abbreviation multi_messages :: "crates \<Rightarrow> bytes \<Rightarrow> bytes list \<Rightarrow> bytes set" where
  "multi_messages L pq comms \<equiv> set (multi_message_list L pq comms)"

lemma comb_messages_snoc:
  "comb_messages L r (hs @ [h])
    = comb_messages L r hs @ [branch_hash_message L (foldl (compute_tapbranch_hash L) r hs) h]"
  by (induction hs arbitrary: r) simp_all

lemma multi_messages_snoc:
  "multi_messages L pq (comms @ [c])
    = insert (leaf_hash_message L P2MR_COMMITMENT_LEAF_VERSION c)
        (insert (branch_hash_message L (multi_root_of L pq comms) (multi_leaf_hash L c))
          (multi_messages L pq comms))"
  by (auto simp: multi_message_list_def multi_root_of_def comb_messages_snoc)

lemma leaf_hash_unfold:
  "multi_leaf_hash L s = sha256 L (leaf_hash_message L P2MR_COMMITMENT_LEAF_VERSION s)"
  by (simp add: multi_leaf_hash_def compute_tapleaf_hash_def tagged_hash_def leaf_hash_message_def)

lemma branch_hash_unfold:
  "compute_tapbranch_hash L a b = sha256 L (branch_hash_message L a b)"
  by (simp add: compute_tapbranch_hash_def tagged_hash_def branch_hash_message_def)

lemma multi_root_snoc:
  "multi_root_of L pq (comms @ [c])
    = compute_tapbranch_hash L (multi_root_of L pq comms) (multi_leaf_hash L c)"
  by (simp add: multi_root_of_def)

lemma multi_root_Nil: "multi_root_of L pq [] = multi_leaf_hash L pq"
  by (simp add: multi_root_of_def)

lemma length_multi_root: "sha256_ok L \<Longrightarrow> length (multi_root_of L pq comms) = 32"
  by (cases comms rule: rev_cases)
     (simp_all add: multi_root_Nil multi_root_snoc leaf_hash_unfold branch_hash_unfold sha256_okD)

lemma messages_members:
  "as_bytes ''TapLeaf'' \<in> multi_messages L pq comms"
  "as_bytes ''TapBranch'' \<in> multi_messages L pq comms"
  "leaf_hash_message L P2MR_COMMITMENT_LEAF_VERSION pq \<in> multi_messages L pq comms"
  "s \<in> set comms \<Longrightarrow> leaf_hash_message L P2MR_COMMITMENT_LEAF_VERSION s \<in> multi_messages L pq comms"
  by (simp_all add: multi_message_list_def)

text \<open>A leaf is never taken for a branch: their messages start with the hashes of different tags.\<close>

lemma leaf_not_branch:
  assumes "sha256_ok L" and "collision_free L M"
    and "as_bytes ''TapLeaf'' \<in> M" "as_bytes ''TapBranch'' \<in> M"
    and "leaf_hash_message L P2MR_COMMITMENT_LEAF_VERSION s \<in> M" "branch_hash_message L a b \<in> M"
  shows "multi_leaf_hash L s \<noteq> compute_tapbranch_hash L a b"
proof
  assume "multi_leaf_hash L s = compute_tapbranch_hash L a b"
  then have "leaf_hash_message L P2MR_COMMITMENT_LEAF_VERSION s = branch_hash_message L a b"
    unfolding leaf_hash_unfold branch_hash_unfold
    by (rule collision_freeD [OF assms(2) _ assms(5,6)])
  then have "sha256 L (as_bytes ''TapLeaf'') = sha256 L (as_bytes ''TapBranch'')"
    by (simp add: leaf_hash_message_def branch_hash_message_def tagged_message_def
        sha256_okD [OF assms(1)])
  then have "as_bytes ''TapLeaf'' = as_bytes ''TapBranch''"
    by (rule collision_freeD [OF assms(2) _ assms(3,4)])
  then show False by (simp add: as_bytes_def)
qed

lemma leaf_hash_inject:
  assumes "collision_free L M" and "multi_leaf_hash L s = multi_leaf_hash L t"
    and "leaf_hash_message L P2MR_COMMITMENT_LEAF_VERSION s \<in> M"
    and "leaf_hash_message L P2MR_COMMITMENT_LEAF_VERSION t \<in> M"
  shows "s = t"
proof -
  have "leaf_hash_message L P2MR_COMMITMENT_LEAF_VERSION s
      = leaf_hash_message L P2MR_COMMITMENT_LEAF_VERSION t"
    using assms(2) unfolding leaf_hash_unfold by (rule collision_freeD [OF assms(1) _ assms(3,4)])
  then show ?thesis by (simp add: leaf_hash_message_def tapleaf_message_inject)
qed

text \<open>One level of two combs: equal branches have equal inputs, up to their order.\<close>

lemma branch_inject:
  assumes "sha256_ok L" and "collision_free L M"
    and "compute_tapbranch_hash L (multi_root_of L pq cs) (multi_leaf_hash L c)
      = compute_tapbranch_hash L (multi_root_of L pq' cs') (multi_leaf_hash L c')"
    and "branch_hash_message L (multi_root_of L pq cs) (multi_leaf_hash L c) \<in> M"
    and "branch_hash_message L (multi_root_of L pq' cs') (multi_leaf_hash L c') \<in> M"
  shows "multi_root_of L pq cs = multi_root_of L pq' cs' \<and> multi_leaf_hash L c = multi_leaf_hash L c'
    \<or> multi_root_of L pq cs = multi_leaf_hash L c' \<and> multi_leaf_hash L c = multi_root_of L pq' cs'"
proof -
  have "branch_hash_message L (multi_root_of L pq cs) (multi_leaf_hash L c)
      = branch_hash_message L (multi_root_of L pq' cs') (multi_leaf_hash L c')"
    using assms(3) unfolding branch_hash_unfold by (rule collision_freeD [OF assms(2) _ assms(4,5)])
  then show ?thesis
    by (simp add: branch_hash_message_def tapbranch_message_inject length_multi_root leaf_hash_unfold
        sha256_okD assms(1))
qed

text \<open>A comb with a branch on top has no leaf hash for a root.\<close>

lemma root_is_leaf_Nil:
  assumes "sha256_ok L" and "collision_free L M" and "multi_messages L pq cs \<subseteq> M"
    and "leaf_hash_message L P2MR_COMMITMENT_LEAF_VERSION s \<in> M"
    and "multi_root_of L pq cs = multi_leaf_hash L s"
  shows "cs = [] \<and> pq = s"
proof (cases cs rule: rev_cases)
  case Nil
  then have "multi_leaf_hash L pq = multi_leaf_hash L s" using assms(5) by (simp add: multi_root_Nil)
  then show ?thesis using Nil assms(3,4) messages_members(3) [of L pq cs]
    by (auto dest!: leaf_hash_inject [OF assms(2)])
next
  case (snoc ds d)
  with assms(3) have "multi_leaf_hash L s \<noteq> compute_tapbranch_hash L (multi_root_of L pq ds) (multi_leaf_hash L d)"
    using messages_members(1,2) [of L pq cs]
    by (intro leaf_not_branch [OF assms(1,2) _ _ assms(4)]) (auto simp: multi_messages_snoc)
  with assms(5) snoc show ?thesis by (simp add: multi_root_snoc)
qed

lemma multi_root_inject:
  assumes L: "sha256_ok L" and cf: "collision_free L M"
  shows "multi_messages L pq cs \<subseteq> M \<Longrightarrow> multi_messages L pq' cs' \<subseteq> M \<Longrightarrow> cs \<noteq> [] \<Longrightarrow> cs' \<noteq> []
    \<Longrightarrow> multi_root_of L pq cs = multi_root_of L pq' cs'
    \<Longrightarrow> tl cs = tl cs' \<and> {#pq, hd cs#} = {#pq', hd cs'#}"
proof (induction cs arbitrary: cs' rule: rev_induct)
  case (snoc c cs)
  from snoc.prems(4) obtain ds d where cs': "cs' = ds @ [d]" by (cases cs' rule: rev_cases) auto
  note msgs = snoc.prems(1,2) [unfolded cs' multi_messages_snoc]
  from msgs have leaf: "leaf_hash_message L P2MR_COMMITMENT_LEAF_VERSION c \<in> M"
      "leaf_hash_message L P2MR_COMMITMENT_LEAF_VERSION d \<in> M"
    and sub: "multi_messages L pq cs \<subseteq> M" "multi_messages L pq' ds \<subseteq> M" by auto
  from sub messages_members(3) have pqs: "leaf_hash_message L P2MR_COMMITMENT_LEAF_VERSION pq \<in> M"
      "leaf_hash_message L P2MR_COMMITMENT_LEAF_VERSION pq' \<in> M" by blast+
  have "multi_root_of L pq cs = multi_root_of L pq' ds \<and> multi_leaf_hash L c = multi_leaf_hash L d
    \<or> multi_root_of L pq cs = multi_leaf_hash L d \<and> multi_leaf_hash L c = multi_root_of L pq' ds"
    using msgs snoc.prems(5) unfolding cs' multi_root_snoc by (intro branch_inject [OF L cf]) auto
  then show ?case
  proof
    assume straight: "multi_root_of L pq cs = multi_root_of L pq' ds \<and> multi_leaf_hash L c = multi_leaf_hash L d"
    with leaf have "c = d" by (auto dest: leaf_hash_inject [OF cf])
    show ?case
    proof (cases "cs = [] \<or> ds = []")
      case True
      then have "cs = [] \<and> ds = [] \<and> pq = pq'"
      proof
        assume "cs = []"
        with straight have "multi_root_of L pq' ds = multi_leaf_hash L pq" by (simp add: multi_root_Nil)
        from root_is_leaf_Nil [OF L cf sub(2) pqs(1) this] \<open>cs = []\<close> show ?thesis by simp
      next
        assume "ds = []"
        with straight have "multi_root_of L pq cs = multi_leaf_hash L pq'" by (simp add: multi_root_Nil)
        from root_is_leaf_Nil [OF L cf sub(1) pqs(2) this] \<open>ds = []\<close> show ?thesis by simp
      qed
      with \<open>c = d\<close> cs' show ?thesis by simp
    next
      case False
      with snoc.IH [OF sub] straight have "tl cs = tl ds \<and> {#pq, hd cs#} = {#pq', hd ds#}" by simp
      with False \<open>c = d\<close> cs' show ?thesis by (cases cs; cases ds) simp_all
    qed
  next
    assume "multi_root_of L pq cs = multi_leaf_hash L d \<and> multi_leaf_hash L c = multi_root_of L pq' ds"
    with root_is_leaf_Nil [OF L cf sub(1) leaf(2)] root_is_leaf_Nil [OF L cf sub(2) leaf(1)]
    show ?thesis by (simp add: cs')
  qed
qed simp

subsection \<open>A hash that separates two trees\<close>

text \<open>For the witness: the checksum of \<open>Samples\<close> tells apart the messages of one tree and of the tree
  with its two commitment leaves exchanged.\<close>

lemma checksum_collision_free:
  "collision_free checksum_crates
    (multi_messages checksum_crates [0x51] [[0x6a, 1], [0x6a, 2]]
     \<union> multi_messages checksum_crates [0x51] [[0x6a, 2], [0x6a, 1]])"
proof -
  let ?ms = "multi_message_list checksum_crates [0x51] [[0x6a, 1], [0x6a, 2]]
    @ drop 5 (multi_message_list checksum_crates [0x51] [[0x6a, 2], [0x6a, 1]])"
  have "distinct (map (sha256 checksum_crates) ?ms)" by code_simp
  moreover have "list_all (\<lambda>m. m \<in> set ?ms)
      (multi_message_list checksum_crates [0x51] [[0x6a, 2], [0x6a, 1]])" by code_simp
  ultimately show ?thesis by (elim collision_free_list) (auto simp: list_all_iff)
qed

lemma in_order_accepted:
  "verify_multi_protocol_commitment checksum_crates
      (multi_root_of checksum_crates [0x51] [[0x6a, 1], [0x6a, 2]]) [0x51] [[0x6a, 1], [0x6a, 2]] = Ok ()"
  by (simp add: verify_multi_iff)

subsection \<open>Properties\<close>

text \<open>C18. A root that verifies binds the leaves: if two openings of one root both verify, then,
  unless the hash collides on the messages of the two trees, they have the same number of
  commitment leaves, agree on every commitment leaf after the first, and hold the same PQ leaf and
  first commitment leaf up to exchanging the two.\<close>

theorem multi_root_binding:
  assumes "sha256_ok L"
    and "verify_multi_protocol_commitment L root pq comms = Ok ()"
    and "verify_multi_protocol_commitment L root pq' comms' = Ok ()"
    and "collision_free L (multi_messages L pq comms \<union> multi_messages L pq' comms')"
  shows "length comms = length comms' \<and> drop 1 comms = drop 1 comms'
    \<and> (pq = pq' \<and> hd comms = hd comms' \<or> pq = hd comms' \<and> hd comms = pq')"
proof -
  have ne: "comms \<noteq> []" "comms' \<noteq> []" and root: "multi_root_of L pq comms = multi_root_of L pq' comms'"
    using assms(2,3) by (auto simp: verify_multi_iff)
  have "tl comms = tl comms' \<and> {#pq, hd comms#} = {#pq', hd comms'#}"
    by (rule multi_root_inject [OF assms(1,4)]) (use ne root in auto)
  with ne show ?thesis by (cases comms; cases comms') (auto simp: add_eq_conv_ex)
qed

theorem multi_root_binding_witness:
  "verify_multi_protocol_commitment checksum_crates
      (multi_root_of checksum_crates [0x51] [[0x6a, 1], [0x6a, 2]]) [0x51] [[0x6a, 2], [0x6a, 1]] \<noteq> Ok ()"
proof
  assume "verify_multi_protocol_commitment checksum_crates
      (multi_root_of checksum_crates [0x51] [[0x6a, 1], [0x6a, 2]]) [0x51] [[0x6a, 2], [0x6a, 1]] = Ok ()"
  from multi_root_binding [OF checksum_ok in_order_accepted this checksum_collision_free]
  show False by simp
qed

end
