(* ===== verification/Tx.thy ===== *)
theory Tx
  imports Witness
begin

section \<open>Transaction construction (\<open>crates/rgb-pq-tx/src/commit.rs\<close>, \<open>lib.rs\<close>)\<close>

text \<open>
  Appending the OP_RETURN commitment to an unsigned transaction and finding it again, the leaf
  scripts, building a seal from a funded output, and the wrappers around the node's wallet RPCs.
  The \<^verbatim>\<open>bitcoin\<close> crate's transaction codec, its output list and its script builder are the
  parameter record \<open>tx_codec\<close>; \<open>tx_codec_ok\<close> and \<open>tx_roundtrips\<close> state what the crate
  documents of them.
\<close>

record 't tx_codec =
  tc_deserialize :: "bytes \<Rightarrow> ('t, string) result"
  tc_serialize :: "'t \<Rightarrow> bytes"
  tc_outputs :: "'t \<Rightarrow> (u64 \<times> bytes) list"
  tc_push_output :: "'t \<Rightarrow> u64 \<times> bytes \<Rightarrow> 't"
  tc_push_slice :: "bytes \<Rightarrow> bytes"

definition tx_codec_ok :: "'t tx_codec \<Rightarrow> bool" where
  "tx_codec_ok T \<longleftrightarrow>
     (\<forall>t o'. tc_outputs T (tc_push_output T t o') = tc_outputs T t @ [o'])
     \<and> (\<forall>d. 1 < length d \<and> length d \<le> 75 \<longrightarrow> tc_push_slice T d = of_nat (length d) # d)
     \<and> (\<forall>d. 75 < length d \<and> length d \<le> 255 \<longrightarrow>
          tc_push_slice T d = 0x4c # of_nat (length d) # d)"

definition tx_roundtrips :: "'t tx_codec \<Rightarrow> 't \<Rightarrow> bool" where
  "tx_roundtrips T t \<longleftrightarrow> tc_deserialize T (tc_serialize T t) = Ok t"

subsection \<open>The OP_RETURN commitment\<close>

definition build_op_return_script :: "'t tx_codec \<Rightarrow> bytes \<Rightarrow> bytes" where
  "build_op_return_script T payload = 0x6a # tc_push_slice T payload"

definition decode_tx_hex :: "crates \<Rightarrow> 't tx_codec \<Rightarrow> string \<Rightarrow> string \<Rightarrow> 't rgb_pq_result" where
  "decode_tx_hex L T what hex =
     and_then (map_err (\<lambda>e. commitment_malformed (what @ '' hex decode: '' @ e)) (hex_decode L hex))
       (\<lambda>raw. map_err (\<lambda>e. commitment_malformed (''tx deserialize: '' @ e)) (tc_deserialize T raw))"

definition append_opret_commitment ::
  "crates \<Rightarrow> 't tx_codec \<Rightarrow> string \<Rightarrow> btq_p2mr_seal \<Rightarrow> mpc_commitment \<Rightarrow> string rgb_pq_result" where
  "append_opret_commitment L T unsigned_hex s mpc =
     and_then (decode_tx_hex L T ''unsigned'' unsigned_hex) (\<lambda>tx.
     and_then (commitment_encode L (commitment_new s mpc)) (\<lambda>payload.
     Ok (hex_encode L (tc_serialize T
       (tc_push_output T tx (0, build_op_return_script T payload))))))"

fun signed_loop ::
  "crates \<Rightarrow> btq_p2mr_seal \<Rightarrow> nat \<Rightarrow> (u64 \<times> bytes) list \<Rightarrow> (u32 \<times> rgb_pq_commitment) list
    \<Rightarrow> (u32 \<times> rgb_pq_commitment) list rgb_pq_result" where
  "signed_loop L s vout [] hits = Ok hits"
| "signed_loop L s vout ((amount, spk) # outs) hits =
     and_then (strip_op_return spk) (\<lambda>p. case p of
       None \<Rightarrow> signed_loop L s (vout + 1) outs hits
     | Some payload \<Rightarrow> if_let_ok (commitment_decode_for L payload s)
         (\<lambda>c. signed_loop L s (vout + 1) outs (hits @ [(of_nat vout, c)]))
         (signed_loop L s (vout + 1) outs hits))"

definition find_commitment_in_signed_tx ::
  "crates \<Rightarrow> 't tx_codec \<Rightarrow> string \<Rightarrow> btq_p2mr_seal \<Rightarrow> rgb_pq_commitment option rgb_pq_result" where
  "find_commitment_in_signed_tx L T signed_hex s =
     and_then (decode_tx_hex L T ''signed'' signed_hex) (\<lambda>tx.
     and_then (signed_loop L s 0 (tc_outputs T tx) []) (\<lambda>hits. case hits of
       [] \<Rightarrow> Ok None
     | [(v, c)] \<Rightarrow> Ok (Some c)
     | _ \<Rightarrow> Err (RgbPq_Commitment (CM_Duplicate signed_hex))))"

subsection \<open>Leaf scripts, leaf hash and seals\<close>

record p2mr_output =
  po_p2mr_id :: string
  po_address :: string
  po_script_pubkey_hex :: string
  po_merkle_root_hex :: string
  po_funding_txid :: string

definition checksig_script :: "bytes \<Rightarrow> bytes" where
  "checksig_script pk =
     (let n = length pk in
      (if n \<le> 0x4b then [of_nat n]
       else if n \<le> 0xff then [0x4c, of_nat n]
       else [0x4d, of_nat (n mod 256), of_nat (n div 256 mod 256)])
      @ pk @ [CHECKSIG_OPCODE])"

definition dilithium_checksig_leaf_hex :: "crates \<Rightarrow> string \<Rightarrow> string rgb_pq_result" where
  "dilithium_checksig_leaf_hex L pubkey_hex =
     and_then (hex_decode_or_default L pubkey_hex) (\<lambda>pk. Ok (hex_encode L (checksig_script pk)))"

definition dilithium_pubkeyhash_leaf_hex :: "string \<Rightarrow> string" where
  "dilithium_pubkeyhash_leaf_hex dilithium_spk_hex = dilithium_spk_hex"

definition tx_compute_tapleaf_hash :: "crates \<Rightarrow> bytes \<Rightarrow> bytes" where
  "tx_compute_tapleaf_hash L script = sha256 L (0xc0 # script)"

definition seal_from_p2mr ::
  "crates \<Rightarrow> btq_chain_id \<Rightarrow> p2mr_output \<Rightarrow> u32 \<Rightarrow> bytes \<Rightarrow> pq_sig_algo \<Rightarrow> btq_p2mr_seal rgb_pq_result"
where
  "seal_from_p2mr L chain out vout leaf_hash algo =
     and_then (map_err (\<lambda>e. RgbPq_Resolve (RE_MissingOutput e))
       (hex_decode L (po_merkle_root_hex out))) (\<lambda>merkle_root.
     if length merkle_root \<noteq> 32
     then Err (RgbPq_Resolve (RE_MissingOutput
       (''merkle root len '' @ fmt_nat (length merkle_root) @ '' != 32'')))
     else and_then (copy_arr 32 merkle_root) (\<lambda>root.
     and_then (map_err (\<lambda>e. RgbPq_Resolve (RE_MissingTx (''funding txid: '' @ show_rgb_pq_error e)))
       (txid_from_str (po_funding_txid out))) (\<lambda>txid.
     Ok (seal_new chain (outpoint_new txid vout) root leaf_hash algo OpretFirst OneConf))))"

subsection \<open>Wallet RPCs\<close>

definition single_leaf_tree :: "('v, 'f) json_api \<Rightarrow> string \<Rightarrow> 'v" where
  "single_leaf_tree J leaf_script_hex = json_array J [json_object J
     [(''depth'', json_i64 J 0), (''leaf_version'', json_i64 J 192),
      (''script'', json_string J leaf_script_hex)]]"

text \<open>\<^verbatim>\<open>.and_then(Value::as_str).unwrap_or("").to_string()\<close>.\<close>

definition get_str_or_empty :: "('v, 'f) json_api \<Rightarrow> 'v \<Rightarrow> string \<Rightarrow> string" where
  "get_str_or_empty J v k = (case get_str J v k of Some s \<Rightarrow> s | None \<Rightarrow> [])"

definition new_dilithium_address ::
  "('v, 'f) json_api \<Rightarrow> 'w network \<Rightarrow> btq_rpc_client \<Rightarrow> ('w, string \<times> string) io" where
  "new_dilithium_address J net c =
     io_bind (rpc_call J net c ''getnewdilithiumaddress'' []) (\<lambda>v. io_result (
       case (case json_as_str J v of Some a \<Rightarrow> Some a | None \<Rightarrow> get_str J v ''address'') of
         None \<Rightarrow> Err (RgbPq_Resolve (RE_MissingTx ''getnewdilithiumaddress: no address''))
       | Some addr \<Rightarrow> Ok (addr, [])))"

text \<open>\<^verbatim>\<open>pick(field)\<close>: from the answer, else from \<^verbatim>\<open>getp2mrinfo\<close>, else empty.\<close>

definition pick_field :: "('v, 'f) json_api \<Rightarrow> 'v \<Rightarrow> 'v option \<Rightarrow> string \<Rightarrow> string" where
  "pick_field J v info field = (case get_str J v field of
     Some s \<Rightarrow> s
   | None \<Rightarrow> (case Option.bind info (\<lambda>i. get_str J i field) of Some s \<Rightarrow> s | None \<Rightarrow> []))"

definition create_fund_p2mr ::
  "('v, 'f) json_api \<Rightarrow> 'w network \<Rightarrow> btq_rpc_client \<Rightarrow> string \<Rightarrow> 'f \<Rightarrow> string \<Rightarrow> ('w, p2mr_output) io"
where
  "create_fund_p2mr J net c leaf_script_hex amount_btc label =
     io_bind (rpc_call J net c ''sendtop2mr'' [single_leaf_tree J leaf_script_hex,
       json_f64 J amount_btc, json_string J label]) (\<lambda>v w.
     let p2mr_id = get_str_or_empty J v ''p2mr_id'';
         funding_txid = (case get_str J v ''txid'' of
           Some t \<Rightarrow> t | None \<Rightarrow> get_str_or_empty J v ''tx'')
     in case rpc_call J net c ''getp2mrinfo'' [json_string J p2mr_id] w of
          (Panic, w1) \<Rightarrow> (Panic, w1)
        | (r, w1) \<Rightarrow>
          let info = (case r of Ok i \<Rightarrow> Some i | _ \<Rightarrow> None);
              address = pick_field J v info ''address'';
              merkle_root_hex = pick_field J v info ''merkle_root'';
              script_pubkey_hex = pick_field J v info ''scriptPubKey'';
              address = (if address = [] then get_str_or_empty J v ''address'' else address)
          in (Ok \<lparr>po_p2mr_id = p2mr_id, po_address = address,
               po_script_pubkey_hex = script_pubkey_hex, po_merkle_root_hex = merkle_root_hex,
               po_funding_txid = funding_txid\<rparr>, w1))"

definition create_p2mr_spend ::
  "('v, 'f) json_api \<Rightarrow> 'w network \<Rightarrow> btq_rpc_client \<Rightarrow> string \<Rightarrow> string \<Rightarrow> 'f \<Rightarrow> 'f
    \<Rightarrow> ('w, string \<times> string \<times> u32) io" where
  "create_p2mr_spend J net c p2mr_id to_address amount_btc fee_btc =
     io_bind (rpc_call J net c ''createp2mrspend'' [json_string J p2mr_id, json_string J to_address,
       json_f64 J amount_btc, json_f64 J fee_btc]) (\<lambda>v. io_return
     (get_str_or_empty J v ''hex'', get_str_or_empty J v ''input_txid'',
      (case Option.bind (json_get J v ''input_vout'') (json_as_u64 J) of
         Some n \<Rightarrow> ucast n | None \<Rightarrow> 0)))"

definition sign_p2mr_tx ::
  "('v, 'f) json_api \<Rightarrow> 'w network \<Rightarrow> btq_rpc_client \<Rightarrow> string \<Rightarrow> string \<Rightarrow> ('w, string) io" where
  "sign_p2mr_tx J net c unsigned_hex p2mr_id =
     io_bind (rpc_call J net c ''signp2mrtransaction''
       [json_string J unsigned_hex, json_string J p2mr_id]) (\<lambda>v.
     io_return (get_str_or_empty J v ''hex''))"

definition generate_blocks ::
  "('v, 'f) json_api \<Rightarrow> 'w network \<Rightarrow> btq_rpc_client \<Rightarrow> u64 \<Rightarrow> string \<Rightarrow> ('w, string list) io" where
  "generate_blocks J net c n address =
     io_bind (rpc_call J net c ''generatetoaddress'' [json_u64 J n, json_string J address]) (\<lambda>v.
     io_return (case json_as_array J v of
       Some a \<Rightarrow> List.map_filter (json_as_str J) a | None \<Rightarrow> []))"

definition tx_broadcast ::
  "crates \<Rightarrow> ('v, 'f) json_api \<Rightarrow> 'w network \<Rightarrow> btq_rpc_client \<Rightarrow> string \<Rightarrow> ('w, string) io" where
  "tx_broadcast L J net c signed_hex = be_broadcast_tx (rpc_backend L J net c) signed_hex"

record rotation_result =
  rot_new_p2mr :: p2mr_output
  rot_new_leaf_hex :: string
  rot_new_address :: string

definition rotate_dilithium_key ::
  "('v, 'f) json_api \<Rightarrow> 'w network \<Rightarrow> btq_rpc_client \<Rightarrow> 'f \<Rightarrow> string \<Rightarrow> ('w, rotation_result) io" where
  "rotate_dilithium_key J net c amount_btc label =
     io_bind (new_dilithium_address J net c) (\<lambda>(new_addr, _).
     io_bind (rpc_call J net c ''getaddressinfo'' [json_string J new_addr]) (\<lambda>info.
     let leaf_hex = dilithium_pubkeyhash_leaf_hex (get_str_or_empty J info ''scriptPubKey'') in
     io_bind (create_fund_p2mr J net c leaf_hex amount_btc label) (\<lambda>new_p2mr.
     io_return \<lparr>rot_new_p2mr = new_p2mr, rot_new_leaf_hex = leaf_hex,
       rot_new_address = new_addr\<rparr>)))"

subsection \<open>Finding what was appended\<close>

definition carried_for :: "crates \<Rightarrow> btq_p2mr_seal \<Rightarrow> bytes \<Rightarrow> rgb_pq_commitment option" where
  "carried_for L s spk = (case carried_commitment L spk of
     Some c \<Rightarrow> if c = commitment_new s (cm_mpc c) then Some c else None
   | None \<Rightarrow> None)"

fun hits_for ::
  "crates \<Rightarrow> btq_p2mr_seal \<Rightarrow> nat \<Rightarrow> (u64 \<times> bytes) list \<Rightarrow> (u32 \<times> rgb_pq_commitment) list" where
  "hits_for L s n [] = []"
| "hits_for L s n (o' # outs) = (case carried_for L s (snd o') of
     Some c \<Rightarrow> [(of_nat n, c)] | None \<Rightarrow> []) @ hits_for L s (n + 1) outs"

lemma decode_for_cases:
  "commitment_decode L p = Ok c \<Longrightarrow> commitment_decode_for L p s =
     (if c = commitment_new s (cm_mpc c) then Ok c
      else (case commitment_verify_against c s of Err e \<Rightarrow> Err e | _ \<Rightarrow> Panic))"
  using verify_against_Ok_iff [of c s]
  by (cases "commitment_verify_against c s") (auto simp: commitment_decode_for_def)

lemma verify_against_no_panic: "\<not> panics (commitment_verify_against c s)"
  by (simp add: commitment_verify_against_def)

lemma signed_loop_spec:
  assumes L: "sha256_ok L"
  shows "signed_loop L s n outs hits = Ok (hits @ hits_for L s n outs)"
proof (induction outs arbitrary: n hits)
  case (Cons o' outs)
  obtain val spk where o': "o' = (val, spk)" by (cases o')
  show ?case
  proof (cases "stripped spk")
    case None
    with Cons show ?thesis
      by (simp add: o' strip_op_return_total carried_for_def carried_commitment_def)
  next
    case (Some p)
    show ?thesis
    proof (cases "commitment_decode L p")
      case (Ok c)
      note split = decode_for_cases [OF Ok, of s]
      show ?thesis
      proof (cases "c = commitment_new s (cm_mpc c)")
        case True
        with split have "commitment_decode_for L p s = Ok c" by simp
        with True Ok Some Cons show ?thesis
          by (simp add: o' strip_op_return_total carried_for_def carried_commitment_def)
      next
        case False
        with verify_against_Ok_iff [of c s] verify_against_no_panic [of c s]
        obtain e where "commitment_verify_against c s = Err e"
          by (cases "commitment_verify_against c s") auto
        with Ok have "commitment_decode_for L p s = Err e" by (simp add: commitment_decode_for_def)
        with False Ok Some Cons show ?thesis
          by (simp add: o' strip_op_return_total carried_for_def carried_commitment_def)
      qed
    next
      case (Err e)
      then have "commitment_decode_for L p s = Err e" by (simp add: commitment_decode_for_def)
      with Err Some Cons show ?thesis
        by (simp add: o' strip_op_return_total carried_for_def carried_commitment_def)
    next
      case Panic
      with commitment_decode_no_panic [OF L, of p] show ?thesis by simp
    qed
  qed
qed simp

lemma hits_for_append:
  "hits_for L s n (xs @ ys) = hits_for L s n xs @ hits_for L s (n + length xs) ys"
  by (induction xs arbitrary: n) simp_all

lemma hits_for_none:
  "(\<And>o'. o' \<in> set outs \<Longrightarrow> carried_for L s (snd o') = None) \<Longrightarrow> hits_for L s n outs = []"
  by (induction outs arbitrary: n) simp_all

lemma hits_for_Nil_iff:
  "hits_for L s n outs = [] \<longleftrightarrow> (\<forall>o' \<in> set outs. carried_for L s (snd o') = None)"
  by (induction outs arbitrary: n) (auto split: option.split)

lemma built_script_carries:
  assumes "sha256_ok L" "tx_codec_ok T" "wf_seal s" "length mpc = 32"
    and "commitment_encode L (commitment_new s mpc) = (Ok p :: bytes rgb_pq_result)"
  shows "carried_for L s (build_op_return_script T p) = Some (commitment_new s mpc)"
proof -
  note wf = commitment_new_wf [OF assms(3,4)]
  from carried_encoded [OF assms(1) wf assms(5)]
  have c: "carried_commitment L (pushdata1_script p) = Some (commitment_new s mpc)"
    and len: "length p = 127" by (simp_all add: pushdata1_script_def)
  have "tc_push_slice T p = 0x4c # of_nat (length p) # p"
    using assms(2) len by (simp add: tx_codec_ok_def)
  then have "build_op_return_script T p = pushdata1_script p"
    by (simp add: build_op_return_script_def pushdata1_script_def)
  with c show ?thesis by (simp add: carried_for_def commitment_new_def)
qed

subsection \<open>A sample codec\<close>

text \<open>Transactions are their outputs; a transaction of one output is written as its script.\<close>

definition toy_tx_codec :: "(u64 \<times> bytes) list tx_codec" where
  "toy_tx_codec = \<lparr>
     tc_deserialize = (\<lambda>raw. if raw = [] then Ok [] else Ok [(0, raw)]),
     tc_serialize = (\<lambda>t. concat (map snd t)),
     tc_outputs = (\<lambda>t. t),
     tc_push_output = (\<lambda>t o'. t @ [o']),
     tc_push_slice = (\<lambda>d. (if length d \<le> 75 then [of_nat (length d)]
       else [0x4c, of_nat (length d)]) @ d)\<rparr>"

lemma toy_tx_codec_ok: "tx_codec_ok toy_tx_codec"
  by (simp add: tx_codec_ok_def toy_tx_codec_def)

subsection \<open>Properties\<close>

text \<open>What the search gives in a transaction that a commitment was appended to.\<close>

lemma append_find_cases:
  assumes "sha256_ok L" "hex_ok L" "tx_codec_ok T" and "wf_seal s" "length mpc = 32"
    and "hex_decode L unsigned_hex = Ok raw" and "tc_deserialize T raw = Ok tx"
    and "build_opret_payload L s mpc = (Ok p :: bytes rgb_pq_result)"
    and "tx_roundtrips T (tc_push_output T tx (0, build_op_return_script T p))"
  shows "\<exists>hex tx'. append_opret_commitment L T unsigned_hex s mpc = Ok hex
    \<and> decode_tx_hex L T ''signed'' hex = Ok tx'
    \<and> tc_outputs T tx' = tc_outputs T tx @ [(0, build_op_return_script T p)]
    \<and> find_commitment_in_signed_tx L T hex s =
        (if \<forall>o' \<in> set (tc_outputs T tx). carried_for L s (snd o') = None
         then Ok (Some (commitment_new s mpc)) else Err (RgbPq_Commitment (CM_Duplicate hex)))"
proof -
  from assms(8) have p: "commitment_encode L (commitment_new s mpc) = (Ok p :: bytes rgb_pq_result)"
    by (simp add: build_opret_payload_def)
  let ?tx = "tc_push_output T tx (0, build_op_return_script T p)"
  let ?hex = "hex_encode L (tc_serialize T ?tx)" and ?before = "hits_for L s 0 (tc_outputs T tx)"
  have app: "append_opret_commitment L T unsigned_hex s mpc = Ok ?hex"
    by (simp add: append_opret_commitment_def decode_tx_hex_def assms(6,7) p)
  have dec: "decode_tx_hex L T ''signed'' ?hex = Ok ?tx"
    using hex_okD(1,2) [OF assms(2)] assms(9) by (simp add: decode_tx_hex_def tx_roundtrips_def)
  have outs: "tc_outputs T ?tx = tc_outputs T tx @ [(0, build_op_return_script T p)]"
    using assms(3) by (simp add: tx_codec_ok_def)
  have hits: "hits_for L s 0 (tc_outputs T ?tx)
      = ?before @ [(of_nat (length (tc_outputs T tx)), commitment_new s mpc)]"
    unfolding outs hits_for_append using built_script_carries [OF assms(1,3-5) p] by simp
  have found: "find_commitment_in_signed_tx L T ?hex s = (if ?before = []
      then Ok (Some (commitment_new s mpc)) else Err (RgbPq_Commitment (CM_Duplicate ?hex)))"
    by (cases ?before rule: remdups_adj.cases)
       (simp_all add: find_commitment_in_signed_tx_def dec signed_loop_spec [OF assms(1)] hits)
  show ?thesis
    using app dec outs found unfolding hits_for_Nil_iff by blast
qed

lemma append_find_aux:
  assumes "sha256_ok L" "hex_ok L" "tx_codec_ok T" and "wf_seal s" "length mpc = 32"
    and "hex_decode L unsigned_hex = Ok raw" and "tc_deserialize T raw = Ok tx"
    and "\<forall>o' \<in> set (tc_outputs T tx). carried_for L s (snd o') = None"
    and "build_opret_payload L s mpc = (Ok p :: bytes rgb_pq_result)"
    and "tx_roundtrips T (tc_push_output T tx (0, build_op_return_script T p))"
  shows "\<exists>hex. append_opret_commitment L T unsigned_hex s mpc = Ok hex
    \<and> find_commitment_in_signed_tx L T hex s = Ok (Some (commitment_new s mpc))"
  using append_find_cases [OF assms(1-7,9,10)] assms(8) by auto

text \<open>C25. Appending a commitment and searching for it agree: for every transaction that decodes, and
  whose extension the codec reads back, appending succeeds and gives the hex of a transaction with the
  same outputs and one more, of value zero, that pushes the payload. The search in it returns the
  seal's commitment with the MPC value given if no output carried a commitment for the seal before,
  and stops with a duplicate error if one did, so a second append is detected.\<close>

theorem append_then_find:
  assumes "sha256_ok L" "hex_ok L" "tx_codec_ok T" and "wf_seal s" "length mpc = 32"
    and "hex_decode L unsigned_hex = Ok raw" and "tc_deserialize T raw = Ok tx"
    and "build_opret_payload L s mpc = (Ok p :: bytes rgb_pq_result)"
    and "tx_roundtrips T (tc_push_output T tx (0, build_op_return_script T p))"
  shows "\<exists>hex tx'. append_opret_commitment L T unsigned_hex s mpc = Ok hex
    \<and> decode_tx_hex L T ''signed'' hex = Ok tx'
    \<and> tc_outputs T tx' = tc_outputs T tx @ [(0, build_op_return_script T p)]
    \<and> find_commitment_in_signed_tx L T hex s =
        (if \<forall>o' \<in> set (tc_outputs T tx). carried_for L s (snd o') = None
         then Ok (Some (commitment_new s mpc)) else Err (RgbPq_Commitment (CM_Duplicate hex)))"
  by (rule append_find_cases [OF assms])

theorem append_then_find_witness:
  "\<exists>hex. append_opret_commitment toy_crates toy_tx_codec [] sample_seal sample_mpc = Ok hex
    \<and> find_commitment_in_signed_tx toy_crates toy_tx_codec hex sample_seal
      = Ok (Some (commitment_new sample_seal sample_mpc))"
proof -
  obtain p where p: "build_opret_payload toy_crates sample_seal sample_mpc
      = (Ok p :: bytes rgb_pq_result)"
    using commitment_encode_layout [OF toy_sha256_ok] unfolding build_opret_payload_def by blast
  have "hex_decode toy_crates [] = Ok []" "tc_deserialize toy_tx_codec [] = Ok []"
    "tc_outputs toy_tx_codec [] = []"
    "tx_roundtrips toy_tx_codec (tc_push_output toy_tx_codec [] (0, build_op_return_script toy_tx_codec p))"
    by (simp_all add: tx_roundtrips_def toy_tx_codec_def build_op_return_script_def toy_crates_def)
  then show ?thesis
    using append_then_find [OF toy_sha256_ok toy_hex_ok toy_tx_codec_ok sample_seal_wf
      length_sample_mpc _ _ p, of "[]" "[]" "[]"] by auto
qed

text \<open>The two scanners disagree on a transaction that closes two seals: with a commitment for
  each of two seals in its outputs, the search of the transaction finds the one of the seal asked,
  while the check of the decoded outputs reports a duplicate, so neither close verifies there.\<close>

theorem scanners_disagree:
  assumes "sha256_ok L" and "wf_seal s" "wf_seal t" and "length m = 32" "length n = 32"
    and "commitment_new s m \<noteq> commitment_new t m"
    and "commitment_encode L (commitment_new s m) = (Ok p :: bytes rgb_pq_result)"
    and "commitment_encode L (commitment_new t n) = (Ok q :: bytes rgb_pq_result)"
    and "tc_outputs T tx = [(0, pushdata1_script p), (0, pushdata1_script q)]"
    and "decode_tx_hex L T ''signed'' hex = Ok tx"
  shows "find_commitment_in_signed_tx L T hex s = Ok (Some (commitment_new s m))
    \<and> verify_commitment_in_outputs L s [(0, pushdata1_script p), (1, pushdata1_script q)] (\<lambda>_. 0)
      = Ok ScanDuplicate"
proof
  note a = carried_encoded [OF assms(1) commitment_new_wf [OF assms(2,4)] assms(7)]
  note b = carried_encoded [OF assms(1) commitment_new_wf [OF assms(3,5)] assms(8)]
  have "commitment_new t n \<noteq> commitment_new s n"
    using assms(6) by (auto simp: commitment_new_def)
  then show "find_commitment_in_signed_tx L T hex s = Ok (Some (commitment_new s m))"
    using a b by (simp add: find_commitment_in_signed_tx_def assms(9,10)
      signed_loop_spec [OF assms(1)] carried_for_def commitment_new_def)
  have "outputs_within default_limits (\<lambda>_. 0) 0
      [(0, pushdata1_script p), (1, pushdata1_script q)]"
    using a(2) b(2)
    by (simp add: outputs_within_Cons outputs_within_def [of _ _ _ "[]"] default_limits_def)
  from outputs_loop_ok [OF assms(1) this, of "[]"] a b
  show "verify_commitment_in_outputs L s [(0, pushdata1_script p), (1, pushdata1_script q)] (\<lambda>_. 0)
      = Ok ScanDuplicate"
    by (simp add: verify_commitment_in_outputs_def verify_commitment_in_outputs_bounded_def
        classify_for_seal_def)
qed

theorem scanners_disagree_witness:
  "\<exists>p q. verify_commitment_in_outputs toy_crates sample_seal
      [(0, pushdata1_script p), (1, pushdata1_script q)] (\<lambda>_. 0) = Ok ScanDuplicate"
proof -
  let ?t = "sample_seal\<lparr>chain_id := BitcoinQuantumTestnet\<rparr>"
  have wf: "wf_seal ?t" using sample_seal_wf by (simp add: wf_seal_def)
  obtain p q where p: "commitment_encode toy_crates (commitment_new sample_seal sample_mpc)
        = (Ok p :: bytes rgb_pq_result)"
      and q: "commitment_encode toy_crates (commitment_new ?t sample_mpc)
        = (Ok q :: bytes rgb_pq_result)"
    using commitment_encode_layout [OF toy_sha256_ok] by blast
  let ?tx = "[(0, pushdata1_script p), (0, pushdata1_script q)]"
  have "commitment_new sample_seal sample_mpc \<noteq> commitment_new ?t sample_mpc"
    by (simp add: commitment_new_def sample_seal_def seal_new_def)
  from scanners_disagree [OF toy_sha256_ok sample_seal_wf wf length_sample_mpc length_sample_mpc
      this p q, of "toy_tx_codec\<lparr>tc_deserialize := \<lambda>raw. Ok ?tx\<rparr>" ?tx "[]"]
  show ?thesis by (auto simp: toy_tx_codec_def decode_tx_hex_def toy_crates_def)
qed

text \<open>C33. The leaf hash of the transaction crate is no leaf hash of the tree: it is the SHA-256 of
  \<^verbatim>\<open>0xc0 || script\<close> without the BIP-340 tag and the length, so it differs from \<^verbatim>\<open>ComputeTapleafHash\<close> of
  the same leaf for every script, and, since the tag's digest does not start with the byte \<^verbatim>\<open>0xc0\<close>, of
  every leaf of every version, unless the hash collides on the two messages. So a seal that takes it
  as its script leaf hash, as those of the live flows do, names neither leaf of the two-leaf tree that
  its root commits to. (Its comment says it mirrors btq-core's \<^verbatim>\<open>ComputeTapleafHash\<close>.)\<close>

theorem tx_tapleaf_hash_differs:
  assumes "sha256_ok L"
    and "collision_free L {0xc0 # script, leaf_hash_message L v other}"
    and "(v = 0xc0 \<and> other = script) \<or> hd (sha256 L (as_bytes ''TapLeaf'')) \<noteq> 0xc0"
  shows "tx_compute_tapleaf_hash L script \<noteq> compute_tapleaf_hash L v other"
proof
  let ?tag = "sha256 L (as_bytes ''TapLeaf'')" and ?m = "leaf_hash_message L v other"
  assume "tx_compute_tapleaf_hash L script = compute_tapleaf_hash L v other"
  then have "sha256 L (0xc0 # script) = sha256 L ?m"
    by (simp add: tx_compute_tapleaf_hash_def compute_tapleaf_hash_def tagged_hash_def
        leaf_hash_message_def)
  from collision_freeD [OF assms(2) this] have eq: "?m = 0xc0 # script" by simp
  have tag: "length ?tag = 32" using assms(1) by (simp add: sha256_ok_def)
  then have "hd ?tag = hd ?m" by (cases ?tag) (simp_all add: leaf_hash_message_def tagged_message_def)
  moreover have "length script + 1 < length ?m" if "other = script"
    using tag that by (simp add: leaf_hash_message_def tagged_message_def tapleaf_message_def)
  ultimately show False using assms(3) eq by auto
qed

theorem tx_tapleaf_hash_differs_witness:
  "tx_compute_tapleaf_hash toy_crates [] \<noteq> compute_tapleaf_hash toy_crates 0xc0 []
    \<and> tx_compute_tapleaf_hash toy_crates [0x51] \<noteq> compute_tapleaf_hash toy_crates 0xc0 [0x6a]"
proof -
  have "hd (sha256 toy_crates (as_bytes ''TapLeaf'')) \<noteq> 0xc0"
    by (subst toy_sha256_hd) (simp_all add: as_bytes_def)
  moreover have "collision_free toy_crates {0xc0 # script, leaf_hash_message toy_crates 0xc0 other}"
    if "(script, other) \<in> {([], []), ([0x51], [0x6a])}" for script other
    using that by (intro toy_sha256_last)
      (auto simp: leaf_hash_message_def tagged_message_def tapleaf_message_def last_append compact_size_def)
  ultimately show ?thesis
    using tx_tapleaf_hash_differs [OF toy_sha256_ok, where script = "[]" and v = "0xc0" and other = "[]"]
      tx_tapleaf_hash_differs [OF toy_sha256_ok, where script = "[0x51]" and v = "0xc0" and other = "[0x6a]"] by simp
qed

text \<open>A seal built from a funded output names that output: with the hex of a 32-byte root and
  the text of a txid, \<^verbatim>\<open>seal_from_p2mr\<close> gives the well-formed seal of exactly that root and
  outpoint, with the default locator and policy.\<close>

theorem seal_from_p2mr_ok:
  assumes "hex_ok L" and "length root = 32" "length txid = 32" "length leaf_hash = 32"
    and "po_merkle_root_hex out = hex_encode L root" and "po_funding_txid out = txid_to_string txid"
  shows "seal_from_p2mr L chain out vout leaf_hash algo
      = Ok (seal_new chain (outpoint_new txid vout) root leaf_hash algo OpretFirst OneConf)
    \<and> wf_seal (seal_new chain (outpoint_new txid vout) root leaf_hash algo OpretFirst OneConf)"
  using assms txid_roundtrip_aux [OF assms(3)]
  by (simp add: seal_from_p2mr_def hex_okD wf_seal_def wf_outpoint_def seal_new_def
      outpoint_new_def)

theorem seal_from_p2mr_ok_witness:
  "seal_from_p2mr toy_crates BitcoinQuantumRegtest
      \<lparr>po_p2mr_id = [], po_address = [], po_script_pubkey_hex = [],
       po_merkle_root_hex = hex_encode toy_crates (replicate 32 0x22),
       po_funding_txid = txid_to_string (replicate 32 0x11)\<rparr> 7 (replicate 32 0x33) Dilithium2
    = Ok sample_seal"
  unfolding sample_seal_def sample_outpoint_def
  by (rule seal_from_p2mr_ok [OF toy_hex_ok, THEN conjunct1]) simp_all

end
