(* ===== verification/Funding.thy ===== *)
theory Funding
  imports Lifecycle Tx
begin

section \<open>Leaves, funded outputs and the seals made of them\<close>

text \<open>
  The tree the wallet RPCs are asked to fund (\<open>tree_json\<close> of \<open>crates/rgb-pq-commit/src/p2mrret.rs\<close>),
  the ownership leaf as a script reader sees it, and what the seals that \<open>seal_from_p2mr\<close> of
  \<open>crates/rgb-pq-tx/src/lib.rs\<close> builds from a funded output are good for: the composition of the
  transaction crate with the decoders and with the resolver.
\<close>

subsection \<open>The tree as JSON\<close>

definition tree_json :: "('v, 'f) json_api \<Rightarrow> string \<Rightarrow> string \<Rightarrow> 'v" where
  "tree_json J pq_leaf_script_hex commitment_leaf_script_hex = json_array J
     [json_object J [(''depth'', json_i64 J 1),
        (''leaf_version'', json_u64 J (ucast P2MR_COMMITMENT_LEAF_VERSION)),
        (''script'', json_string J pq_leaf_script_hex)],
      json_object J [(''depth'', json_i64 J 1),
        (''leaf_version'', json_u64 J (ucast P2MR_COMMITMENT_LEAF_VERSION)),
        (''script'', json_string J commitment_leaf_script_hex)]]"

text \<open>It lists the two leaves of the tree that is built for the same scripts.\<close>

definition leaf_json :: "('v, 'f) json_api \<Rightarrow> crates \<Rightarrow> placed_leaf \<Rightarrow> 'v" where
  "leaf_json J L l = json_object J [(''depth'', json_i64 J (ucast (leaf_depth l))),
     (''leaf_version'', json_u64 J (ucast (leaf_version l))),
     (''script'', json_string J (hex_encode L (leaf_script l)))]"

lemma tree_json_of_tree:
  "tree_json J (hex_encode L pq) (hex_encode L comm)
    = (let t = build_p2mr_ret_tree L pq P2MR_COMMITMENT_LEAF_VERSION comm
       in json_array J (map (leaf_json J L) [tree_pq_leaf t, tree_commitment_leaf t]))"
  by (simp add: tree_json_def build_p2mr_ret_tree_def leaf_json_def Let_def)

subsection \<open>Reading a script\<close>

text \<open>The data a push opcode at the head of a script pushes, and the rest of the script.\<close>

definition take_push :: "nat \<Rightarrow> bytes \<Rightarrow> (bytes \<times> bytes) option" where
  "take_push n r = (if n \<le> length r then Some (take n r, drop n r) else None)"

fun read_push :: "bytes \<Rightarrow> (bytes \<times> bytes) option" where
  "read_push [] = None"
| "read_push (op # r) =
     (if op \<le> 0x4b then take_push (unat op) r
      else if op = 0x4c then (case r of n # d \<Rightarrow> take_push (unat n) d | _ \<Rightarrow> None)
      else if op = 0x4d then (case r of
        lo # hi # d \<Rightarrow> take_push (unat lo + 256 * unat hi) d | _ \<Rightarrow> None)
      else None)"

lemma take_push_exact: "take_push (length d) (d @ r) = Some (d, r)"
  by (simp add: take_push_def)

lemma take_push_short: "n < length d \<Longrightarrow> take_push n (d @ r) \<noteq> Some (d, r')"
  by (auto simp: take_push_def dest: arg_cong [where f = length])

lemma unat_byte: "unat (of_nat n :: u8) = n mod 256"
  by (simp add: unat_of_nat)

lemma small_opcode: "n \<le> 0x4b \<Longrightarrow> (of_nat n :: u8) \<le> 0x4b"
  by (simp add: word_le_nat_alt unat_byte)

lemma checksig_script_push:
  "read_push (checksig_script pk) = take_push (length pk mod 0x10000) (pk @ [CHECKSIG_OPCODE])"
proof (cases "length pk \<le> 0xff")
  case True
  then show ?thesis
    by (simp add: checksig_script_def Let_def small_opcode unat_byte)
next
  case False
  have "length pk mod 256 + 256 * (length pk div 256 mod 256) = length pk mod 0x10000"
    using mod_mult2_eq [of "length pk" 256 256] by simp
  with False show ?thesis by (simp add: checksig_script_def Let_def unat_byte)
qed

lemma checksig_script_reads:
  "read_push (checksig_script pk) = Some (pk, [CHECKSIG_OPCODE]) \<longleftrightarrow> length pk \<le> 0xffff"
proof (cases "length pk \<le> 0xffff")
  case True
  then show ?thesis by (simp add: checksig_script_push take_push_exact)
next
  case False
  then have "length pk mod 0x10000 < length pk" by (simp add: mod_less_divisor less_le_trans)
  then show ?thesis using False take_push_short by (simp add: checksig_script_push)
qed

subsection \<open>Well-formed results\<close>

lemma hits_for_decoded:
  "sha256_ok L \<Longrightarrow> (v, c) \<in> set (hits_for L s n outs) \<Longrightarrow> wf_commitment c \<and> c = commitment_new s (cm_mpc c)"
  by (induction outs arbitrary: n)
     (auto simp: carried_for_def carried_commitment_def dest: commitment_decode_sound
       split: option.splits if_splits result.splits)

lemma find_commitment_wf:
  assumes "sha256_ok L" and "find_commitment_in_signed_tx L T hex s = Ok (Some c)"
  shows "wf_commitment c \<and> c = commitment_new s (cm_mpc c)"
proof -
  from assms(2) obtain tx where "(case hits_for L s 0 (tc_outputs T tx) of
      [] \<Rightarrow> Ok None | [(v, c)] \<Rightarrow> Ok (Some c)
    | _ \<Rightarrow> Err (RgbPq_Commitment (CM_Duplicate hex))) = Ok (Some c)"
    by (auto simp: find_commitment_in_signed_tx_def and_then_Ok_iff signed_loop_spec [OF assms(1)])
  then obtain v where "hits_for L s 0 (tc_outputs T tx) = [(v, c)]"
    by (cases "hits_for L s 0 (tc_outputs T tx)" rule: remdups_adj.cases) auto
  then have "(v, c) \<in> set (hits_for L s 0 (tc_outputs T tx))" by simp
  from hits_for_decoded [OF assms(1) this] show ?thesis .
qed

lemma seal_from_p2mr_wf:
  assumes "length leaf_hash = 32" and "seal_from_p2mr L chain out vout leaf_hash algo = Ok s"
  shows "wf_seal s \<and> chain_id s = chain \<and> commitment_locator s = OpretFirst
    \<and> op_vout (outpoint s) = vout \<and> owner_algo s = algo"
  using assms
  by (auto simp: seal_from_p2mr_def and_then_Ok_iff map_err_Ok_iff copy_arr_def wf_seal_def
      wf_outpoint_def seal_new_def outpoint_new_def dest: txid_from_str_length split: if_splits)

lemma seal_from_p2mr_fields:
  "seal_from_p2mr L chain out vout leaf_hash algo = Ok s \<Longrightarrow> script_leaf_hash s = leaf_hash
    \<and> hex_decode L (po_merkle_root_hex out) = Ok (p2mr_root s)
    \<and> txid_from_str (po_funding_txid out) = (Ok (op_txid (outpoint s)) :: bytes rgb_pq_result)"
  by (auto simp: seal_from_p2mr_def and_then_Ok_iff map_err_Ok_iff copy_arr_def seal_new_def
      outpoint_new_def split: if_splits)

lemma from_text_wf:
  "from_text L d5 tx = Ok s \<Longrightarrow> wf_seal s \<and> algo_enabled d5 (owner_algo s)"
  by (simp add: from_text_iff)

text \<open>A funded output whose seal is the sample seal.\<close>

definition sample_p2mr_output :: p2mr_output where
  "sample_p2mr_output = \<lparr>po_p2mr_id = [], po_address = [], po_script_pubkey_hex = [],
     po_merkle_root_hex = hex_encode toy_crates (replicate 32 0x22),
     po_funding_txid = txid_to_string (replicate 32 0x11)\<rparr>"

lemma sample_output_seal:
  "seal_from_p2mr toy_crates BitcoinQuantumRegtest sample_p2mr_output 7 (replicate 32 0x33) Dilithium2
    = Ok sample_seal"
  using txid_roundtrip_aux [of "replicate 32 0x11"]
  by (simp add: seal_from_p2mr_def sample_p2mr_output_def hex_okD [OF toy_hex_ok] sample_seal_def
      sample_outpoint_def)

subsection \<open>Funding\<close>

text \<open>A node that answers every call alike, in JSON values that are their own text: the answer has a
  root and a txid.\<close>

definition toy_json :: "(string, unit) json_api" where
  "toy_json = \<lparr>json_from_str = Ok, json_to_string = (\<lambda>v. v),
     json_get = (\<lambda>v k. if k = ''result'' then Some v
       else if k = ''merkle_root'' then Some (hex_lower (replicate 32 0x22))
       else if k = ''txid'' then Some (txid_to_string (replicate 32 0x11)) else None),
     json_is_null = (\<lambda>v. False), json_as_str = Some, json_as_u64 = (\<lambda>v. None),
     json_as_i64 = (\<lambda>v. None), json_as_f64 = (\<lambda>v. None), json_btc_to_sats = (\<lambda>f. 0),
     json_string = (\<lambda>s. s), json_bool = (\<lambda>b. []), json_i64 = (\<lambda>i. []), json_u64 = (\<lambda>i. []),
     json_f64 = (\<lambda>f. []), json_as_bool = (\<lambda>v. None),
     json_as_array = (\<lambda>v. None), json_array = concat,
     json_object = (\<lambda>fs. concat (map snd fs))\<rparr>"

definition toy_network :: "unit network" where
  "toy_network = \<lparr>net_post = (\<lambda>url headers body w. (HttpOk (Some ''answer''), w)),
     net_sleep_ms = (\<lambda>ms w. w)\<rparr>"

lemma toy_call: "rpc_call toy_json toy_network c m ps w = (Ok ''answer'', w)"
  by (simp add: rpc_call_def toy_network_def parse_response_def toy_json_def)

text \<open>What funding returns, from the answers of its two calls.\<close>

lemma create_fund_p2mr_answers:
  assumes "rpc_call J net c ''sendtop2mr'' [single_leaf_tree J leaf_hex, json_f64 J amount,
      json_string J label] w = (Ok v, w1)"
    and "rpc_call J net c ''getp2mrinfo'' [json_string J (get_str_or_empty J v ''p2mr_id'')] w1 = (r, w2)"
    and "\<not> panics r"
  shows "\<exists>out. create_fund_p2mr J net c leaf_hex amount label w = (Ok out, w2)
    \<and> po_merkle_root_hex out = pick_field J v (case r of Ok i \<Rightarrow> Some i | _ \<Rightarrow> None) ''merkle_root''
    \<and> po_funding_txid out
      = (case get_str J v ''txid'' of Some t \<Rightarrow> t | None \<Rightarrow> get_str_or_empty J v ''tx'')"
  using assms by (cases r) (simp_all add: create_fund_p2mr_def io_bind_def Let_def)

lemma fmt_zero: "fmt_nat 0 = ''0''"
  by code_simp

lemma seal_from_p2mr_no_root:
  assumes "hex_ok L" and "po_merkle_root_hex out = []"
  shows "seal_from_p2mr L chain out vout leaf_hash algo
    = Err (RgbPq_Resolve (RE_MissingOutput ''merkle root len 0 != 32''))"
  using hex_okD(2) [OF assms(1), of "[]"] assms(2)
  by (simp add: seal_from_p2mr_def fmt_zero)

subsection \<open>Properties\<close>

text \<open>C28. Every decoder gives well-formed values: a seal read from binary or from text has a 32-byte
  txid, root and leaf hash and an algorithm the build supports; a seal made of a funded output has a
  32-byte txid and root decoded from the output's texts, and the chain, position, leaf hash (32 bytes by
  its type) and algorithm it was given, which is not checked against the build; a decoded commitment,
  the payload of a tree leaf and a parsed txid have their fixed sizes; and a commitment found in a
  signed transaction is well-formed and made for the seal asked.\<close>

theorem decoded_values_well_formed:
  assumes "sha256_ok L" and "length leaf_hash = 32"
  shows "(from_binary d5 b = Ok s \<longrightarrow> wf_seal s \<and> algo_enabled d5 (owner_algo s))
    \<and> (from_text L d5 tx = Ok s \<longrightarrow> wf_seal s \<and> algo_enabled d5 (owner_algo s))
    \<and> (seal_from_p2mr L chain out vout leaf_hash algo = Ok s \<longrightarrow> wf_seal s
        \<and> chain_id s = chain \<and> op_vout (outpoint s) = vout
        \<and> script_leaf_hash s = leaf_hash \<and> owner_algo s = algo
        \<and> hex_decode L (po_merkle_root_hex out) = Ok (p2mr_root s)
        \<and> txid_from_str (po_funding_txid out) = (Ok (op_txid (outpoint s)) :: bytes rgb_pq_result))
    \<and> (commitment_decode L p = Ok c \<longrightarrow> wf_commitment c)
    \<and> (find_commitment_in_signed_tx L T hex s = Ok (Some c) \<longrightarrow>
        wf_commitment c \<and> c = commitment_new s (cm_mpc c))
    \<and> (decode_p2mr_ret_payload q = Ok (chain, mpc) \<longrightarrow> length mpc = 32)
    \<and> (txid_from_str x = Ok t \<longrightarrow> length t = 32)"
  using from_binary_sound [of d5 b s] from_text_wf [of L d5 tx s]
    seal_from_p2mr_wf [OF assms(2)] seal_from_p2mr_fields [of L chain out vout leaf_hash algo s]
    commitment_decode_sound [OF assms(1), of p c] find_commitment_wf [OF assms(1)]
    decode_payload_iff [of q chain mpc] txid_from_str_length [of x t]
  by blast

theorem decoded_values_well_formed_witness:
  "\<exists>s t. from_binary False (to_binary sample_seal) = Ok s \<and> wf_seal s
    \<and> seal_from_p2mr toy_crates BitcoinQuantumRegtest sample_p2mr_output 7 (replicate 32 0x33) Dilithium2
        = Ok s \<and> script_leaf_hash s = replicate 32 0x33
    \<and> txid_from_str (txid_to_string (replicate 32 7)) = Ok t \<and> length t = 32"
proof -
  have "from_binary False (to_binary sample_seal) = Ok sample_seal"
    using from_binary_encode [OF sample_seal_wf sample_seal_algo, of False "[]"] by simp
  moreover have "txid_from_str (txid_to_string (replicate 32 7)) = Ok (replicate 32 7)"
    by (simp add: txid_roundtrip_aux)
  ultimately show ?thesis
    using sample_output_seal decoded_values_well_formed [OF toy_sha256_ok, of "replicate 32 0x33" False
        "to_binary sample_seal" sample_seal "[]" BitcoinQuantumRegtest sample_p2mr_output 7 Dilithium2
        "[]" sample_commitment toy_tx_codec "[]" "[]" "[]" "txid_to_string (replicate 32 7)"
        "replicate 32 7"]
    by simp
qed

text \<open>C26. The ownership leaf pushes the key and checks its signature, within the range of its length
  prefix: read back as a script, the leaf built for a hex key pushes exactly that key and leaves
  the single opcode \<^verbatim>\<open>OP_CHECKSIGDILITHIUM\<close> if and only if the key has at most 65535 bytes, which
  the keys of both algorithms do; beyond it the two-byte length wraps. Text that is not hex is not
  an error: it gives the leaf of the empty key.\<close>

theorem checksig_leaf_reads:
  assumes "hex_ok L"
  shows "(\<exists>script. dilithium_checksig_leaf_hex L (hex_encode L pk) = Ok (hex_encode L script)
      \<and> (read_push script = Some (pk, [CHECKSIG_OPCODE]) \<longleftrightarrow> length pk \<le> 0xffff))
    \<and> pk_len algo \<le> 0xffff
    \<and> (hex_decode L bad = Err e \<longrightarrow>
        dilithium_checksig_leaf_hex L bad = Ok (hex_encode L [0x00, CHECKSIG_OPCODE]))"
proof -
  have "dilithium_checksig_leaf_hex L (hex_encode L pk) = Ok (hex_encode L (checksig_script pk))"
    using hex_okD(1,2) [OF assms]
    by (simp add: dilithium_checksig_leaf_hex_def hex_decode_or_default_def)
  moreover have "dilithium_checksig_leaf_hex L bad = Ok (hex_encode L [0x00, CHECKSIG_OPCODE])"
    if "hex_decode L bad = Err e"
    using that
    by (simp add: dilithium_checksig_leaf_hex_def hex_decode_or_default_def checksig_script_def)
  ultimately show ?thesis using checksig_script_reads [of pk] by (cases algo) auto
qed

theorem checksig_leaf_reads_witness:
  "(\<exists>script. dilithium_checksig_leaf_hex toy_crates (hex_encode toy_crates (replicate 1312 7))
      = Ok (hex_encode toy_crates script)
    \<and> read_push script = Some (replicate 1312 7, [CHECKSIG_OPCODE]))
    \<and> dilithium_checksig_leaf_hex toy_crates ''zz'' = Ok (hex_encode toy_crates [0x00, CHECKSIG_OPCODE])"
proof -
  have "hex_decode toy_crates ''zz'' = Err ''invalid character''"
    by (simp add: toy_crates_def) code_simp
  with checksig_leaf_reads [OF toy_hex_ok, of "replicate 1312 7" Dilithium2 "''zz''"]
  show ?thesis by auto
qed

text \<open>C11. A seal made of a funded output can never be closed: \<^verbatim>\<open>seal_from_p2mr\<close> always gives the
  locator \<^verbatim>\<open>OpretFirst\<close>, for which the resolver recognises no commitment, so whatever the backend
  answers, the seal is open, unknown, or reported closed without a commitment.\<close>

theorem funded_seal_never_closes:
  assumes "seal_from_p2mr L chain out vout leaf_hash algo = Ok s"
  shows "case fst (resolve L r s w) of
      Ok st \<Rightarrow> st = OpenUnspent \<or> (\<exists>reason. st = UnknownState reason)
        \<or> (\<exists>t. st = ClosedInvalid t (IC_Commitment (CM_Missing t)))
    | _ \<Rightarrow> True"
proof (cases "fst (resolve L r s w)")
  case (Ok st)
  have "\<not> is_p2mr_ret (commitment_locator s)"
    using assms by (auto simp: seal_from_p2mr_def and_then_Ok_iff seal_new_def split: if_splits)
  from this Ok show ?thesis by (cases rule: resolve_opret_cases) (simp_all add: Ok)
qed simp_all

theorem funded_seal_never_closes_witness:
  "case fst (resolve toy_crates (sample_resolver True (Confirmed 100 ''ab'' 6 0)) sample_seal ()) of
      Ok st \<Rightarrow> st = OpenUnspent \<or> (\<exists>reason. st = UnknownState reason)
        \<or> (\<exists>t. st = ClosedInvalid t (IC_Commitment (CM_Missing t)))
    | _ \<Rightarrow> True"
  by (rule funded_seal_never_closes [OF sample_output_seal])



end
