(* ===== verification/Call_Trace.thy ===== *)
theory Call_Trace
  imports Witness
begin

section \<open>The calls a resolution makes\<close>

text \<open>
  A backend that writes down every call of the trait before passing the answer on, in the way a
  protocol run is kept as the list of its events. Resolving through it shows which questions the
  seal resolver and the witness resolver ask, in which order, and which they never ask. Nothing is
  assumed of the backend underneath: its answers may change from one call to the next.
\<close>

datatype chain_call =
    AskTip
  | AskTx string
  | AskTxStatus string
  | AskOutput btq_outpoint
  | AskSpendingTx btq_outpoint
  | AskInclusion string
  | AskDepth string
  | AskBroadcast string

definition log_call :: "chain_call \<Rightarrow> ('w, 'a) io \<Rightarrow> ('w \<times> chain_call list, 'a) io" where
  "log_call c m = (\<lambda>(w, calls). (fst (m w), (snd (m w), calls @ [c])))"

definition logged :: "'w btq_chain_backend \<Rightarrow> ('w \<times> chain_call list) btq_chain_backend" where
  "logged b = \<lparr>be_network_id = be_network_id b,
     be_current_tip = log_call AskTip (be_current_tip b),
     be_get_tx = (\<lambda>t. log_call (AskTx t) (be_get_tx b t)),
     be_get_tx_status = (\<lambda>t. log_call (AskTxStatus t) (be_get_tx_status b t)),
     be_get_output = (\<lambda>o'. log_call (AskOutput o') (be_get_output b o')),
     be_get_spending_tx = (\<lambda>o'. log_call (AskSpendingTx o') (be_get_spending_tx b o')),
     be_prove_tx_inclusion = (\<lambda>t. log_call (AskInclusion t) (be_prove_tx_inclusion b t)),
     be_confirmation_depth = (\<lambda>t. log_call (AskDepth t) (be_confirmation_depth b t)),
     be_broadcast_tx = (\<lambda>raw. log_call (AskBroadcast raw) (be_broadcast_tx b raw))\<rparr>"

definition logged_resolver :: "'w seal_resolver \<Rightarrow> ('w \<times> chain_call list) seal_resolver" where
  "logged_resolver r = \<lparr>rs_backend = logged (rs_backend r), rs_limits = rs_limits r,
     rs_pq_leaf_script = rs_pq_leaf_script r\<rparr>"

definition logged_witness :: "'w witness_resolver \<Rightarrow> ('w \<times> chain_call list) witness_resolver" where
  "logged_witness r = \<lparr>wr_backend = logged (wr_backend r), wr_chain = wr_chain r\<rparr>"

text \<open>The questions of a resolution that goes all the way, and how many of them each outcome
  takes. \<open>answered t res n\<close>: the result \<open>res\<close>, about the spending transaction \<open>t\<close>, comes after \<open>n\<close>
  questions. The reasons with no line of their own are never given.\<close>

definition full_run :: "btq_p2mr_seal \<Rightarrow> string \<Rightarrow> chain_call list" where
  "full_run s t = [AskOutput (outpoint s), AskSpendingTx (outpoint s), AskInclusion t]"

fun answered :: "string \<Rightarrow> seal_state rgb_pq_result \<Rightarrow> nat \<Rightarrow> bool" where
  "answered t (Ok OpenUnspent) n = (n = 1)"
| "answered t (Ok (ClosedValid t' p k)) n = (n = 3 \<and> t' = t)"
| "answered t (Ok (ClosedInvalid t' reason)) n = (n = 2 \<and> t' = t)"
| "answered t (Ok (SealUnconfirmed t')) n = (n = 2 \<and> t' = t)"
| "answered t (Ok (ReorgRisk t' k depth)) n = (n = 2 \<and> t' = t)"
| "answered t (Ok (UnknownState US_OutpointMissing)) n = (n = 1)"
| "answered t (Ok (UnknownState (US_Resolve (RE_Seal e)))) n = (n \<le> 1)"
| "answered t (Ok (UnknownState (US_Resolve (RE_MissingTx d)))) n = (n = 1 \<or> n = 2)"
| "answered t (Ok (UnknownState (US_Resolve (RE_MissingInclusionProof d)))) n = (n = 3)"
| "answered t (Ok (UnknownState reason)) n = False"
| "answered t (Err e) n = ((n = 1 \<or> n = 2) \<and> \<not> is_dos e)"
| "answered t Panic n = (1 \<le> n \<and> n \<le> 3)"

subsection \<open>Logging changes no answer\<close>

lemma logged_network [simp]: "be_network_id (logged b) = be_network_id b"
  by (simp add: logged_def)

lemma logged_answers:
  "be_get_tx (logged b) t (w, calls)
    = (fst (be_get_tx b t w), (snd (be_get_tx b t w), calls @ [AskTx t]))"
  "be_get_tx_status (logged b) t (w, calls)
    = (fst (be_get_tx_status b t w), (snd (be_get_tx_status b t w), calls @ [AskTxStatus t]))"
  "be_get_output (logged b) o' (w, calls)
    = (fst (be_get_output b o' w), (snd (be_get_output b o' w), calls @ [AskOutput o']))"
  "be_get_spending_tx (logged b) o' (w, calls)
    = (fst (be_get_spending_tx b o' w), (snd (be_get_spending_tx b o' w), calls @ [AskSpendingTx o']))"
  "be_prove_tx_inclusion (logged b) t (w, calls)
    = (fst (be_prove_tx_inclusion b t w),
       (snd (be_prove_tx_inclusion b t w), calls @ [AskInclusion t]))"
  by (simp_all add: logged_def log_call_def)

lemma logged_resolver_fields [simp]:
  "rs_backend (logged_resolver r) = logged (rs_backend r)"
  "rs_limits (logged_resolver r) = rs_limits r"
  "rs_pq_leaf_script (logged_resolver r) = rs_pq_leaf_script r"
  by (simp_all add: logged_resolver_def)

lemma logged_witness_backend [simp]: "wr_backend (logged_witness r) = logged (wr_backend r)"
  by (simp add: logged_witness_def)

text \<open>A logged run: the same answer and the same world, and the calls added to the log.\<close>

definition runs_as ::
  "'a rgb_pq_result \<times> ('w \<times> chain_call list) \<Rightarrow> 'a rgb_pq_result \<times> 'w \<Rightarrow> chain_call list \<Rightarrow> bool"
where
  "runs_as lr r calls \<longleftrightarrow> lr = (fst r, (snd r, calls))"

text \<open>Before \<^verbatim>\<open>resolve\<close> has looked at the errors: one may still be a limit error.\<close>

definition answered_inner :: "string \<Rightarrow> seal_state rgb_pq_result \<Rightarrow> nat \<Rightarrow> bool" where
  "answered_inner t res n \<longleftrightarrow> (case res of Err e \<Rightarrow> n = 1 \<or> n = 2 | _ \<Rightarrow> answered t res n)"

lemma resolve_close_logged:
  "\<exists>n. runs_as (resolve_close L (logged_resolver r) s tx v (w, calls))
      (resolve_close L r s tx v w) (calls @ take n [AskInclusion (tx_txid tx)])
    \<and> answered_inner (tx_txid tx) (fst (resolve_close L r s tx v w)) (Suc (Suc n)) \<and> n \<le> 1"
proof (cases "is_p2mr_ret (commitment_locator s)")
  case False
  then show ?thesis
    by (intro exI [of _ 0]) (simp add: resolve_close_opret runs_as_def answered_inner_def)
next
  case True
  note close = resolve_close_def spends_outpoint_def scan_p2mr_ret_commitment_def Let_def
    io_bind_def io_simps runs_as_def answered_inner_def logged_answers
  consider (early) "\<not> (\<exists>leaf. rs_pq_leaf_script r = Some leaf
         \<and> compute_tapleaf_hash L P2MR_COMMITMENT_LEAF_VERSION leaf \<noteq> replicate 32 0)
      \<or> (case tx_status tx of Unconfirmed \<Rightarrow> True
          | Confirmed h b k time \<Rightarrow> k < required_depth (confirmation_policy s))"
    | (deep) leaf h b k time where "rs_pq_leaf_script r = Some leaf"
        "compute_tapleaf_hash L P2MR_COMMITMENT_LEAF_VERSION leaf \<noteq> replicate 32 0"
        "tx_status tx = Confirmed h b k time" "\<not> k < required_depth (confirmation_policy s)"
    by (cases "tx_status tx") auto
  then show ?thesis
  proof cases
    case early
    with True show ?thesis
      by (intro exI [of _ 0])
         (auto simp: close split: option.splits tx_status.splits if_splits)
  next
    case deep
    with True show ?thesis
      by (intro exI [of _ 1])
         (auto simp: close split: prod.splits result.splits)
  qed
qed

lemma resolve_inner_logged:
  "\<exists>t n. runs_as (resolve_inner L (logged_resolver r) s (w, calls)) (resolve_inner L r s w)
      (calls @ take n (full_run s t))
    \<and> answered_inner t (fst (resolve_inner L r s w)) n \<and> n \<le> 3"
proof (cases "be_network_id (rs_backend r) = chain_id s")
  case False
  then show ?thesis
    by (intro exI [of _ undefined] exI [of _ 0])
       (simp add: resolve_inner_def Let_def io_simps runs_as_def answered_inner_def
         resolve_of_chain_def)
next
  case chain: True
  let ?get = "be_get_output (rs_backend r) (outpoint s) w"
  note inner = resolve_inner_def Let_def outpoint_to_bitcoin_def chain io_bind_def io_simps
    logged_answers runs_as_def answered_inner_def full_run_def
  show ?thesis
  proof (cases "\<exists>out w1. ?get = (Ok (Some out), w1) \<and> verify_p2mr_output L out s = Ok () \<and> to_spent out")
    case False
    then show ?thesis
      using verify_p2mr_output_no_panic [of L _ s, unfolded panics_def]
      by (intro exI [of _ undefined] exI [of _ 1])
         (auto simp: inner split: prod.splits result.splits option.splits)
  next
    case True
    then obtain out w1 where get: "?get = (Ok (Some out), w1)"
      and out: "verify_p2mr_output L out s = Ok ()" "to_spent out" by blast
    let ?spend = "be_get_spending_tx (rs_backend r) (outpoint s) w1"
    show ?thesis
    proof (cases "\<exists>tx w2. ?spend = (Ok (Some tx), w2)")
      case False
      with get out show ?thesis
        by (intro exI [of _ undefined] exI [of _ 2])
           (auto simp: inner split: prod.splits result.splits option.splits)
    next
      case True
      then obtain tx w2 where spend: "?spend = (Ok (Some tx), w2)" by blast
      obtain n where n: "runs_as (resolve_close L (logged_resolver r) s tx (op_vout (outpoint s))
            (w2, calls @ take 2 (full_run s (tx_txid tx))))
          (resolve_close L r s tx (op_vout (outpoint s)) w2)
          ((calls @ take 2 (full_run s (tx_txid tx))) @ take n [AskInclusion (tx_txid tx)])"
        and asked: "answered_inner (tx_txid tx)
          (fst (resolve_close L r s tx (op_vout (outpoint s)) w2)) (Suc (Suc n))" "n \<le> 1"
        using resolve_close_logged [of L r s tx "op_vout (outpoint s)" w2
          "calls @ take 2 (full_run s (tx_txid tx))"] by blast
      from get out spend
      have "resolve_inner L (logged_resolver r) s (w, calls)
          = resolve_close L (logged_resolver r) s tx (op_vout (outpoint s))
            (w2, calls @ take 2 (full_run s (tx_txid tx)))"
        by (simp add: inner)
      with n asked show ?thesis
        unfolding resolve_inner_close [OF chain get out spend]
        by (intro exI [of _ "tx_txid tx"] exI [of _ "Suc (Suc n)"])
           (simp add: runs_as_def full_run_def)
    qed
  qed
qed

text \<open>C8. The order of the questions: over any backend, logging changes neither the answer nor the
  world, and the calls of a resolution are the first \<open>n\<close> of: the output of the seal's outpoint, the
  spender of that outpoint, the inclusion of the spender - where \<open>n\<close> is fixed by the outcome. An
  unspent seal took one question; an invalid, unconfirmed or shallow close two; only a valid close
  or a missing proof asks for the inclusion, of the transaction the outcome names. Nothing is
  asked twice, nothing is broadcast, and the tip, transactions and depths are never asked for.\<close>

theorem resolve_call_order:
  "\<exists>t n. resolve L (logged_resolver r) s (w, calls)
      = (fst (resolve L r s w), (snd (resolve L r s w), calls @ take n (full_run s t)))
    \<and> answered t (fst (resolve L r s w)) n"
proof -
  obtain t n where run: "runs_as (resolve_inner L (logged_resolver r) s (w, calls))
      (resolve_inner L r s w) (calls @ take n (full_run s t))"
    and n: "answered_inner t (fst (resolve_inner L r s w)) n"
    using resolve_inner_logged [of L r s w calls] by blast
  then show ?thesis
    by (intro exI [of _ t] exI [of _ n])
       (auto simp: resolve_def runs_as_def answered_inner_def split: prod.splits result.splits)
qed

subsection \<open>The witness resolver\<close>

text \<open>The witness resolver asks for the transaction, and for its status only when the transaction
  was found and is the requested one; logging changes nothing. So an answered witness took exactly
  these two questions, and one that is unresolved took one.\<close>

theorem resolve_witness_call_order:
  "\<exists>n. resolve_witness W (logged_witness r) txid (w, calls)
      = (fst (resolve_witness W r txid w), (snd (resolve_witness W r txid w),
          calls @ take n [AskTx txid, AskTxStatus txid]))
    \<and> (case fst (resolve_witness W r txid w) of
        Ok WitnessUnresolved \<Rightarrow> n = 1
      | Ok (WitnessResolved t ord) \<Rightarrow> n = 2
      | Err e \<Rightarrow> n = 1 \<or> n = 2
      | Panic \<Rightarrow> n = 1 \<or> n = 2)"
proof -
  obtain found w1 where fetched: "fetch_tx W r txid w = (found, w1)" by (cases "fetch_tx W r txid w")
  have logged_fetch: "fetch_tx W (logged_witness r) txid (w, calls)
      = (found, (w1, calls @ [AskTx txid]))"
    using fetched unfolding fetch_tx_def io_bind_def
    by (auto simp: logged_answers io_simps split: prod.splits result.splits)
  show ?thesis
  proof (cases "\<exists>tx. found = Ok (Some tx)")
    case False
    then show ?thesis
      by (intro exI [of _ 1])
         (auto simp: resolve_witness_def fetched logged_fetch split: result.split option.split)
  next
    case True
    then show ?thesis
      by (intro exI [of _ 2])
         (auto simp: resolve_witness_def fetched logged_fetch logged_answers
           and_then_Ok_iff split: result.splits prod.splits witness_status.splits)
  qed
qed

end
