(* ===== verification/Witness_Rpc.thy ===== *)
theory Witness_Rpc
  imports Witness
begin

section \<open>The witness resolver over the RPC backend\<close>

text \<open>
  \<^verbatim>\<open>resolver/src/witness.rs\<close> composed with \<^verbatim>\<open>chain/src/rpc.rs\<close>: what RGB's consignment validation
  gets for a witness when the backend is a node, down to the JSON fields of the node's answers.
\<close>

text \<open>The question both lookups of a witness put to the node, and the bytes and the height the
  client reads from an answer.\<close>

definition ask_raw ::
  "('v, 'f) json_api \<Rightarrow> 'w network \<Rightarrow> btq_rpc_client \<Rightarrow> string \<Rightarrow> ('w, 'v) io" where
  "ask_raw J net c txid =
     rpc_call J net c ''getrawtransaction'' [json_string J txid, json_bool J True]"

definition answer_bytes :: "crates \<Rightarrow> ('v, 'f) json_api \<Rightarrow> 'v \<Rightarrow> bytes rgb_pq_result" where
  "answer_bytes L J v =
     hex_decode_or_default L (case get_str J v ''hex'' of Some s \<Rightarrow> s | None \<Rightarrow> [])"

definition answer_u64 :: "('v, 'f) json_api \<Rightarrow> 'v \<Rightarrow> string \<Rightarrow> u64" where
  "answer_u64 J v k = (case Option.bind (json_get J v k) (json_as_u64 J) of Some n \<Rightarrow> n | None \<Rightarrow> 0)"

definition answer_time :: "('v, 'f) json_api \<Rightarrow> 'v \<Rightarrow> i64" where
  "answer_time J v =
     (case Option.bind (json_get J v ''blocktime'') (json_as_i64 J) of Some t \<Rightarrow> t | None \<Rightarrow> 0)"

lemma get_raw_tx_Some_iff:
  "get_raw_tx L J net c txid w = (Ok (Some tx), w') \<longleftrightarrow>
    (\<exists>v raw. ask_raw J net c txid w = (Ok v, w') \<and> answer_bytes L J v = Ok raw
      \<and> tx = \<lparr>tx_txid = txid, tx_raw = raw, tx_status = tx_status_from_verbose J v\<rparr>)"
  by (auto simp: get_raw_tx_def ask_raw_def answer_bytes_def Let_def and_then_Ok_iff
      split: prod.splits result.splits rgb_pq_error.splits resolve_error.splits rpc_error.splits)

lemma get_tx_status_Ok_iff:
  "get_tx_status L J net c txid w = (Ok st, w') \<longleftrightarrow>
    (\<exists>v raw. ask_raw J net c txid w = (Ok v, w') \<and> answer_bytes L J v = Ok raw
      \<and> st = tx_status_from_verbose J v)"
proof -
  have "get_tx_status L J net c txid w = (Ok st, w') \<longleftrightarrow>
      (\<exists>tx. get_raw_tx L J net c txid w = (Ok (Some tx), w') \<and> st = tx_status tx)"
    by (auto simp: get_tx_status_def io_bind_Ok_iff io_simps split: option.splits)
  then show ?thesis by (auto simp: get_raw_tx_Some_iff)
qed

lemma verbose_confirmed_iff:
  "tx_status_from_verbose J v = Confirmed h b k time \<longleftrightarrow>
    k = ucast (answer_u64 J v ''confirmations'') \<and> k \<noteq> 0
    \<and> h = ucast (answer_u64 J v ''blockheight'')
    \<and> b = (case get_str J v ''blockhash'' of Some s \<Rightarrow> s | None \<Rightarrow> [])
    \<and> time = answer_time J v"
  by (auto simp: tx_status_from_verbose_def answer_u64_def answer_time_def Let_def)

lemma verbose_unconfirmed_iff:
  "tx_status_from_verbose J v = Unconfirmed \<longleftrightarrow> (ucast (answer_u64 J v ''confirmations'') :: u32) = 0"
  by (auto simp: tx_status_from_verbose_def answer_u64_def Let_def)

lemmas confirmed_verbose_iff = trans [OF eq_commute verbose_confirmed_iff]

lemma over_rpc_methods:
  "be_get_tx (wr_backend (witness_resolver_new (rpc_backend L J net c) chain)) = get_raw_tx L J net c"
  "be_get_tx_status (wr_backend (witness_resolver_new (rpc_backend L J net c) chain))
    = get_tx_status L J net c"
  by (simp_all add: witness_resolver_new_def rpc_backend_def)

subsection \<open>Properties\<close>

text \<open>C32. A mined witness over RPC: the node is asked for the transaction twice; the bytes of the
  first answer must decode to a transaction with the requested id, and the second must carry
  nonzero \<^verbatim>\<open>confirmations\<close> and a \<^verbatim>\<open>blockheight\<close> that is nonzero in its low 32 bits. An answer
  without \<^verbatim>\<open>blockheight\<close> never makes a witness mined, however deep it is.\<close>

theorem witness_over_rpc_mined_iff:
  "resolve_witness W (witness_resolver_new (rpc_backend L J net c) chain) txid w
      = (Ok (WitnessResolved t (Mined p)), w2) \<longleftrightarrow>
    (\<exists>v1 w1 raw1 v2 raw2 height.
      ask_raw J net c txid w = (Ok v1, w1) \<and> answer_bytes L J v1 = Ok raw1
      \<and> wa_deserialize W raw1 = Ok t \<and> wa_txid_string W t = txid
      \<and> ask_raw J net c txid w1 = (Ok v2, w2) \<and> answer_bytes L J v2 = Ok raw2
      \<and> (ucast (answer_u64 J v2 ''confirmations'') :: u32) \<noteq> 0
      \<and> height = ucast (answer_u64 J v2 ''blockheight'') \<and> height \<noteq> 0
      \<and> wa_pos_bitcoin W height (answer_time J v2) = Some p)"
  unfolding resolve_witness_iff over_rpc_methods get_raw_tx_Some_iff get_tx_status_Ok_iff
  by (auto simp: verbose_confirmed_iff confirmed_verbose_iff)

lemma if_let_None_iff:
  "if_let_ok m (\<lambda>t. if P t then Ok (Some t) else Ok None) (Ok None) = Ok None \<longleftrightarrow>
    (case m of Ok t \<Rightarrow> \<not> P t | Err e \<Rightarrow> True | Panic \<Rightarrow> False)"
  by (cases m) auto

text \<open>A node that does not know the transaction (code -5) makes the witness an error, and an
  unresolved witness means bytes that do not decode, or to another transaction: the bridge's
  "unknown transaction is unresolved" is never reached over RPC.\<close>

theorem witness_over_rpc_unresolved_iff:
  "resolve_witness W (witness_resolver_new (rpc_backend L J net c) chain) txid w
      = (Ok WitnessUnresolved, w1) \<longleftrightarrow>
    (\<exists>v raw. ask_raw J net c txid w = (Ok v, w1) \<and> answer_bytes L J v = Ok raw
      \<and> (case wa_deserialize W raw of
          Ok t \<Rightarrow> wa_txid_string W t \<noteq> txid | Err e \<Rightarrow> True | Panic \<Rightarrow> False))"
proof -
  let ?r = "witness_resolver_new (rpc_backend L J net c) chain"
  have "resolve_witness W ?r txid w = (Ok WitnessUnresolved, w1) \<longleftrightarrow>
      fetch_tx W ?r txid w = (Ok None, w1)"
    by (auto simp: resolve_witness_def and_then_Ok_iff split: prod.splits result.splits option.splits)
  also have "\<dots> \<longleftrightarrow> (\<exists>tx. get_raw_tx L J net c txid w = (Ok (Some tx), w1)
      \<and> (case wa_deserialize W (tx_raw tx) of
          Ok t \<Rightarrow> wa_txid_string W t \<noteq> txid | Err e \<Rightarrow> True | Panic \<Rightarrow> False))"
    using get_raw_tx_cases [of L J net c txid w]
    by (auto simp: fetch_tx_def over_rpc_methods io_bind_Ok_iff io_simps if_let_None_iff
        split: option.splits)
  finally show ?thesis by (auto simp: get_raw_tx_Some_iff)
qed

end
