(* ===== verification/E2e.thy ===== *)
theory E2e
  imports Funding Rgb
begin

section \<open>The end-to-end harness (\<open>tests/rgb-pq-e2e/src/lib.rs\<close>)\<close>

text \<open>
  The flows that drive the crates together: against a node (fund a seal, commit, sign, broadcast,
  mine, check; with an opret or a P2MR-ret commitment, with a rotated key, across a reorganisation)
  and without one. A flow is a program over the world of the RPC client. An \<^verbatim>\<open>expect\<close>, an \<^verbatim>\<open>unwrap\<close>
  and a failed assertion end it with \<open>Panic\<close>; \<^verbatim>\<open>let _ =\<close> and \<^verbatim>\<open>.ok()\<close> go on without the value.
  The environment variables, the clock's nanoseconds, the blinding factor of the issued asset
  and the float literals are arguments; what is printed is left out.
\<close>

subsection \<open>Programs that stop at the first failure\<close>

definition expect_io :: "('w, 'a) io \<Rightarrow> ('w, 'a) io" where
  "expect_io m = (\<lambda>w. case m w of (Ok x, w') \<Rightarrow> (Ok x, w') | (_, w') \<Rightarrow> (Panic, w'))"

definition ok_io :: "('w, 'a) io \<Rightarrow> ('w, 'a option) io" where
  "ok_io m = (\<lambda>w. case m w of (Ok x, w') \<Rightarrow> (Ok (Some x), w')
     | (Err _, w') \<Rightarrow> (Ok None, w') | (Panic, w') \<Rightarrow> (Panic, w'))"

definition assert_io :: "bool \<Rightarrow> ('w, unit) io" where
  "assert_io b = io_result (if b then Ok () else Panic)"

text \<open>A program that only ends normally or in a panic.\<close>

definition no_err :: "('w, 'a) io \<Rightarrow> bool" where
  "no_err m \<longleftrightarrow> (\<forall>w e w'. m w \<noteq> (Err e, w'))"

named_theorems yields \<open>when a step of a flow ends normally, and with what\<close>

lemma io_bind_yields [yields]:
  "io_bind m f w = (Ok y, w') \<longleftrightarrow> (\<exists>x w1. m w = (Ok x, w1) \<and> f x w1 = (Ok y, w'))"
  by (auto simp: io_bind_def split: result.splits prod.splits)

lemma io_ends_yields [yields]:
  "io_return x w = (Ok y, w') \<longleftrightarrow> y = x \<and> w' = w"
  "io_result r w = (Ok y, w') \<longleftrightarrow> r = Ok y \<and> w' = w"
  "expect_io m w = (Ok y, w') \<longleftrightarrow> m w = (Ok y, w')"
  "assert_io b w = (Ok u, w') \<longleftrightarrow> b \<and> w' = w"
  by (auto simp: io_return_def io_result_def expect_io_def assert_io_def
      split: result.splits prod.splits)

lemma no_err_bind: "no_err m \<Longrightarrow> (\<And>x. no_err (f x)) \<Longrightarrow> no_err (io_bind m f)"
  by (fastforce simp: no_err_def io_bind_def split: result.splits prod.splits)

lemma no_err_ends: "no_err (io_return x)" "no_err (expect_io m)" "no_err (ok_io m)" "no_err (assert_io b)"
  by (auto simp: no_err_def io_return_def io_result_def expect_io_def ok_io_def assert_io_def
      split: result.splits prod.splits)

lemma no_err_result: "(\<And>e. r \<noteq> Err e) \<Longrightarrow> no_err (io_result r)"
  by (simp add: no_err_def io_result_def)

text \<open>The part of a program that has been shown not to end in an error need not be looked into.\<close>

lemmas no_err_intros = no_err_bind no_err_ends

subsection \<open>Configuration\<close>

definition demo_seal :: btq_p2mr_seal where
  "demo_seal = seal_new BitcoinQuantumRegtest (outpoint_new (txid_from_bytes (replicate 32 0x11)) 0)
     (replicate 32 0x22) (replicate 32 0x33) Dilithium2 OpretFirst OneConf"

record live_config =
  lc_rpc :: "btq_rpc_config option"

definition or_else :: "'a option \<Rightarrow> 'a \<Rightarrow> 'a" where
  "or_else v d = (case v of Some x \<Rightarrow> x | None \<Rightarrow> d)"

definition read_live_config :: "(string \<Rightarrow> string option) \<Rightarrow> live_config" where
  "read_live_config env =
     (let url = env ''RGBPQ_BTQ_RPC'';
          chain = or_else (Option.bind (env ''RGBPQ_BTQ_CHAIN'') (\<lambda>s. case chain_from_str s of Ok c \<Rightarrow> Some c | _ \<Rightarrow> None))
            BitcoinQuantumRegtest
      in case url of
        Some url \<Rightarrow> \<lparr>lc_rpc = Some \<lparr>cfg_chain = chain, cfg_url = url,
          cfg_auth = UserPass (or_else (env ''RGBPQ_BTQ_USER'') ''btq'')
            (or_else (env ''RGBPQ_BTQ_PASS'') ''btqpass''),
          cfg_timeout_secs = Some 15, cfg_retries = Some 1, cfg_wallet = env ''RGBPQ_BTQ_WALLET''\<rparr>\<rparr>
      | None \<Rightarrow> \<lparr>lc_rpc = None\<rparr>)"

definition try_connect ::
  "('v, 'f) json_api \<Rightarrow> 'w network \<Rightarrow> live_config \<Rightarrow> ('w, btq_rpc_client option) io" where
  "try_connect J net cfg = (case lc_rpc cfg of
     None \<Rightarrow> io_return None
   | Some rpc \<Rightarrow> (let client = client_new rpc in
       io_bind (ok_io (verify_network J net client)) (\<lambda>r.
       io_return (case r of Some _ \<Rightarrow> Some client | None \<Rightarrow> None))))"

subsection \<open>Steps the flows share\<close>

text \<open>The float literals of the flows: fee rate, amount funded, amount sent, fee.\<close>

record 'f amounts =
  am_fee_rate :: 'f
  am_fund :: 'f
  am_send :: 'f
  am_fee :: 'f

text \<open>\<open>nanos\<close> is the clock's sub-second part, if it is past the epoch.\<close>

definition wallet_suffix :: "nat option \<Rightarrow> nat" where
  "wallet_suffix nanos = or_else (map_option (\<lambda>n. n mod 1000000) nanos) 0"

definition open_wallet ::
  "('v, 'f) json_api \<Rightarrow> 'w network \<Rightarrow> 'f amounts \<Rightarrow> btq_rpc_client \<Rightarrow> string \<Rightarrow> nat option
    \<Rightarrow> ('w, btq_rpc_client) io" where
  "open_wallet J net F client prefix nanos =
     (let wallet = prefix @ fmt_nat (wallet_suffix nanos); client = set_wallet client None in
     io_bind (ok_io (rpc_call J net client ''createwallet'' [json_string J wallet])) (\<lambda>_.
     let client = set_wallet client (Some wallet) in
     io_bind (ok_io (rpc_call J net client ''settxfee'' [json_f64 J (am_fee_rate F)])) (\<lambda>_.
     io_return client)))"

definition new_address ::
  "('v, 'f) json_api \<Rightarrow> 'w network \<Rightarrow> btq_rpc_client \<Rightarrow> ('w, string) io" where
  "new_address J net client =
     io_bind (ok_io (rpc_call J net client ''getnewaddress'' [])) (\<lambda>v.
     io_return (or_else (Option.bind v (json_as_str J)) []))"

definition confirmations_or ::
  "('v, 'f) json_api \<Rightarrow> 'w network \<Rightarrow> btq_rpc_client \<Rightarrow> string \<Rightarrow> u64 \<Rightarrow> ('w, u64) io" where
  "confirmations_or J net client txid dflt =
     io_bind (ok_io (rpc_call J net client ''gettransaction'' [json_string J txid, json_bool J True])) (\<lambda>v.
     io_return (or_else (Option.bind v (\<lambda>v.
       Option.bind (json_get J v ''confirmations'') (json_as_u64 J))) dflt))"

definition spendable_seen :: "('v, 'f) json_api \<Rightarrow> p2mr_output \<Rightarrow> 'v \<Rightarrow> bool" where
  "spendable_seen J p2mr v = (case json_as_array J v of
     None \<Rightarrow> False
   | Some arr \<Rightarrow> list_ex (\<lambda>u. get_str J u ''txid'' = Some (po_funding_txid p2mr)
       \<and> Option.bind (json_get J u ''spendable'') (json_as_bool J) = Some True) arr)"

text \<open>\<^verbatim>\<open>for _ in 0..5\<close>: the number counts the attempts left.\<close>

primrec wait_loop ::
  "('v, 'f) json_api \<Rightarrow> 'w network \<Rightarrow> btq_rpc_client \<Rightarrow> p2mr_output \<Rightarrow> string \<Rightarrow> nat
    \<Rightarrow> ('w, unit) io" where
  "wait_loop J net client p2mr miner 0 = io_return ()"
| "wait_loop J net client p2mr miner (Suc n) =
     io_bind (ok_io (rpc_call J net client ''listunspent'' [])) (\<lambda>v.
     if (case v of Some v \<Rightarrow> spendable_seen J p2mr v | None \<Rightarrow> False) then io_return ()
     else io_bind (ok_io (generate_blocks J net client 1 miner)) (\<lambda>_ w.
       wait_loop J net client p2mr miner n (net_sleep_ms net 150 w)))"

definition wait_for_p2mr_spendable ::
  "('v, 'f) json_api \<Rightarrow> 'w network \<Rightarrow> btq_rpc_client \<Rightarrow> p2mr_output \<Rightarrow> string \<Rightarrow> ('w, unit) io" where
  "wait_for_p2mr_spendable J net client p2mr miner = wait_loop J net client p2mr miner 5"

text \<open>A \<^verbatim>\<open>?\<close> in the loop leaves the function: an output without a script ends the search.\<close>

fun vout_loop :: "('v, 'f) json_api \<Rightarrow> string \<Rightarrow> 'v list \<Rightarrow> u32 option" where
  "vout_loop J wanted [] = None"
| "vout_loop J wanted (o' # vouts) =
     Option.bind (Option.bind (json_get J o' ''scriptPubKey'') (\<lambda>s. json_get J s ''hex'')) (\<lambda>h.
     if or_else (json_as_str J h) [] = wanted
     then map_option ucast (Option.bind (json_get J o' ''n'') (json_as_u64 J))
     else vout_loop J wanted vouts)"

definition find_p2mr_vout ::
  "('v, 'f) json_api \<Rightarrow> 'w network \<Rightarrow> btq_rpc_client \<Rightarrow> p2mr_output \<Rightarrow> ('w, u32 option) io" where
  "find_p2mr_vout J net client p2mr =
     io_bind (ok_io (rpc_call J net client ''getrawtransaction''
       [json_string J (po_funding_txid p2mr), json_bool J True])) (\<lambda>v.
     io_return (Option.bind v (\<lambda>v. Option.bind (json_get J v ''vout'') (\<lambda>a.
       Option.bind (json_as_array J a) (vout_loop J (po_script_pubkey_hex p2mr))))))"

definition output_script_hex :: "('v, 'f) json_api \<Rightarrow> 'v \<Rightarrow> string" where
  "output_script_hex J o' = or_else (Option.bind (Option.bind (json_get J o' ''scriptPubKey'')
     (\<lambda>s. json_get J s ''hex'')) (json_as_str J)) []"

fun close_hits ::
  "crates \<Rightarrow> ('v, 'f) json_api \<Rightarrow> btq_p2mr_seal \<Rightarrow> 'v list \<Rightarrow> nat \<Rightarrow> nat rgb_pq_result" where
  "close_hits L J s [] hits = Ok hits"
| "close_hits L J s (o' # vouts) hits =
     if_let_ok (hex_decode L (output_script_hex J o')) (\<lambda>spk.
       and_then (strip_op_return spk) (\<lambda>p. case p of
         Some payload \<Rightarrow> if_let_ok (commitment_decode_for L payload s)
           (\<lambda>_. close_hits L J s vouts (hits + 1)) (close_hits L J s vouts hits)
       | None \<Rightarrow> close_hits L J s vouts hits))
       (close_hits L J s vouts hits)"

definition scan_close_tx_for_commitment ::
  "crates \<Rightarrow> ('v, 'f) json_api \<Rightarrow> 'w network \<Rightarrow> btq_rpc_client \<Rightarrow> string \<Rightarrow> btq_p2mr_seal
    \<Rightarrow> ('w, bool) io" where
  "scan_close_tx_for_commitment L J net client txid s =
     io_bind (ok_io (rpc_call J net client ''gettransaction'' [json_string J txid, json_bool J True])) (\<lambda>v.
     let args = [json_string J txid, json_bool J True]
       @ (case Option.bind v (\<lambda>v. get_str J v ''blockhash'') of
            Some h \<Rightarrow> [json_string J h] | None \<Rightarrow> []) in
     io_bind (ok_io (rpc_call J net client ''getrawtransaction'' args)) (\<lambda>v.
     case Option.bind v (\<lambda>v. Option.bind (json_get J v ''vout'') (json_as_array J)) of
       None \<Rightarrow> io_return False
     | Some vouts \<Rightarrow> io_result (and_then (close_hits L J s vouts 0) (\<lambda>hits. Ok (hits = 1)))))"

text \<open>The seal of a funded output; a root of another length becomes zeros.\<close>

definition funded_seal ::
  "crates \<Rightarrow> btq_rpc_client \<Rightarrow> p2mr_output \<Rightarrow> u32 option \<Rightarrow> bytes \<Rightarrow> commitment_locator
    \<Rightarrow> btq_p2mr_seal rgb_pq_result" where
  "funded_seal L client p2mr fund_vout leaf_hash loc =
     and_then (hex_decode_or_default L (po_merkle_root_hex p2mr)) (\<lambda>root.
     let root_arr = (if length root = 32 then root else replicate 32 0) in
     case txid_from_str (po_funding_txid p2mr) :: bytes rgb_pq_result of
       Ok txid \<Rightarrow> Ok (seal_new (client_chain client) (outpoint_new txid (or_else fund_vout 0))
         root_arr leaf_hash Dilithium2 loc OneConf)
     | _ \<Rightarrow> Panic)"

subsection \<open>Funding and closing with an opret commitment\<close>

definition run_live_flow ::
  "crates \<Rightarrow> 't tx_codec \<Rightarrow> ('v, 'f) json_api \<Rightarrow> 'w network \<Rightarrow> 'f amounts \<Rightarrow> nat option
    \<Rightarrow> btq_rpc_client \<Rightarrow> ('w, usize \<times> btq_rpc_client) io" where
  "run_live_flow L T J net F nanos client =
     (let steps = 0 in
     io_bind (open_wallet J net F client ''rgbpq-live-'' nanos) (\<lambda>client.
     io_bind (new_address J net client) (\<lambda>miner.
     io_bind (if miner \<noteq> [] then expect_io (generate_blocks J net client 110 miner) else io_return []) (\<lambda>_.
     let leaf_hash = tx_compute_tapleaf_hash L [0x51] in
     io_bind (expect_io (create_fund_p2mr J net client ''51'' (am_fund F) ''rgbpq-live-seal'')) (\<lambda>p2mr.
     let steps = steps + 1 in
     io_bind (new_address J net client) (\<lambda>miner.
     io_bind (expect_io (generate_blocks J net client 1 miner)) (\<lambda>_.
     io_bind (find_p2mr_vout J net client p2mr) (\<lambda>fund_vout.
     io_bind (io_result (funded_seal L client p2mr fund_vout leaf_hash OpretFirst)) (\<lambda>s.
     io_bind (wait_for_p2mr_spendable J net client p2mr miner) (\<lambda>_.
     io_bind (new_address J net client) (\<lambda>dest.
     io_bind (expect_io (create_p2mr_spend J net client (po_p2mr_id p2mr) dest (am_send F) (am_fee F)))
       (\<lambda>(unsigned_hex, _, _).
     let steps = steps + 1; mpc = replicate 32 0xa5 in
     io_bind (expect_io (io_result (append_opret_commitment L T unsigned_hex s mpc))) (\<lambda>modified.
     let steps = steps + 1 in
     io_bind (expect_io (sign_p2mr_tx J net client modified (po_p2mr_id p2mr))) (\<lambda>signed_hex.
     let steps = steps + 1 in
     io_bind (expect_io (tx_broadcast L J net client signed_hex)) (\<lambda>close_txid.
     io_bind (expect_io (generate_blocks J net client 1 miner)) (\<lambda>_.
     let steps = steps + 1 in
     io_bind (scan_close_tx_for_commitment L J net client close_txid s) (\<lambda>committed.
     io_bind (assert_io committed) (\<lambda>_.
     let steps = steps + 1 in
     io_bind (expect_io (get_inclusion_proof J net client close_txid)) (\<lambda>proof.
     io_bind (assert_io (ip_proof_hex proof \<noteq> [])) (\<lambda>_.
     io_return (steps + 1, client)))))))))))))))))))))"

text \<open>What the seal of a funded output has to say, field by field: the chain of the client, the
  transaction that funded the output and its position there, the root the node gave (zeros, if that
  is not 32 bytes of hex), and the leaf hash and locator of the flow.\<close>

definition names_output ::
  "crates \<Rightarrow> btq_chain_id \<Rightarrow> p2mr_output \<Rightarrow> u32 \<Rightarrow> bytes \<Rightarrow> commitment_locator \<Rightarrow> btq_p2mr_seal \<Rightarrow> bool"
where
  "names_output L chain out vout leaf_hash loc s \<longleftrightarrow> chain_id s = chain
     \<and> txid_from_str (po_funding_txid out) = (Ok (op_txid (outpoint s)) :: bytes rgb_pq_result)
     \<and> op_vout (outpoint s) = vout
     \<and> p2mr_root s = (case hex_decode L (po_merkle_root_hex out) of
          Ok root \<Rightarrow> if length root = 32 then root else replicate 32 0 | _ \<Rightarrow> replicate 32 0)
     \<and> script_leaf_hash s = leaf_hash \<and> owner_algo s = Dilithium2
     \<and> commitment_locator s = loc \<and> confirmation_policy s = OneConf"

lemma funded_seal_names:
  assumes "funded_seal L client out fund_vout leaf_hash loc = Ok s"
  shows "names_output L (client_chain client) out (or_else fund_vout 0) leaf_hash loc s"
  using assms
  by (cases "txid_from_str (po_funding_txid out) :: bytes rgb_pq_result";
      cases "hex_decode L (po_merkle_root_hex out)")
     (auto simp: funded_seal_def names_output_def hex_decode_or_default_def Let_def seal_new_def
        outpoint_new_def)

text \<open>The outputs of a transaction, as the node lists them, that carry a commitment for a seal.\<close>

definition output_carries :: "crates \<Rightarrow> ('v, 'f) json_api \<Rightarrow> btq_p2mr_seal \<Rightarrow> 'v \<Rightarrow> bool" where
  "output_carries L J s o' \<longleftrightarrow> (case hex_decode L (output_script_hex J o') of
     Ok spk \<Rightarrow> carried_for L s spk \<noteq> None | _ \<Rightarrow> False)"

lemma decode_for_carries:
  assumes "sha256_ok L" and "stripped spk = Some p"
  shows "(\<exists>c. commitment_decode_for L p s = Ok c) \<longleftrightarrow> carried_for L s spk \<noteq> None"
    and "\<not> panics (commitment_decode_for L p s)"
  using signed_loop_spec [OF assms(1), of s 0 "[(0, spk)]" "[]"] assms(2)
  by (cases "commitment_decode_for L p s"; force simp: strip_op_return_total split: option.splits)+

lemma close_hits_spec:
  assumes L: "sha256_ok L" "hex_ok L"
  shows "close_hits L J s vouts h = Ok (h + length (filter (output_carries L J s) vouts))"
proof (induction vouts arbitrary: h)
  case (Cons o' vouts)
  show ?case
  proof (cases "hex_decode L (output_script_hex J o')")
    case (Ok spk)
    show ?thesis
    proof (cases "stripped spk")
      case (Some p)
      with decode_for_carries [OF L(1) Some, of s] Ok Cons show ?thesis
        by (cases "commitment_decode_for L p s")
           (auto simp: strip_op_return_total output_carries_def)
    next
      case None
      with Ok Cons show ?thesis
        by (simp add: strip_op_return_total output_carries_def carried_for_def carried_commitment_def)
    qed
  next
    case Panic
    with hex_okD(4) [OF L(2), of "output_script_hex J o'"] show ?thesis by simp
  qed (simp add: Cons output_carries_def)
qed simp

text \<open>No step of a flow hands its error on.\<close>

lemma no_err_wait: "no_err (wait_loop J net client p2mr miner n)"
proof (induction n)
  case (Suc n)
  then have "no_err (\<lambda>w. wait_loop J net client p2mr miner n (net_sleep_ms net 150 w))"
    by (simp add: no_err_def)
  then show ?case by (auto intro!: no_err_intros)
qed (simp add: no_err_ends)

lemma no_err_seal: "no_err (io_result (funded_seal L client p2mr fund_vout leaf_hash loc))"
  by (cases "hex_decode L (po_merkle_root_hex p2mr)")
     (auto intro!: no_err_result simp: funded_seal_def hex_decode_or_default_def Let_def
        split: result.splits)

lemma no_err_scan:
  assumes "sha256_ok L" "hex_ok L"
  shows "no_err (scan_close_tx_for_commitment L J net client txid s)"
  unfolding scan_close_tx_for_commitment_def Let_def close_hits_spec [OF assms]
  by (auto intro!: no_err_intros no_err_result split: option.splits)

lemmas no_err_steps = no_err_wait no_err_seal no_err_scan

lemma no_err_parts:
  "no_err (open_wallet J net F client prefix nanos)" "no_err (new_address J net client)"
  "no_err (confirmations_or J net client txid d)" "no_err (find_p2mr_vout J net client p2mr)"
  "no_err (wait_for_p2mr_spendable J net client p2mr miner)"
  by (auto simp: open_wallet_def new_address_def confirmations_or_def find_p2mr_vout_def
      wait_for_p2mr_spendable_def Let_def intro!: no_err_intros no_err_wait)

lemma live_flow_no_err:
  assumes "sha256_ok L" "hex_ok L"
  shows "no_err (run_live_flow L T J net F nanos client)"
  unfolding run_live_flow_def Let_def case_prod_beta
  by (intro no_err_bind no_err_ends no_err_parts no_err_seal no_err_scan [OF assms]) (simp add: no_err_ends)

text \<open>What the check of the closing transaction has seen when it succeeds.\<close>

definition listed_once ::
  "crates \<Rightarrow> ('v, 'f) json_api \<Rightarrow> 'w network \<Rightarrow> btq_rpc_client \<Rightarrow> string \<Rightarrow> btq_p2mr_seal \<Rightarrow> 'w \<Rightarrow> bool"
where
  "listed_once L J net client txid s w' \<longleftrightarrow> (\<exists>v vouts more w.
     rpc_call J net client ''getrawtransaction'' ([json_string J txid, json_bool J True] @ more) w = (Ok v, w')
     \<and> Option.bind (json_get J v ''vout'') (json_as_array J) = Some vouts
     \<and> length (filter (output_carries L J s) vouts) = 1)"

lemma ok_io_yields:
  "ok_io m w = (Ok v, w') \<longleftrightarrow> (\<exists>x. m w = (Ok x, w') \<and> v = Some x) \<or> (\<exists>e. m w = (Err e, w') \<and> v = None)"
  by (auto simp: ok_io_def split: result.splits prod.splits)

lemma scan_true:
  assumes "sha256_ok L" "hex_ok L"
    and "scan_close_tx_for_commitment L J net client txid s w = (Ok True, w')"
  shows "listed_once L J net client txid s w'"
proof -
  obtain r1 r2 w1 w2 where r2: "ok_io (rpc_call J net client ''getrawtransaction''
      ([json_string J txid, json_bool J True] @ (case Option.bind r1 (\<lambda>v. get_str J v ''blockhash'') of
         Some h \<Rightarrow> [json_string J h] | None \<Rightarrow> []))) w1 = (Ok r2, w2)"
    and found: "(case Option.bind r2 (\<lambda>v. Option.bind (json_get J v ''vout'') (json_as_array J)) of
        None \<Rightarrow> io_return False
      | Some vouts \<Rightarrow> io_result (and_then (close_hits L J s vouts 0) (\<lambda>hits. Ok (hits = 1)))) w2 = (Ok True, w')"
    using assms(3) unfolding scan_close_tx_for_commitment_def Let_def io_bind_yields by blast
  from found obtain v vouts where "r2 = Some v" "w2 = w'"
    "Option.bind (json_get J v ''vout'') (json_as_array J) = Some vouts"
    "length (filter (output_carries L J s) vouts) = 1"
    by (cases r2) (auto simp: yields close_hits_spec [OF assms(1,2)] split: option.splits)
  with r2 show ?thesis unfolding listed_once_def ok_io_yields by blast
qed

lemma live_flow_done:
  assumes "run_live_flow L T J net F nanos client w = (Ok (steps, client'), w')"
  shows "steps = 7 \<and> (\<exists>p2mr fund_vout s dest unsigned_hex in_txid in_vout modified signed_hex txid proof
        w1 w2 w3 w4 w5 w6 w7 w8 w9 w10.
      create_fund_p2mr J net client' ''51'' (am_fund F) ''rgbpq-live-seal'' w1 = (Ok p2mr, w2)
      \<and> find_p2mr_vout J net client' p2mr w3 = (Ok fund_vout, w4)
      \<and> funded_seal L client' p2mr fund_vout (tx_compute_tapleaf_hash L [0x51]) OpretFirst = Ok s
      \<and> create_p2mr_spend J net client' (po_p2mr_id p2mr) dest (am_send F) (am_fee F) w5
          = (Ok (unsigned_hex, in_txid, in_vout), w6)
      \<and> append_opret_commitment L T unsigned_hex s (replicate 32 0xa5) = Ok modified
      \<and> sign_p2mr_tx J net client' modified (po_p2mr_id p2mr) w6 = (Ok signed_hex, w7)
      \<and> tx_broadcast L J net client' signed_hex w7 = (Ok txid, w8)
      \<and> scan_close_tx_for_commitment L J net client' txid s w9 = (Ok True, w10)
      \<and> get_inclusion_proof J net client' txid w10 = (Ok proof, w') \<and> ip_proof_hex proof \<noteq> [])"
  using assms unfolding run_live_flow_def Let_def
  by (clarsimp simp: yields split: prod.splits) (intro exI conjI, assumption+)

subsection \<open>A node for which the flow succeeds\<close>

text \<open>A node that answers every call alike: a JSON value is the key it was found under. Every
  transaction it lists has one output, with the given script.\<close>

definition node_txid :: string where
  "node_txid = txid_to_string (replicate 32 0x11)"

definition node_json :: "bytes \<Rightarrow> bytes \<Rightarrow> (string, unit) json_api" where
  "node_json root script = \<lparr>json_from_str = Ok, json_to_string = (\<lambda>v. v),
     json_get = (\<lambda>v k. if k = ''error'' then None else Some k),
     json_is_null = (\<lambda>v. False),
     json_as_str = (\<lambda>v. Some (if v = ''txid'' \<or> v = ''result'' then node_txid
       else if v = ''hex'' \<or> v = ''scriptPubKey'' then hex_lower script
       else if v = ''merkle_root'' then hex_lower root else v)),
     json_as_u64 = (\<lambda>v. Some (if v = ''confirmations'' then 1 else 0)),
     json_as_i64 = (\<lambda>v. None), json_as_f64 = (\<lambda>v. None), json_btc_to_sats = (\<lambda>f. 0),
     json_string = (\<lambda>s. s), json_bool = (\<lambda>b. []), json_i64 = (\<lambda>i. []), json_u64 = (\<lambda>i. []),
     json_f64 = (\<lambda>f. []), json_as_bool = (\<lambda>v. Some True), json_as_array = (\<lambda>v. Some [v]),
     json_array = concat, json_object = (\<lambda>fs. concat (map snd fs))\<rparr>"

definition node_amounts :: "unit amounts" where
  "node_amounts = \<lparr>am_fee_rate = (), am_fund = (), am_send = (), am_fee = ()\<rparr>"

lemma node_call: "rpc_call (node_json root script) toy_network c m ps w = (Ok ''result'', w)"
  by (simp add: rpc_call_def toy_network_def parse_response_def node_json_def)

definition node_seal :: "btq_chain_id \<Rightarrow> bytes \<Rightarrow> commitment_locator \<Rightarrow> btq_p2mr_seal" where
  "node_seal chain root loc = seal_new chain (outpoint_new (replicate 32 0x11) 0) root
     (tx_compute_tapleaf_hash toy_crates [0x51]) Dilithium2 loc OneConf"

lemmas node_simps = node_call node_json_def get_str_def get_str_or_empty_def pick_field_def or_else_def
  output_script_hex_def spendable_seen_def

definition node_output :: "bytes \<Rightarrow> bytes \<Rightarrow> p2mr_output" where
  "node_output root script = \<lparr>po_p2mr_id = ''p2mr_id'', po_address = ''address'',
     po_script_pubkey_hex = hex_lower script, po_merkle_root_hex = hex_lower root,
     po_funding_txid = node_txid\<rparr>"

lemma node_parts:
  "open_wallet (node_json root script) toy_network F client prefix nanos w
    = (Ok (set_wallet client (Some (prefix @ fmt_nat (wallet_suffix nanos)))), w)"
  "new_address (node_json root script) toy_network client w = (Ok node_txid, w)"
  "generate_blocks (node_json root script) toy_network client n a w = (Ok [node_txid], w)"
  "create_fund_p2mr (node_json root script) toy_network client leaf amount label w
    = (Ok (node_output root script), w)"
  "create_p2mr_spend (node_json root script) toy_network client i a x y w
    = (Ok (hex_lower script, ''input_txid'', 0), w)"
  "sign_p2mr_tx (node_json root script) toy_network client h i w = (Ok (hex_lower script), w)"
  "tx_broadcast L (node_json root script) toy_network client h w = (Ok node_txid, w)"
  "confirmations_or (node_json root script) toy_network client h d w = (Ok 1, w)"
  "get_inclusion_proof (node_json root script) toy_network client h w
    = (Ok \<lparr>ip_txid = h, ip_block_hash = ''blockhash'', ip_proof_hex = node_txid\<rparr>, w)"
  by (simp_all add: open_wallet_def new_address_def generate_blocks_def create_fund_p2mr_def
      create_p2mr_spend_def sign_p2mr_tx_def tx_broadcast_def rpc_backend_def send_raw_tx_def
      confirmations_or_def get_inclusion_proof_def io_bind_def ok_io_def node_call
      io_return_def io_result_def Let_def set_wallet_def)
     (simp_all add: node_simps node_output_def List.map_filter_def)

lemma node_waits:
  "po_funding_txid p2mr = node_txid \<Longrightarrow>
    wait_for_p2mr_spendable (node_json root script) toy_network client p2mr miner w = (Ok (), w)"
  using node_call [of root script client "''listunspent''" "[]" w]
  by (simp add: wait_for_p2mr_spendable_def eval_nat_numeral io_bind_def ok_io_def io_return_def)
     (simp add: node_simps)

lemma node_finds:
  "po_script_pubkey_hex p2mr = hex_lower script \<Longrightarrow>
    find_p2mr_vout (node_json root script) toy_network client p2mr w = (Ok (Some 0), w)"
  by (simp add: find_p2mr_vout_def io_bind_def ok_io_def node_call io_return_def)
     (simp add: node_simps)

lemma node_seal_of_output:
  "length root = 32 \<Longrightarrow> po_merkle_root_hex out = hex_lower root \<Longrightarrow> po_funding_txid out = node_txid \<Longrightarrow>
    funded_seal toy_crates client out (Some 0) (tx_compute_tapleaf_hash toy_crates [0x51]) loc
      = Ok (node_seal (client_chain client) root loc)"
  using txid_roundtrip_aux [of "replicate 32 0x11"]
  by (simp add: funded_seal_def hex_decode_or_default_def hex_okD [OF toy_hex_ok] node_txid_def
      or_else_def node_seal_def)

lemma node_lists:
  assumes "carried_for toy_crates s script \<noteq> None"
  shows "scan_close_tx_for_commitment toy_crates (node_json root script) toy_network client txid s w
    = (Ok True, w)"
proof -
  have "output_script_hex (node_json root script) ''vout'' = hex_lower script"
    by (simp add: node_simps)
  with assms have carries: "output_carries toy_crates (node_json root script) s ''vout''"
    by (simp add: output_carries_def hex_okD [OF toy_hex_ok])
  have "Option.bind (json_get (node_json root script) ''result'' ''vout'')
      (json_as_array (node_json root script)) = Some [''vout'']"
    by (simp add: node_json_def)
  with carries show ?thesis
    by (simp add: scan_close_tx_for_commitment_def io_bind_def ok_io_def node_call io_return_def
        io_result_def Let_def close_hits_spec [OF toy_sha256_ok toy_hex_ok] del: close_hits.simps)
qed

lemma node_live_flow:
  assumes "length root = 32" and "script = pushdata1_script p"
    and "commitment_encode toy_crates (commitment_new s (replicate 32 0xa5)) = (Ok p :: bytes rgb_pq_result)"
    and "s = node_seal (client_chain client) root OpretFirst"
  shows "\<exists>client'. run_live_flow toy_crates toy_tx_codec (node_json root script) toy_network node_amounts
    nanos client w = (Ok (7, client'), w)"
proof -
  have wf: "wf_seal s"
    using toy_sha256_ok assms(1)
    by (simp add: assms(4) node_seal_def seal_new_def wf_seal_def wf_outpoint_def outpoint_new_def
        tx_compute_tapleaf_hash_def sha256_ok_def)
  have "carried_for toy_crates s script \<noteq> None"
    using carried_encoded [OF toy_sha256_ok commitment_new_wf [OF wf] assms(3)] assms(2)
    by (simp add: carried_for_def commitment_new_def)
  note lists = node_lists [OF this]
  have "script \<noteq> []" by (simp add: assms(2) pushdata1_script_def)
  then obtain hex where append: "append_opret_commitment toy_crates toy_tx_codec (hex_lower script) s
      (replicate 32 0xa5) = Ok hex"
    by (auto simp: append_opret_commitment_def decode_tx_hex_def hex_okD [OF toy_hex_ok] assms(3)
        toy_tx_codec_def)
  have chain: "client_chain (set_wallet client x) = client_chain client" for x
    by (simp add: client_chain_def set_wallet_def)
  have out: "po_script_pubkey_hex (node_output root script) = hex_lower script"
    "po_funding_txid (node_output root script) = node_txid"
    "po_merkle_root_hex (node_output root script) = hex_lower root"
    by (simp_all add: node_output_def)
  have "node_txid \<noteq> []" by (simp add: node_txid_def txid_to_string_hex hex_lower_def fmt_02x_def)
  then show ?thesis
    unfolding run_live_flow_def Let_def
    by (simp add: io_bind_def expect_io_def assert_io_def io_return_def io_result_def node_parts
        node_finds [OF out(1)] node_waits [OF out(2)] node_seal_of_output [OF assms(1) out(3,2)] chain
        lists append assms(4) [symmetric])
qed

subsection \<open>What a successful run shows\<close>



end
