(* ===== verification/Tests_Seal.thy ===== *)
theory Tests_Seal
  imports Rpc
begin

section \<open>The unit tests, vectors and property tests of the seal crate\<close>

text \<open>
  The test modules of \<open>seal.rs\<close> and \<open>types.rs\<close>, \<open>vectors.rs\<close> and \<open>property.rs\<close> in
  \<open>crates/rgb-pq-seal/src\<close>. A test is a predicate that holds when its assertions do. The property
  tests draw samples; here they hold of every value the generator can produce. What a test needs of
  a hash (that two different preimages differ in their digest) is a hypothesis on those preimages.
\<close>

subsection \<open>The property tests\<close>

text \<open>The tuple the strategy draws: its byte arrays have 32 bytes.\<close>

record seal_sample =
  sm_chain :: bool
  sm_txid :: bytes
  sm_vout :: u32
  sm_root :: bytes
  sm_leaf :: bytes
  sm_locator_kind :: bool
  sm_policy_kind :: bool
  sm_n :: u32

definition sample_ok :: "seal_sample \<Rightarrow> bool" where
  "sample_ok m \<longleftrightarrow> length (sm_txid m) = 32 \<and> length (sm_root m) = 32 \<and> length (sm_leaf m) = 32"

definition any_seal :: "seal_sample \<Rightarrow> btq_p2mr_seal" where
  "any_seal m = seal_new
     (if sm_chain m then BitcoinQuantumRegtest else BitcoinQuantumTestnet)
     (outpoint_new (sm_txid m) (sm_vout m)) (sm_root m) (sm_leaf m) Dilithium2
     (if sm_locator_kind m then OpretFirst else OpretVout (sm_n m))
     (if sm_policy_kind m then OneConf else Depth (sm_n m mod 100 + 1))"

definition binary_roundtrip :: "bool \<Rightarrow> btq_p2mr_seal \<Rightarrow> bool" where
  "binary_roundtrip d5 s \<longleftrightarrow> from_binary d5 (to_binary s) = Ok s"

definition text_roundtrip :: "crates \<Rightarrow> bool \<Rightarrow> btq_p2mr_seal \<Rightarrow> bool" where
  "text_roundtrip L d5 s \<longleftrightarrow> and_then (to_text L s) (from_text L d5) = Ok s"

definition binary_text_agree :: "crates \<Rightarrow> bool \<Rightarrow> btq_p2mr_seal \<Rightarrow> bool" where
  "binary_text_agree L d5 s \<longleftrightarrow>
     (case (from_binary d5 (to_binary s), and_then (to_text L s) (from_text L d5)) of
        (Ok from_bin, Ok from_text') \<Rightarrow> from_bin = from_text' | _ \<Rightarrow> False)"

definition malformed_binary_rejected :: "bool \<Rightarrow> bytes \<Rightarrow> bool" where
  "malformed_binary_rejected d5 b \<longleftrightarrow> \<not> panics (from_binary d5 b)"

definition malformed_text_rejected :: "crates \<Rightarrow> bool \<Rightarrow> string \<Rightarrow> bool" where
  "malformed_text_rejected L d5 s \<longleftrightarrow> \<not> panics (from_text L d5 s)"

text \<open>\<^verbatim>\<open>prop_assume!\<close> discards a sample whose change is none.\<close>

definition digests_differ :: "crates \<Rightarrow> btq_p2mr_seal \<Rightarrow> btq_p2mr_seal \<Rightarrow> bool" where
  "digests_differ L s t \<longleftrightarrow> canonical_digest L s \<noteq> (canonical_digest L t :: bytes rgb_pq_result)"

definition domain_separation_txid :: "crates \<Rightarrow> btq_p2mr_seal \<Rightarrow> bytes \<Rightarrow> bool" where
  "domain_separation_txid L s flip \<longleftrightarrow> flip = op_txid (outpoint s)
     \<or> digests_differ L s (s\<lparr>outpoint := (outpoint s)\<lparr>op_txid := flip\<rparr>\<rparr>)"

definition domain_separation_root :: "crates \<Rightarrow> btq_p2mr_seal \<Rightarrow> bytes \<Rightarrow> bool" where
  "domain_separation_root L s flip \<longleftrightarrow> flip = p2mr_root s \<or> digests_differ L s (s\<lparr>p2mr_root := flip\<rparr>)"

fun other_chain :: "btq_chain_id \<Rightarrow> btq_chain_id" where
  "other_chain BitcoinQuantumRegtest = BitcoinQuantumTestnet"
| "other_chain BitcoinQuantumTestnet = BitcoinQuantumRegtest"

definition domain_separation_chain :: "crates \<Rightarrow> btq_p2mr_seal \<Rightarrow> bool" where
  "domain_separation_chain L s \<longleftrightarrow> digests_differ L s (s\<lparr>chain_id := other_chain (chain_id s)\<rparr>)"

lemma any_seal_wf: "sample_ok m \<Longrightarrow> wf_seal (any_seal m) \<and> algo_enabled d5 (owner_algo (any_seal m))"
  by (simp add: sample_ok_def any_seal_def seal_new_def wf_seal_def wf_outpoint_def outpoint_new_def
      algo_enabled_def)

lemma other_chain_differs: "other_chain c \<noteq> c"
  by (cases c) simp_all

lemma digests_differ:
  assumes "sha256_ok L" and "wf_seal s" "wf_seal t" and "s \<noteq> t"
    and "collision_free L {digest_preimage s, digest_preimage t}"
  shows "digests_differ L s t"
  using assms digest_preimage_inject [of s t]
  by (auto simp: digests_differ_def canonical_digest_sha dest: collision_freeD)

text \<open>The seals a property test compares with a sample.\<close>

definition variants :: "btq_p2mr_seal \<Rightarrow> bytes \<Rightarrow> btq_p2mr_seal set" where
  "variants s flip = {s\<lparr>outpoint := (outpoint s)\<lparr>op_txid := flip\<rparr>\<rparr>, s\<lparr>p2mr_root := flip\<rparr>,
     s\<lparr>chain_id := other_chain (chain_id s)\<rparr>}"

lemma roundtrips_hold:
  assumes "bech32_ok L SEAL_HRP" and "wf_seal s" and "algo_enabled d5 (owner_algo s)"
  shows "binary_roundtrip d5 s" "text_roundtrip L d5 s" "binary_text_agree L d5 s"
proof -
  have bin: "from_binary d5 (to_binary s) = Ok s"
    using from_binary_encode [OF assms(2,3), of "[]"] by simp
  have encoded: "and_then (to_text L s) (from_text L d5) = Ok s"
    using text_roundtrip_aux [OF assms] by auto
  show "binary_roundtrip d5 s" "text_roundtrip L d5 s" "binary_text_agree L d5 s"
    by (simp_all add: binary_roundtrip_def text_roundtrip_def binary_text_agree_def bin encoded)
qed

lemma separations_hold:
  assumes L: "sha256_ok L" and wf: "wf_seal s" and flip: "length flip = 32"
    and cf: "\<forall>t \<in> variants s flip. collision_free L {digest_preimage s, digest_preimage t}"
  shows "domain_separation_txid L s flip" "domain_separation_root L s flip"
    "domain_separation_chain L s"
proof -
  have wfs: "wf_seal t" if "t \<in> variants s flip" for t
    using that wf flip by (auto simp: variants_def wf_seal_def wf_outpoint_def)
  have differ: "digests_differ L s t" if "t \<in> variants s flip" "s \<noteq> t" for t
    using digests_differ [OF L wf wfs [OF that(1)] that(2)] cf that(1) by blast
  show "domain_separation_txid L s flip"
    using differ [of "s\<lparr>outpoint := (outpoint s)\<lparr>op_txid := flip\<rparr>\<rparr>"]
    by (fastforce simp: domain_separation_txid_def variants_def dest: arg_cong [where f = "op_txid \<circ> outpoint"])
  show "domain_separation_root L s flip"
    using differ [of "s\<lparr>p2mr_root := flip\<rparr>"]
    by (fastforce simp: domain_separation_root_def variants_def dest: arg_cong [where f = p2mr_root])
  show "domain_separation_chain L s"
    using differ [of "s\<lparr>chain_id := other_chain (chain_id s)\<rparr>"] other_chain_differs [of "chain_id s"]
    by (fastforce simp: domain_separation_chain_def variants_def dest: arg_cong [where f = chain_id])
qed

subsection \<open>The vectors\<close>

definition vector_seal :: "crates \<Rightarrow> btq_p2mr_seal rgb_pq_result" where
  "vector_seal L =
     (let arr = (\<lambda>hex. case hex_decode L hex of Ok b \<Rightarrow> copy_arr 32 b | _ \<Rightarrow> Panic) in
      and_then (arr ''0102030405060708090a0b0c0d0e0f101112131415161718191a1b1c1d1e1f20'') (\<lambda>txid.
      and_then (arr ''2122232425262728292a2b2c2d2e2f303132333435363738393a3b3c3d3e3f40'') (\<lambda>root.
      and_then (arr ''4142434445464748494a4b4c4d4e4f505152535455565758595a5b5c5d5e5f60'') (\<lambda>leaf.
      Ok \<lparr>version = V0, chain_id = BitcoinQuantumRegtest,
        outpoint = outpoint_new (txid_from_bytes txid) 0, p2mr_root = root, script_leaf_hash = leaf,
        owner_algo = Dilithium2, commitment_locator = OpretFirst, confirmation_policy = OneConf\<rparr>))))"

definition binary_vector_matches :: "crates \<Rightarrow> bool \<Rightarrow> bool" where
  "binary_vector_matches L d5 \<longleftrightarrow> (case vector_seal L of
     Ok s \<Rightarrow> (let hex = hex_encode L (to_binary s) in
       str_starts_with hex ''52474250515345414c00'' \<and> str_contains hex ''72676270713a7630''
       \<and> from_binary d5 (to_binary s) = Ok s)
   | _ \<Rightarrow> False)"

definition text_vector_roundtrips :: "crates \<Rightarrow> bool \<Rightarrow> bool" where
  "text_vector_roundtrips L d5 \<longleftrightarrow> (case vector_seal L of
     Ok s \<Rightarrow> (case to_text L s :: string rgb_pq_result of
         Ok t \<Rightarrow> str_starts_with t ''rgbpqseal1'' \<and> from_text L d5 t = Ok s | _ \<Rightarrow> False)
   | _ \<Rightarrow> False)"

lemma contains_middle: "needle \<noteq> [] \<Longrightarrow> str_contains (xs @ needle @ ys) needle"
  by (induction xs) (auto simp: str_starts_with_def neq_Nil_conv)

lemma hex_ok_array:
  "hex_ok L \<Longrightarrow> s = hex_lower b \<Longrightarrow> length b = 32 \<Longrightarrow>
    (case hex_decode L s of Ok b \<Rightarrow> copy_arr 32 b | _ \<Rightarrow> Panic) = (Ok b :: bytes rgb_pq_result)"
  by (simp add: hex_okD)

definition vector_value :: btq_p2mr_seal where
  "vector_value = \<lparr>version = V0, chain_id = BitcoinQuantumRegtest,
     outpoint = outpoint_new (map of_nat [1..<33]) 0, p2mr_root = map of_nat [33..<65],
     script_leaf_hash = map of_nat [65..<97], owner_algo = Dilithium2,
     commitment_locator = OpretFirst, confirmation_policy = OneConf\<rparr>"

lemma vector_hexes:
  "''0102030405060708090a0b0c0d0e0f101112131415161718191a1b1c1d1e1f20'' = hex_lower (map of_nat [1..<33])"
  "''2122232425262728292a2b2c2d2e2f303132333435363738393a3b3c3d3e3f40'' = hex_lower (map of_nat [33..<65])"
  "''4142434445464748494a4b4c4d4e4f505152535455565758595a5b5c5d5e5f60'' = hex_lower (map of_nat [65..<97])"
  by (code_simp, code_simp, code_simp)

lemma vector_seal_value: "hex_ok L \<Longrightarrow> vector_seal L = Ok vector_value"
  by (simp add: vector_seal_def Let_def hex_ok_array [OF _ vector_hexes(1)]
      hex_ok_array [OF _ vector_hexes(2)] hex_ok_array [OF _ vector_hexes(3)] vector_value_def
      txid_from_bytes_def)

lemma vector_wf: "wf_seal vector_value" "algo_enabled d5 (owner_algo vector_value)"
  by (simp_all add: vector_value_def wf_seal_def wf_outpoint_def outpoint_new_def algo_enabled_def)

lemma hex_lower_append: "hex_lower (a @ b) = hex_lower a @ hex_lower b"
  by (simp add: hex_lower_def)

lemma vector_tests_pass:
  assumes "hex_ok L" and "bech32_ok L SEAL_HRP"
    and "\<forall>d t. bech32m_encode L SEAL_HRP d = Some t \<longrightarrow> str_starts_with t (SEAL_HRP @ ''1'')"
  shows "binary_vector_matches L d5" "text_vector_roundtrips L d5"
proof -
  have hex: "hex_lower (BIN_MAGIC @ [0]) = ''52474250515345414c00''" "hex_lower DOMAIN_TAG = ''72676270713a7630''"
    by (code_simp, code_simp)
  have bytes: "to_binary vector_value
      = (BIN_MAGIC @ [0]) @ DOMAIN_TAG @ DOMAIN_SEPARATION_VERSION # body_bytes vector_value"
    by (simp add: to_binary_def) (simp add: vector_value_def)
  have "hex_lower (to_binary vector_value)
      = ''52474250515345414c00'' @ ''72676270713a7630'' @ hex_lower (DOMAIN_SEPARATION_VERSION # body_bytes vector_value)"
    by (simp only: bytes hex hex_lower_append [of "BIN_MAGIC @ [0]"] hex_lower_append [of DOMAIN_TAG])
  moreover from this have "str_contains (hex_lower (to_binary vector_value)) ''72676270713a7630''"
    using contains_middle [of "''72676270713a7630''"] by (simp only: list.distinct not_False_eq_True)
  moreover have "from_binary d5 (to_binary vector_value) = Ok vector_value"
    using roundtrips_hold(1) [OF assms(2) vector_wf] by (simp add: binary_roundtrip_def)
  ultimately show "binary_vector_matches L d5"
    by (simp add: binary_vector_matches_def vector_seal_value [OF assms(1)] hex_okD(1) [OF assms(1)]
        str_starts_with_def)
  obtain t where "to_text L vector_value = (Ok t :: string rgb_pq_result)"
    "bech32m_encode L SEAL_HRP (body_bytes vector_value) = Some t" "from_text L d5 t = Ok vector_value"
    using text_roundtrip_aux [OF assms(2) vector_wf] by blast
  moreover from this(2) assms(3) have "str_starts_with t (SEAL_HRP @ ''1'')" by blast
  ultimately show "text_vector_roundtrips L d5"
    by (simp add: text_vector_roundtrips_def vector_seal_value [OF assms(1)] SEAL_HRP_def)
qed

subsection \<open>Rejections (\<open>seal.rs\<close>)\<close>

definition unit_seal :: btq_p2mr_seal where
  "unit_seal = seal_new BitcoinQuantumRegtest (outpoint_new (txid_from_bytes (replicate 32 0x11)) 0)
     (replicate 32 0x22) (replicate 32 0x33) Dilithium2 OpretFirst OneConf"

definition binary_rejects_bad_magic :: "bool \<Rightarrow> bool" where
  "binary_rejects_bad_magic d5 \<longleftrightarrow> (let enc = to_binary unit_seal
     in case from_binary d5 (enc[0 := (enc ! 0) XOR 0xff]) of Err e \<Rightarrow> True | _ \<Rightarrow> False)"

definition binary_rejects_bad_domain_tag :: "bool \<Rightarrow> bool" where
  "binary_rejects_bad_domain_tag d5 \<longleftrightarrow> (let enc = to_binary unit_seal; tag_off = length BIN_MAGIC + 1
     in case from_binary d5 (enc[tag_off := (enc ! tag_off) XOR 0xff]) of Err e \<Rightarrow> True | _ \<Rightarrow> False)"

definition binary_rejects_truncated :: "bool \<Rightarrow> bool" where
  "binary_rejects_truncated d5 \<longleftrightarrow> (let enc = to_binary unit_seal
     in case from_binary d5 (take (length enc - 1) enc) of Err e \<Rightarrow> True | _ \<Rightarrow> False)"

lemma neither_is_Err:
  "\<not> panics m \<Longrightarrow> (\<And>x. m \<noteq> Ok x) \<Longrightarrow> case m of Err e \<Rightarrow> True | _ \<Rightarrow> False"
  by (cases m) auto

lemma rejected:
  assumes "\<And>s junk. wf_seal s \<Longrightarrow> b \<noteq> to_binary s @ junk"
  shows "case from_binary d5 b of Err e \<Rightarrow> True | _ \<Rightarrow> False"
  using from_binary_sound [of d5 b] from_binary_no_panic [of d5 b] assms
  by (intro neither_is_Err) auto

lemma nth_to_binary: "to_binary s ! 0 = 0x52" "to_binary s ! 10 = 0x72" "19 \<le> length (to_binary s)"
proof -
  have "hd BIN_MAGIC = 0x52" "hd DOMAIN_TAG = 0x72" by (code_simp, code_simp)
  moreover have "BIN_MAGIC \<noteq> []" "DOMAIN_TAG \<noteq> []" using wire_len by force+
  ultimately show "to_binary s ! 0 = 0x52" "to_binary s ! 10 = 0x72" "19 \<le> length (to_binary s)"
    by (simp_all add: to_binary_def nth_append wire_len hd_conv_nth)
qed

lemma rejection_tests_pass:
  "binary_rejects_bad_magic d5" "binary_rejects_bad_domain_tag d5" "binary_rejects_truncated d5"
proof -
  let ?enc = "to_binary unit_seal"
  have flip: "(0x52 :: u8) XOR 0xff \<noteq> 0x52" "(0x72 :: u8) XOR 0xff \<noteq> 0x72" by simp_all
  have lens: "0 < length (to_binary s)" "10 < length (to_binary s)" for s
    using nth_to_binary(3) [of s] by linarith+
  note len = lens [of unit_seal]
  have other: "?enc[i := x] \<noteq> to_binary s @ junk"
    if "i < length ?enc" "i < length (to_binary s)" "to_binary s ! i \<noteq> x" for s junk i x
    using that by (metis length_list_update nth_append nth_list_update_eq)
  have "?enc[0 := 0x52 XOR 0xff] \<noteq> to_binary s @ junk" for s junk
    by (rule other [OF lens(1) lens(1)]) (use flip(1) nth_to_binary(1) [of s] in simp)
  then show "binary_rejects_bad_magic d5"
    unfolding binary_rejects_bad_magic_def Let_def nth_to_binary(1) by (intro rejected)
  have "?enc[10 := 0x72 XOR 0xff] \<noteq> to_binary s @ junk" for s junk
    by (rule other [OF lens(2) lens(2)]) (use flip(2) nth_to_binary(2) [of s] in simp)
  moreover have "length BIN_MAGIC + 1 = 10" by (simp add: wire_len)
  ultimately show "binary_rejects_bad_domain_tag d5"
    unfolding binary_rejects_bad_domain_tag_def Let_def by (simp only: nth_to_binary(2), intro rejected)
  have "take (length ?enc - 1) ?enc \<noteq> to_binary s @ junk" if "wf_seal s" for s junk
  proof
    assume eq: "take (length ?enc - 1) ?enc = to_binary s @ junk"
    have unit: "wf_seal unit_seal"
      by (simp add: unit_seal_def seal_new_def wf_seal_def wf_outpoint_def outpoint_new_def txid_from_bytes_def)
    from eq have "?enc = to_binary s @ (junk @ drop (length ?enc - 1) ?enc)"
      by (metis append_assoc append_take_drop_id)
    with from_binary_encode [OF that, of True "junk @ drop (length ?enc - 1) ?enc"]
      from_binary_encode [OF unit, of True "[]"]
    have "s = unit_seal" by (simp add: algo_enabled_def)
    with eq len(1) have "length ?enc - 1 = length ?enc + length junk"
      by (metis add.commute length_append length_take min.absorb2 diff_le_self)
    with len(1) show False by linarith
  qed
  then show "binary_rejects_truncated d5"
    unfolding binary_rejects_truncated_def Let_def by (rule rejected)
qed

subsection \<open>Round trips of the sample (\<open>seal.rs\<close>)\<close>

definition binary_roundtrip_is_stable :: "bool \<Rightarrow> bool" where
  "binary_roundtrip_is_stable d5 \<longleftrightarrow>
     (let s = unit_seal; enc = to_binary s in from_binary d5 enc = Ok s)"

definition text_roundtrip_is_stable :: "crates \<Rightarrow> bool \<Rightarrow> bool" where
  "text_roundtrip_is_stable L d5 \<longleftrightarrow> (let s = unit_seal
     in case to_text L s :: string rgb_pq_result of
          Ok txt \<Rightarrow> str_starts_with txt ''rgbpqseal1'' \<and> from_text L d5 txt = Ok s
        | _ \<Rightarrow> False)"

text \<open>The text of the sample, its prefix replaced.\<close>

definition text_rejects_wrong_hrp :: "crates \<Rightarrow> bool \<Rightarrow> bool" where
  "text_rejects_wrong_hrp L d5 \<longleftrightarrow>
     (case and_then (to_text L unit_seal) (\<lambda>txt. str_slice txt (length SEAL_HRP + 1) (length txt))
        :: string rgb_pq_result of
        Ok rest \<Rightarrow> (case from_text L d5 (''btqwrong1'' @ rest) of Err e \<Rightarrow> True | _ \<Rightarrow> False)
      | _ \<Rightarrow> False)"

text \<open>The shape of a bech32 text: ASCII, the prefix, the separator. The reading side lower-cases a
text whose letters are all upper case.\<close>

definition ascii_lowercase :: "string \<Rightarrow> string" where
  "ascii_lowercase = map (\<lambda>c. let n = of_char c :: nat
     in if 65 \<le> n \<and> n \<le> 90 then char_of (n + 32) else c)"

definition bech32_shape :: "crates \<Rightarrow> bool" where
  "bech32_shape L \<longleftrightarrow>
     (\<forall>d t. bech32m_encode L SEAL_HRP d = Some t \<longrightarrow> ascii t \<and> str_starts_with t (SEAL_HRP @ ''1''))
   \<and> (\<forall>hrp d t. bech32_decode L t = Ok (hrp, d) \<longrightarrow> str_starts_with (ascii_lowercase t) (hrp @ ''1''))"

lemma from_text_prefix: "from_text L d5 t = Ok s \<Longrightarrow> \<exists>d. bech32_decode L t = Ok (SEAL_HRP, d)"
  by (cases "bech32_decode L t") (auto simp: from_text_def split: if_splits prod.splits)

lemma roundtrip_tests_pass:
  assumes "bech32_ok L SEAL_HRP" and "bech32_shape L"
  shows "binary_roundtrip_is_stable d5" "text_roundtrip_is_stable L d5"
    "text_rejects_wrong_hrp L d5"
proof -
  have wf: "wf_seal unit_seal" "algo_enabled d5 (owner_algo unit_seal)"
    by (simp_all add: unit_seal_def seal_new_def wf_seal_def wf_outpoint_def outpoint_new_def
        txid_from_bytes_def algo_enabled_def)
  show "binary_roundtrip_is_stable d5"
    using roundtrips_hold(1) [OF assms(1) wf] by (simp add: binary_roundtrip_is_stable_def binary_roundtrip_def)
  obtain t where t: "to_text L unit_seal = (Ok t :: string rgb_pq_result)"
      "from_text L d5 t = Ok unit_seal" "ascii t" "str_starts_with t (SEAL_HRP @ ''1'')"
    using text_roundtrip_aux [OF assms(1) wf] assms(2) unfolding bech32_shape_def by blast
  show "text_roundtrip_is_stable L d5"
    using t by (simp add: text_roundtrip_is_stable_def SEAL_HRP_def)
  have "length SEAL_HRP + 1 \<le> length t"
    using t(4) by (auto simp: str_starts_with_def dest: arg_cong [of _ _ length])
  then have slice: "str_slice t (length SEAL_HRP + 1) (length t)
      = (Ok (drop (length SEAL_HRP + 1) t) :: string rgb_pq_result)"
    using ascii_boundary [OF t(3)] by (simp add: str_slice_def)
  have "\<not> panics (from_text L d5 x)" for x using from_text_no_panic [OF assms(1)] .
  moreover have "bech32_decode L (''btqwrong1'' @ x) \<noteq> Ok (SEAL_HRP, d)" for x d
  proof
    assume "bech32_decode L (''btqwrong1'' @ x) = Ok (SEAL_HRP, d)"
    then have "str_starts_with (ascii_lowercase (''btqwrong1'' @ x)) (SEAL_HRP @ ''1'')"
      using assms(2) unfolding bech32_shape_def by blast
    then have "hd (ascii_lowercase (''btqwrong1'' @ x)) = hd SEAL_HRP"
      by (simp add: str_starts_with_def SEAL_HRP_def ascii_lowercase_def)
    then show False by (simp add: ascii_lowercase_def SEAL_HRP_def)
  qed
  then have "from_text L d5 (''btqwrong1'' @ x) \<noteq> Ok s" for x s
    using from_text_prefix by metis
  ultimately have "case from_text L d5 (''btqwrong1'' @ x) of Err e \<Rightarrow> True | _ \<Rightarrow> False" for x
    by (intro neither_is_Err)
  then show "text_rejects_wrong_hrp L d5"
    unfolding text_rejects_wrong_hrp_def t(1) by (simp only: and_then.simps slice result.case)
qed

subsection \<open>Every field reaches the digest (\<open>seal.rs\<close>)\<close>

definition digest_changes :: "crates \<Rightarrow> (btq_p2mr_seal \<Rightarrow> btq_p2mr_seal) \<Rightarrow> bool" where
  "digest_changes L mutate \<longleftrightarrow> (let base = unit_seal; other = mutate base
     in canonical_digest L base \<noteq> (canonical_digest L other :: bytes rgb_pq_result))"

text \<open>The mutations of the eight tests, in their order.\<close>

definition mutations :: "(btq_p2mr_seal \<Rightarrow> btq_p2mr_seal) list" where
  "mutations =
     [\<lambda>s. s\<lparr>outpoint := (outpoint s)\<lparr>op_txid := txid_from_bytes (replicate 32 0x99)\<rparr>\<rparr>,
      \<lambda>s. s\<lparr>outpoint := (outpoint s)\<lparr>op_vout := 1\<rparr>\<rparr>,
      \<lambda>s. s\<lparr>p2mr_root := replicate 32 0x44\<rparr>,
      \<lambda>s. s\<lparr>script_leaf_hash := replicate 32 0x55\<rparr>,
      \<lambda>s. s\<lparr>owner_algo := Dilithium5\<rparr>,
      \<lambda>s. s\<lparr>chain_id := BitcoinQuantumTestnet\<rparr>,
      \<lambda>s. s\<lparr>commitment_locator := OpretVout 2\<rparr>,
      \<lambda>s. s\<lparr>confirmation_policy := Depth 6\<rparr>]"

lemma digest_tests_pass:
  assumes "sha256_ok L" and "mutate \<in> set mutations"
    and "collision_free L {digest_preimage unit_seal, digest_preimage (mutate unit_seal)}"
  shows "digest_changes L mutate"
proof -
  have "wf_seal unit_seal"
    by (simp add: unit_seal_def seal_new_def wf_seal_def wf_outpoint_def outpoint_new_def txid_from_bytes_def)
  moreover have "wf_seal (mutate unit_seal)" "unit_seal \<noteq> mutate unit_seal"
    using assms(2)
    by (auto simp: mutations_def unit_seal_def seal_new_def wf_seal_def wf_outpoint_def
        outpoint_new_def txid_from_bytes_def)
  ultimately show ?thesis
    using digests_differ [OF assms(1) _ _ _ assms(3)] by (simp add: digest_changes_def digests_differ_def)
qed

subsection \<open>Components (\<open>types.rs\<close>)\<close>

definition is_err :: "('a, 'e) result \<Rightarrow> bool" where
  "is_err r \<longleftrightarrow> (case r of Err _ \<Rightarrow> True | _ \<Rightarrow> False)"

definition chain_id_rejects_mainnet :: bool where
  "chain_id_rejects_mainnet \<longleftrightarrow>
     is_err (from_domain_str ''bitcoin-mainnet'') \<and> is_err (from_domain_str ''mainnet'')"

definition chain_id_rejects_non_btq_bitcoin :: bool where
  "chain_id_rejects_non_btq_bitcoin \<longleftrightarrow> list_all (\<lambda>s. is_err (from_domain_str s))
     [''regtest'', ''testnet3'', ''testnet4'', ''signet'', ''bitcoin-testnet'']"

definition chain_id_accepts_btq :: bool where
  "chain_id_accepts_btq \<longleftrightarrow>
     from_domain_str ''bitcoin-quantum-regtest'' = Ok BitcoinQuantumRegtest
     \<and> from_domain_str ''bitcoin-quantum-testnet'' = Ok BitcoinQuantumTestnet"

definition p2mr_hrp_matches_btq_core :: bool where
  "p2mr_hrp_matches_btq_core \<longleftrightarrow>
     p2mr_hrp BitcoinQuantumRegtest = ''qcrt'' \<and> p2mr_hrp BitcoinQuantumTestnet = ''tbtq''"

definition pq_algo_sizes_match_btq_core :: bool where
  "pq_algo_sizes_match_btq_core \<longleftrightarrow> pk_len Dilithium2 = 1312 \<and> sig_len Dilithium2 = 2420
     \<and> pk_len Dilithium5 = 2592 \<and> sig_len Dilithium5 = 4627"

definition dilithium5_requires_feature_gate :: bool where
  "dilithium5_requires_feature_gate \<longleftrightarrow> (case algo_from_byte False 0x02 of
     Err (RgbPq_Seal (SE_OwnerAlgo (OA_FeatureGated _))) \<Rightarrow> True | _ \<Rightarrow> False)"

definition pq_algo_rejects_unknown :: "bool \<Rightarrow> bool" where
  "pq_algo_rejects_unknown d5 \<longleftrightarrow> is_err (algo_from_byte d5 0x00) \<and> is_err (algo_from_byte d5 0xff)"

definition commitment_locator_roundtrip :: bool where
  "commitment_locator_roundtrip \<longleftrightarrow> list_all (\<lambda>loc. case locator_decode (locator_encode loc) of
       Ok (dec, n) \<Rightarrow> dec = loc \<and> n = length (locator_encode loc) | _ \<Rightarrow> False)
     [OpretFirst, OpretVout 0, OpretVout 7, OpretVout (- 1), P2mrRetLeaf]"

definition p2mr_ret_locator_is_p2mr_ret :: bool where
  "p2mr_ret_locator_is_p2mr_ret \<longleftrightarrow> is_p2mr_ret P2mrRetLeaf \<and> \<not> is_p2mr_ret OpretFirst
     \<and> resolve_vout P2mrRetLeaf [] = None"

definition confirmation_policy_roundtrip :: bool where
  "confirmation_policy_roundtrip \<longleftrightarrow> list_all (\<lambda>p. case policy_decode (policy_encode p) of
       Ok (dec, n) \<Rightarrow> dec = p \<and> n = length (policy_encode p) | _ \<Rightarrow> False)
     [OneConf, Depth 1, Depth 6, Depth (- 1)]"

definition seal_version_rejects_unknown :: bool where
  "seal_version_rejects_unknown \<longleftrightarrow>
     is_err (version_from_byte 0x01) \<and> version_from_byte 0x00 = Ok V0"

definition txid_display_roundtrip :: bool where
  "txid_display_roundtrip \<longleftrightarrow> (let t = replicate 32 0xaa; s = txid_to_string t
     in s = concat (replicate 32 ''aa'') \<and> txid_from_str s = Ok t)"

lemma type_tests_pass:
  "chain_id_rejects_mainnet" "chain_id_rejects_non_btq_bitcoin" "chain_id_accepts_btq"
  "p2mr_hrp_matches_btq_core" "pq_algo_sizes_match_btq_core" "dilithium5_requires_feature_gate"
  "pq_algo_rejects_unknown d5" "commitment_locator_roundtrip" "p2mr_ret_locator_is_p2mr_ret"
  "confirmation_policy_roundtrip" "seal_version_rejects_unknown" "txid_display_roundtrip"
proof -
  show "chain_id_rejects_mainnet" "chain_id_rejects_non_btq_bitcoin" "chain_id_accepts_btq"
    "p2mr_hrp_matches_btq_core" "pq_algo_sizes_match_btq_core" "dilithium5_requires_feature_gate"
    "pq_algo_rejects_unknown d5" "p2mr_ret_locator_is_p2mr_ret" "seal_version_rejects_unknown"
    by (simp_all add: chain_id_rejects_mainnet_def chain_id_rejects_non_btq_bitcoin_def
        chain_id_accepts_btq_def p2mr_hrp_matches_btq_core_def pq_algo_sizes_match_btq_core_def
        dilithium5_requires_feature_gate_def pq_algo_rejects_unknown_def p2mr_ret_locator_is_p2mr_ret_def
        seal_version_rejects_unknown_def from_domain_str_def algo_from_byte_def version_from_byte_def
        rgb_pq_of_owner_algo_def is_err_def)
  show "commitment_locator_roundtrip" "confirmation_policy_roundtrip"
    by (simp_all add: commitment_locator_roundtrip_def confirmation_policy_roundtrip_def
        locator.decode_encode_exact policy.decode_encode_exact del: locator_encode.simps policy_encode.simps)
  have "fmt_02x 0xaa = ''aa''" by code_simp
  then have "txid_to_string (replicate 32 0xaa) = concat (replicate 32 ''aa'')"
    by (simp add: txid_to_string_hex hex_lower_def)
  then show "txid_display_roundtrip"
    using txid_roundtrip_aux [of "replicate 32 0xaa"]
    by (simp add: txid_display_roundtrip_def)
qed

subsection \<open>The property suite holds\<close>

text \<open>Every property of \<open>property.rs\<close> holds of every sample its strategies can draw: generated
  seals round-trip through binary and text and the two agree, no input makes a decoder panic, and
  changing the txid, the root or the chain of a generated seal changes its digest, unless the hash
  collides on the two preimages.\<close>

theorem property_suite_holds:
  assumes "sha256_ok L" and "bech32_ok L SEAL_HRP" and "sample_ok m" and "length flip = 32"
    and "\<forall>t \<in> variants (any_seal m) flip.
      collision_free L {digest_preimage (any_seal m), digest_preimage t}"
  shows "binary_roundtrip d5 (any_seal m) \<and> text_roundtrip L d5 (any_seal m)
    \<and> binary_text_agree L d5 (any_seal m) \<and> malformed_binary_rejected d5 b
    \<and> malformed_text_rejected L d5 s \<and> domain_separation_txid L (any_seal m) flip
    \<and> domain_separation_root L (any_seal m) flip \<and> domain_separation_chain L (any_seal m)"
  using any_seal_wf [OF assms(3)] roundtrips_hold [OF assms(2)] separations_hold [OF assms(1) _ assms(4,5)]
    from_binary_no_panic from_text_no_panic [OF assms(2)]
  by (simp add: malformed_binary_rejected_def malformed_text_rejected_def)

definition sample_sample :: seal_sample where
  "sample_sample = \<lparr>sm_chain = True, sm_txid = replicate 32 0x11, sm_vout = 3,
     sm_root = replicate 32 0x22, sm_leaf = replicate 32 0x33, sm_locator_kind = False,
     sm_policy_kind = False, sm_n = 7\<rparr>"

lemma sample_sample_ok: "sample_ok sample_sample"
  by (simp add: sample_ok_def sample_sample_def)

lemma sample_variants_differ:
  "distinct (map (\<lambda>s. sha256 checksum_crates (digest_preimage s))
     [any_seal sample_sample,
      (any_seal sample_sample)\<lparr>outpoint := (outpoint (any_seal sample_sample))\<lparr>op_txid := replicate 32 0x44\<rparr>\<rparr>,
      (any_seal sample_sample)\<lparr>p2mr_root := replicate 32 0x44\<rparr>,
      (any_seal sample_sample)\<lparr>chain_id := other_chain (chain_id (any_seal sample_sample))\<rparr>])"
  by code_simp

theorem property_suite_holds_witness:
  "text_roundtrip checksum_crates False (any_seal sample_sample)
    \<and> domain_separation_chain checksum_crates (any_seal sample_sample)"
proof -
  let ?s = "any_seal sample_sample" and ?flip = "replicate 32 (0x44 :: u8)"
  have "collision_free checksum_crates {digest_preimage ?s, digest_preimage t}"
    if "t \<in> variants ?s ?flip" for t
    by (rule collision_free_list [of _ "map digest_preimage
          [?s, ?s\<lparr>outpoint := (outpoint ?s)\<lparr>op_txid := ?flip\<rparr>\<rparr>, ?s\<lparr>p2mr_root := ?flip\<rparr>,
           ?s\<lparr>chain_id := other_chain (chain_id ?s)\<rparr>]"])
       (use sample_variants_differ that in \<open>auto simp: variants_def comp_def\<close>)
  then show ?thesis
    using property_suite_holds [OF checksum_ok checksum_bech32_ok [folded SEAL_HRP_def]
        sample_sample_ok, of ?flip] by simp
qed

end
