(* ===== verification/Tests_Resolver.thy ===== *)
theory Tests_Resolver
  imports Lifecycle Tx
begin

section \<open>The resolver's unit tests\<close>

text \<open>
  The test module of \<open>crates/rgb-pq-resolver/src/resolver.rs\<close>: its fake backend and each test as a
  predicate that holds when the test's assertions do. That they hold of the model, for every hash
  function, is a check of the model against what the authors expect of the code.
\<close>

subsection \<open>The fake backend\<close>

definition test_seal :: btq_p2mr_seal where
  "test_seal = seal_new BitcoinQuantumRegtest (outpoint_new (replicate 32 0x11) 0)
     (replicate 32 0x22) (replicate 32 0x33) Dilithium2 OpretFirst OneConf"

record fake_backend =
  fb_chain :: btq_chain_id
  fb_out :: "btq_tx_out option"
  fb_spend :: "btq_tx option"

definition fake_backend_ops :: "fake_backend \<Rightarrow> unit btq_chain_backend" where
  "fake_backend_ops b = \<lparr>be_network_id = fb_chain b,
     be_current_tip = io_return \<lparr>tip_height = 200, tip_hash = ''deadbeef''\<rparr>,
     be_get_tx = (\<lambda>txid. io_return (fb_spend b)),
     be_get_tx_status = (\<lambda>txid. io_return (Confirmed 100 ''ab'' 6 0)),
     be_get_output = (\<lambda>o'. io_return (fb_out b)),
     be_get_spending_tx = (\<lambda>o'. io_return (fb_spend b)),
     be_prove_tx_inclusion = (\<lambda>txid. io_return
       \<lparr>ip_txid = ''01'', ip_block_hash = ''ab'', ip_proof_hex = ''00''\<rparr>),
     be_confirmation_depth = (\<lambda>txid. io_return (Some 6)),
     be_broadcast_tx = default_broadcast_tx\<rparr>"

definition test_p2mr_output :: "btq_p2mr_seal \<Rightarrow> bool \<Rightarrow> btq_tx_out" where
  "test_p2mr_output s spent = \<lparr>to_outpoint = outpoint s, to_value = 1000,
     to_script_pubkey = [0x52, 0x20] @ p2mr_root s, to_spent = spent\<rparr>"

text \<open>\<^verbatim>\<open>SealResolver::new(&b).resolve(&seal)\<close>, and \<^verbatim>\<open>matches!(r, SealState::Unknown { .. })\<close>.\<close>

definition resolve_on :: "crates \<Rightarrow> fake_backend \<Rightarrow> btq_p2mr_seal \<Rightarrow> seal_state rgb_pq_result" where
  "resolve_on L b s = fst (resolve L (resolver_new (fake_backend_ops b)) s ())"

definition is_unknown :: "seal_state rgb_pq_result \<Rightarrow> bool" where
  "is_unknown r \<longleftrightarrow> (case r of Ok (UnknownState _) \<Rightarrow> True | _ \<Rightarrow> False)"

subsection \<open>Resolution\<close>

definition resolver_open_unspent :: "crates \<Rightarrow> bool" where
  "resolver_open_unspent L \<longleftrightarrow> resolve_on L \<lparr>fb_chain = BitcoinQuantumRegtest,
     fb_out = Some (test_p2mr_output test_seal False), fb_spend = None\<rparr> test_seal = Ok OpenUnspent"

definition resolver_rejects_wrong_p2mr_root :: "crates \<Rightarrow> bool" where
  "resolver_rejects_wrong_p2mr_root L \<longleftrightarrow>
     (let o' = test_p2mr_output test_seal False;
          spk = to_script_pubkey o';
          o' = o'\<lparr>to_script_pubkey := spk[2 := (spk ! 2) XOR 0xff]\<rparr>
      in is_unknown (resolve_on L \<lparr>fb_chain = BitcoinQuantumRegtest, fb_out = Some o',
           fb_spend = None\<rparr> test_seal))"

definition resolver_rejects_non_p2mr_output :: "crates \<Rightarrow> bool" where
  "resolver_rejects_non_p2mr_output L \<longleftrightarrow>
     is_unknown (resolve_on L \<lparr>fb_chain = BitcoinQuantumRegtest,
       fb_out = Some \<lparr>to_outpoint = outpoint test_seal, to_value = 1000,
         to_script_pubkey = [0x00, 0x14] @ replicate 20 0xaa, to_spent = False\<rparr>,
       fb_spend = None\<rparr> test_seal)"

definition resolver_rejects_wrong_chain :: "crates \<Rightarrow> bool" where
  "resolver_rejects_wrong_chain L \<longleftrightarrow> is_unknown (resolve_on L \<lparr>fb_chain = BitcoinQuantumTestnet,
     fb_out = Some (test_p2mr_output test_seal False), fb_spend = None\<rparr> test_seal)"

definition resolver_missing_outpoint :: "crates \<Rightarrow> bool" where
  "resolver_missing_outpoint L \<longleftrightarrow> is_unknown (resolve_on L \<lparr>fb_chain = BitcoinQuantumRegtest,
     fb_out = None, fb_spend = None\<rparr> test_seal)"

definition verify_p2mr_output_matches_btq_core_format :: "crates \<Rightarrow> bool" where
  "verify_p2mr_output_matches_btq_core_format L \<longleftrightarrow>
     is_ok (verify_p2mr_output L (test_p2mr_output test_seal False) test_seal)"

definition dos_resolver_fails_closed_on_time :: "crates \<Rightarrow> bool" where
  "dos_resolver_fails_closed_on_time L \<longleftrightarrow>
     (let b = \<lparr>fb_chain = BitcoinQuantumRegtest,
            fb_out = Some (test_p2mr_output test_seal False), fb_spend = None\<rparr>;
          limits = default_limits\<lparr>max_resolver_time_ms := 0\<rparr>
      in case fst (resolve L (with_limits (fake_backend_ops b) limits) test_seal ()) of
           Ok (ClosedValid _ _ _) \<Rightarrow> False | Ok _ \<Rightarrow> True | _ \<Rightarrow> False)"

definition resolver_p2mr_ret_branches_correctly :: "crates \<Rightarrow> bool" where
  "resolver_p2mr_ret_branches_correctly L \<longleftrightarrow>
     (let s = test_seal\<lparr>commitment_locator := P2mrRetLeaf\<rparr>;
          b = \<lparr>fb_chain = BitcoinQuantumRegtest, fb_out = Some (test_p2mr_output s False),
            fb_spend = None\<rparr>;
          r = with_pq_leaf (resolver_new (fake_backend_ops b)) [0x51]
      in fst (resolve L r s ()) = Ok OpenUnspent)"

definition resolver_p2mr_ret_without_pq_leaf_fails_closed :: "crates \<Rightarrow> bool" where
  "resolver_p2mr_ret_without_pq_leaf_fails_closed L \<longleftrightarrow>
     (let s = test_seal\<lparr>commitment_locator := P2mrRetLeaf\<rparr>;
          b = \<lparr>fb_chain = BitcoinQuantumRegtest, fb_out = Some (test_p2mr_output s True),
            fb_spend = Some \<lparr>tx_txid = ''ff'', tx_raw = [], tx_status = Confirmed 100 ''ab'' 6 0\<rparr>\<rparr>
      in case resolve_on L b s of Ok (ClosedInvalid _ _) \<Rightarrow> True | _ \<Rightarrow> False)"

definition resolver_reorg_risk_policy_boundary :: bool where
  "resolver_reorg_risk_policy_boundary \<longleftrightarrow>
     required_depth (confirmation_policy (test_seal\<lparr>confirmation_policy := Depth 6\<rparr>)) = 6"

lemmas fake_simps = resolve_on_def resolve_def resolve_inner_def resolver_new_def with_limits_def
  with_pq_leaf_def fake_backend_ops_def outpoint_to_bitcoin_def io_simps Let_def

lemma test_seal_simps [simp]:
  "chain_id test_seal = BitcoinQuantumRegtest" "p2mr_root test_seal = replicate 32 0x22"
  "commitment_locator test_seal = OpretFirst"
  by (simp_all add: test_seal_def seal_new_def)

lemma test_seal_wf: "wf_seal test_seal"
  by (simp add: test_seal_def seal_new_def wf_seal_def wf_outpoint_def outpoint_new_def)

lemma test_output_verifies:
  "p2mr_root s = replicate 32 0x22 \<Longrightarrow> verify_p2mr_output L (test_p2mr_output s b) s = Ok ()"
  by (simp add: verify_p2mr_output_iff test_p2mr_output_def p2mr_script_def)

lemma bad_output_unknown:
  assumes "to_script_pubkey out \<noteq> p2mr_script (p2mr_root s)" and "fb_chain b = chain_id s"
    and "fb_out b = Some out"
  shows "is_unknown (resolve_on L b s)"
proof -
  from assms(1) have "verify_p2mr_output L out s \<noteq> Ok ()" by (simp add: verify_p2mr_output_iff)
  with verify_p2mr_output_no_panic [of L out s] obtain e where "verify_p2mr_output L out s = Err e"
    by (cases "verify_p2mr_output L out s") auto
  with assms(2,3) show ?thesis by (simp add: fake_simps is_unknown_def)
qed

lemma resolution_tests_pass:
  "resolver_open_unspent L" "resolver_rejects_wrong_p2mr_root L" "resolver_rejects_non_p2mr_output L"
  "resolver_rejects_wrong_chain L" "resolver_missing_outpoint L"
  "verify_p2mr_output_matches_btq_core_format L" "dos_resolver_fails_closed_on_time L"
  "resolver_p2mr_ret_branches_correctly L" "resolver_p2mr_ret_without_pq_leaf_fails_closed L"
  "resolver_reorg_risk_policy_boundary"
proof -
  note out = test_output_verifies [of test_seal] test_output_verifies
    [of "test_seal\<lparr>commitment_locator := P2mrRetLeaf\<rparr>"]
  have spent: "to_spent (test_p2mr_output s b) = b" for s b by (simp add: test_p2mr_output_def)
  show "resolver_open_unspent L" "resolver_missing_outpoint L" "resolver_rejects_wrong_chain L"
    "verify_p2mr_output_matches_btq_core_format L" "dos_resolver_fails_closed_on_time L"
    "resolver_p2mr_ret_branches_correctly L" "resolver_p2mr_ret_without_pq_leaf_fails_closed L"
    by (simp_all add: resolver_open_unspent_def resolver_missing_outpoint_def
        resolver_rejects_wrong_chain_def verify_p2mr_output_matches_btq_core_format_def
        dos_resolver_fails_closed_on_time_def resolver_p2mr_ret_branches_correctly_def
        resolver_p2mr_ret_without_pq_leaf_fails_closed_def fake_simps is_unknown_def out spent
        resolve_close_def spends_outpoint_def scan_p2mr_ret_commitment_def io_bind_def)
  have flip: "(0x22 :: u8) XOR 0xff \<noteq> 0x22" by simp
  have bad: "([0x52, 0x20] @ replicate 32 (0x22 :: u8))[2 := x] \<noteq> p2mr_script (replicate 32 0x22)"
    if "x \<noteq> 0x22" for x
    using that by (simp add: p2mr_script_def numeral_2_eq_2 list_update_same_conv)
  show "resolver_rejects_wrong_p2mr_root L"
    unfolding resolver_rejects_wrong_p2mr_root_def Let_def
    by (rule bad_output_unknown) (use bad [OF flip] in \<open>simp_all add: test_p2mr_output_def\<close>)
  show "resolver_rejects_non_p2mr_output L"
    unfolding resolver_rejects_non_p2mr_output_def
    by (rule bad_output_unknown) (simp_all add: p2mr_script_def)
  show "resolver_reorg_risk_policy_boundary"
    by (simp add: resolver_reorg_risk_policy_boundary_def)
qed

subsection \<open>Scanning outputs\<close>

text \<open>The script builder is that of the \<^verbatim>\<open>bitcoin\<close> crate; the clock is the one the scan reads.\<close>

definition build_opret :: "'t tx_codec \<Rightarrow> bytes \<Rightarrow> bytes" where
  "build_opret T payload = 0x6a # tc_push_slice T payload"

definition opret_for :: "crates \<Rightarrow> 't tx_codec \<Rightarrow> btq_p2mr_seal \<Rightarrow> bytes rgb_pq_result" where
  "opret_for L T s = and_then (commitment_encode L (commitment_new s (replicate 32 0xa5)))
     (\<lambda>payload. Ok (build_opret T payload))"

definition verify_commitment_found :: "crates \<Rightarrow> 't tx_codec \<Rightarrow> (nat \<Rightarrow> u128) \<Rightarrow> bool" where
  "verify_commitment_found L T clock \<longleftrightarrow>
     and_then (opret_for L T test_seal) (\<lambda>spk.
       verify_commitment_in_outputs L test_seal [(0, spk)] clock) = Ok ScanFound"

definition verify_commitment_wrong_chain :: "crates \<Rightarrow> 't tx_codec \<Rightarrow> (nat \<Rightarrow> u128) \<Rightarrow> bool" where
  "verify_commitment_wrong_chain L T clock \<longleftrightarrow>
     (let other = test_seal\<lparr>chain_id := BitcoinQuantumTestnet\<rparr>
      in and_then (opret_for L T other) (\<lambda>spk.
           verify_commitment_in_outputs L test_seal [(0, spk)] clock) = Ok ScanWrongChain)"

definition verify_commitment_duplicate :: "crates \<Rightarrow> 't tx_codec \<Rightarrow> (nat \<Rightarrow> u128) \<Rightarrow> bool" where
  "verify_commitment_duplicate L T clock \<longleftrightarrow>
     and_then (opret_for L T test_seal) (\<lambda>a. and_then (opret_for L T test_seal) (\<lambda>b.
       verify_commitment_in_outputs L test_seal [(0, a), (1, b)] clock)) = Ok ScanDuplicate"

definition dos_scan_window_rejected :: "crates \<Rightarrow> (nat \<Rightarrow> u128) \<Rightarrow> bool" where
  "dos_scan_window_rejected L clock \<longleftrightarrow>
     (case verify_commitment_in_outputs L test_seal
        (map (\<lambda>i. (of_nat i, [0x6a, 0x00])) [0..<100000]) clock of Err e \<Rightarrow> True | _ \<Rightarrow> False)"

definition dos_oversized_output_rejected :: "crates \<Rightarrow> (nat \<Rightarrow> u128) \<Rightarrow> bool" where
  "dos_oversized_output_rejected L clock \<longleftrightarrow>
     (case verify_commitment_in_outputs L test_seal
        [(0, [0x6a, 0x4c] @ [0xff] @ replicate 255 0)] clock of Err e \<Rightarrow> True | _ \<Rightarrow> False)"

lemma opret_for_carries:
  assumes "sha256_ok L" "tx_codec_ok T" "wf_seal s"
  shows "\<exists>spk. opret_for L T s = Ok spk \<and> length spk = 130
    \<and> carried_commitment L spk = Some (commitment_new s (replicate 32 0xa5))"
proof -
  have wf: "wf_commitment (commitment_new s (replicate 32 0xa5))"
    by (simp add: commitment_new_wf assms(3))
  obtain p where p: "commitment_encode L (commitment_new s (replicate 32 0xa5)) = (Ok p :: bytes rgb_pq_result)"
    using commitment_encode_layout [OF assms(1)] by blast
  note c = carried_encoded [OF assms(1) wf p]
  from c(2) have "length p = 127" by (simp add: pushdata1_script_def)
  then have "build_opret T p = pushdata1_script p"
    using assms(2) by (simp add: tx_codec_ok_def build_opret_def pushdata1_script_def)
  with c p show ?thesis by (simp add: opret_for_def)
qed

lemma scan_by_hits:
  assumes "sha256_ok L" and "outputs_within default_limits clock 0 outs"
  shows "verify_commitment_in_outputs L s outs clock = Ok (classify_for_seal s (scan_hits L outs))"
  using outputs_loop_ok [OF assms, of "[]"]
  by (simp add: verify_commitment_in_outputs_def verify_commitment_in_outputs_bounded_def)

lemma scan_rejected:
  assumes "sha256_ok L" and "\<not> outputs_within default_limits clock 0 outs"
  shows "\<exists>e. verify_commitment_in_outputs L s outs clock = Err e"
  using outputs_loop_exceeded [OF assms, of "[]"]
  by (auto simp: verify_commitment_in_outputs_def verify_commitment_in_outputs_bounded_def)

lemma scan_tests_pass:
  assumes L: "sha256_ok L" and T: "tx_codec_ok T" and fast: "\<forall>n. clock n - clock 0 \<le> 5000"
  shows "verify_commitment_found L T clock" "verify_commitment_wrong_chain L T clock"
    "verify_commitment_duplicate L T clock"
    "dos_scan_window_rejected L clock" "dos_oversized_output_rejected L clock"
proof -
  have within: "outputs_within default_limits clock 0 outs"
    if "length outs \<le> 2" "\<forall>o' \<in> set outs. length (snd o') = 130" for outs
    using that fast by (auto simp: outputs_within_def default_limits_def)
  let ?other = "test_seal\<lparr>chain_id := BitcoinQuantumTestnet\<rparr>"
  have wf: "wf_seal ?other" using test_seal_wf by (simp add: wf_seal_def)
  obtain spk where spk: "opret_for L T test_seal = Ok spk" "length spk = 130"
    "carried_commitment L spk = Some (commitment_new test_seal (replicate 32 0xa5))"
    using opret_for_carries [OF L T test_seal_wf] by blast
  obtain spk' where spk': "opret_for L T ?other = Ok spk'" "length spk' = 130"
    "carried_commitment L spk' = Some (commitment_new ?other (replicate 32 0xa5))"
    using opret_for_carries [OF L T wf] by blast
  show "verify_commitment_found L T clock" "verify_commitment_wrong_chain L T clock"
    "verify_commitment_duplicate L T clock"
    using spk spk' within [of "[(0, spk)]"] within [of "[(0, spk')]"] within [of "[(0, spk), (1, spk)]"]
    by (simp_all add: verify_commitment_found_def verify_commitment_wrong_chain_def
        verify_commitment_duplicate_def scan_by_hits [OF L] classify_for_seal_def commitment_new_def)
  show "dos_scan_window_rejected L clock"
  proof -
    let ?outs = "map (\<lambda>i. (of_nat i :: u32, [0x6a, 0x00 :: u8])) [0..<100000]"
    have "\<not> outputs_within default_limits clock 0 ?outs"
      by (auto simp: outputs_within_def default_limits_def intro!: exI [of _ "64 :: nat"])
    from scan_rejected [OF L this, of test_seal] show ?thesis
      by (auto simp: dos_scan_window_rejected_def simp del: upt_Suc)
  qed
  show "dos_oversized_output_rejected L clock"
  proof -
    let ?outs = "[(0 :: u32, [0x6a, 0x4c] @ [0xff] @ replicate 255 (0 :: u8))]"
    have "\<not> outputs_within default_limits clock 0 ?outs"
      by (simp add: outputs_within_def default_limits_def)
    from scan_rejected [OF L this, of test_seal] show ?thesis
      by (auto simp: dos_oversized_output_rejected_def)
  qed
qed

subsection \<open>The indexer after a reorg\<close>

text \<open>Each call is unwrapped: an error fails the test.\<close>

definition indexer_rollback_then_spend_cleared :: bool where
  "indexer_rollback_then_spend_cleared \<longleftrightarrow>
     (let ix = mem_set_tip mem_new \<lparr>tip_height = 100, tip_hash = ''h100''\<rparr>;
          o' = outpoint_new (replicate 32 0xaa) 0;
          (r1, ix) = mem_watch ix o';
          (r2, ix) = mem_record_spend ix o' \<lparr>tx_txid = ''spend1'', tx_raw = [],
            tx_status = Confirmed 100 ''h100'' 10 0\<rparr>;
          before = mem_get ix o';
          (r3, ix) = mem_rollback ix 50;
          after = mem_get ix o'
      in is_ok r1 \<and> is_ok r2 \<and> map_option ix_spending_txid before = Some (Some ''spend1'')
        \<and> is_ok r3 \<and> map_option ix_spending_txid after = Some None
        \<and> map_option ix_spending_confirmations after = Some 0)"

lemma indexer_rollback_test_passes: indexer_rollback_then_spend_cleared
  by (simp add: indexer_rollback_then_spend_cleared_def Let_def mem_new_def mem_set_tip_def mem_watch_def
      mem_record_spend_def mem_modify_def mem_get_def mem_rollback_def rollback_entry_def
      entry_default_def indexed_default_def)

subsection \<open>The module passes\<close>

theorem resolver_tests_pass:
  assumes "sha256_ok L" and "tx_codec_ok T" and "\<forall>n. clock n - clock 0 \<le> 5000"
  shows "resolver_open_unspent L \<and> resolver_rejects_wrong_p2mr_root L
    \<and> resolver_rejects_non_p2mr_output L \<and> resolver_rejects_wrong_chain L
    \<and> resolver_missing_outpoint L \<and> verify_p2mr_output_matches_btq_core_format L
    \<and> verify_commitment_found L T clock \<and> verify_commitment_wrong_chain L T clock
    \<and> verify_commitment_duplicate L T clock \<and> dos_scan_window_rejected L clock
    \<and> dos_oversized_output_rejected L clock \<and> dos_resolver_fails_closed_on_time L
    \<and> resolver_p2mr_ret_branches_correctly L \<and> resolver_p2mr_ret_without_pq_leaf_fails_closed L
    \<and> resolver_reorg_risk_policy_boundary \<and> indexer_rollback_then_spend_cleared"
  using resolution_tests_pass scan_tests_pass [OF assms] indexer_rollback_test_passes by blast

theorem resolver_tests_pass_witness:
  "verify_commitment_found toy_crates toy_tx_codec (\<lambda>_. 0)
    \<and> dos_scan_window_rejected toy_crates (\<lambda>_. 0) \<and> resolver_open_unspent toy_crates"
  using resolver_tests_pass [OF toy_sha256_ok toy_tx_codec_ok, where clock = "\<lambda>_. 0"] by simp

end
