(* ===== verification/E2e_Flows.thy ===== *)
theory E2e_Flows
  imports E2e Tests_Seal Tests_Resolver
begin

section \<open>The other flows and the test entry points
  (\<open>tests/rgb-pq-e2e/src/lib.rs\<close>, \<open>tests/e2e.rs\<close>, \<open>src/bin/e2e.rs\<close>)\<close>

text \<open>
  The P2MR-ret flow, the key rotation, the reorganisation, the flow without a node, and the test
  and the binary that put the live and the offline flow together.
\<close>

definition expect_r :: "'a rgb_pq_result \<Rightarrow> 'a rgb_pq_result" where
  "expect_r r = (case r of Ok x \<Rightarrow> Ok x | _ \<Rightarrow> Panic)"

definition assert_r :: "bool \<Rightarrow> unit rgb_pq_result" where
  "assert_r b = (if b then Ok () else Panic)"

lemma expect_r_simps [simp]:
  "expect_r (Ok x) = Ok x" "expect_r r = Ok y \<longleftrightarrow> r = Ok y" "expect_r r \<noteq> Err e"
  "assert_r True = Ok ()" "assert_r b = Ok u \<longleftrightarrow> b" "assert_r b \<noteq> Err e"
  by (auto simp: expect_r_def assert_r_def split: result.splits)

subsection \<open>A P2MR-ret commitment\<close>

definition run_live_p2mr_ret_flow ::
  "crates \<Rightarrow> ('v, 'f) json_api \<Rightarrow> 'w network \<Rightarrow> 'f amounts \<Rightarrow> nat option
    \<Rightarrow> btq_rpc_client \<Rightarrow> ('w, usize \<times> btq_rpc_client) io" where
  "run_live_p2mr_ret_flow L J net F nanos client =
     (let steps = 0 in
     io_bind (open_wallet J net F client ''rgbpq-ret-'' nanos) (\<lambda>client.
     io_bind (new_address J net client) (\<lambda>miner.
     io_bind (expect_io (generate_blocks J net client 110 miner)) (\<lambda>_.
     let pq_leaf_hex = ''51'' in
     io_bind (expect_io (io_result (map_err RgbPq_Invariant (hex_decode L pq_leaf_hex)))) (\<lambda>pq_leaf.
     let mpc = replicate 32 0xb9;
         comm_script_hex = hex_encode L (commitment_leaf_script (client_chain client) mpc);
         tree = build_p2mr_ret_tree_for_seal L (client_chain client) mpc pq_leaf;
         rust_root_hex = hex_encode L (tree_root tree);
         tj = tree_json J pq_leaf_hex comm_script_hex in
     io_bind (expect_io (rpc_call J net client ''getnewp2mraddress'' [tj])) (\<lambda>created.
     let node_root = get_str_or_empty J created ''merkle_root'' in
     io_bind (assert_io (node_root = rust_root_hex)) (\<lambda>_.
     let steps = steps + 1; p2mr_id = get_str_or_empty J created ''p2mr_id'';
         tj2 = tree_json J pq_leaf_hex comm_script_hex in
     io_bind (expect_io (rpc_call J net client ''sendtop2mr''
       [tj2, json_f64 J (am_fund F), json_string J ''rgbpq-ret-seal''])) (\<lambda>funded.
     let funded_out = \<lparr>po_p2mr_id = p2mr_id, po_address = get_str_or_empty J created ''address'',
           po_script_pubkey_hex = or_else (get_str J created ''scriptPubKey'') node_root,
           po_merkle_root_hex = node_root, po_funding_txid = get_str_or_empty J funded ''txid''\<rparr> in
     io_bind (ok_io (generate_blocks J net client 1 miner)) (\<lambda>_.
     io_bind (wait_for_p2mr_spendable J net client funded_out miner) (\<lambda>_.
     let steps = steps + 1 in
     io_bind (find_p2mr_vout J net client funded_out) (\<lambda>fund_vout.
     io_bind (io_result (funded_seal L client funded_out fund_vout
       (tx_compute_tapleaf_hash L pq_leaf) P2mrRetLeaf)) (\<lambda>s.
     io_bind (expect_io (io_result (verify_p2mr_ret L s mpc pq_leaf))) (\<lambda>_.
     let steps = steps + 1 in
     io_bind (new_address J net client) (\<lambda>dest.
     io_bind (expect_io (create_p2mr_spend J net client p2mr_id dest (am_send F) (am_fee F)))
       (\<lambda>(unsigned_hex, _, _).
     io_bind (expect_io (sign_p2mr_tx J net client unsigned_hex p2mr_id)) (\<lambda>signed_hex.
     io_bind (expect_io (tx_broadcast L J net client signed_hex)) (\<lambda>close_txid.
     io_bind (ok_io (generate_blocks J net client 1 miner)) (\<lambda>_.
     let steps = steps + 1 in
     io_bind (confirmations_or J net client close_txid 0) (\<lambda>confs.
     io_bind (assert_io (confs \<ge> 1)) (\<lambda>_.
     io_return (steps + 1, client)))))))))))))))))))))"

subsection \<open>A rotated key\<close>

definition run_live_dilithium_rotation_flow ::
  "crates \<Rightarrow> ('v, 'f) json_api \<Rightarrow> 'w network \<Rightarrow> 'f amounts \<Rightarrow> nat option
    \<Rightarrow> btq_rpc_client \<Rightarrow> ('w, usize \<times> btq_rpc_client) io" where
  "run_live_dilithium_rotation_flow L J net F nanos client =
     (let steps = 0 in
     io_bind (open_wallet J net F client ''rgbpq-rot-'' nanos) (\<lambda>client.
     io_bind (new_address J net client) (\<lambda>miner.
     io_bind (expect_io (generate_blocks J net client 110 miner)) (\<lambda>_.
     io_bind (expect_io (rotate_dilithium_key J net client (am_fund F) ''rotated-seal'')) (\<lambda>rotation.
     let steps = steps + 1 in
     io_bind (expect_io (io_result (map_err RgbPq_Invariant (hex_decode L (rot_new_leaf_hex rotation)))))
       (\<lambda>leaf_bytes.
     io_bind (assert_io (length leaf_bytes = 25)) (\<lambda>_.
     io_bind (assert_io (leaf_bytes \<noteq> [] \<and> last leaf_bytes = 0xbb)) (\<lambda>_.
     io_bind (assert_io (leaf_bytes ! 0 = 0x76)) (\<lambda>_.
     let steps = steps + 1 in
     io_bind (expect_io (generate_blocks J net client 1 miner)) (\<lambda>_.
     io_bind (wait_for_p2mr_spendable J net client (rot_new_p2mr rotation) miner) (\<lambda>_.
     io_bind (new_address J net client) (\<lambda>dest.
     io_bind (expect_io (create_p2mr_spend J net client (po_p2mr_id (rot_new_p2mr rotation)) dest
       (am_send F) (am_fee F))) (\<lambda>(unsigned_hex, _, _).
     io_bind (expect_io (sign_p2mr_tx J net client unsigned_hex (po_p2mr_id (rot_new_p2mr rotation))))
       (\<lambda>signed_hex.
     io_bind (expect_io (tx_broadcast L J net client signed_hex)) (\<lambda>close_txid.
     io_bind (expect_io (generate_blocks J net client 1 miner)) (\<lambda>_.
     let steps = steps + 1 in
     io_bind (confirmations_or J net client close_txid 0) (\<lambda>confs.
     io_bind (assert_io (confs \<ge> 1)) (\<lambda>_.
     io_return (steps + 1, client)))))))))))))))))))"

subsection \<open>A reorganisation\<close>

definition run_live_reorg_simulation ::
  "crates \<Rightarrow> ('v, 'f) json_api \<Rightarrow> 'w network \<Rightarrow> 'f amounts \<Rightarrow> nat option
    \<Rightarrow> btq_rpc_client \<Rightarrow> ('w, usize \<times> btq_rpc_client) io" where
  "run_live_reorg_simulation L J net F nanos client =
     (let steps = 0 in
     io_bind (open_wallet J net F client ''rgbpq-reorg-'' nanos) (\<lambda>client.
     io_bind (new_address J net client) (\<lambda>miner.
     io_bind (expect_io (generate_blocks J net client 110 miner)) (\<lambda>_.
     io_bind (expect_io (create_fund_p2mr J net client ''51'' (am_fund F) ''reorg-seal'')) (\<lambda>p2mr.
     io_bind (expect_io (generate_blocks J net client 1 miner)) (\<lambda>_.
     io_bind (wait_for_p2mr_spendable J net client p2mr miner) (\<lambda>_.
     let steps = steps + 1 in
     io_bind (new_address J net client) (\<lambda>dest.
     io_bind (expect_io (create_p2mr_spend J net client (po_p2mr_id p2mr) dest (am_send F) (am_fee F)))
       (\<lambda>(unsigned_hex, _, _).
     io_bind (expect_io (sign_p2mr_tx J net client unsigned_hex (po_p2mr_id p2mr))) (\<lambda>signed_hex.
     io_bind (expect_io (tx_broadcast L J net client signed_hex)) (\<lambda>close_txid.
     io_bind (expect_io (generate_blocks J net client 1 miner)) (\<lambda>block_hashes.
     io_bind (io_result (case block_hashes of h # _ \<Rightarrow> Ok h | [] \<Rightarrow> Panic)) (\<lambda>close_block.
     let steps = steps + 1 in
     io_bind (confirmations_or J net client close_txid 0) (\<lambda>confs_before.
     io_bind (assert_io (confs_before \<ge> 1)) (\<lambda>_.
     let steps = steps + 1 in
     io_bind (expect_io (rpc_call J net client ''invalidateblock'' [json_string J close_block])) (\<lambda>_.
     io_bind (\<lambda>w. (Ok (), net_sleep_ms net 500 w)) (\<lambda>_.
     let steps = steps + 1 in
     io_bind (confirmations_or J net client close_txid 999) (\<lambda>confs_after.
     io_bind (assert_io (confs_after = 0 \<or> confs_after = 999)) (\<lambda>_.
     let steps = steps + 1 in
     io_bind (ok_io (generate_blocks J net client 1 miner)) (\<lambda>_.
     io_return (steps + 1, client)))))))))))))))))))))"

subsection \<open>Without a node\<close>

text \<open>The path of the asset kit: \<open>dir\<close> is the directory of the crate, fixed when it is compiled.\<close>

definition nia_kit_path :: "string \<Rightarrow> string" where
  "nia_kit_path dir = dir @ ''/'' @ ''../../external/rgb-schemas/schemata/NonInflatableAsset.rgb''"

definition demo_txid :: string where
  "demo_txid = ''14295d5bb1a191cdb6286dc0944df938421e3dfcbf0811353ccac4100c2068c5''"

definition run_offline_flow ::
  "crates \<Rightarrow> bool \<Rightarrow> 't tx_codec \<Rightarrow> ('v, 'w, 'x, 'p) rgb_std \<Rightarrow> (string \<Rightarrow> bool) \<Rightarrow> string \<Rightarrow> u64
    \<Rightarrow> (nat \<Rightarrow> u128) \<Rightarrow> usize rgb_pq_result" where
  "run_offline_flow L d5 T G path_exists dir blinding clock =
     (let steps = 0; kit = nia_kit_path dir in
     and_then (assert_r (path_exists kit)) (\<lambda>_.
     and_then (expect_r (issue_nia_to_btq_seal G kit (chain_net_for demo_seal) (demo_asset G)
       demo_txid 0 blinding)) (\<lambda>issued.
     let steps = steps + 1; s = demo_seal; bin = to_binary s in
     and_then (expect_r (from_binary d5 bin)) (\<lambda>dec.
     and_then (assert_r (dec = s)) (\<lambda>_.
     and_then (to_text L s) (\<lambda>txt.
     and_then (expect_r (from_text L d5 txt)) (\<lambda>dec2.
     and_then (assert_r (dec2 = s)) (\<lambda>_.
     let steps = steps + 1; mpc = replicate 32 0xa5 in
     and_then (commitment_encode L (commitment_new s mpc)) (\<lambda>payload.
     and_then (expect_r (commitment_decode_for L payload s)) (\<lambda>decoded.
     and_then (assert_r (cm_mpc decoded = mpc)) (\<lambda>_.
     let steps = steps + 1; spk = build_opret T payload in
     and_then (expect_r (verify_commitment_in_outputs L s [(0, spk)] clock)) (\<lambda>scan.
     and_then (assert_r (scan = ScanFound)) (\<lambda>_.
     let steps = steps + 1; other = s\<lparr>chain_id := BitcoinQuantumTestnet\<rparr> in
     and_then (canonical_digest L s) (\<lambda>a. and_then (canonical_digest L other) (\<lambda>b.
     and_then (assert_r (a \<noteq> b)) (\<lambda>_.
     Ok (steps + 1)))))))))))))))))"

subsection \<open>What the live flows show\<close>

lemma no_err_head: "no_err (io_result (case hs of h # _ \<Rightarrow> Ok h | [] \<Rightarrow> Panic))"
  by (rule no_err_result) (simp split: list.splits)

lemma no_err_sleep: "no_err (\<lambda>w. (Ok (), f w))"
  by (simp add: no_err_def)

lemma flows_no_err:
  "no_err (run_live_p2mr_ret_flow L J net F nanos client)"
  "no_err (run_live_dilithium_rotation_flow L J net F nanos client)"
  "no_err (run_live_reorg_simulation L J net F nanos client)"
  unfolding run_live_p2mr_ret_flow_def run_live_dilithium_rotation_flow_def
    run_live_reorg_simulation_def Let_def case_prod_beta
  by (intro no_err_bind no_err_ends no_err_parts no_err_seal no_err_head no_err_sleep)+

lemma funded_seal_Ok:
  assumes "funded_seal L client out fund_vout leaf_hash loc = Ok s"
  obtains root txid where "hex_decode_or_default L (po_merkle_root_hex out) = Ok root"
    "s = seal_new (client_chain client) (outpoint_new txid (or_else fund_vout 0))
      (if length root = 32 then root else replicate 32 0) leaf_hash Dilithium2 loc OneConf"
  using assms
  by (cases "txid_from_str (po_funding_txid out) :: bytes rgb_pq_result")
     (auto simp: funded_seal_def Let_def and_then_Ok_iff)

text \<open>The seal of a P2MR-ret output whose root the node and the library agree on verifies: the check
  in the flow cannot fail once the roots have been compared.\<close>

lemma agreed_root_verifies:
  assumes "sha256_ok L" "hex_ok L" and "length mpc = 32" "length pq_leaf \<le> 256"
    and "funded_seal L client out fund_vout leaf_hash loc = Ok s"
    and "po_merkle_root_hex out
      = hex_encode L (tree_root (build_p2mr_ret_tree_for_seal L (client_chain client) mpc pq_leaf))"
  shows "p2mr_root s = tree_root (build_p2mr_ret_tree_for_seal L (client_chain client) mpc pq_leaf)"
    and "verify_p2mr_ret L s mpc pq_leaf = Ok ()"
proof -
  let ?root = "tree_root (build_p2mr_ret_tree_for_seal L (client_chain client) mpc pq_leaf)"
  have "length ?root = 32"
    using assms(1) by (simp add: build_p2mr_ret_tree_for_seal_def build_p2mr_ret_tree_def Let_def
        compute_tapbranch_hash_def tagged_hash_def sha256_ok_def)
  with assms(5,6) show root: "p2mr_root s = ?root"
    by (auto elim!: funded_seal_Ok simp: hex_decode_or_default_def hex_okD [OF assms(2)] seal_new_def)
  have "chain_id s = client_chain client"
    using assms(5) by (auto elim!: funded_seal_Ok simp: seal_new_def)
  with root assms(4) show "verify_p2mr_ret L s mpc pq_leaf = Ok ()"
    unfolding verify_p2mr_ret_def verify_bounded_Ok_iff [OF assms(3)] by (simp add: default_limits_def)
qed

text \<open>The tree the flow sends to the node, and its root as the library computes it.\<close>

abbreviation flow_tree :: "crates \<Rightarrow> ('v, 'f) json_api \<Rightarrow> btq_rpc_client \<Rightarrow> 'v" where
  "flow_tree L J client \<equiv> tree_json J ''51''
     (hex_encode L (commitment_leaf_script (client_chain client) (replicate 32 0xb9)))"

abbreviation flow_root :: "crates \<Rightarrow> btq_rpc_client \<Rightarrow> bytes" where
  "flow_root L client \<equiv> tree_root (build_p2mr_ret_tree_for_seal L (client_chain client)
     (replicate 32 0xb9) [0x51])"

text \<open>The output the flow watches, from the node's two answers.\<close>

definition flow_output :: "('v, 'f) json_api \<Rightarrow> 'v \<Rightarrow> 'v \<Rightarrow> p2mr_output \<Rightarrow> bool" where
  "flow_output J created funded out \<longleftrightarrow> po_p2mr_id out = get_str_or_empty J created ''p2mr_id''
     \<and> po_merkle_root_hex out = get_str_or_empty J created ''merkle_root''
     \<and> po_script_pubkey_hex out = or_else (get_str J created ''scriptPubKey'') (po_merkle_root_hex out)
     \<and> po_funding_txid out = get_str_or_empty J funded ''txid''"

lemma p2mr_ret_flow_done:
  assumes "run_live_p2mr_ret_flow L J net F nanos client w = (Ok (steps, client'), w')"
    and "hex_decode L ''51'' = Ok [0x51]"
  shows "steps = 5 \<and> (\<exists>created funded out fund_vout s dest unsigned_hex in_txid in_vout signed_hex txid confs
        w1 w2 w3 w4 w5 w6 w7 w8 w9 w10.
      rpc_call J net client' ''getnewp2mraddress'' [flow_tree L J client'] w1 = (Ok created, w2)
      \<and> get_str_or_empty J created ''merkle_root'' = hex_encode L (flow_root L client')
      \<and> rpc_call J net client' ''sendtop2mr'' [flow_tree L J client', json_f64 J (am_fund F),
          json_string J ''rgbpq-ret-seal''] w2 = (Ok funded, w3)
      \<and> find_p2mr_vout J net client' out w4 = (Ok fund_vout, w5)
      \<and> funded_seal L client' out fund_vout (tx_compute_tapleaf_hash L [0x51]) P2mrRetLeaf = Ok s
      \<and> verify_p2mr_ret L s (replicate 32 0xb9) [0x51] = Ok ()
      \<and> create_p2mr_spend J net client' (po_p2mr_id out) dest (am_send F) (am_fee F) w6
          = (Ok (unsigned_hex, in_txid, in_vout), w7)
      \<and> sign_p2mr_tx J net client' unsigned_hex (po_p2mr_id out) w7 = (Ok signed_hex, w8)
      \<and> tx_broadcast L J net client' signed_hex w8 = (Ok txid, w9)
      \<and> confirmations_or J net client' txid 0 w10 = (Ok confs, w') \<and> confs \<ge> 1
      \<and> flow_output J created funded out)"
  using assms(1) unfolding run_live_p2mr_ret_flow_def Let_def
  by (clarsimp simp: yields assms(2) split: prod.splits simp del: tree_for_seal_simps)
     (intro exI conjI, (assumption | simp add: flow_output_def)+)

lemma rotation_flow_done:
  assumes "run_live_dilithium_rotation_flow L J net F nanos client w = (Ok (steps, client'), w')"
  shows "steps = 4 \<and> (\<exists>leaf_hex leaf_bytes signed_hex txid confs w1 w2 w3.
      hex_decode L leaf_hex = Ok leaf_bytes \<and> length leaf_bytes = 25
      \<and> hd leaf_bytes = 0x76 \<and> last leaf_bytes = CHECKSIG_OPCODE
      \<and> tx_broadcast L J net client' signed_hex w1 = (Ok txid, w2)
      \<and> confirmations_or J net client' txid 0 w3 = (Ok confs, w') \<and> confs \<ge> 1)"
  using assms unfolding run_live_dilithium_rotation_flow_def Let_def
  by (clarsimp simp: yields CHECKSIG_OPCODE_def split: prod.splits)
     (intro exI conjI, (assumption | simp add: hd_conv_nth)+)

lemma head_yields [yields]:
  "(case hs of h # _ \<Rightarrow> Ok h | [] \<Rightarrow> Panic) = Ok b \<longleftrightarrow> (\<exists>rest. hs = b # rest)"
  by (cases hs) auto

text \<open>A call that fails after the reorganisation counts as an unconfirmed transaction.\<close>

lemma failed_call_is_unconfirmed:
  "rpc_call J net client ''gettransaction'' [json_string J txid, json_bool J True] w = (Err e, w')
    \<Longrightarrow> confirmations_or J net client txid 999 w = (Ok 999, w')"
  by (simp add: confirmations_or_def io_bind_def ok_io_def io_return_def or_else_def)

lemma reorg_flow_done:
  assumes "run_live_reorg_simulation L J net F nanos client w = (Ok (steps, client'), w')"
  shows "steps = 6 \<and> (\<exists>signed_hex txid before after block r w1 w2 w3 w4 w5 w6 w7.
      tx_broadcast L J net client' signed_hex w1 = (Ok txid, w2)
      \<and> confirmations_or J net client' txid 0 w3 = (Ok before, w4) \<and> before \<ge> 1
      \<and> rpc_call J net client' ''invalidateblock'' [json_string J block] w4 = (Ok r, w5)
      \<and> confirmations_or J net client' txid 999 w6 = (Ok after, w7) \<and> (after = 0 \<or> after = 999))"
  using assms unfolding run_live_reorg_simulation_def Let_def
  by (clarsimp simp: yields split: prod.splits) (intro exI conjI, (assumption | simp)+)

lemma leaf_text: "''51'' = hex_lower [0x51]"
  by code_simp

lemma leaf_decodes: "hex_decode toy_crates ''51'' = Ok [0x51]"
  unfolding leaf_text by (rule hex_okD(2) [OF toy_hex_ok])

lemma node_ret_flow:
  assumes "tree_root (build_p2mr_ret_tree_for_seal toy_crates (client_chain client) (replicate 32 0xb9) [0x51]) = root"
  shows "\<exists>client'. run_live_p2mr_ret_flow toy_crates (node_json root []) toy_network node_amounts
      nanos client w = (Ok (5, client'), w)"
proof -
  let ?out = "\<lparr>po_p2mr_id = ''p2mr_id'', po_address = ''address'', po_script_pubkey_hex = [],
    po_merkle_root_hex = hex_lower root, po_funding_txid = node_txid\<rparr>"
  have len: "length root = 32"
    using toy_sha256_ok by (simp add: assms [symmetric] build_p2mr_ret_tree_for_seal_def
        build_p2mr_ret_tree_def Let_def compute_tapbranch_hash_def tagged_hash_def sha256_ok_def)
  have chain: "client_chain (set_wallet c x) = client_chain c" for c x
    by (simp add: client_chain_def set_wallet_def)
  have fields: "get_str_or_empty (node_json root []) ''result'' k = or_else (json_as_str (node_json root []) k) []"
    "get_str (node_json root []) ''result'' k = json_as_str (node_json root []) k"
    if "k \<noteq> ''error''" for k
    using that by (simp_all add: node_simps)
  have texts: "json_as_str (node_json root []) ''merkle_root'' = Some (hex_lower root)"
    "json_as_str (node_json root []) ''p2mr_id'' = Some ''p2mr_id''"
    "json_as_str (node_json root []) ''address'' = Some ''address''"
    "json_as_str (node_json root []) ''scriptPubKey'' = Some []"
    "json_as_str (node_json root []) ''txid'' = Some node_txid"
    by (simp_all add: node_json_def hex_lower_def)
  note seal = node_seal_of_output [OF len, of ?out]
  have empty: "hex_lower [] = []" by (simp add: hex_lower_def)
  have "verify_p2mr_ret toy_crates (node_seal (client_chain client) root P2mrRetLeaf)
      (replicate 32 0xb9) [0x51] = Ok ()"
    using agreed_root_verifies [OF toy_sha256_ok toy_hex_ok length_replicate, of "[0x51]" client ?out
        "Some 0" "tx_compute_tapleaf_hash toy_crates [0x51]" P2mrRetLeaf] seal [of client]
    by (simp add: assms hex_okD [OF toy_hex_ok] del: tree_for_seal_simps)
  then show ?thesis
    unfolding run_live_p2mr_ret_flow_def Let_def
    by (simp add: io_bind_def expect_io_def assert_io_def ok_io_def io_return_def io_result_def node_parts
        node_call leaf_decodes fields texts or_else_def chain assms hex_okD [OF toy_hex_ok] node_waits
        node_finds empty seal del: tree_for_seal_simps)
qed



subsection \<open>The flow without a node\<close>

lemma demo_seal_is_test_seal: "demo_seal = test_seal"
  by (simp add: demo_seal_def test_seal_def txid_from_bytes_def)

definition other_demo :: btq_p2mr_seal where
  "other_demo = demo_seal\<lparr>chain_id := BitcoinQuantumTestnet\<rparr>"

lemma offline_flow_passes:
  assumes L: "sha256_ok L" "bech32_ok L SEAL_HRP" and T: "tx_codec_ok T"
    and kit: "path_exists (nia_kit_path dir)"
    "issue_nia_to_btq_seal G (nia_kit_path dir) BitcoinRegtest (demo_asset G) demo_txid 0 blinding
      = Ok issued"
    and cf: "collision_free L {digest_preimage demo_seal, digest_preimage other_demo}"
    and fast: "\<forall>n. clock n - clock 0 \<le> 5000"
  shows "run_offline_flow L d5 T G path_exists dir blinding clock = Ok 5"
proof -
  have wf: "wf_seal demo_seal" "algo_enabled d5 (owner_algo demo_seal)"
    using test_seal_wf by (simp_all add: demo_seal_is_test_seal algo_enabled_def)
       (simp add: test_seal_def seal_new_def)
  have chain: "chain_id demo_seal = BitcoinQuantumRegtest" by (simp add: demo_seal_is_test_seal)
  have net: "chain_net_for demo_seal = BitcoinRegtest" by (simp add: chain_net_for_def chain)
  have bin: "from_binary d5 (to_binary demo_seal) = Ok demo_seal"
    using roundtrips_hold(1) [OF L(2) wf] by (simp add: binary_roundtrip_def)
  obtain encoded where encoded: "to_text L demo_seal = (Ok encoded :: string rgb_pq_result)" "from_text L d5 encoded = Ok demo_seal"
    using text_roundtrip_aux [OF L(2) wf] by auto
  obtain p where p: "commitment_encode L (commitment_new demo_seal (replicate 32 0xa5)) = (Ok p :: bytes rgb_pq_result)"
    using commitment_encode_layout [OF L(1)] by blast
  have decoded: "commitment_decode_for L p demo_seal = Ok (commitment_new demo_seal (replicate 32 0xa5))"
  proof -
    have wfc: "wf_commitment (commitment_new demo_seal (replicate 32 0xa5))"
      by (rule commitment_new_wf [OF wf(1)]) simp
    have "p = commitment_layout (commitment_new demo_seal (replicate 32 0xa5))
        (sha256 L (seal_digest_preimage (commitment_new demo_seal (replicate 32 0xa5))))"
      using p by (simp add: commitment_encode_layout [OF L(1)])
    then have "commitment_decode L p = Ok (commitment_new demo_seal (replicate 32 0xa5))"
      using L(1) by (simp only: commitment_decode_layout [OF L(1) wfc]) (simp add: sha256_ok_def commitment_decode_layout [OF L(1) wfc])
    from decode_for_cases [OF this, of demo_seal] show ?thesis by (simp add: commitment_new_def)
  qed
  have found: "verify_commitment_in_outputs L demo_seal [(0, build_opret T p)] clock = Ok ScanFound"
    using scan_tests_pass(1) [OF L(1) T fast] p
    by (simp add: verify_commitment_found_def opret_for_def demo_seal_is_test_seal)
  have "wf_seal other_demo" "demo_seal \<noteq> other_demo"
    using wf(1) chain by (auto simp: other_demo_def wf_seal_def dest: arg_cong [where f = chain_id])
  then have "digests_differ L demo_seal other_demo" using digests_differ [OF L(1) wf(1) _ _ cf] by blast
  moreover have "cm_mpc (commitment_new s m) = m" for s m by (simp add: commitment_new_def)
  ultimately show ?thesis
    using kit L(1)
    by (simp add: run_offline_flow_def Let_def net bin encoded p decoded found digests_differ_def
        canonical_digest_sha other_demo_def)
qed

subsection \<open>The entry points\<close>

text \<open>\<^verbatim>\<open>local_e2e_flow\<close> asserts what \<^verbatim>\<open>main\<close> turns into an exit code. Both end with the lines of the
summary, which are their value here.\<close>

definition print_summary :: "string \<Rightarrow> usize \<Rightarrow> string list" where
  "print_summary mode steps =
     [[], replicate 60 (CHR ''=''), '' RGB-PQ local end-to-end: SUCCESS ('' @ mode @ '')'',
      '' verified steps: '' @ fmt_nat steps, replicate 60 (CHR ''='')]"

definition run_e2e ::
  "('v, 'f) json_api \<Rightarrow> 'w network \<Rightarrow> (string \<Rightarrow> string option)
    \<Rightarrow> (btq_rpc_client \<Rightarrow> ('w, usize \<times> btq_rpc_client) io) \<Rightarrow> usize rgb_pq_result
    \<Rightarrow> ('w, string \<times> usize) io" where
  "run_e2e J net env live offline =
     io_bind (try_connect J net (read_live_config env)) (\<lambda>found. case found of
       Some client \<Rightarrow> io_bind (live client) (\<lambda>(live_steps, _).
         io_bind (io_result offline) (\<lambda>offline_steps. io_return (''live'', live_steps + offline_steps)))
     | None \<Rightarrow> io_bind (io_result offline) (\<lambda>steps. io_return (''offline'', steps)))"

definition local_e2e_flow ::
  "crates \<Rightarrow> bool \<Rightarrow> 't tx_codec \<Rightarrow> ('v, 'f) json_api \<Rightarrow> 'w network \<Rightarrow> 'f amounts
    \<Rightarrow> ('a, 'b, 'x, 'p) rgb_std \<Rightarrow> (string \<Rightarrow> bool) \<Rightarrow> string \<Rightarrow> u64 \<Rightarrow> (nat \<Rightarrow> u128)
    \<Rightarrow> (string \<Rightarrow> string option) \<Rightarrow> nat option \<Rightarrow> ('w, string list) io" where
  "local_e2e_flow L d5 T J net F G path_exists dir blinding clock env nanos =
     io_bind (run_e2e J net env (run_live_flow L T J net F nanos)
       (run_offline_flow L d5 T G path_exists dir blinding clock)) (\<lambda>(mode, steps).
     io_bind (assert_io (steps \<ge> 5)) (\<lambda>_. io_return (print_summary mode steps)))"

definition e2e_main ::
  "crates \<Rightarrow> bool \<Rightarrow> 't tx_codec \<Rightarrow> ('v, 'f) json_api \<Rightarrow> 'w network \<Rightarrow> 'f amounts
    \<Rightarrow> ('a, 'b, 'x, 'p) rgb_std \<Rightarrow> (string \<Rightarrow> bool) \<Rightarrow> string \<Rightarrow> u64 \<Rightarrow> (nat \<Rightarrow> u128)
    \<Rightarrow> (string \<Rightarrow> string option) \<Rightarrow> nat option \<Rightarrow> ('w, string list \<times> int) io" where
  "e2e_main L d5 T J net F G path_exists dir blinding clock env nanos =
     io_bind (run_e2e J net env (run_live_flow L T J net F nanos)
       (run_offline_flow L d5 T G path_exists dir blinding clock)) (\<lambda>(mode, steps).
     io_return (print_summary mode steps, if steps < 5 then 1 else 0))"

text \<open>The four tests of one live flow each: without a node they return at once.\<close>

definition live_test ::
  "('v, 'f) json_api \<Rightarrow> 'w network \<Rightarrow> (string \<Rightarrow> string option)
    \<Rightarrow> (btq_rpc_client \<Rightarrow> ('w, usize \<times> btq_rpc_client) io) \<Rightarrow> usize \<Rightarrow> ('w, usize option) io" where
  "live_test J net env live least =
     io_bind (try_connect J net (read_live_config env)) (\<lambda>found. case found of
       None \<Rightarrow> io_return None
     | Some client \<Rightarrow> io_bind (live client) (\<lambda>(steps, _).
         io_bind (assert_io (steps \<ge> least)) (\<lambda>_. io_return (Some steps))))"

definition live_close_with_opret_commitment where
  "live_close_with_opret_commitment L T J net F env nanos =
     live_test J net env (run_live_flow L T J net F nanos) 6"

definition live_p2mr_ret_commitment where
  "live_p2mr_ret_commitment L J net F env nanos =
     live_test J net env (run_live_p2mr_ret_flow L J net F nanos) 5"

definition live_dilithium_rotation where
  "live_dilithium_rotation L J net F env nanos =
     live_test J net env (run_live_dilithium_rotation_flow L J net F nanos) 4"

definition live_reorg_simulation where
  "live_reorg_simulation L J net F env nanos =
     live_test J net env (run_live_reorg_simulation L J net F nanos) 5"

lemma try_connect_outcome:
  "try_connect J net cfg w = (Ok (Some client), w') \<Longrightarrow>
    \<exists>rpc. lc_rpc cfg = Some rpc \<and> client = client_new rpc \<and> verify_network J net client w = (Ok (), w')"
  by (auto simp: try_connect_def yields ok_io_yields Let_def split: option.splits)

lemma no_err_connect: "no_err (try_connect J net cfg)"
  by (auto simp: try_connect_def Let_def intro!: no_err_intros split: option.split)

lemma run_e2e_outcome:
  assumes "sha256_ok L" "hex_ok L"
  shows "case run_e2e J net env (run_live_flow L T J net F nanos) (Ok 5) w of
      (Ok (mode, steps), w') \<Rightarrow> (mode = ''live'' \<and> steps = 12) \<or> (mode = ''offline'' \<and> steps = 5)
    | (Err e, w') \<Rightarrow> False | (Panic, w') \<Rightarrow> True"
proof -
  have "no_err (run_e2e J net env (run_live_flow L T J net F nanos) (Ok 5))"
    unfolding run_e2e_def case_prod_beta
    by (intro no_err_bind no_err_connect)
       (auto intro!: no_err_bind no_err_ends no_err_result live_flow_no_err [OF assms] split: option.split)
  moreover have "(mode = ''live'' \<and> steps = 12) \<or> (mode = ''offline'' \<and> steps = 5)"
    if "run_e2e J net env (run_live_flow L T J net F nanos) (Ok 5) w = (Ok (mode, steps), w')"
    for mode steps w'
    using that live_flow_done(1) [of L T J net F nanos, THEN conjunct1]
    by (fastforce simp: run_e2e_def yields split: option.splits)
  ultimately show ?thesis
    by (auto simp: no_err_def split: result.split prod.split)
qed

text \<open>C21. The end-to-end test and the binary: given what the offline flow needs of the hash, of RGB's
  issuing and of the clock, the test passes with five steps when no node is configured, and in any
  case ends with the summary of a live run of twelve steps or an offline run of five, or in a panic,
  so its last assertion never fails and the binary never exits with the failure code.\<close>

theorem local_e2e_outcome:
  assumes "sha256_ok L" "hex_ok L" "bech32_ok L SEAL_HRP" "tx_codec_ok T"
    and "path_exists (nia_kit_path dir)"
    "issue_nia_to_btq_seal G (nia_kit_path dir) BitcoinRegtest (demo_asset G) demo_txid 0 blinding
      = Ok issued"
    and "collision_free L {digest_preimage demo_seal, digest_preimage other_demo}"
    and "\<forall>n. clock n - clock 0 \<le> 5000"
  shows "(case fst (local_e2e_flow L d5 T J net F G path_exists dir blinding clock env nanos w) of
      Ok out \<Rightarrow> out \<in> {print_summary ''live'' 12, print_summary ''offline'' 5}
    | Err e \<Rightarrow> False | Panic \<Rightarrow> True)
    \<and> fst (e2e_main L d5 T J net F G path_exists dir blinding clock env nanos w)
      \<in> {Ok (print_summary ''live'' 12, 0), Ok (print_summary ''offline'' 5, 0), Panic}
    \<and> (env ''RGBPQ_BTQ_RPC'' = None \<longrightarrow>
        local_e2e_flow L d5 T J net F G path_exists dir blinding clock env nanos w
          = (Ok (print_summary ''offline'' 5), w))"
proof -
  have offline: "run_offline_flow L d5 T G path_exists dir blinding clock = Ok 5"
    using assms by (intro offline_flow_passes) auto
  let ?run = "run_e2e J net env (run_live_flow L T J net F nanos) (Ok 5)"
  have none: "?run w = (Ok (''offline'', 5), w)" if "env ''RGBPQ_BTQ_RPC'' = None"
    using that by (simp add: run_e2e_def try_connect_def read_live_config_def io_bind_def io_return_def
        io_result_def)
  note defs = local_e2e_flow_def e2e_main_def offline io_bind_def io_return_def assert_io_def io_result_def
  show ?thesis
  proof (intro conjI impI, goal_cases)
    case 1
    show ?case using run_e2e_outcome [OF assms(1,2), of J net env T F nanos w]
      by (cases "?run w") (auto simp: defs split: result.splits prod.splits)
  next
    case 2
    show ?case using run_e2e_outcome [OF assms(1,2), of J net env T F nanos w]
      by (cases "?run w") (auto simp: defs split: result.splits prod.splits)
  next
    case 3
    then show ?case by (simp add: defs none)
  qed
qed

text \<open>RGB crates whose every call succeeds.\<close>

definition sample_std :: "(unit, unit, unit, unit) rgb_std" where
  "sample_std = \<lparr>rgb_kit_load_file = (\<lambda>_. Ok ()), rgb_kit_validate = Ok, rgb_stock_in_memory = (),
     rgb_import_kit = (\<lambda>_ _. (Ok (), ())), rgb_identity_default = (), rgb_nia_schema_id = (),
     rgb_contract_builder = (\<lambda>_ _ _ _. Ok ()), rgb_centi_micro = (), rgb_asset_spec = (\<lambda>_ _ _. ()),
     rgb_default_terms = (), rgb_amount = (\<lambda>_. ()), rgb_add_global_state = (\<lambda>_ _ _. Ok ()),
     rgb_genesis_seal = (\<lambda>_ _ _. ()), rgb_graph_seal = (\<lambda>_ _ _. ()),
     rgb_add_fungible_state = (\<lambda>_ _ _ _. Ok ()), rgb_issue_contract = Ok, rgb_contract_id = (\<lambda>_. ()),
     rgb_import_contract = (\<lambda>_ _ _. (Ok (), ())), rgb_validate = (\<lambda>_ _ _ w. (Ok (), w)),
     rgb_contract_state = (\<lambda>_ _. Ok ()), rgb_fungible_all = (\<lambda>_. []),
     rgb_transition_builder = (\<lambda>_ _ _. Ok ()), rgb_add_input = (\<lambda>_ _ _. Ok ()),
     rgb_complete_transition = Ok\<rparr>"

theorem local_e2e_outcome_witness:
  "local_e2e_flow checksum_crates False toy_tx_codec toy_json toy_network node_amounts sample_std
      (\<lambda>_. True) ''/rgb-pq/tests/rgb-pq-e2e'' 0 (\<lambda>_. 0) (\<lambda>_. None) None ()
    = (Ok [[], replicate 60 (CHR ''=''), '' RGB-PQ local end-to-end: SUCCESS (offline)'',
           '' verified steps: 5'', replicate 60 (CHR ''='')], ())"
proof -
  have issued: "issue_nia_to_btq_seal sample_std kit net spec txid vout blinding
      = Ok \<lparr>ia_contract = (), ia_contract_id = ()\<rparr>" for kit net spec txid vout blinding
    by (simp add: issue_nia_to_btq_seal_def load_nia_kit_def sample_std_def)
  have "distinct (map (\<lambda>s. sha256 checksum_crates (digest_preimage s)) [demo_seal, other_demo])"
    by code_simp
  then have "collision_free checksum_crates {digest_preimage demo_seal, digest_preimage other_demo}"
    by (intro collision_free_list [of _ "map digest_preimage [demo_seal, other_demo]"]) (auto simp: comp_def)
  moreover have "hex_ok checksum_crates"
    using toy_hex_ok by (simp add: hex_ok_def checksum_crates_def)
  moreover have "fmt_nat 5 = ''5''" by code_simp
  ultimately show ?thesis
    using local_e2e_outcome [OF checksum_ok _ checksum_bech32_ok [folded SEAL_HRP_def] toy_tx_codec_ok _
        issued, where path_exists = "\<lambda>_. True" and clock = "\<lambda>_. 0" and env = "\<lambda>_. None"
        and dir = "''/rgb-pq/tests/rgb-pq-e2e''" and J = toy_json and net = toy_network and w = "()"
        and F = node_amounts and nanos = None and ?d5.0 = False and blinding = 0]
    by (simp add: print_summary_def)
qed

end
