(* ===== verification/Request_Bounds.thy ===== *)
theory Request_Bounds
  imports E2e_Flows
begin

section \<open>How much a flow asks of the node\<close>

text \<open>
  A network that counts the requests it sends and the milliseconds it sleeps, and a calculus for
  programs over it: \<open>metered_as m m' n t\<close> says that \<open>m\<close> over the counting network does what \<open>m'\<close> does over
  the plain one, with at most \<open>n\<close> requests and \<open>t\<close> milliseconds of sleep. With the rules for
  sequencing, the bound of a whole flow is the sum of the bounds of its steps.
\<close>

definition metered :: "'w network \<Rightarrow> ('w \<times> nat \<times> nat) network" where
  "metered net = \<lparr>
     net_post = (\<lambda>url headers body (w, n, t). case net_post net url headers body w of
       (out, w') \<Rightarrow> (out, (w', n + 1, t))),
     net_sleep_ms = (\<lambda>ms (w, n, t). (net_sleep_ms net ms w, n, t + ms))\<rparr>"

definition metered_as ::
  "('w \<times> nat \<times> nat, 'a) io \<Rightarrow> ('w, 'a) io \<Rightarrow> nat \<Rightarrow> nat \<Rightarrow> bool" where
  "metered_as m m' n t \<longleftrightarrow> (\<forall>w k s. \<exists>k' s'. m (w, k, s) = (fst (m' w), (snd (m' w), k', s'))
     \<and> k' \<le> k + n \<and> s' \<le> s + t)"

named_theorems metering \<open>bounds of the steps of a flow\<close>

lemma metered_asE:
  assumes "metered_as m m' n t"
  obtains k' s' where "m (w, k, s) = (fst (m' w), (snd (m' w), k', s'))" "k' \<le> k + n" "s' \<le> s + t"
  using assms unfolding metered_as_def by blast

lemma metered_as_mono: "metered_as m m' n t \<Longrightarrow> n \<le> n' \<Longrightarrow> t \<le> t' \<Longrightarrow> metered_as m m' n' t'"
  unfolding metered_as_def by (metis add_left_mono le_trans)

lemma metered_ends [metering]:
  "metered_as (io_return x) (io_return x) 0 0" "metered_as (io_result r) (io_result r) 0 0"
  "metered_as (assert_io b) (assert_io b) 0 0"
  by (simp_all add: metered_as_def io_return_def io_result_def assert_io_def)

text \<open>Going on with whatever a call gave, errors included.\<close>

lemma metered_case:
  assumes "metered_as m m' n t"
    and "\<And>r w w'. m' w = (r, w') \<Longrightarrow> metered_as (f r) (f' r) n2 t2"
  shows "metered_as (\<lambda>w. case m w of (r, w1) \<Rightarrow> f r w1) (\<lambda>w. case m' w of (r, w1) \<Rightarrow> f' r w1)
    (n + n2) (t + t2)"
  unfolding metered_as_def
proof (intro allI)
  fix w k s
  obtain r w1 where r: "m' w = (r, w1)" by (cases "m' w")
  from assms(1) obtain k1 s1 where "m (w, k, s) = (fst (m' w), (snd (m' w), k1, s1))"
      and le: "k1 \<le> k + n" "s1 \<le> s + t" by (rule metered_asE)
  with r have 1: "m (w, k, s) = (r, (w1, k1, s1))" by simp
  from assms(2) [OF r] obtain k2 s2 where
    "f r (w1, k1, s1) = (fst (f' r w1), (snd (f' r w1), k2, s2))" "k2 \<le> k1 + n2" "s2 \<le> s1 + t2"
    by (rule metered_asE)
  with 1 le r show "\<exists>k' s'. (case m (w, k, s) of (r, w1) \<Rightarrow> f r w1)
      = (fst (case m' w of (r, w1) \<Rightarrow> f' r w1), (snd (case m' w of (r, w1) \<Rightarrow> f' r w1), k', s'))
      \<and> k' \<le> k + (n + n2) \<and> s' \<le> s + (t + t2)"
    by auto
qed

lemma metered_bind_dep:
  assumes "metered_as m m' n t"
    and "\<And>x w w'. m' w = (Ok x, w') \<Longrightarrow> metered_as (f x) (f' x) n2 t2"
  shows "metered_as (io_bind m f) (io_bind m' f') (n + n2) (t + t2)"
proof -
  let ?go = "\<lambda>f r. case r of Ok x \<Rightarrow> f x | Err e \<Rightarrow> io_result (Err e) | Panic \<Rightarrow> io_result Panic"
  have bind: "io_bind m f = (\<lambda>w. case m w of (r, w1) \<Rightarrow> ?go f r w1)" for m f
    by (auto simp: io_bind_def io_result_def fun_eq_iff split: result.split prod.split)
  show ?thesis
    unfolding bind
  proof (rule metered_case [OF assms(1)])
    fix r w w' assume r: "m' w = (r, w')"
    show "metered_as (?go f r) (?go f' r) n2 t2"
      using assms(2) r by (cases r) (auto intro: metered_as_mono [OF metered_ends(2)])
  qed
qed

lemma metered_bind:
  "metered_as m m' n t \<Longrightarrow> (\<And>x. metered_as (f x) (f' x) n2 t2)
    \<Longrightarrow> metered_as (io_bind m f) (io_bind m' f') (n + n2) (t + t2)"
  by (rule metered_bind_dep)

lemma metered_match:
  assumes "metered_as m m' n t" and "\<And>r. metered_as (\<lambda>w1. F (r, w1)) (\<lambda>w1. F' (r, w1)) n2 t2"
  shows "metered_as (\<lambda>w. F (m w)) (\<lambda>w. F' (m' w)) (n + n2) (t + t2)"
  using metered_case [OF assms(1), of "\<lambda>r w1. F (r, w1)" "\<lambda>r w1. F' (r, w1)" n2 t2] assms(2)
  by simp

lemma metered_map:
  assumes "metered_as m m' n t"
  shows "metered_as (\<lambda>w. case m w of (r, w1) \<Rightarrow> (g r, w1)) (\<lambda>w. case m' w of (r, w1) \<Rightarrow> (g r, w1)) n t"
proof -
  have "metered_as (\<lambda>w. case m w of (r, w1) \<Rightarrow> io_result (g r) w1)
      (\<lambda>w. case m' w of (r, w1) \<Rightarrow> io_result (g r) w1) (n + 0) (t + 0)"
    by (rule metered_case [OF assms]) (rule metered_ends)
  then show ?thesis by (simp add: io_result_def)
qed

lemma catch_as_map:
  "expect_io m = (\<lambda>w. case m w of (r, w1) \<Rightarrow> (case r of Ok x \<Rightarrow> Ok x | _ \<Rightarrow> Panic, w1))"
  "ok_io m = (\<lambda>w. case m w of (r, w1) \<Rightarrow>
     (case r of Ok x \<Rightarrow> Ok (Some x) | Err e \<Rightarrow> Ok None | Panic \<Rightarrow> Panic, w1))"
  by (auto simp: expect_io_def ok_io_def fun_eq_iff split: result.split prod.split)

lemma metered_catch:
  "metered_as m m' n t \<Longrightarrow> metered_as (expect_io m) (expect_io m') n t"
  "metered_as m m' n t \<Longrightarrow> metered_as (ok_io m) (ok_io m') n t"
  unfolding catch_as_map by (rule metered_map, assumption)+

subsection \<open>One call\<close>

definition retry_sleep :: "btq_rpc_client \<Rightarrow> nat" where
  "retry_sleep c = 100 * unat (cl_retries c) * (unat (cl_retries c) + 1)"

definition attempts :: "btq_rpc_client \<Rightarrow> nat" where
  "attempts c = unat (cl_retries c) + 1"

fun sleep_left :: "nat \<Rightarrow> nat \<Rightarrow> nat \<Rightarrow> nat" where
  "sleep_left r attempt 0 = 0"
| "sleep_left r attempt (Suc fuel) =
     (if attempt < r then 200 * (attempt + 1) else 0) + sleep_left r (attempt + 1) fuel"

lemma sleep_left_all:
  "attempt \<le> r \<Longrightarrow> attempt + fuel = r + 1
    \<Longrightarrow> sleep_left r attempt fuel + 100 * attempt * (attempt + 1) = 100 * r * (r + 1)"
proof (induction fuel arbitrary: attempt)
  case (Suc fuel)
  show ?case
  proof (cases "attempt = r")
    case True
    with Suc.prems show ?thesis by simp
  next
    case False
    with Suc.prems Suc.IH [of "attempt + 1"] show ?thesis by (simp add: algebra_simps)
  qed
qed simp

lemma metered_call_loop:
  "metered_as (call_loop J (metered net) c body fuel attempt last_err)
     (call_loop J net c body fuel attempt last_err)
     fuel (sleep_left (unat (cl_retries c)) attempt fuel)"
proof (induction fuel arbitrary: attempt last_err)
  case 0
  then show ?case by (simp add: metered_as_def)
next
  case (Suc fuel)
  show ?case
    unfolding metered_as_def
  proof (intro allI)
    fix w k s
    let ?slept = "if attempt < unat (cl_retries c) then 200 * (attempt + 1) else 0"
    obtain out w1 where post: "net_post net (request_url c) (request_headers c) body w = (out, w1)"
      by (cases "net_post net (request_url c) (request_headers c) body w")
    let ?w2 = "if attempt < unat (cl_retries c) then net_sleep_ms net (200 * (attempt + 1)) w1 else w1"
    show "\<exists>k' s'. call_loop J (metered net) c body (Suc fuel) attempt last_err (w, k, s)
        = (fst (call_loop J net c body (Suc fuel) attempt last_err w),
           (snd (call_loop J net c body (Suc fuel) attempt last_err w), k', s'))
        \<and> k' \<le> k + Suc fuel \<and> s' \<le> s + sleep_left (unat (cl_retries c)) attempt (Suc fuel)"
    proof (cases out)
      case (HttpTransport d)
      let ?e = "Some (transport_error c d)"
      from Suc.IH [of "attempt + 1" ?e] obtain k' s' where
        "call_loop J (metered net) c body fuel (attempt + 1) ?e (?w2, k + 1, s + ?slept)
          = (fst (call_loop J net c body fuel (attempt + 1) ?e ?w2),
             (snd (call_loop J net c body fuel (attempt + 1) ?e ?w2), k', s'))"
        "k' \<le> k + 1 + fuel" "s' \<le> s + ?slept + sleep_left (unat (cl_retries c)) (attempt + 1) fuel"
        by (rule metered_asE)
      with post HttpTransport show ?thesis by (auto simp: metered_def)
    qed (use post in \<open>auto simp: metered_def\<close>)
  qed
qed

lemma metered_call:
  "metered_as (rpc_call J (metered net) c m ps) (rpc_call J net c m ps) (attempts c) (retry_sleep c)"
proof -
  have "sleep_left (unat (cl_retries c)) 0 (attempts c) \<le> retry_sleep c"
    using sleep_left_all [of 0 "unat (cl_retries c)" "attempts c"]
    by (simp add: attempts_def retry_sleep_def del: sleep_left.simps)
  then show ?thesis
    unfolding rpc_call_def using metered_call_loop [of J net c "request_body J m ps" "attempts c" 0 None]
    by (auto simp: attempts_def intro: metered_as_mono)
qed

subsection \<open>The steps of the flows\<close>

lemma set_wallet_cost [simp]:
  "attempts (set_wallet c w) = attempts c" "retry_sleep (set_wallet c w) = retry_sleep c"
  by (simp_all add: attempts_def retry_sleep_def set_wallet_def)

lemmas metering_rules = metered_bind metered_catch metered_ends metered_call

text \<open>A step whose program is a sequence of calls costs the sum of their costs.\<close>

lemma metered_new_address [metering]:
  "metered_as (new_address J (metered net) c) (new_address J net c) (attempts c) (retry_sleep c)"
  unfolding new_address_def by (rule metered_as_mono, (rule metering_rules)+, simp_all)

lemma metered_generate [metering]:
  "metered_as (generate_blocks J (metered net) c k a) (generate_blocks J net c k a)
     (attempts c) (retry_sleep c)"
  unfolding generate_blocks_def by (rule metered_as_mono, (rule metering_rules)+, simp_all)

lemma metered_spend [metering]:
  "metered_as (create_p2mr_spend J (metered net) c i a x y) (create_p2mr_spend J net c i a x y)
     (attempts c) (retry_sleep c)"
  unfolding create_p2mr_spend_def by (rule metered_as_mono, (rule metering_rules)+, simp_all)

lemma metered_sign [metering]:
  "metered_as (sign_p2mr_tx J (metered net) c h i) (sign_p2mr_tx J net c h i) (attempts c) (retry_sleep c)"
  unfolding sign_p2mr_tx_def by (rule metered_as_mono, (rule metering_rules)+, simp_all)

lemma metered_broadcast [metering]:
  "metered_as (tx_broadcast L J (metered net) c h) (tx_broadcast L J net c h) (attempts c) (retry_sleep c)"
  unfolding tx_broadcast_def rpc_backend_def send_raw_tx_def btq_chain_backend.simps
  by (rule metered_as_mono, (rule metering_rules)+, simp_all)

lemma metered_find_vout [metering]:
  "metered_as (find_p2mr_vout J (metered net) c p) (find_p2mr_vout J net c p) (attempts c) (retry_sleep c)"
  unfolding find_p2mr_vout_def by (rule metered_as_mono, (rule metering_rules)+, simp_all)

lemma metered_open_wallet:
  "metered_as (open_wallet J (metered net) F c p k) (open_wallet J net F c p k)
     (2 * attempts c) (2 * retry_sleep c)"
  unfolding open_wallet_def Let_def by (rule metered_as_mono, (rule metering_rules)+, simp_all)

lemma metered_pure: "metered_as (\<lambda>w. (r, w)) (\<lambda>w. (r, w)) 0 0"
  by (simp add: metered_as_def)

lemma metered_fund [metering]:
  "metered_as (create_fund_p2mr J (metered net) c l x lb) (create_fund_p2mr J net c l x lb)
     (2 * attempts c) (2 * retry_sleep c)"
  unfolding create_fund_p2mr_def Let_def
proof (rule metered_as_mono, rule metered_bind [OF metered_call], rule metered_match [OF metered_call])
  show "metered_as (\<lambda>w1. case (r, w1) of (Ok i, w1) \<Rightarrow> (g (Ok i), w1) | (Err e, w1) \<Rightarrow> (g (Err e), w1)
        | (Panic, w1) \<Rightarrow> (Panic, w1))
      (\<lambda>w1. case (r, w1) of (Ok i, w1) \<Rightarrow> (g (Ok i), w1) | (Err e, w1) \<Rightarrow> (g (Err e), w1)
        | (Panic, w1) \<Rightarrow> (Panic, w1)) 0 0" for r :: "'d rgb_pq_result" and g :: "'d rgb_pq_result \<Rightarrow> 'e rgb_pq_result"
    by (cases r) (simp_all add: metered_pure)
qed simp_all

lemma metered_option:
  "metered_as a a' n t \<Longrightarrow> (\<And>y. metered_as (f y) (f' y) n t)
    \<Longrightarrow> metered_as (case x of None \<Rightarrow> a | Some y \<Rightarrow> f y) (case x of None \<Rightarrow> a' | Some y \<Rightarrow> f' y) n t"
  by (cases x) simp_all

lemma metered_scan [metering]:
  "metered_as (scan_close_tx_for_commitment L J (metered net) c t s)
     (scan_close_tx_for_commitment L J net c t s) (2 * attempts c) (2 * retry_sleep c)"
  unfolding scan_close_tx_for_commitment_def Let_def
  by (rule metered_as_mono, (rule metering_rules metered_option)+, simp_all)

lemma metered_proof [metering]:
  "metered_as (get_inclusion_proof J (metered net) c t) (get_inclusion_proof J net c t)
     (2 * attempts c) (2 * retry_sleep c)"
  unfolding get_inclusion_proof_def Let_def
  apply (rule metered_as_mono)
    apply (rule metered_match [OF metered_call, where ?n2.0 = "attempts c" and ?t2.0 = "retry_sleep c"])
  subgoal for r
    by (cases r) (simp_all add: metered_as_mono [OF metered_pure]
      metered_as_mono [OF metered_bind [OF metered_call metered_ends(2)]])
   apply simp_all
  done

lemma metered_if_return:
  "metered_as m m' n t \<Longrightarrow> metered_as (if b then io_return x else m) (if b then io_return x else m') n t"
  by (cases b) (simp_all add: metered_as_mono [OF metered_ends(1)])

lemma metered_wait:
  "metered_as (wait_loop J (metered net) c p a k) (wait_loop J net c p a k)
     (k * (2 * attempts c)) (k * (2 * retry_sleep c + 150))"
proof (induction k)
  case 0
  then show ?case by (simp add: metered_ends)
next
  case (Suc k)
  have sleep: "metered_as (\<lambda>w. wait_loop J (metered net) c p a k (net_sleep_ms (metered net) 150 w))
      (\<lambda>w. wait_loop J net c p a k (net_sleep_ms net 150 w))
      (k * (2 * attempts c)) (k * (2 * retry_sleep c + 150) + 150)"
    unfolding metered_as_def
  proof (intro allI)
    fix w n s
    from Suc obtain n' s' where "wait_loop J (metered net) c p a k (net_sleep_ms net 150 w, n, s + 150)
        = (fst (wait_loop J net c p a k (net_sleep_ms net 150 w)),
           (snd (wait_loop J net c p a k (net_sleep_ms net 150 w)), n', s'))"
      "n' \<le> n + k * (2 * attempts c)" "s' \<le> s + 150 + k * (2 * retry_sleep c + 150)"
      by (rule metered_asE)
    then show "\<exists>k' s'. wait_loop J (metered net) c p a k (net_sleep_ms (metered net) 150 (w, n, s))
        = (fst (wait_loop J net c p a k (net_sleep_ms net 150 w)),
           (snd (wait_loop J net c p a k (net_sleep_ms net 150 w)), k', s'))
        \<and> k' \<le> n + k * (2 * attempts c) \<and> s' \<le> s + (k * (2 * retry_sleep c + 150) + 150)"
      by (intro exI [of _ n'] exI [of _ s']) (simp add: metered_def)
  qed
  show ?case
    unfolding wait_loop.simps
    by (rule metered_as_mono, rule metered_bind [OF metered_catch(2) [OF metered_call]], rule metered_if_return,
        rule metered_bind [OF metered_catch(2) [OF metered_generate]], rule sleep) simp_all
qed

lemma metered_unless:
  "metered_as m m' n t \<Longrightarrow> metered_as (if b then m else io_return x) (if b then m' else io_return x) n t"
  by (cases b) (simp_all add: metered_as_mono [OF metered_ends(1)])

lemma metered_spendable [metering]:
  "metered_as (wait_for_p2mr_spendable J (metered net) c p a) (wait_for_p2mr_spendable J net c p a)
     (10 * attempts c) (10 * retry_sleep c + 750)"
  unfolding wait_for_p2mr_spendable_def by (rule metered_as_mono [OF metered_wait]) simp_all

lemma open_wallet_keeps_retries:
  "open_wallet J net F c p k w = (Ok c', w') \<Longrightarrow> attempts c' = attempts c \<and> retry_sleep c' = retry_sleep c"
  by (auto simp: open_wallet_def Let_def yields)

lemma metered_flow:
  assumes "\<And>c'. attempts c' = attempts c \<Longrightarrow> retry_sleep c' = retry_sleep c
    \<Longrightarrow> metered_as (f c') (f' c') (n * attempts c) (n * retry_sleep c + t)"
  shows "metered_as (io_bind (open_wallet J (metered net) F c p k) f)
    (io_bind (open_wallet J net F c p k) f') ((n + 2) * attempts c) ((n + 2) * retry_sleep c + t)"
proof (rule metered_as_mono, rule metered_bind_dep [OF metered_open_wallet])
  show "metered_as (f c') (f' c') (n * attempts c) (n * retry_sleep c + t)"
    if "open_wallet J net F c p k w = (Ok c', w')" for c' w w'
    using assms open_wallet_keeps_retries [OF that] by blast
qed (simp_all add: algebra_simps)

lemma metered_confirmations [metering]:
  "metered_as (confirmations_or J (metered net) c t d) (confirmations_or J net c t d)
     (attempts c) (retry_sleep c)"
  unfolding confirmations_or_def by (rule metered_as_mono, (rule metering_rules)+, simp_all)

lemma metered_rotate [metering]:
  "metered_as (rotate_dilithium_key J (metered net) c x lb) (rotate_dilithium_key J net c x lb)
     (4 * attempts c) (4 * retry_sleep c)"
  unfolding rotate_dilithium_key_def new_dilithium_address_def Let_def case_prod_beta
  by (rule metered_as_mono, (rule metering_rules metered_fund)+, simp_all)

lemma metered_sleep [metering]:
  "metered_as (\<lambda>w. (Ok (), net_sleep_ms (metered net) ms w)) (\<lambda>w. (Ok (), net_sleep_ms net ms w)) 0 ms"
  by (simp add: metered_as_def metered_def)

lemmas metering_flow = metered_unless metering metering_rules metered_if_return metered_option

lemma metered_live_flow:
  "metered_as (run_live_flow L T J (metered net) F nanos c) (run_live_flow L T J net F nanos c)
     (28 * attempts c) (28 * retry_sleep c + 750)"
  unfolding run_live_flow_def Let_def case_prod_beta
  by (rule metered_as_mono, rule metered_flow [where n = 26 and t = 750],
      rule metered_as_mono, (rule metering_flow)+, simp_all)

lemma metered_ret_flow:
  "metered_as (run_live_p2mr_ret_flow L J (metered net) F nanos c)
     (run_live_p2mr_ret_flow L J net F nanos c) (24 * attempts c) (24 * retry_sleep c + 750)"
  unfolding run_live_p2mr_ret_flow_def Let_def case_prod_beta
  by (rule metered_as_mono, rule metered_flow [where n = 22 and t = 750],
      rule metered_as_mono, (rule metering_flow)+, simp_all)

lemma metered_rotation_flow:
  "metered_as (run_live_dilithium_rotation_flow L J (metered net) F nanos c)
     (run_live_dilithium_rotation_flow L J net F nanos c) (25 * attempts c) (25 * retry_sleep c + 750)"
  unfolding run_live_dilithium_rotation_flow_def Let_def case_prod_beta
  by (rule metered_as_mono, rule metered_flow [where n = 23 and t = 750],
      rule metered_as_mono, (rule metering_flow)+, simp_all)

lemma metered_reorg_flow:
  "metered_as (run_live_reorg_simulation L J (metered net) F nanos c)
     (run_live_reorg_simulation L J net F nanos c) (26 * attempts c) (26 * retry_sleep c + 1250)"
  unfolding run_live_reorg_simulation_def Let_def case_prod_beta
  by (rule metered_as_mono, rule metered_flow [where n = 24 and t = 1250],
      rule metered_as_mono, (rule metering_flow)+, simp_all)

subsection \<open>Properties\<close>

text \<open>C23. A live run is finite and its load is bounded, whatever the node answers: over any network
  each of the four live flows ends as it does without the counters, after at most 28, 24, 25 and 26
  RPC calls of \<^verbatim>\<open>retries + 1\<close> requests each, having slept at most the retry delays of these calls,
  the five waits of 150 ms and, for the reorganisation, its half second.\<close>

theorem live_flows_bounded:
  "metered_as (run_live_flow L T J (metered net) F nanos c) (run_live_flow L T J net F nanos c)
      (28 * (unat (cl_retries c) + 1))
      (28 * (100 * unat (cl_retries c) * (unat (cl_retries c) + 1)) + 750)
    \<and> metered_as (run_live_p2mr_ret_flow L J (metered net) F nanos c)
      (run_live_p2mr_ret_flow L J net F nanos c) (24 * (unat (cl_retries c) + 1))
      (24 * (100 * unat (cl_retries c) * (unat (cl_retries c) + 1)) + 750)
    \<and> metered_as (run_live_dilithium_rotation_flow L J (metered net) F nanos c)
      (run_live_dilithium_rotation_flow L J net F nanos c) (25 * (unat (cl_retries c) + 1))
      (25 * (100 * unat (cl_retries c) * (unat (cl_retries c) + 1)) + 750)
    \<and> metered_as (run_live_reorg_simulation L J (metered net) F nanos c)
      (run_live_reorg_simulation L J net F nanos c) (26 * (unat (cl_retries c) + 1))
      (26 * (100 * unat (cl_retries c) * (unat (cl_retries c) + 1)) + 1250)"
  using metered_live_flow [of L T J net F nanos c] metered_ret_flow [of L J net F nanos c]
    metered_rotation_flow [of L J net F nanos c] metered_reorg_flow [of L J net F nanos c]
  unfolding attempts_def retry_sleep_def by blast

end
