(* ===== verification/Examples.thy ===== *)
theory Examples
  imports Tx
begin

section \<open>The example programs\<close>

text \<open>
  \<open>crates/rgb-pq-commit/examples/verify_merkle.rs\<close>, \<open>build_p2mrret_tree.rs\<close> and
  \<open>crates/rgb-pq-tx/examples/insert_opret.rs\<close>: each \<^verbatim>\<open>main\<close> as a function from what it reads
  (arguments, environment, files, standard input) to the lines it prints, \<^verbatim>\<open>Panic\<close> where an
  \<^verbatim>\<open>unwrap\<close>, an \<^verbatim>\<open>expect\<close> or an assertion fails.
\<close>

subsection \<open>Trimming\<close>

text \<open>\<^verbatim>\<open>str::trim\<close>: the Unicode characters with the \<^verbatim>\<open>White_Space\<close> property, in UTF-8.\<close>

definition WHITE_SPACE :: "bytes list" where
  "WHITE_SPACE = map (\<lambda>c. [c]) [0x09, 0x0a, 0x0b, 0x0c, 0x0d, 0x20]
     @ [[0xc2, 0x85], [0xc2, 0xa0], [0xe1, 0x9a, 0x80]]
     @ map (\<lambda>c. [0xe2, 0x80, c]) [0x80, 0x81, 0x82, 0x83, 0x84, 0x85, 0x86, 0x87, 0x88, 0x89, 0x8a,
         0xa8, 0xa9, 0xaf]
     @ [[0xe2, 0x81, 0x9f], [0xe3, 0x80, 0x80]]"

definition white_prefix :: "string \<Rightarrow> string option" where
  "white_prefix s = List.find (\<lambda>w. str_starts_with s w) (map from_bytes WHITE_SPACE)"

text \<open>An end of a string is a start of its reversal.\<close>

definition white_suffix :: "string \<Rightarrow> string option" where
  "white_suffix s =
     List.find (\<lambda>w. str_starts_with (rev s) (rev w)) (map from_bytes WHITE_SPACE)"

lemma white_space_nonempty: "w \<in> set (map from_bytes WHITE_SPACE) \<Longrightarrow> w \<noteq> []"
  by (auto simp: WHITE_SPACE_def from_bytes_def)

lemma white_prefix_SomeD: "white_prefix s = Some w \<Longrightarrow> w \<noteq> [] \<and> str_starts_with s w"
  using white_space_nonempty by (auto simp: white_prefix_def find_Some_iff)

lemma white_suffix_SomeD: "white_suffix s = Some w \<Longrightarrow> w \<noteq> [] \<and> str_starts_with (rev s) (rev w)"
  using white_space_nonempty by (auto simp: white_suffix_def find_Some_iff)

lemma starts_with_iff: "str_starts_with s w \<longleftrightarrow> (\<exists>r. s = w @ r)"
  unfolding str_starts_with_def by (metis append_eq_conv_conj)

lemma white_prefix_shorter:
  assumes "white_prefix s = Some w"
  shows "length (drop (length w) s) < length s"
  using white_prefix_SomeD [OF assms] by (auto simp: starts_with_iff)

lemma white_suffix_shorter:
  assumes "white_suffix s = Some w"
  shows "length (take (length s - length w) s) < length s"
proof -
  from white_suffix_SomeD [OF assms] obtain r where "w \<noteq> []" and "rev s = rev w @ r"
    by (auto simp: starts_with_iff)
  from arg_cong [OF this(2), of length] this(1) show ?thesis
    by (cases w) simp_all
qed

function trim_start :: "string \<Rightarrow> string" where
  "trim_start s = (case white_prefix s of None \<Rightarrow> s | Some w \<Rightarrow> trim_start (drop (length w) s))"
  by pat_completeness auto
termination
  by (relation "measure length") (simp_all only: wf_measure in_measure white_prefix_shorter)

function trim_end :: "string \<Rightarrow> string" where
  "trim_end s = (case white_suffix s of
     None \<Rightarrow> s | Some w \<Rightarrow> trim_end (take (length s - length w) s))"
  by pat_completeness auto
termination
  by (relation "measure length") (simp_all only: wf_measure in_measure white_suffix_shorter)

declare trim_start.simps [simp del] trim_end.simps [simp del]

definition str_trim :: "string \<Rightarrow> string" where
  "str_trim s = trim_end (trim_start s)"

lemma trim_start_clean: "white_prefix (trim_start s) = None"
proof (induction s rule: trim_start.induct)
  case (1 s)
  then show ?case
    by (cases "white_prefix s") (simp_all add: trim_start.simps [of s])
qed

lemma trim_end_clean: "white_suffix (trim_end s) = None"
proof (induction s rule: trim_end.induct)
  case (1 s)
  then show ?case
    by (cases "white_suffix s") (simp_all add: trim_end.simps [of s])
qed

lemma trim_end_prefix: "\<exists>n. trim_end s = take n s"
proof (induction s rule: trim_end.induct)
  case (1 s)
  show ?case
  proof (cases "white_suffix s")
    case None
    then show ?thesis by (intro exI [of _ "length s"]) (simp add: trim_end.simps [of s])
  next
    case (Some w)
    with 1 obtain n where "trim_end (take (length s - length w) s) = take n (take (length s - length w) s)"
      by blast
    with Some show ?thesis by (auto simp: trim_end.simps [of s])
  qed
qed

lemma white_prefix_take: "white_prefix s = None \<Longrightarrow> white_prefix (take n s) = None"
proof -
  have "str_starts_with s w" if "str_starts_with (take n s) w" for w
    using that by (metis append_take_drop_id append_assoc starts_with_iff)
  then show "white_prefix s = None \<Longrightarrow> white_prefix (take n s) = None"
    by (auto simp: white_prefix_def find_None_iff)
qed

lemma trim_clean_ids:
  "white_prefix s = None \<Longrightarrow> trim_start s = s" "white_suffix s = None \<Longrightarrow> trim_end s = s"
  by (simp_all add: trim_start.simps [of s] trim_end.simps [of s])

lemma str_trim_idem [simp]: "str_trim (str_trim s) = str_trim s"
proof -
  obtain n where n: "trim_end (trim_start s) = take n (trim_start s)" using trim_end_prefix by blast
  then have "white_prefix (trim_end (trim_start s)) = None"
    by (simp add: white_prefix_take trim_start_clean)
  then show ?thesis by (simp add: str_trim_def trim_clean_ids trim_end_clean)
qed

definition printable :: "char \<Rightarrow> bool" where
  "printable c \<longleftrightarrow> 32 < (of_char c :: nat) \<and> (of_char c :: nat) < 128"

lemma white_space_edges:
  "w \<in> set (map from_bytes WHITE_SPACE) \<Longrightarrow> w \<noteq> [] \<and> \<not> printable (hd w) \<and> \<not> printable (last w)"
proof -
  have "list_all (\<lambda>w. w \<noteq> [] \<and> \<not> printable (hd w) \<and> \<not> printable (last w)) (map from_bytes WHITE_SPACE)"
    by (simp add: WHITE_SPACE_def from_bytes_def printable_def)
  then show "w \<in> set (map from_bytes WHITE_SPACE) \<Longrightarrow> w \<noteq> [] \<and> \<not> printable (hd w) \<and> \<not> printable (last w)"
    unfolding list_all_iff by blast
qed

lemma str_trim_plain:
  assumes "list_all printable s"
  shows "str_trim s = s"
proof -
  have "\<not> str_starts_with s w" if "w \<in> set (map from_bytes WHITE_SPACE)" for w
    using white_space_edges [OF that] assms
    by (cases w) (auto simp: starts_with_iff list_all_iff)
  then have "white_prefix s = None" by (auto simp: white_prefix_def find_None_iff)
  moreover have "\<not> str_starts_with (rev s) (rev w)" if "w \<in> set (map from_bytes WHITE_SPACE)" for w
    using white_space_edges [OF that] assms
    by (cases "rev w") (auto simp: starts_with_iff list_all_iff last_rev dest: arg_cong [of _ _ set])
  then have "white_suffix s = None" by (auto simp: white_suffix_def find_None_iff)
  ultimately show ?thesis by (simp add: str_trim_def trim_clean_ids)
qed

text \<open>Hexadecimal text has nothing to trim.\<close>

lemma printable_hex: "list_all printable (hex_lower b)"
proof (induction b)
  case (Cons x b)
  have "printable (digit_char d)" if "d < 16" for d
    using that by (simp add: printable_def)
  moreover have "unat x div 16 < 16" using unsigned_less [of x] by (simp add: less_mult_imp_div_less)
  ultimately show ?case using Cons by (simp add: fmt_02x_def)
qed simp

lemma str_trim_hex [simp]: "str_trim (hex_lower b) = hex_lower b"
  by (rule str_trim_plain [OF printable_hex])

subsection \<open>The programs\<close>

text \<open>\<^verbatim>\<open>unwrap\<close> and \<^verbatim>\<open>expect\<close>.\<close>

definition expected :: "('a, 'e) result \<Rightarrow> ('a, 'f) result" where
  "expected r = (case r of Ok x \<Rightarrow> Ok x | _ \<Rightarrow> Panic)"

text \<open>\<^verbatim>\<open>hex::decode_to_slice\<close> into \<open>n\<close> bytes.\<close>

definition decode_to_slice :: "crates \<Rightarrow> string \<Rightarrow> nat \<Rightarrow> (bytes, string) result" where
  "decode_to_slice L s n = and_then (hex_decode L s) (\<lambda>b.
     if length b = n then Ok b else Err ''Invalid string length'')"

definition repeated :: "string \<Rightarrow> nat \<Rightarrow> string" where
  "repeated s n = concat (replicate n s)"

definition insert_opret_main ::
  "crates \<Rightarrow> 't tx_codec \<Rightarrow> (string \<Rightarrow> string option) \<Rightarrow> string option
    \<Rightarrow> (string \<Rightarrow> (string, string) result) \<Rightarrow> (string, string) result \<Rightarrow> (string, unit) result" where
  "insert_opret_main L T env arg1 read_file stdin =
     and_then (case arg1 of
         Some path \<Rightarrow> and_then (expected (read_file path)) (\<lambda>s. Ok (str_trim s))
       | None \<Rightarrow> expected stdin) (\<lambda>unsigned.
     let unsigned = str_trim unsigned;
         txid_hex = (case env ''SEAL_TXID'' of Some s \<Rightarrow> s | None \<Rightarrow> repeated ''00'' 32);
         vout = (case Option.bind (env ''SEAL_VOUT'') parse_u32 of Some n \<Rightarrow> n | None \<Rightarrow> 0);
         root_hex = (case env ''SEAL_ROOT'' of Some s \<Rightarrow> s | None \<Rightarrow> repeated ''22'' 32);
         leaf_hex = (case env ''SEAL_LEAF'' of Some s \<Rightarrow> s | None \<Rightarrow> repeated ''33'' 32)
     in and_then (expected (txid_from_str txid_hex :: bytes rgb_pq_result)) (\<lambda>txid.
        and_then (expected (decode_to_slice L root_hex 32)) (\<lambda>root.
        and_then (expected (decode_to_slice L leaf_hex 32)) (\<lambda>leaf.
        let s = seal_new BitcoinQuantumRegtest (outpoint_new txid vout) root leaf Dilithium2
              OpretFirst OneConf;
            mpc = replicate 32 0xa5
        in expected (append_opret_commitment L T unsigned s mpc)))))"

text \<open>The lines of the other two programs. The last line of \<open>verify_merkle\<close> is printed only when the
  assertion before it holds; it has two characters outside ASCII.\<close>

definition build_p2mrret_tree_main :: "crates \<Rightarrow> string list" where
  "build_p2mrret_tree_main L =
     (let chain = BitcoinQuantumRegtest;
          mpc = replicate 32 0xa5;
          pq_leaf = [0x51];
          tree = build_p2mr_ret_tree_for_seal L chain mpc pq_leaf;
          comm_script = commitment_leaf_script chain mpc
      in [''PQ_LEAF_HEX='' @ hex_encode L pq_leaf,
          ''COMM_LEAF_HEX='' @ hex_encode L comm_script,
          ''RUST_ROOT='' @ hex_encode L (tree_root tree)])"

definition NODE_ROOT :: string where
  "NODE_ROOT = ''518123966a74debdcfb16a12d5f4e299febb35dbb912a8229d4005b05caacba0''"

definition verify_merkle_main :: "crates \<Rightarrow> (string list, unit) result" where
  "verify_merkle_main L =
     (let a = compute_tapleaf_hash L 0xc0 [0x51];
          b = compute_tapleaf_hash L 0xc0 [0x6a, 0x02, 0xde, 0xad];
          root = compute_tapbranch_hash L a b;
          got = hex_encode L root
      in if got = NODE_ROOT
         then Ok [''our_root  = '' @ got, ''node_root = '' @ NODE_ROOT,
           ''MATCH '' @ from_bytes [0xe2, 0x9c, 0x93] @ '' '' @ from_bytes [0xe2, 0x80, 0x94]
             @ '' our Merkle math equals btq-core's consensus'']
         else Panic)"

subsection \<open>Properties\<close>

lemma expected_Ok_iff [simp]: "expected r = Ok x \<longleftrightarrow> r = Ok x"
  by (cases r) (simp_all add: expected_def)

definition env_seal :: "bytes \<Rightarrow> u32 \<Rightarrow> bytes \<Rightarrow> bytes \<Rightarrow> btq_p2mr_seal" where
  "env_seal txid vout root leaf = seal_new BitcoinQuantumRegtest (outpoint_new txid vout) root leaf
     Dilithium2 OpretFirst OneConf"

lemma env_seal_wf:
  "length txid = 32 \<Longrightarrow> length root = 32 \<Longrightarrow> length leaf = 32 \<Longrightarrow> wf_seal (env_seal txid vout root leaf)"
  by (simp add: env_seal_def wf_seal_def seal_new_def wf_outpoint_def outpoint_new_def)

text \<open>What the program makes of inputs that parse: trimming is all it does to the transaction.\<close>

lemma insert_opret_main_parsed:
  assumes "hex_ok L" and "length txid = 32" "length root = 32" "length leaf = 32"
    and "env ''SEAL_TXID'' = Some (txid_to_string txid)"
    and "env ''SEAL_VOUT'' = Some (fmt_nat (unat vout))"
    and "env ''SEAL_ROOT'' = Some (hex_lower root)" and "env ''SEAL_LEAF'' = Some (hex_lower leaf)"
    and "read_file path = Ok contents" and "str_trim contents = tx_text"
  shows "insert_opret_main L T env (Some path) read_file stdin
    = expected (append_opret_commitment L T tx_text (env_seal txid vout root leaf) (replicate 32 0xa5))"
proof -
  have trimmed: "str_trim tx_text = tx_text" using assms(10) by auto
  have slices: "decode_to_slice L (hex_lower root) 32 = Ok root"
      "decode_to_slice L (hex_lower leaf) 32 = Ok leaf"
    using assms(3,4) hex_okD(2) [OF assms(1)] by (simp_all add: decode_to_slice_def)
  show ?thesis
    unfolding insert_opret_main_def assms(5-10) env_seal_def
    by (simp add: Let_def slices parse_u32_fmt txid_roundtrip_aux [OF assms(2)]
        trimmed assms(9,10) expected_def)
qed

text \<open>C24. The demo tool prints a transaction the verifier accepts: given the seal's outpoint, root and
  leaf in the environment and a file that holds, between white space, the hex of a transaction
  with no commitment for that seal, it does not panic, and searching the printed transaction
  returns the commitment to the tool's MPC value.\<close>

theorem insert_opret_prints_findable:
  assumes "sha256_ok L" "hex_ok L" "tx_codec_ok T"
    and "length txid = 32" "length root = 32" "length leaf = 32"
    and "env ''SEAL_TXID'' = Some (txid_to_string txid)"
    and "env ''SEAL_VOUT'' = Some (fmt_nat (unat vout))"
    and "env ''SEAL_ROOT'' = Some (hex_lower root)" and "env ''SEAL_LEAF'' = Some (hex_lower leaf)"
    and "read_file path = Ok contents" and "str_trim contents = tx_text"
    and "hex_decode L tx_text = Ok raw" and "tc_deserialize T raw = Ok tx"
    and "s = seal_new BitcoinQuantumRegtest (outpoint_new txid vout) root leaf Dilithium2 OpretFirst OneConf"
    and "\<forall>o' \<in> set (tc_outputs T tx). carried_for L s (snd o') = None"
    and "build_opret_payload L s (replicate 32 0xa5) = (Ok p :: bytes rgb_pq_result)"
    and "tx_roundtrips T (tc_push_output T tx (0, build_op_return_script T p))"
  shows "\<exists>printed. insert_opret_main L T env (Some path) read_file stdin = Ok printed
    \<and> find_commitment_in_signed_tx L T printed s = Ok (Some (commitment_new s (replicate 32 0xa5)))"
proof -
  have s: "s = env_seal txid vout root leaf" by (simp add: assms(15) env_seal_def)
  have "wf_seal s" unfolding s by (rule env_seal_wf [OF assms(4-6)])
  with assms obtain hex where "append_opret_commitment L T tx_text s (replicate 32 0xa5) = Ok hex"
      "find_commitment_in_signed_tx L T hex s = Ok (Some (commitment_new s (replicate 32 0xa5)))"
    using append_find_aux [OF assms(1-3), of s "replicate 32 0xa5" tx_text raw tx p] by auto
  then show ?thesis
    using insert_opret_main_parsed [of L txid root leaf env vout read_file path contents tx_text T stdin]
      assms(2,4-12) by (simp add: expected_def s)
qed

definition sample_env :: "string \<Rightarrow> string option" where
  "sample_env = map_of [(''SEAL_TXID'', txid_to_string (replicate 32 0x11)),
     (''SEAL_VOUT'', fmt_nat (unat (7 :: u32))), (''SEAL_ROOT'', hex_lower (replicate 32 0x22)),
     (''SEAL_LEAF'', hex_lower (replicate 32 0x33))]"

theorem insert_opret_prints_findable_witness:
  "\<exists>printed s. insert_opret_main toy_crates toy_tx_codec sample_env (Some ''tx.hex'')
      (\<lambda>_. Ok '' '') (Err ''closed'') = Ok printed
    \<and> find_commitment_in_signed_tx toy_crates toy_tx_codec printed s
      = Ok (Some (commitment_new s (replicate 32 0xa5)))"
proof -
  let ?s = "seal_new BitcoinQuantumRegtest (outpoint_new (replicate 32 0x11) 7) (replicate 32 0x22)
    (replicate 32 0x33) Dilithium2 OpretFirst OneConf"
  obtain p where p: "build_opret_payload toy_crates ?s (replicate 32 0xa5) = (Ok p :: bytes rgb_pq_result)"
    using commitment_encode_layout [OF toy_sha256_ok] unfolding build_opret_payload_def by blast
  have hex: "hex_decode toy_crates [] = Ok []" by (simp add: toy_crates_def)
  have "white_prefix '' '' = Some '' ''" "white_prefix [] = None" "white_suffix [] = None"
    by (simp_all add: white_prefix_def white_suffix_def WHITE_SPACE_def from_bytes_def
        str_starts_with_def char_of_def bit_Suc_0_iff)
  then have trim: "str_trim '' '' = []"
    by (simp add: str_trim_def trim_start.simps [of "'' ''"] trim_clean_ids)
  have "\<exists>printed. insert_opret_main toy_crates toy_tx_codec sample_env (Some ''tx.hex'')
      (\<lambda>_. Ok '' '') (Err ''closed'') = Ok printed
    \<and> find_commitment_in_signed_tx toy_crates toy_tx_codec printed ?s
      = Ok (Some (commitment_new ?s (replicate 32 0xa5)))"
    by (rule insert_opret_prints_findable [OF toy_sha256_ok toy_hex_ok toy_tx_codec_ok,
        where raw = "[]" and tx = "[]" and p = p and txid = "replicate 32 0x11" and vout = 7
          and root = "replicate 32 0x22" and leaf = "replicate 32 0x33" and contents = "'' ''" and tx_text = "[]"])
       (simp_all add: sample_env_def trim p hex toy_tx_codec_def tx_roundtrips_def
         build_op_return_script_def)
  then show ?thesis by blast
qed

text \<open>The tool prints exactly when everything it reads parses, and panics otherwise: a txid that is
  not 64 hex digits, a root or a leaf hash that is not 32 bytes of hex, or a transaction that
  does not decode. A \<^verbatim>\<open>SEAL_VOUT\<close> that does not parse is silently output 0.\<close>

theorem insert_opret_main_iff:
  "insert_opret_main L T env None read_file (Ok input) = Ok printed \<longleftrightarrow>
    (\<exists>txid root leaf.
      txid_from_str (case env ''SEAL_TXID'' of Some s \<Rightarrow> s | None \<Rightarrow> repeated ''00'' 32)
        = (Ok txid :: bytes rgb_pq_result)
      \<and> hex_decode L (case env ''SEAL_ROOT'' of Some s \<Rightarrow> s | None \<Rightarrow> repeated ''22'' 32) = Ok root
      \<and> length root = 32
      \<and> hex_decode L (case env ''SEAL_LEAF'' of Some s \<Rightarrow> s | None \<Rightarrow> repeated ''33'' 32) = Ok leaf
      \<and> length leaf = 32
      \<and> append_opret_commitment L T (str_trim input)
          (seal_new BitcoinQuantumRegtest (outpoint_new txid
            (case Option.bind (env ''SEAL_VOUT'') parse_u32 of Some n \<Rightarrow> n | None \<Rightarrow> 0))
            root leaf Dilithium2 OpretFirst OneConf) (replicate 32 0xa5) = Ok printed)"
proof -
  have "decode_to_slice L h 32 = Ok b \<longleftrightarrow> hex_decode L h = Ok b \<and> length b = 32" for h b
    by (auto simp: decode_to_slice_def and_then_Ok_iff split: if_splits)
  then show ?thesis
    by (simp add: insert_opret_main_def Let_def and_then_Ok_iff)
qed

end
