(* ===== verification/Sha256.thy ===== *)
theory Sha256
  imports Samples
begin

section \<open>SHA-256 as an instance of the hash parameter\<close>

text \<open>
  The hash of every component is the field \<open>sha256\<close> of the crate parameter. Here is the function the
  \<^verbatim>\<open>sha2\<close> crate documents, written from FIPS 180-4: with it the parameter has a realistic instance,
  on which digests the repository pins down can be computed. The first half is the standard's
  definition on 32-bit words. The second is the same function on lists of bits, proved equal, on
  which a digest is a few thousand rewrite steps.
\<close>

unbundle bit_operations_syntax

subsection \<open>The standard\<close>

definition sha_rotr :: "nat \<Rightarrow> u32 \<Rightarrow> u32" where
  "sha_rotr n x = drop_bit n x OR push_bit (32 - n) x"

definition sha_ch :: "u32 \<Rightarrow> u32 \<Rightarrow> u32 \<Rightarrow> u32" where
  "sha_ch x y z = (x AND y) XOR (NOT x AND z)"

definition sha_maj :: "u32 \<Rightarrow> u32 \<Rightarrow> u32 \<Rightarrow> u32" where
  "sha_maj x y z = (x AND y) XOR (x AND z) XOR (y AND z)"

definition big_sigma0 :: "u32 \<Rightarrow> u32" where
  "big_sigma0 x = sha_rotr 2 x XOR sha_rotr 13 x XOR sha_rotr 22 x"

definition big_sigma1 :: "u32 \<Rightarrow> u32" where
  "big_sigma1 x = sha_rotr 6 x XOR sha_rotr 11 x XOR sha_rotr 25 x"

definition small_sigma0 :: "u32 \<Rightarrow> u32" where
  "small_sigma0 x = sha_rotr 7 x XOR sha_rotr 18 x XOR drop_bit 3 x"

definition small_sigma1 :: "u32 \<Rightarrow> u32" where
  "small_sigma1 x = sha_rotr 17 x XOR sha_rotr 19 x XOR drop_bit 10 x"

definition SHA_K :: "u32 list" where
  "SHA_K = [
    1116352408, 1899447441, 3049323471, 3921009573, 961987163, 1508970993, 2453635748, 2870763221,
    3624381080, 310598401, 607225278, 1426881987, 1925078388, 2162078206, 2614888103, 3248222580,
    3835390401, 4022224774, 264347078, 604807628, 770255983, 1249150122, 1555081692, 1996064986,
    2554220882, 2821834349, 2952996808, 3210313671, 3336571891, 3584528711, 113926993, 338241895,
    666307205, 773529912, 1294757372, 1396182291, 1695183700, 1986661051, 2177026350, 2456956037,
    2730485921, 2820302411, 3259730800, 3345764771, 3516065817, 3600352804, 4094571909, 275423344,
    430227734, 506948616, 659060556, 883997877, 958139571, 1322822218, 1537002063, 1747873779,
    1955562222, 2024104815, 2227730452, 2361852424, 2428436474, 2756734187, 3204031479, 3329325298]"

type_synonym 'a oct = "'a \<times> 'a \<times> 'a \<times> 'a \<times> 'a \<times> 'a \<times> 'a \<times> 'a"

definition SHA_H0 :: "u32 oct" where
  "SHA_H0 = (0x6a09e667, 0xbb67ae85, 0x3c6ef372, 0xa54ff53a,
     0x510e527f, 0x9b05688c, 0x1f83d9ab, 0x5be0cd19)"

text \<open>Where the constants come from: the first 32 bits of the fractional parts of the cube roots of
the first 64 primes, and of the square roots of the first eight.\<close>

definition FIRST_PRIMES :: "int list" where
  "FIRST_PRIMES = [2, 3, 5, 7, 11, 13, 17, 19, 23, 29, 31, 37, 41, 43, 47, 53, 59, 61, 67, 71, 73, 79, 83,
     89, 97, 101, 103, 107, 109, 113, 127, 131, 137, 139, 149, 151, 157, 163, 167, 173, 179,
     181, 191, 193, 197, 199, 211, 223, 227, 229, 233, 239, 241, 251, 257, 263, 269, 271,
     277, 281, 283, 293, 307, 311]"

definition root_bits :: "nat \<Rightarrow> int \<Rightarrow> u32 \<Rightarrow> bool" where
  "root_bits e p k = (let whole = int (length (filter (\<lambda>r. r ^ e \<le> p) [1, 2, 3, 4, 5, 6]));
       n = whole * 2 ^ 32 + uint k
     in n ^ e \<le> p * 2 ^ (32 * e) \<and> p * 2 ^ (32 * e) < (n + 1) ^ e)"

lemma sha_constants_are_roots:
  "list_all2 (root_bits 3) FIRST_PRIMES SHA_K"
  "case SHA_H0 of (a, b, c, d, e, f, g, h) \<Rightarrow>
     list_all2 (root_bits 2) (take 8 FIRST_PRIMES) [a, b, c, d, e, f, g, h]"
  by (simp_all add: FIRST_PRIMES_def SHA_K_def SHA_H0_def root_bits_def Let_def)

text \<open>The message schedule is a window of sixteen words that moves by one word in every round.\<close>

fun next_word :: "u32 list \<Rightarrow> u32" where
  "next_word (w0 # w1 # w2 # w3 # w4 # w5 # w6 # w7 # w8 # w9 # w10 # w11 # w12 # w13 # w14 # ws)
    = small_sigma1 w14 + w9 + small_sigma0 w1 + w0"
| "next_word _ = 0"

fun sha_round :: "u32 \<Rightarrow> u32 \<Rightarrow> u32 oct \<Rightarrow> u32 oct" where
  "sha_round k w (a, b, c, d, e, f, g, h) =
     (let t1 = h + big_sigma1 e + sha_ch e f g + k + w;
          t2 = big_sigma0 a + sha_maj a b c
      in (t1 + t2, a, b, c, d + t1, e, f, g))"

fun sha_rounds :: "u32 list \<Rightarrow> u32 list \<Rightarrow> u32 oct \<Rightarrow> u32 oct" where
  "sha_rounds [] ws st = st"
| "sha_rounds (k # ks) ws st = sha_rounds ks (tl ws @ [next_word ws]) (sha_round k (hd ws) st)"

fun oct_map2 :: "('a \<Rightarrow> 'b \<Rightarrow> 'c) \<Rightarrow> 'a oct \<Rightarrow> 'b oct \<Rightarrow> 'c oct" where
  "oct_map2 f (a, b, c, d, e, g, h, i) (a', b', c', d', e', g', h', i')
     = (f a a', f b b', f c c', f d d', f e e', f g g', f h h', f i i')"

fun sha_blocks :: "u32 list \<Rightarrow> u32 oct \<Rightarrow> u32 oct" where
  "sha_blocks ws st = (if length ws < 16 then st
     else sha_blocks (drop 16 ws) (oct_map2 (+) st (sha_rounds SHA_K (take 16 ws) st)))"

fun be_words :: "bytes \<Rightarrow> u32 list" where
  "be_words (a # b # c # d # rest) =
     (push_bit 24 (ucast a) OR push_bit 16 (ucast b) OR push_bit 8 (ucast c) OR ucast d)
     # be_words rest"
| "be_words _ = []"

definition be_bytes :: "u32 \<Rightarrow> bytes" where
  "be_bytes w = [ucast (drop_bit 24 w), ucast (drop_bit 16 w), ucast (drop_bit 8 w), ucast w]"

text \<open>Padding: the bit 1, zeros up to 56 modulo 64 bytes, and the length in bits.\<close>

definition sha_pad :: "bytes \<Rightarrow> bytes" where
  "sha_pad m = (let bits = of_nat (8 * length m) :: u64 in
     m @ [0x80] @ replicate ((119 - length m mod 64) mod 64) 0
     @ be_bytes (ucast (drop_bit 32 bits)) @ be_bytes (ucast bits))"

fun oct_list :: "'a oct \<Rightarrow> 'a list" where
  "oct_list (a, b, c, d, e, f, g, h) = [a, b, c, d, e, f, g, h]"

definition sha256_fips :: "bytes \<Rightarrow> bytes" where
  "sha256_fips m = concat (map be_bytes (oct_list (sha_blocks (be_words (sha_pad m)) SHA_H0)))"

declare sha_blocks.simps [simp del]

lemma length_oct_list [simp]: "length (oct_list x) = 8"
  by (cases x rule: oct_list.cases) simp

lemma length_sha256_fips: "length (sha256_fips m) = 32"
proof -
  have "length (concat (map be_bytes ws)) = 4 * length ws" for ws
    by (induction ws) (simp_all add: be_bytes_def)
  then show ?thesis by (simp add: sha256_fips_def)
qed

subsection \<open>Words as lists of bits\<close>

text \<open>The least significant bit comes first.\<close>

type_synonym bits = "bool list"

definition word_bits :: "'a::len word \<Rightarrow> bits" where
  "word_bits w = map (bit w) [0..<LENGTH('a)]"

lemma length_word_bits [simp]: "length (word_bits (w :: 'a::len word)) = LENGTH('a)"
  by (simp add: word_bits_def)

lemma nth_word_bits [simp]: "i < LENGTH('a) \<Longrightarrow> word_bits (w :: 'a::len word) ! i = bit w i"
  by (simp add: word_bits_def)

lemma word_bits_inject: "word_bits (v :: 'a::len word) = word_bits w \<longleftrightarrow> v = w"
  by (auto simp: word_bits_def intro: bit_word_eqI)

lemma word_bits_eqI:
  "length xs = LENGTH('a) \<Longrightarrow> (\<And>i. i < LENGTH('a) \<Longrightarrow> bit w i = xs ! i)
    \<Longrightarrow> word_bits (w :: 'a::len word) = xs"
  by (rule nth_equalityI) simp_all

text \<open>The functions of a round on bits.\<close>

fun bits_add :: "bool \<Rightarrow> bits \<Rightarrow> bits \<Rightarrow> bits" where
  "bits_add c (True # xs) (True # ys) = c # bits_add True xs ys"
| "bits_add c (True # xs) (False # ys) = (\<not> c) # bits_add c xs ys"
| "bits_add c (False # xs) (True # ys) = (\<not> c) # bits_add c xs ys"
| "bits_add c (False # xs) (False # ys) = c # bits_add False xs ys"
| "bits_add c _ _ = []"

fun bits_xor :: "bits \<Rightarrow> bits \<Rightarrow> bits" where
  "bits_xor (True # xs) (y # ys) = (\<not> y) # bits_xor xs ys"
| "bits_xor (False # xs) (y # ys) = y # bits_xor xs ys"
| "bits_xor _ _ = []"

fun bits_ch :: "bits \<Rightarrow> bits \<Rightarrow> bits \<Rightarrow> bits" where
  "bits_ch (True # xs) (y # ys) (z # zs) = y # bits_ch xs ys zs"
| "bits_ch (False # xs) (y # ys) (z # zs) = z # bits_ch xs ys zs"
| "bits_ch _ _ _ = []"

fun bits_maj :: "bits \<Rightarrow> bits \<Rightarrow> bits \<Rightarrow> bits" where
  "bits_maj (True # xs) (True # ys) (z # zs) = True # bits_maj xs ys zs"
| "bits_maj (False # xs) (False # ys) (z # zs) = False # bits_maj xs ys zs"
| "bits_maj (True # xs) (False # ys) (z # zs) = z # bits_maj xs ys zs"
| "bits_maj (False # xs) (True # ys) (z # zs) = z # bits_maj xs ys zs"
| "bits_maj _ _ _ = []"

definition bits_rotr :: "nat \<Rightarrow> bits \<Rightarrow> bits" where
  "bits_rotr n xs = drop n xs @ take n xs"

definition bits_shr :: "nat \<Rightarrow> bits \<Rightarrow> bits" where
  "bits_shr n xs = drop n xs @ replicate n False"

lemma double_mod:
  fixes x m b :: int
  assumes "0 < m" and "b = 0 \<or> b = 1"
  shows "(b + 2 * x) mod (2 * m) = b + 2 * (x mod m)"
proof -
  have "2 * x = 2 * (m * (x div m)) + 2 * (x mod m)"
    by (metis mult_div_mod_eq distrib_left)
  then have "b + 2 * x = (b + 2 * (x mod m)) + (2 * m) * (x div m)" by simp
  moreover have "0 \<le> b + 2 * (x mod m)" and "b + 2 * (x mod m) < 2 * m"
    using assms(2) pos_mod_bound [OF assms(1), of x] pos_mod_sign [OF assms(1), of x]
    by (elim disjE, linarith, linarith)+
  ultimately show ?thesis by (simp only: mod_mult_self2 mod_pos_pos_trivial)
qed

lemma bits_add_value:
  "length xs = length ys \<Longrightarrow>
    horner_sum of_bool (2 :: int) (bits_add c xs ys)
      = (of_bool c + horner_sum of_bool 2 xs + horner_sum of_bool 2 ys) mod 2 ^ length xs"
proof (induction c xs ys rule: bits_add.induct)
  case (1 c xs ys)
  then show ?case
    using double_mod [of "2 ^ length xs" "of_bool c"
      "1 + horner_sum of_bool 2 xs + horner_sum of_bool 2 ys"]
    by (simp add: algebra_simps)
next
  case (2 c xs ys)
  then show ?case
    using double_mod [of "2 ^ length xs" "of_bool (\<not> c)"
      "of_bool c + horner_sum of_bool 2 xs + horner_sum of_bool 2 ys"]
    by (cases c) (simp_all add: algebra_simps)
next
  case (3 c xs ys)
  then show ?case
    using double_mod [of "2 ^ length xs" "of_bool (\<not> c)"
      "of_bool c + horner_sum of_bool 2 xs + horner_sum of_bool 2 ys"]
    by (cases c) (simp_all add: algebra_simps)
next
  case (4 c xs ys)
  then show ?case
    using double_mod [of "2 ^ length xs" "of_bool c"
      "horner_sum of_bool 2 xs + horner_sum of_bool 2 ys"]
    by (simp add: algebra_simps)
qed simp_all

lemma length_bits_add: "length xs = length ys \<Longrightarrow> length (bits_add c xs ys) = length xs"
  by (induction c xs ys rule: bits_add.induct) simp_all

lemma word_bits_value:
  "horner_sum of_bool (2 :: int) (word_bits (w :: 'a::len word)) = uint w"
proof -
  have "map (bit w) [0..<LENGTH('a)] = map (bit (uint w)) [0..<LENGTH('a)]"
    by (simp add: bit_uint_iff)
  then show ?thesis
    unfolding word_bits_def by (simp only: horner_sum_bit_eq_take_bit bintr_uint order_refl)
qed

lemma word_bits_plus: "word_bits (v + w) = bits_add False (word_bits v) (word_bits (w :: u32))"
proof (rule nth_equalityI)
  fix i assume "i < length (word_bits (v + w))"
  moreover have "horner_sum of_bool (2 :: int) (word_bits (v + w))
      = horner_sum of_bool 2 (bits_add False (word_bits v) (word_bits w))"
    by (simp add: bits_add_value word_bits_value uint_word_arith_bintrs take_bit_eq_mod)
  from arg_cong [OF this, of "\<lambda>x. bit x i"]
  show "word_bits (v + w) ! i = bits_add False (word_bits v) (word_bits w) ! i"
    using calculation by (simp add: bit_horner_sum_bit_iff length_bits_add)
qed (simp add: length_bits_add)

lemma bits_xor_nth:
  "length xs = length ys \<Longrightarrow> length (bits_xor xs ys) = length xs
    \<and> (i < length xs \<longrightarrow> bits_xor xs ys ! i = (xs ! i \<noteq> ys ! i))"
  by (induction xs ys arbitrary: i rule: bits_xor.induct) (auto simp: nth_Cons split: nat.split)

lemma bits_ch_nth:
  "length xs = length ys \<Longrightarrow> length xs = length zs \<Longrightarrow> length (bits_ch xs ys zs) = length xs
    \<and> (i < length xs \<longrightarrow> bits_ch xs ys zs ! i = (if xs ! i then ys ! i else zs ! i))"
  by (induction xs ys zs arbitrary: i rule: bits_ch.induct) (auto simp: nth_Cons split: nat.split)

lemma bits_maj_nth:
  "length xs = length ys \<Longrightarrow> length xs = length zs \<Longrightarrow> length (bits_maj xs ys zs) = length xs
    \<and> (i < length xs \<longrightarrow> bits_maj xs ys zs ! i
        = (if xs ! i then ys ! i \<or> zs ! i else ys ! i \<and> zs ! i))"
  by (induction xs ys zs arbitrary: i rule: bits_maj.induct) (auto simp: nth_Cons split: nat.split)

lemma word_bits_xor: "word_bits (v XOR w) = bits_xor (word_bits v) (word_bits (w :: u32))"
  by (rule word_bits_eqI) (simp_all add: bits_xor_nth bit_simps)

lemma word_bits_ch: "word_bits (sha_ch x y z) = bits_ch (word_bits x) (word_bits y) (word_bits z)"
  by (rule word_bits_eqI) (auto simp: bits_ch_nth sha_ch_def bit_simps)

lemma word_bits_maj: "word_bits (sha_maj x y z) = bits_maj (word_bits x) (word_bits y) (word_bits z)"
  by (rule word_bits_eqI) (auto simp: bits_maj_nth sha_maj_def bit_simps)

lemma word_bits_rotr:
  "0 < n \<Longrightarrow> n < 32 \<Longrightarrow> word_bits (sha_rotr n x) = bits_rotr n (word_bits x)"
  by (rule word_bits_eqI)
     (auto simp: bits_rotr_def sha_rotr_def bit_simps nth_append min_def dest: bit_imp_le_length)

lemma word_bits_shr:
  "n \<le> 32 \<Longrightarrow> word_bits (drop_bit n (x :: u32)) = bits_shr n (word_bits x)"
  by (rule word_bits_eqI) (auto simp: bits_shr_def bit_simps nth_append dest: bit_imp_le_length)

subsection \<open>The digest on bits\<close>

definition bits_big_sigma0 :: "bits \<Rightarrow> bits" where
  "bits_big_sigma0 x = bits_xor (bits_rotr 2 x) (bits_xor (bits_rotr 13 x) (bits_rotr 22 x))"

definition bits_big_sigma1 :: "bits \<Rightarrow> bits" where
  "bits_big_sigma1 x = bits_xor (bits_rotr 6 x) (bits_xor (bits_rotr 11 x) (bits_rotr 25 x))"

definition bits_small_sigma0 :: "bits \<Rightarrow> bits" where
  "bits_small_sigma0 x = bits_xor (bits_rotr 7 x) (bits_xor (bits_rotr 18 x) (bits_shr 3 x))"

definition bits_small_sigma1 :: "bits \<Rightarrow> bits" where
  "bits_small_sigma1 x = bits_xor (bits_rotr 17 x) (bits_xor (bits_rotr 19 x) (bits_shr 10 x))"

lemma word_bits_sigma:
  "word_bits (big_sigma0 x) = bits_big_sigma0 (word_bits x)"
  "word_bits (big_sigma1 x) = bits_big_sigma1 (word_bits x)"
  "word_bits (small_sigma0 x) = bits_small_sigma0 (word_bits x)"
  "word_bits (small_sigma1 x) = bits_small_sigma1 (word_bits x)"
  by (simp_all add: big_sigma0_def big_sigma1_def small_sigma0_def small_sigma1_def
      bits_big_sigma0_def bits_big_sigma1_def bits_small_sigma0_def bits_small_sigma1_def
      word_bits_xor word_bits_rotr word_bits_shr)

fun bits_next :: "bits list \<Rightarrow> bits" where
  "bits_next (w0 # w1 # w2 # w3 # w4 # w5 # w6 # w7 # w8 # w9 # w10 # w11 # w12 # w13 # w14 # ws)
    = bits_add False (bits_add False (bits_add False (bits_small_sigma1 w14) w9)
        (bits_small_sigma0 w1)) w0"
| "bits_next _ = replicate 32 False"

fun bits_round2 :: "bits \<Rightarrow> bits oct \<Rightarrow> bits oct" where
  "bits_round2 t1 (a, b, c, d, e, f, g, h) =
     (bits_add False t1 (bits_add False (bits_big_sigma0 a) (bits_maj a b c)), a, b, c,
      bits_add False d t1, e, f, g)"

fun bits_round :: "bits \<Rightarrow> bits \<Rightarrow> bits oct \<Rightarrow> bits oct" where
  "bits_round k w (a, b, c, d, e, f, g, h) =
     bits_round2 (bits_add False (bits_add False (bits_add False (bits_add False h
       (bits_big_sigma1 e)) (bits_ch e f g)) k) w) (a, b, c, d, e, f, g, h)"

fun bits_rounds :: "bits list \<Rightarrow> bits list \<Rightarrow> bits oct \<Rightarrow> bits oct" where
  "bits_rounds [] ws st = st"
| "bits_rounds (k # ks) ws st = bits_rounds ks (tl ws @ [bits_next ws]) (bits_round k (hd ws) st)"

definition BITS_K :: "bits list" where
  "BITS_K = map word_bits SHA_K"

fun bits_blocks :: "bits list \<Rightarrow> bits oct \<Rightarrow> bits oct" where
  "bits_blocks ws st = (if length ws < 16 then st
     else bits_blocks (drop 16 ws)
       (oct_map2 (bits_add False) st (bits_rounds BITS_K (take 16 ws) st)))"

declare bits_blocks.simps [simp del]

fun oct_map :: "('a \<Rightarrow> 'b) \<Rightarrow> 'a oct \<Rightarrow> 'b oct" where
  "oct_map f (a, b, c, d, e, g, h, i) = (f a, f b, f c, f d, f e, f g, f h, f i)"

lemma word_bits_zero: "word_bits (0 :: u32) = replicate 32 False"
  by (rule word_bits_eqI) simp_all

lemma word_bits_next: "word_bits (next_word ws) = bits_next (map word_bits ws)"
  by (cases ws rule: next_word.cases)
     (simp_all only: next_word.simps bits_next.simps list.map word_bits_plus word_bits_sigma
       word_bits_zero)

lemma word_bits_round:
  "oct_map word_bits (sha_round k w st) = bits_round (word_bits k) (word_bits w) (oct_map word_bits st)"
  by (cases st rule: oct_list.cases)
     (simp add: Let_def word_bits_plus word_bits_sigma word_bits_ch word_bits_maj)

lemma word_bits_rounds:
  "ws \<noteq> [] \<Longrightarrow> oct_map word_bits (sha_rounds ks ws st)
    = bits_rounds (map word_bits ks) (map word_bits ws) (oct_map word_bits st)"
proof (induction ks ws st rule: sha_rounds.induct)
  case (2 k ks ws st)
  then show ?case by (simp add: word_bits_round word_bits_next map_tl hd_map)
qed simp

lemma word_bits_blocks:
  "oct_map word_bits (sha_blocks ws st) = bits_blocks (map word_bits ws) (oct_map word_bits st)"
proof (induction ws st rule: sha_blocks.induct)
  case (1 ws st)
  have add: "oct_map word_bits (oct_map2 (+) x y)
      = oct_map2 (bits_add False) (oct_map word_bits x) (oct_map word_bits (y :: u32 oct))" for x y
    by (cases x rule: oct_list.cases; cases y rule: oct_list.cases) (simp add: word_bits_plus)
  show ?case
  proof (cases "length ws < 16")
    case True
    then show ?thesis by (simp add: sha_blocks.simps [of ws] bits_blocks.simps [of "map word_bits ws"])
  next
    case False
    then have "take 16 ws \<noteq> []" by auto
    with False 1 show ?thesis
      by (simp add: sha_blocks.simps [of ws] bits_blocks.simps [of "map word_bits ws"] add
          word_bits_rounds BITS_K_def drop_map take_map)
  qed
qed

text \<open>Into bits and back: a word's bits are read off the numeral, and a byte is summed up again.\<close>

fun num_bits :: "num \<Rightarrow> bits" where
  "num_bits num.One = [True]"
| "num_bits (num.Bit0 k) = False # num_bits k"
| "num_bits (num.Bit1 k) = True # num_bits k"

definition int_bits :: "int \<Rightarrow> bits" where
  "int_bits i = (if 0 < i then num_bits (num_of_nat (nat i)) else [])"

lemma int_bits_code [code]:
  "int_bits 0 = []" "int_bits (Int.Pos k) = num_bits k" "int_bits (Int.Neg k) = []"
  by (simp_all add: int_bits_def num_of_nat_numeral_eq)

lemma bit_num_bits: "bit (numeral k :: int) i \<longleftrightarrow> i < length (num_bits k) \<and> num_bits k ! i"
proof (induction k arbitrary: i)
  case One
  then show ?case by (cases i) simp_all
next
  case (Bit0 k)
  then show ?case by (cases i) simp_all
next
  case (Bit1 k)
  then show ?case by (cases i) simp_all
qed

lemma bit_int_bits: "0 \<le> n \<Longrightarrow> bit n i \<longleftrightarrow> i < length (int_bits n) \<and> int_bits n ! i"
proof (cases n rule: int_cases3)
  case (pos m)
  then have "n = numeral (num_of_nat m)" by (simp add: numeral_num_of_nat)
  with pos show "bit n i \<longleftrightarrow> i < length (int_bits n) \<and> int_bits n ! i"
    by (simp add: bit_num_bits int_bits_def numeral_num_of_nat)
qed (simp_all add: int_bits_def)

lemma bit_word_int_bits:
  "bit (w :: 'a::len word) i \<longleftrightarrow> i < length (int_bits (uint w)) \<and> int_bits (uint w) ! i"
  using bit_int_bits [of "uint w" i] by (simp add: bit_uint_iff bit_imp_le_length) (metis bit_imp_le_length)

lemma word_bits_code [code]:
  "word_bits (w :: 'a::len word) = take LENGTH('a) (int_bits (uint w) @ replicate LENGTH('a) False)"
  by (rule word_bits_eqI) (auto simp: nth_append bit_word_int_bits)

definition bits_int :: "bits \<Rightarrow> int" where
  "bits_int bs = horner_sum of_bool 2 bs"

lemma bits_int_code [code]:
  "bits_int [] = 0" "bits_int (True # bs) = 1 + 2 * bits_int bs"
  "bits_int (False # bs) = 2 * bits_int bs"
  by (simp_all add: bits_int_def)

definition bits_bytes :: "bits \<Rightarrow> bytes" where
  "bits_bytes w = [word_of_int (bits_int (drop 24 w)), word_of_int (bits_int (take 8 (drop 16 w))),
     word_of_int (bits_int (take 8 (drop 8 w))), word_of_int (bits_int (take 8 w))]"

lemma be_bytes_bits: "be_bytes w = bits_bytes (word_bits w)"
proof -
  have "ucast (drop_bit k w) = (word_of_int (bits_int (take 8 (drop k (word_bits w)))) :: u8)" for k
  proof (rule bit_word_eqI)
    fix i assume "i < LENGTH(8)"
    then show "bit (ucast (drop_bit k w) :: u8) i
        = bit (word_of_int (bits_int (take 8 (drop k (word_bits w)))) :: u8) i"
      by (cases "k + i < 32")
         (auto simp: bit_simps bits_int_def bit_horner_sum_bit_iff dest: bit_imp_le_length)
  qed
  from this [of 24] this [of 16] this [of 8] this [of 0] show ?thesis
    by (simp add: be_bytes_def bits_bytes_def)
qed

fun bits_words :: "bits list \<Rightarrow> bits list" where
  "bits_words (a # b # c # d # rest) = (d @ c @ b @ a) # bits_words rest"
| "bits_words _ = []"

lemma word_bits_be_words: "map word_bits (be_words m) = bits_words (map word_bits m)"
proof (induction m rule: be_words.induct)
  case (1 a b c d rest)
  have "word_bits (push_bit 24 (ucast a) OR push_bit 16 (ucast b) OR push_bit 8 (ucast c) OR ucast d :: u32)
      = word_bits d @ word_bits c @ word_bits b @ word_bits a"
    by (rule word_bits_eqI)
       (auto simp: bit_simps nth_append dest: bit_imp_le_length)
  with 1 show ?case by simp
qed simp_all

text \<open>The digest, computed on bits.\<close>

theorem sha256_fips_bits [code]:
  "sha256_fips m = concat (map bits_bytes (oct_list
     (bits_blocks (bits_words (map word_bits (sha_pad m))) (oct_map word_bits SHA_H0))))"
proof -
  have "map be_bytes (oct_list x) = map bits_bytes (oct_list (oct_map word_bits x))" for x
    by (cases x rule: oct_list.cases) (simp add: be_bytes_bits)
  then show ?thesis by (simp add: sha256_fips_def word_bits_blocks word_bits_be_words)
qed

lemma sha256_abc: "hex_lower (sha256_fips (as_bytes ''abc''))
    = ''ba7816bf8f01cfea414140de5dae2223b00361a396177a9cb410ff61f20015ad''"
  by code_simp

end
