(* ===== verification/Tests_Commit.thy ===== *)
theory Tests_Commit
  imports Tests_Resolver Multi_Binding
begin

section \<open>The unit tests of the commitment crate\<close>

text \<open>
  The test modules of \<open>commitment.rs\<close>, \<open>p2mrret.rs\<close> and \<open>multi.rs\<close> in \<open>crates/rgb-pq-commit/src\<close>: a
  test is a predicate that holds when its assertions do and nothing it unwraps is an error. Tests
  that compare digests hold for every hash that does not collide on the messages they hash. The
  seal of these tests is the one of the resolver's tests.
\<close>

subsection \<open>Commitments (\<open>commitment.rs\<close>)\<close>

definition test_mpc :: mpc_commitment where
  "test_mpc = replicate 32 0xa5"

definition encoded :: "crates \<Rightarrow> btq_p2mr_seal \<Rightarrow> mpc_commitment \<Rightarrow> bytes rgb_pq_result" where
  "encoded L s mpc = commitment_encode L (commitment_new s mpc)"

definition commitment_roundtrip_and_binding :: "crates \<Rightarrow> bool" where
  "commitment_roundtrip_and_binding L \<longleftrightarrow> (case encoded L test_seal test_mpc of
     Ok enc \<Rightarrow> length enc = 127
       \<and> commitment_decode_for L enc test_seal = Ok (commitment_new test_seal test_mpc)
   | _ \<Rightarrow> False)"

definition decode_rejects_wrong_chain :: "crates \<Rightarrow> bool" where
  "decode_rejects_wrong_chain L \<longleftrightarrow> (let other = test_seal\<lparr>chain_id := BitcoinQuantumTestnet\<rparr>
     in and_then (encoded L test_seal test_mpc) (\<lambda>enc. commitment_decode_for L enc other)
       = Err (RgbPq_Commitment CM_WrongChain))"

definition decode_rejects_wrong_seal :: "crates \<Rightarrow> bool" where
  "decode_rejects_wrong_seal L \<longleftrightarrow> (let other = test_seal\<lparr>outpoint := (outpoint test_seal)\<lparr>op_vout := 9\<rparr>\<rparr>
     in and_then (encoded L test_seal test_mpc) (\<lambda>enc. commitment_decode_for L enc other)
       = Err (RgbPq_Commitment CM_WrongSeal))"

definition fails :: "('a, 'e) result \<Rightarrow> bool" where
  "fails r \<longleftrightarrow> (case r of Err _ \<Rightarrow> True | _ \<Rightarrow> False)"

definition decode_rejects_truncated_and_bad_magic :: "crates \<Rightarrow> bool" where
  "decode_rejects_truncated_and_bad_magic L \<longleftrightarrow> (case encoded L test_seal test_mpc of
     Ok enc \<Rightarrow> fails (commitment_decode L (take (length enc - 1) enc))
       \<and> fails (commitment_decode L (enc[0 := (enc ! 0) XOR 0xff]))
   | _ \<Rightarrow> False)"

definition decode_rejects_tampered_digest :: "crates \<Rightarrow> bool" where
  "decode_rejects_tampered_digest L \<longleftrightarrow> (case encoded L test_seal test_mpc of
     Ok enc \<Rightarrow> fails (commitment_decode_for L (enc[100 := (enc ! 100) XOR 0x01]) test_seal)
   | _ \<Rightarrow> False)"

definition scan_finds_commitment :: "crates \<Rightarrow> 't tx_codec \<Rightarrow> bool" where
  "scan_finds_commitment L T \<longleftrightarrow>
     (case and_then (opret_for L T test_seal) (\<lambda>spk. commitment_scan L [(0, spk)]) of
        Ok (Found vout c) \<Rightarrow> vout = 0 \<and> cm_mpc c = test_mpc | _ \<Rightarrow> False)"

definition scan_detects_duplicate :: "crates \<Rightarrow> 't tx_codec \<Rightarrow> bool" where
  "scan_detects_duplicate L T \<longleftrightarrow>
     and_then (opret_for L T test_seal) (\<lambda>a. and_then (opret_for L T test_seal) (\<lambda>b.
       commitment_scan L [(0, a), (1, b)])) = Ok (Duplicate [0, 1])"

definition scan_detects_missing :: "crates \<Rightarrow> bool" where
  "scan_detects_missing L \<longleftrightarrow>
     commitment_scan L [(0, [0x6a, 0x02, 0xaa, 0xbb])] = (Ok Missing :: commitment_payload rgb_pq_result)
     \<and> commitment_scan L [(0, [0x00, 0x14])] = (Ok Missing :: commitment_payload rgb_pq_result)"

definition commitment_changes_when_mpc_changes :: "crates \<Rightarrow> bool" where
  "commitment_changes_when_mpc_changes L \<longleftrightarrow>
     encoded L test_seal test_mpc \<noteq> encoded L test_seal (replicate 32 0x5a)"

definition commitment_changes_when_chain_changes :: "crates \<Rightarrow> bool" where
  "commitment_changes_when_chain_changes L \<longleftrightarrow> encoded L test_seal test_mpc
     \<noteq> encoded L (test_seal\<lparr>chain_id := BitcoinQuantumTestnet\<rparr>) test_mpc"

lemma test_commitment_wf: "wf_commitment (commitment_new test_seal test_mpc)"
  by (simp add: commitment_new_wf test_seal_wf test_mpc_def)

lemma encoded_layout:
  "sha256_ok L \<Longrightarrow> encoded L s mpc = Ok (commitment_layout (commitment_new s mpc)
    (sha256 L (seal_digest_preimage (commitment_new s mpc))))"
  by (simp add: encoded_def commitment_encode_layout)

lemma decode_encoded:
  "sha256_ok L \<Longrightarrow> wf_commitment c
    \<Longrightarrow> commitment_decode L (commitment_layout c (sha256 L (seal_digest_preimage c))) = Ok c"
  by (simp add: commitment_decode_layout sha256_okD)

lemma decode_fails:
  assumes "sha256_ok L" and "\<And>c. wf_commitment c \<Longrightarrow>
    b \<noteq> commitment_layout c (sha256 L (seal_digest_preimage c))"
  shows "fails (commitment_decode L b)"
  using commitment_decode_sound [OF assms(1), of b] commitment_decode_no_panic [OF assms(1), of b]
    assms(2)
  by (cases "commitment_decode L b") (auto simp: fails_def)

lemma decode_tests_pass:
  assumes L: "sha256_ok L"
  shows "commitment_roundtrip_and_binding L" "decode_rejects_wrong_chain L" "decode_rejects_wrong_seal L"
    "decode_rejects_truncated_and_bad_magic L" "decode_rejects_tampered_digest L"
proof -
  let ?c = "commitment_new test_seal test_mpc"
  let ?d = "sha256 L (seal_digest_preimage ?c)"
  let ?enc = "commitment_layout ?c ?d"
  note wf = test_commitment_wf
  have len: "length ?enc = 127" using wf L by (simp add: wire_len)
  note dec = decode_encoded [OF L wf]
  have dec_for: "commitment_decode_for L ?enc t = and_then (commitment_verify_against ?c t) (\<lambda>_. Ok ?c)" for t
    by (simp add: commitment_decode_for_def dec)
  have fields: "cm_chain ?c = BitcoinQuantumRegtest" "cm_seal_txid ?c = op_txid (outpoint test_seal)"
    "cm_seal_vout ?c = op_vout (outpoint test_seal)" "op_vout (outpoint test_seal) \<noteq> 9"
    by (simp_all add: commitment_new_def test_seal_def seal_new_def outpoint_new_def)
  show "commitment_roundtrip_and_binding L" "decode_rejects_wrong_chain L" "decode_rejects_wrong_seal L"
    using len
    by (simp_all add: commitment_roundtrip_and_binding_def decode_rejects_wrong_chain_def
        decode_rejects_wrong_seal_def encoded_layout [OF L] dec_for commitment_verify_against_def
        Let_def fields)
  obtain m ms where mag: "COMMITMENT_MAGIC = m # ms" using wire_len by (cases COMMITMENT_MAGIC) auto
  have magic: "x # y \<noteq> commitment_layout c d" if "x \<noteq> m" for x y c d
    using that unfolding commitment_layout_def mag by simp
  obtain rest where rest: "?enc = m # rest" unfolding commitment_layout_def mag by simp
  have flip: "m XOR 0xff \<noteq> m"
  proof
    assume "m XOR 0xff = m"
    then have "(m XOR 0xff) XOR m = 0" by simp
    then have "(0xff :: u8) = 0" by (simp add: xor.commute xor.left_commute)
    then show False by simp
  qed
  have "fails (commitment_decode L (?enc[0 := ?enc ! 0 XOR 0xff]))"
    by (intro decode_fails [OF L]) (simp add: rest magic flip)
  moreover have "fails (commitment_decode L (take (length ?enc - 1) ?enc))"
    using len by (intro decode_fails [OF L]) (auto simp: wire_len L dest!: arg_cong [where f = length])
  ultimately show "decode_rejects_truncated_and_bad_magic L"
    by (simp add: decode_rejects_truncated_and_bad_magic_def encoded_layout [OF L])
  have "length ?d = 32" using L by (simp add: sha256_okD)
  have "?enc[100 := x] = commitment_layout ?c (?d[5 := x])" for x
    using wf \<open>length ?d = 32\<close>
    by (simp add: commitment_layout_def list_update_append wire_len wf_commitment_def nth_append)
  then have "commitment_decode L (?enc[100 := x])
      = (if ?d[5 := x] = ?d then Ok ?c else Err (commitment_malformed ''seal digest mismatch''))" for x
    using \<open>length ?d = 32\<close> by (simp add: commitment_decode_layout [OF L wf])
  moreover have "?enc ! 100 = ?d ! 5"
    using wf \<open>length ?d = 32\<close>
    by (simp add: commitment_layout_def nth_append wire_len wf_commitment_def)
  moreover have "?d[5 := ?d ! 5 XOR 1] \<noteq> ?d"
  proof
    assume "?d[5 := ?d ! 5 XOR 1] = ?d"
    then have "?d ! 5 XOR 1 = ?d ! 5" using \<open>length ?d = 32\<close> by (simp add: list_update_same_conv)
    then have "(?d ! 5 XOR 1) XOR ?d ! 5 = 0" by simp
    then have "(1 :: u8) = 0" by (simp add: xor.commute xor.left_commute)
    then show False by simp
  qed
  ultimately show "decode_rejects_tampered_digest L"
    by (simp add: decode_rejects_tampered_digest_def encoded_layout [OF L] commitment_decode_for_def
        fails_def)
qed

lemma scan_commitment_tests_pass:
  assumes L: "sha256_ok L" and T: "tx_codec_ok T"
  shows "scan_finds_commitment L T" "scan_detects_duplicate L T" "scan_detects_missing L"
proof -
  obtain spk where spk: "opret_for L T test_seal = Ok spk" "length spk = 130"
    "carried_commitment L spk = Some (commitment_new test_seal (replicate 32 0xa5))"
    using opret_for_carries [OF L T test_seal_wf] by blast
  then show "scan_finds_commitment L T" "scan_detects_duplicate L T"
    by (simp_all add: scan_finds_commitment_def scan_detects_duplicate_def commitment_scan_window [OF L]
        scan_window_def classify_hits_def commitment_new_def test_mpc_def)
  have short: "fails (commitment_decode L b)" if "length b \<noteq> 127" for b
    using that by (intro decode_fails [OF L]) (auto simp: wire_len L)
  have "carried_commitment L [0x6a, 0x02, 0xaa, 0xbb] = None" "carried_commitment L [0x00, 0x14] = None"
    using short [of "[0xaa, 0xbb]"]
    by (auto simp: carried_commitment_def stripped_def fails_def split: result.splits)
  then show "scan_detects_missing L"
    by (simp add: scan_detects_missing_def commitment_scan_window [OF L] scan_window_def classify_hits_def)
qed

lemma change_tests_pass:
  assumes L: "sha256_ok L"
  shows "commitment_changes_when_mpc_changes L" "commitment_changes_when_chain_changes L"
proof -
  have ne: "commitment_layout c d \<noteq> commitment_layout c' d'"
    if "wf_commitment c" "wf_commitment c'" "cm_chain c \<noteq> cm_chain c' \<or> cm_mpc c \<noteq> cm_mpc c'" for c c' d d'
    using that by (auto simp: commitment_layout_def wf_commitment_def chain_code.enc_eq_iff)
  have wf: "wf_commitment (commitment_new (test_seal\<lparr>chain_id := c\<rparr>) (replicate 32 x))" for c and x :: u8
    using test_seal_wf by (intro commitment_new_wf) (simp_all add: wf_seal_def)
  have same: "test_seal\<lparr>chain_id := BitcoinQuantumRegtest\<rparr> = test_seal"
    by (simp add: test_seal_def seal_new_def)
  have "wf_commitment (commitment_new test_seal (replicate 32 x))" for x
    using wf [of BitcoinQuantumRegtest x] same by simp
  then show "commitment_changes_when_mpc_changes L"
    by (simp add: commitment_changes_when_mpc_changes_def encoded_layout [OF L] test_mpc_def ne
        commitment_new_def)
  show "commitment_changes_when_chain_changes L"
    using wf [of BitcoinQuantumTestnet "0xa5"] test_commitment_wf
    by (simp add: commitment_changes_when_chain_changes_def encoded_layout [OF L] test_mpc_def ne
        commitment_new_def)
qed

subsection \<open>Trees (\<open>p2mrret.rs\<close>)\<close>

definition compact_size_encoding :: bool where
  "compact_size_encoding \<longleftrightarrow> compact_size 0 = [0x00] \<and> compact_size 75 = [75]
     \<and> compact_size 127 = [127] \<and> compact_size 252 = [252] \<and> compact_size 253 = [0xfd, 253, 0]
     \<and> compact_size 0xffff = [0xfd, 0xff, 0xff]"

definition tapbranch_hash_is_symmetric :: "crates \<Rightarrow> bool" where
  "tapbranch_hash_is_symmetric L \<longleftrightarrow> (let a = replicate 32 0xaa; b = replicate 32 0xbb
     in compute_tapbranch_hash L a b = compute_tapbranch_hash L b a)"

definition tagged_hash_tapleaf_known_vector :: "crates \<Rightarrow> bool" where
  "tagged_hash_tapleaf_known_vector L \<longleftrightarrow> (let h = tagged_hash L (as_bytes ''TapLeaf'') []
     in length h = 32 \<and> h \<noteq> replicate 32 0)"

definition tapleaf_hash_matches_single_byte_op_true :: "crates \<Rightarrow> bool" where
  "tapleaf_hash_matches_single_byte_op_true L \<longleftrightarrow> (let h = compute_tapleaf_hash L 0xc0 [0x51]
     in length h = 32 \<and> h \<noteq> replicate 32 0 \<and> h = compute_tapleaf_hash L 0xc0 [0x51])"

definition tapbranch_hash_changes_with_input :: "crates \<Rightarrow> bool" where
  "tapbranch_hash_changes_with_input L \<longleftrightarrow>
     (let a = replicate 32 0xaa; b = replicate 32 0xbb; c = replicate 32 0xcc
      in compute_tapbranch_hash L a b \<noteq> compute_tapbranch_hash L a c)"

definition verify_p2mr_ret_rejects_wrong_root :: "crates \<Rightarrow> bool" where
  "verify_p2mr_ret_rejects_wrong_root L \<longleftrightarrow>
     (case verify_p2mr_ret L test_seal test_mpc [0x51] of Err _ \<Rightarrow> True | _ \<Rightarrow> False)"

definition p2mr_ret_tree_roundtrips_and_proofs :: "crates \<Rightarrow> bool" where
  "p2mr_ret_tree_roundtrips_and_proofs L \<longleftrightarrow>
     (let tree = build_p2mr_ret_tree_for_seal L (chain_id test_seal) test_mpc [0x51];
          bad_leaf = (tree_commitment_leaf tree)
            \<lparr>leaf_script := leaf_script (tree_commitment_leaf tree) @ [0x00]\<rparr>;
          bad_proof = \<lparr>proof_leaf = bad_leaf, proof_branch = proof_branch (tree_commitment_proof tree)\<rparr>
      in proof_verify_against L (tree_commitment_proof tree) (tree_root tree)
        \<and> \<not> proof_verify_against L bad_proof (tree_root tree))"

definition root_of :: "crates \<Rightarrow> btq_chain_id \<Rightarrow> mpc_commitment \<Rightarrow> bytes \<Rightarrow> node_hash" where
  "root_of L c mpc pq = tree_root (build_p2mr_ret_tree_for_seal L c mpc pq)"

definition p2mr_ret_root_changes_with_commitment :: "crates \<Rightarrow> bool" where
  "p2mr_ret_root_changes_with_commitment L \<longleftrightarrow> root_of L (chain_id test_seal) test_mpc [0x51]
     \<noteq> root_of L (chain_id test_seal) (replicate 32 0x5a) [0x51]"

definition p2mr_ret_root_changes_with_pq_leaf :: "crates \<Rightarrow> bool" where
  "p2mr_ret_root_changes_with_pq_leaf L \<longleftrightarrow> root_of L (chain_id test_seal) test_mpc [0x51]
     \<noteq> root_of L (chain_id test_seal) test_mpc [0x52]"

definition p2mr_ret_root_changes_with_chain :: "crates \<Rightarrow> bool" where
  "p2mr_ret_root_changes_with_chain L \<longleftrightarrow> root_of L (chain_id test_seal) test_mpc [0x51]
     \<noteq> root_of L BitcoinQuantumTestnet test_mpc [0x51]"

definition verify_p2mr_ret_succeeds_for_consistent_seal :: "crates \<Rightarrow> bool" where
  "verify_p2mr_ret_succeeds_for_consistent_seal L \<longleftrightarrow>
     (let s = test_seal\<lparr>p2mr_root := root_of L (chain_id test_seal) test_mpc [0x51]\<rparr>
      in is_ok (verify_p2mr_ret L s test_mpc [0x51]))"

definition verify_p2mr_ret_rejects_wrong_chain_payload :: "crates \<Rightarrow> bool" where
  "verify_p2mr_ret_rejects_wrong_chain_payload L \<longleftrightarrow>
     (let s = test_seal\<lparr>p2mr_root := root_of L (chain_id test_seal) test_mpc [0x51],
            chain_id := BitcoinQuantumTestnet\<rparr>
      in fails (verify_p2mr_ret L s test_mpc [0x51]))"

definition commitment_leaf_script_starts_with_opreturn :: bool where
  "commitment_leaf_script_starts_with_opreturn \<longleftrightarrow>
     (let s = commitment_leaf_script (chain_id test_seal) test_mpc in s ! 0 = 0x6a \<and> s ! 1 = 59)"

lemma test_mpc_length: "length test_mpc = 32"
  by (simp add: test_mpc_def)

text \<open>The other tests need more of the hash than that it separates messages: that three digests are
  neither zero nor the constant \<^verbatim>\<open>0x22\<close>.\<close>

lemma tree_digest_tests_pass:
  assumes L: "sha256_ok L"
    and "tagged_hash L (as_bytes ''TapLeaf'') [] \<noteq> replicate 32 0"
    and "compute_tapleaf_hash L 0xc0 [0x51] \<noteq> replicate 32 0"
    and "root_of L BitcoinQuantumRegtest test_mpc [0x51] \<noteq> replicate 32 0x22"
    and cf: "collision_free L {branch_hash_message L (replicate 32 0xaa) (replicate 32 0xbb),
      branch_hash_message L (replicate 32 0xaa) (replicate 32 0xcc)}"
  shows "tagged_hash_tapleaf_known_vector L" "tapleaf_hash_matches_single_byte_op_true L"
    "verify_p2mr_ret_rejects_wrong_root L" "tapbranch_hash_changes_with_input L"
proof -
  show "tagged_hash_tapleaf_known_vector L" "tapleaf_hash_matches_single_byte_op_true L"
    using assms(2,3)
    by (simp_all add: tagged_hash_tapleaf_known_vector_def tapleaf_hash_matches_single_byte_op_true_def
        tagged_hash_def compute_tapleaf_hash_def sha256_okD [OF L])
  have "verify_p2mr_ret L test_seal test_mpc [0x51] \<noteq> Ok ()"
    unfolding verify_p2mr_ret_def verify_bounded_Ok_iff [OF test_mpc_length]
    using assms(4) by (auto simp: root_of_def simp del: tree_for_seal_simps)
  then show "verify_p2mr_ret_rejects_wrong_root L"
    using verify_bounded_no_panic [of L test_seal test_mpc "[0x51]" default_limits]
    by (cases "verify_p2mr_ret L test_seal test_mpc [0x51]")
       (simp_all add: verify_p2mr_ret_rejects_wrong_root_def verify_p2mr_ret_def)
  have "branch_hash_message L (replicate 32 0xaa) (replicate 32 0xbb)
      \<noteq> branch_hash_message L (replicate 32 0xaa) (replicate 32 0xcc)"
    by (simp add: branch_hash_message_def tapbranch_message_inject)
  with collision_freeD [OF cf]
  have "sha256 L (branch_hash_message L (replicate 32 0xaa) (replicate 32 0xbb))
      \<noteq> sha256 L (branch_hash_message L (replicate 32 0xaa) (replicate 32 0xcc))"
    by blast
  then show "tapbranch_hash_changes_with_input L"
    unfolding tapbranch_hash_changes_with_input_def compute_tapbranch_hash_def tagged_hash_def
      branch_hash_message_def Let_def .
qed

lemma root_inject:
  assumes "sha256_ok L" and "length m = 32" "length n = 32"
    and "collision_free L (tree_messages L pq (commitment_leaf_script c m)
      \<union> tree_messages L pq' (commitment_leaf_script d n))"
    and "root_of L c m pq = root_of L d n pq'" and "pq = [x]" "pq' = [y]"
  shows "c = d \<and> m = n \<and> pq = pq'"
  using two_leaf_root_inject [OF assms(1,4)] assms(5-7)
  by (auto simp: root_of_def commitment_leaf_script_direct assms(2,3) p2mr_ret_payload_inject)

lemma u16_to_le_bytes_pair: "u16_to_le_bytes w = [of_nat (unat w mod 256), of_nat (unat w div 256 mod 256)]"
proof -
  have two: "(2 :: nat) = Suc (Suc 0)" by simp
  show ?thesis unfolding u16_to_le_bytes_def two nat_le.simps by (rule refl)
qed

lemma tree_tests_pass:
  assumes "sha256_ok L"
  shows "compact_size_encoding" "tapbranch_hash_is_symmetric L"
    "verify_p2mr_ret_succeeds_for_consistent_seal L" "commitment_leaf_script_starts_with_opreturn"
proof -
  show "compact_size_encoding"
    by (simp add: compact_size_encoding_def compact_size_def u16_to_le_bytes_pair)
  show "tapbranch_hash_is_symmetric L"
    by (simp add: tapbranch_hash_is_symmetric_def tapbranch.branch_comm)
  have "verify_p2mr_ret L (test_seal\<lparr>p2mr_root := root_of L (chain_id test_seal) test_mpc [0x51]\<rparr>)
      test_mpc [0x51] = Ok ()"
    unfolding verify_p2mr_ret_def verify_bounded_Ok_iff [OF test_mpc_length] root_of_def
    by (simp add: default_limits_def del: tree_for_seal_simps)
  then show "verify_p2mr_ret_succeeds_for_consistent_seal L"
    by (simp add: verify_p2mr_ret_succeeds_for_consistent_seal_def is_ok_def)
  show "commitment_leaf_script_starts_with_opreturn"
    by (simp add: commitment_leaf_script_starts_with_opreturn_def commitment_leaf_script_direct
        test_mpc_length)
qed

text \<open>The trees the tests compare, as pairs of a PQ leaf and a commitment leaf.\<close>

definition compared_trees :: "(bytes \<times> bytes) list" where
  "compared_trees =
     (let comm = commitment_leaf_script BitcoinQuantumRegtest test_mpc in
      [([0x51], commitment_leaf_script BitcoinQuantumRegtest (replicate 32 0x5a)),
       ([0x52], comm), ([0x51], commitment_leaf_script BitcoinQuantumTestnet test_mpc),
       ([0x51], comm @ [0x00])])"

lemma root_tests_pass:
  assumes L: "sha256_ok L"
    and cf: "\<forall>(pq, comm) \<in> set compared_trees. collision_free L (tree_messages L [0x51]
      (commitment_leaf_script BitcoinQuantumRegtest test_mpc) \<union> tree_messages L pq comm)"
  shows "p2mr_ret_root_changes_with_commitment L" "p2mr_ret_root_changes_with_pq_leaf L"
    "p2mr_ret_root_changes_with_chain L" "verify_p2mr_ret_rejects_wrong_chain_payload L"
    "p2mr_ret_tree_roundtrips_and_proofs L"
proof -
  let ?comm = "commitment_leaf_script BitcoinQuantumRegtest test_mpc"
  have cf: "collision_free L (tree_messages L [0x51] ?comm \<union> tree_messages L pq comm)"
    if "(pq, comm) \<in> set compared_trees" for pq comm
    using cf that by blast
  have mpc: "replicate 32 0x5a \<noteq> test_mpc" by (simp add: test_mpc_def)
  have root: "root_of L BitcoinQuantumRegtest test_mpc [0x51] \<noteq> root_of L d n [y]"
    if "([y], commitment_leaf_script d n) \<in> set compared_trees" "length n = 32"
      "\<not> (BitcoinQuantumRegtest = d \<and> test_mpc = n \<and> [0x51] = [y])" for d n y
    using root_inject [OF L test_mpc_length that(2) cf [OF that(1)] _ refl refl] that(3) by blast
  show "p2mr_ret_root_changes_with_commitment L"
    using root [of "0x51" BitcoinQuantumRegtest "replicate 32 0x5a"] mpc
    by (simp add: p2mr_ret_root_changes_with_commitment_def compared_trees_def Let_def eq_commute)
  show "p2mr_ret_root_changes_with_pq_leaf L"
    using root [of "0x52" BitcoinQuantumRegtest test_mpc] test_mpc_length
    by (simp add: p2mr_ret_root_changes_with_pq_leaf_def compared_trees_def Let_def)
  have chain: "root_of L BitcoinQuantumRegtest test_mpc [0x51] \<noteq> root_of L BitcoinQuantumTestnet test_mpc [0x51]"
    using root [of "0x51" BitcoinQuantumTestnet test_mpc] test_mpc_length
    by (simp add: compared_trees_def Let_def)
  then show "p2mr_ret_root_changes_with_chain L" by (simp add: p2mr_ret_root_changes_with_chain_def)
  let ?s = "test_seal\<lparr>p2mr_root := root_of L (chain_id test_seal) test_mpc [0x51],
    chain_id := BitcoinQuantumTestnet\<rparr>"
  have "verify_p2mr_ret L ?s test_mpc [0x51] \<noteq> Ok ()"
    unfolding verify_p2mr_ret_def verify_bounded_Ok_iff [OF test_mpc_length]
    using chain by (simp add: root_of_def del: tree_for_seal_simps)
  then show "verify_p2mr_ret_rejects_wrong_chain_payload L"
    using verify_bounded_no_panic [of L ?s test_mpc "[0x51]" default_limits]
    by (cases "verify_p2mr_ret L ?s test_mpc [0x51]")
       (simp_all add: verify_p2mr_ret_rejects_wrong_chain_payload_def fails_def verify_p2mr_ret_def)
  have "compute_tapbranch_hash L (compute_tapleaf_hash L 0xc0 (?comm @ [0x00])) (compute_tapleaf_hash L 0xc0 [0x51])
      \<noteq> compute_tapbranch_hash L (compute_tapleaf_hash L 0xc0 [0x51]) (compute_tapleaf_hash L 0xc0 ?comm)"
  proof
    assume "compute_tapbranch_hash L (compute_tapleaf_hash L 0xc0 (?comm @ [0x00])) (compute_tapleaf_hash L 0xc0 [0x51])
      = compute_tapbranch_hash L (compute_tapleaf_hash L 0xc0 [0x51]) (compute_tapleaf_hash L 0xc0 ?comm)"
    then have "([0x51] = [0x51 :: u8] \<and> ?comm = ?comm @ [0x00]) \<or> ([0x51] = ?comm @ [0x00] \<and> ?comm = [0x51])"
      by (intro two_leaf_root_inject [OF L cf])
         (simp_all add: compared_trees_def Let_def tapbranch.branch_comm [of L "compute_tapleaf_hash L 0xc0 (?comm @ [0x00])"])
    then show False by (auto simp: commitment_leaf_script_direct test_mpc_length)
  qed
  then show "p2mr_ret_tree_roundtrips_and_proofs L"
    by (simp add: p2mr_ret_tree_roundtrips_and_proofs_def Let_def proof_verify_against_def
        build_p2mr_ret_tree_for_seal_def build_p2mr_ret_tree_def P2MR_COMMITMENT_LEAF_VERSION_def
        tapbranch.sibling_root [simplified])
qed

subsection \<open>Several commitments (\<open>multi.rs\<close>)\<close>

definition multi_protocol_tree_single_commitment :: "crates \<Rightarrow> bool" where
  "multi_protocol_tree_single_commitment L \<longleftrightarrow> (let comm = [0x6a, 0x01, 0x00] in
     case build_multi_protocol_tree L [0x51] [comm] of
       Ok tree \<Rightarrow> multi_root tree
         = tree_root (build_p2mr_ret_tree L [0x51] P2MR_COMMITMENT_LEAF_VERSION comm)
     | _ \<Rightarrow> False)"

definition test_leaf :: "u8 \<Rightarrow> u8 \<Rightarrow> bytes" where
  "test_leaf b i = multi_protocol_commitment_leaf BitcoinQuantumRegtest (replicate 32 b) i"

text \<open>The second test also asserts that the root is not zero.\<close>

definition multi_protocol_tree_two_commitments :: "crates \<Rightarrow> bool" where
  "multi_protocol_tree_two_commitments L \<longleftrightarrow>
     (case build_multi_protocol_tree L [0x51] [test_leaf 0xa5 0, test_leaf 0xb6 1] of
        Ok tree \<Rightarrow> multi_root tree \<noteq> replicate 32 0
          \<and> verify_multi_protocol_commitment L (multi_root tree) [0x51]
              (map leaf_script (multi_leaves tree)) = Ok ()
      | _ \<Rightarrow> False)"

definition multi_protocol_tree_empty_rejected :: "crates \<Rightarrow> bool" where
  "multi_protocol_tree_empty_rejected L \<longleftrightarrow> fails (build_multi_protocol_tree L [0x51] [])"

definition multi_protocol_root_changes_with_extra_commitment :: "crates \<Rightarrow> bool" where
  "multi_protocol_root_changes_with_extra_commitment L \<longleftrightarrow>
     (case (build_multi_protocol_tree L [0x51] [test_leaf 0xa5 0],
            build_multi_protocol_tree L [0x51] [test_leaf 0xa5 0, test_leaf 0xb6 1]) of
        (Ok t1, Ok t2) \<Rightarrow> multi_root t1 \<noteq> multi_root t2 | _ \<Rightarrow> False)"

definition protocol_index_domain_separates :: bool where
  "protocol_index_domain_separates \<longleftrightarrow> test_leaf 0xa5 0 \<noteq> test_leaf 0xa5 1"

lemma multi_tests_pass:
  assumes L: "sha256_ok L"
    and cf: "collision_free L (multi_messages L [0x51] [test_leaf 0xa5 0]
      \<union> multi_messages L [0x51] [test_leaf 0xa5 0, test_leaf 0xb6 1])"
    and root: "multi_root_of L [0x51] [test_leaf 0xa5 0, test_leaf 0xb6 1] \<noteq> replicate 32 0"
  shows "multi_protocol_tree_single_commitment L" "multi_protocol_tree_two_commitments L"
    "multi_protocol_tree_empty_rejected L" "multi_protocol_root_changes_with_extra_commitment L"
    "protocol_index_domain_separates"
proof -
  note built = build_multi_ok [of _ L "[0x51]"]
  show "multi_protocol_tree_single_commitment L"
    using built [of "[[0x6a, 0x01, 0x00]]"]
    by (auto simp: multi_protocol_tree_single_commitment_def multi_root_of_def multi_leaf_hash_def
        build_p2mr_ret_tree_def Let_def)
  show "multi_protocol_tree_empty_rejected L"
    by (simp add: multi_protocol_tree_empty_rejected_def build_multi_protocol_tree_def fails_def)
  show "protocol_index_domain_separates"
    by (simp add: protocol_index_domain_separates_def test_leaf_def multi_leaf_direct)
  let ?two = "[test_leaf 0xa5 0, test_leaf 0xb6 1]"
  obtain t where t: "build_multi_protocol_tree L [0x51] ?two = Ok t"
    "multi_root t = multi_root_of L [0x51] ?two" "length (multi_leaves t) = length ?two"
    "\<forall>i < length ?two. multi_leaves t ! i = \<lparr>leaf_depth = of_nat (1 + i),
      leaf_version = P2MR_COMMITMENT_LEAF_VERSION, leaf_script = ?two ! i\<rparr>"
    using built [of ?two] by blast
  have "map leaf_script (multi_leaves t) = ?two"
    using t(3,4) by (intro nth_equalityI) (auto simp: less_Suc_eq)
  with t(1,2) root show "multi_protocol_tree_two_commitments L"
    by (simp add: multi_protocol_tree_two_commitments_def verify_multi_iff)
  have "multi_root_of L [0x51] [test_leaf 0xa5 0] \<noteq> multi_root_of L [0x51] ?two"
    using multi_root_inject [OF L cf, of "[0x51]" "[test_leaf 0xa5 0]" "[0x51]" ?two] by auto
  with t(1,2) built [of "[test_leaf 0xa5 0]"]
  show "multi_protocol_root_changes_with_extra_commitment L"
    by (auto simp: multi_protocol_root_changes_with_extra_commitment_def)
qed

end
