(* ===== verification/Digests.thy ===== *)
theory Digests
  imports Examples Sha256 Tests_Commit Tests_Seal
begin

section \<open>Digests on SHA-256\<close>

text \<open>
  The digests the repository computes in its examples and tests, on SHA-256 itself: \<open>sha2_crates\<close> is
  the crate parameter with the standard's hash. Each digest is one lemma, computed on bits, so that
  nothing is computed twice; the hypotheses of the test lemmas then hold for the hash the program
  uses, at the messages the tests hash.
\<close>

definition sha2_crates :: crates where
  "sha2_crates = toy_crates\<lparr>sha256 := sha256_fips\<rparr>"

lemma sha2_crates_simps [simp]:
  "sha256 sha2_crates = sha256_fips" "hex_encode sha2_crates = hex_lower"
  by (simp_all add: sha2_crates_def toy_crates_def)

lemma sha2_ok: "sha256_ok sha2_crates"
  by (simp add: sha256_ok_def length_sha256_fips)

subsection \<open>The digests\<close>

definition TAG_LEAF :: bytes where
  "TAG_LEAF =
    [0xae, 0xea, 0x8f, 0xdc, 0x42, 0x08, 0x98, 0x31, 0x05, 0x73, 0x4b, 0x58, 0x08, 0x1d, 0x1e, 0x26,
     0x38, 0xd3, 0x5f, 0x1c, 0xb5, 0x40, 0x08, 0xd4, 0xd3, 0x57, 0xca, 0x03, 0xbe, 0x78, 0xe9, 0xee]"

definition TAG_BRANCH :: bytes where
  "TAG_BRANCH =
    [0x19, 0x41, 0xa1, 0xf2, 0xe5, 0x6e, 0xb9, 0x5f, 0xa2, 0xa9, 0xf1, 0x94, 0xbe, 0x5c, 0x01, 0xf7,
     0x21, 0x6f, 0x33, 0xed, 0x82, 0xb0, 0x91, 0x46, 0x34, 0x90, 0xd0, 0x5b, 0xf5, 0x16, 0xa0, 0x15]"

definition LEAF_51 :: bytes where
  "LEAF_51 =
    [0xa8, 0x5b, 0x21, 0x07, 0xf7, 0x91, 0xb2, 0x6a, 0x84, 0xe7, 0x58, 0x6c, 0x28, 0xce, 0xc7, 0xcb,
     0x61, 0x20, 0x2e, 0xd3, 0xd0, 0x19, 0x44, 0xd8, 0x32, 0x50, 0x0f, 0x36, 0x37, 0x82, 0xd6, 0x75]"

definition LEAF_52 :: bytes where
  "LEAF_52 =
    [0xc2, 0x76, 0xfe, 0xf1, 0x38, 0x68, 0x90, 0x61, 0x9b, 0x80, 0xe1, 0x0a, 0x4a, 0x32, 0x85, 0x72,
     0xd9, 0x74, 0x93, 0xad, 0xd2, 0x69, 0xdf, 0x1a, 0x15, 0xa7, 0xf8, 0x9f, 0x8a, 0xe8, 0xec, 0x09]"

definition LEAF_DEAD :: bytes where
  "LEAF_DEAD =
    [0x14, 0x3e, 0x7f, 0x7a, 0x7b, 0x3f, 0xde, 0x67, 0xb5, 0x6a, 0x00, 0x34, 0xd6, 0xdb, 0xcd, 0x12,
     0xf0, 0x8a, 0x0f, 0x3e, 0x97, 0xea, 0x1b, 0x35, 0xb8, 0x82, 0x55, 0x8e, 0xff, 0xae, 0xbe, 0x89]"

definition LEAF_COMM :: bytes where
  "LEAF_COMM =
    [0xe4, 0x5b, 0xb8, 0x80, 0x62, 0xc2, 0x70, 0xf1, 0x67, 0xe1, 0x8d, 0xe6, 0xbd, 0xe6, 0x44, 0xc1,
     0x2d, 0x26, 0x30, 0xd1, 0xcc, 0xc3, 0x7c, 0x6b, 0xfa, 0x0b, 0xf6, 0x32, 0xb3, 0x3e, 0x11, 0xb9]"

definition LEAF_COMM_5A :: bytes where
  "LEAF_COMM_5A =
    [0x26, 0x18, 0x61, 0x26, 0x02, 0xdf, 0x2e, 0xa4, 0x65, 0x4f, 0xe4, 0xa9, 0xcf, 0x01, 0x25, 0xb1,
     0x32, 0xaf, 0x41, 0x3e, 0x8a, 0xf6, 0xc3, 0xfb, 0xbe, 0xa8, 0xdf, 0x34, 0x5d, 0x6c, 0xf6, 0xd2]"

definition LEAF_COMM_TESTNET :: bytes where
  "LEAF_COMM_TESTNET =
    [0xc8, 0x43, 0x31, 0x94, 0xec, 0x30, 0xc9, 0x8c, 0x36, 0x08, 0x4e, 0xb7, 0xca, 0xa7, 0xe5, 0x11,
     0xef, 0xc0, 0x8e, 0xc2, 0x5b, 0x01, 0xe7, 0x4c, 0x4b, 0x88, 0x26, 0xbc, 0xb1, 0x88, 0xfe, 0xe4]"

definition LEAF_COMM_LONGER :: bytes where
  "LEAF_COMM_LONGER =
    [0x49, 0x00, 0xc8, 0x71, 0x20, 0x63, 0xe9, 0x0e, 0x89, 0xf3, 0xcf, 0x34, 0x84, 0x37, 0xfd, 0xe4,
     0x45, 0x6e, 0xb3, 0xda, 0x0f, 0x1c, 0x14, 0xbc, 0xa6, 0x66, 0xc1, 0x01, 0x29, 0x36, 0xef, 0x92]"

definition LEAF_MULTI_0 :: bytes where
  "LEAF_MULTI_0 =
    [0x1e, 0x99, 0x53, 0xf5, 0x37, 0x42, 0x5e, 0x50, 0x2f, 0x94, 0x26, 0xb7, 0xc3, 0xcf, 0xdd, 0x85,
     0xd3, 0x32, 0x88, 0xc1, 0xf2, 0xbc, 0x42, 0xbb, 0x89, 0x1c, 0xd2, 0xff, 0x6a, 0x6a, 0xa6, 0x6f]"

definition LEAF_MULTI_1 :: bytes where
  "LEAF_MULTI_1 =
    [0x5a, 0x77, 0x6e, 0x8e, 0x5a, 0xed, 0xac, 0xd5, 0x55, 0x8a, 0x77, 0xaa, 0xfc, 0xce, 0xa9, 0xc7,
     0x8f, 0x6e, 0x0c, 0xd8, 0xa7, 0x17, 0xf3, 0x65, 0xf5, 0x0a, 0xd2, 0xb4, 0xb1, 0x12, 0x39, 0x37]"

definition ROOT_DEAD :: bytes where
  "ROOT_DEAD =
    [0x51, 0x81, 0x23, 0x96, 0x6a, 0x74, 0xde, 0xbd, 0xcf, 0xb1, 0x6a, 0x12, 0xd5, 0xf4, 0xe2, 0x99,
     0xfe, 0xbb, 0x35, 0xdb, 0xb9, 0x12, 0xa8, 0x22, 0x9d, 0x40, 0x05, 0xb0, 0x5c, 0xaa, 0xcb, 0xa0]"

definition ROOT_COMM :: bytes where
  "ROOT_COMM =
    [0xb3, 0x43, 0xe1, 0x73, 0x8c, 0x28, 0x17, 0x22, 0xe2, 0xfa, 0x89, 0x09, 0xf8, 0x0d, 0xea, 0x7c,
     0xe0, 0x64, 0xf3, 0xc8, 0x08, 0x6e, 0x4f, 0x24, 0x8d, 0xbc, 0xfd, 0x81, 0xbe, 0xd3, 0x9f, 0x1f]"

definition ROOT_5A :: bytes where
  "ROOT_5A =
    [0x29, 0xc6, 0x9e, 0x63, 0x04, 0xe3, 0x56, 0x84, 0x2d, 0x8b, 0xf3, 0x16, 0x21, 0x99, 0xba, 0x4a,
     0x23, 0xe0, 0xa8, 0x20, 0x91, 0x15, 0xa4, 0x2d, 0xed, 0x6a, 0x0f, 0x40, 0x3a, 0x8f, 0xdf, 0xc8]"

definition ROOT_52 :: bytes where
  "ROOT_52 =
    [0x50, 0xa9, 0x1f, 0xf0, 0xe5, 0x73, 0x64, 0x1e, 0x24, 0xe0, 0x19, 0xc2, 0xb9, 0xa9, 0xf7, 0xbf,
     0x9e, 0x17, 0x33, 0xca, 0x9e, 0x3d, 0x44, 0xbb, 0x88, 0xd3, 0x53, 0x49, 0xf3, 0xd7, 0xa4, 0xb2]"

definition ROOT_TESTNET :: bytes where
  "ROOT_TESTNET =
    [0x2a, 0x98, 0xfa, 0xcb, 0x21, 0xee, 0xb7, 0x4a, 0xab, 0x76, 0x80, 0x19, 0xe3, 0xa2, 0xc1, 0x96,
     0x9a, 0xff, 0xa3, 0xc3, 0x87, 0xc6, 0x27, 0x47, 0xaa, 0x64, 0x0d, 0xab, 0xfd, 0xbd, 0x64, 0x39]"

definition ROOT_LONGER :: bytes where
  "ROOT_LONGER =
    [0x17, 0xc0, 0x42, 0xfb, 0xc4, 0xd0, 0xf6, 0x4d, 0x10, 0x95, 0xf9, 0xa2, 0x82, 0xef, 0xdd, 0x7f,
     0x0e, 0x2d, 0x4c, 0x58, 0xd4, 0xbc, 0x7f, 0xf4, 0x50, 0x45, 0x99, 0xef, 0xb5, 0x5f, 0x8c, 0xab]"

definition ROOT_MULTI_1 :: bytes where
  "ROOT_MULTI_1 =
    [0xa8, 0x06, 0x81, 0xcf, 0x67, 0xf5, 0x9f, 0xf4, 0xb4, 0x3d, 0x74, 0xf4, 0x35, 0x2b, 0x85, 0xb3,
     0x8d, 0xc1, 0xdd, 0xad, 0xb6, 0xca, 0x4e, 0x18, 0x4f, 0x1a, 0x88, 0xdb, 0x85, 0xd7, 0xee, 0x30]"

definition ROOT_MULTI_2 :: bytes where
  "ROOT_MULTI_2 =
    [0x6b, 0xe4, 0x69, 0x02, 0xad, 0xa4, 0x28, 0x72, 0x4a, 0x34, 0x2f, 0x45, 0x5b, 0x41, 0xe5, 0xff,
     0x53, 0xaa, 0xba, 0xc2, 0x2c, 0x41, 0x5e, 0x1b, 0x11, 0x8c, 0xca, 0x04, 0x75, 0x75, 0x38, 0x45]"

lemma tag_digests:
  "sha256_fips (as_bytes ''TapLeaf'') = TAG_LEAF" "sha256_fips (as_bytes ''TapBranch'') = TAG_BRANCH"
  by (code_simp, code_simp)

lemma leaf_sha2:
  "compute_tapleaf_hash sha2_crates v s = sha256_fips (TAG_LEAF @ TAG_LEAF @ tapleaf_message v s)"
  by (simp add: compute_tapleaf_hash_def tagged_hash_def tagged_message_def tag_digests)

lemma branch_sha2:
  "compute_tapbranch_hash sha2_crates a b = sha256_fips (TAG_BRANCH @ TAG_BRANCH @ tapbranch_message a b)"
  by (simp add: compute_tapbranch_hash_def tagged_hash_def tagged_message_def tag_digests)

lemma leaf_51: "compute_tapleaf_hash sha2_crates 0xc0 [0x51] = LEAF_51"
  unfolding leaf_sha2 by code_simp

lemma leaf_52: "compute_tapleaf_hash sha2_crates 0xc0 [0x52] = LEAF_52"
  unfolding leaf_sha2 by code_simp

lemma leaf_dead: "compute_tapleaf_hash sha2_crates 0xc0 [0x6a, 0x02, 0xde, 0xad] = LEAF_DEAD"
  unfolding leaf_sha2 by code_simp

lemma leaf_comm: "compute_tapleaf_hash sha2_crates 0xc0 (commitment_leaf_script BitcoinQuantumRegtest test_mpc) = LEAF_COMM"
  unfolding leaf_sha2 by code_simp

lemma leaf_comm_5a: "compute_tapleaf_hash sha2_crates 0xc0 (commitment_leaf_script BitcoinQuantumRegtest (replicate 32 0x5a)) = LEAF_COMM_5A"
  unfolding leaf_sha2 by code_simp

lemma leaf_comm_testnet: "compute_tapleaf_hash sha2_crates 0xc0 (commitment_leaf_script BitcoinQuantumTestnet test_mpc) = LEAF_COMM_TESTNET"
  unfolding leaf_sha2 by code_simp

lemma leaf_comm_longer: "compute_tapleaf_hash sha2_crates 0xc0 (commitment_leaf_script BitcoinQuantumRegtest test_mpc @ [0x00]) = LEAF_COMM_LONGER"
  unfolding leaf_sha2 by code_simp

lemma leaf_multi_0: "compute_tapleaf_hash sha2_crates 0xc0 (test_leaf 0xa5 0) = LEAF_MULTI_0"
  unfolding leaf_sha2 by code_simp

lemma leaf_multi_1: "compute_tapleaf_hash sha2_crates 0xc0 (test_leaf 0xb6 1) = LEAF_MULTI_1"
  unfolding leaf_sha2 by code_simp

lemma root_dead: "compute_tapbranch_hash sha2_crates LEAF_51 LEAF_DEAD = ROOT_DEAD"
  unfolding branch_sha2 by code_simp

lemma root_comm: "compute_tapbranch_hash sha2_crates LEAF_51 LEAF_COMM = ROOT_COMM"
  unfolding branch_sha2 by code_simp

lemma root_5a: "compute_tapbranch_hash sha2_crates LEAF_51 LEAF_COMM_5A = ROOT_5A"
  unfolding branch_sha2 by code_simp

lemma root_52: "compute_tapbranch_hash sha2_crates LEAF_52 LEAF_COMM = ROOT_52"
  unfolding branch_sha2 by code_simp

lemma root_testnet: "compute_tapbranch_hash sha2_crates LEAF_51 LEAF_COMM_TESTNET = ROOT_TESTNET"
  unfolding branch_sha2 by code_simp

lemma root_longer: "compute_tapbranch_hash sha2_crates LEAF_51 LEAF_COMM_LONGER = ROOT_LONGER"
  unfolding branch_sha2 by code_simp

lemma root_multi_1: "compute_tapbranch_hash sha2_crates LEAF_51 LEAF_MULTI_0 = ROOT_MULTI_1"
  unfolding branch_sha2 by code_simp

lemma root_multi_2: "compute_tapbranch_hash sha2_crates ROOT_MULTI_1 LEAF_MULTI_1 = ROOT_MULTI_2"
  unfolding branch_sha2 by code_simp

definition DIGEST_VECTOR :: bytes where
  "DIGEST_VECTOR =
    [0xcd, 0x75, 0xc0, 0x24, 0xaf, 0x0b, 0x3e, 0x2b, 0x39, 0x3e, 0x59, 0x2d, 0x1d, 0x76, 0x0b, 0x77,
     0xea, 0xd3, 0xe7, 0x37, 0x8b, 0x81, 0x8f, 0x12, 0xff, 0x6e, 0xdc, 0x2b, 0xf6, 0xa8, 0x21, 0xad]"

definition EMPTY_TAPLEAF :: bytes where
  "EMPTY_TAPLEAF =
    [0x52, 0x12, 0xc2, 0x88, 0xa3, 0x77, 0xd1, 0xf8, 0x16, 0x49, 0x62, 0xa5, 0xa1, 0x34, 0x29, 0xf9,
     0xba, 0x6a, 0x7b, 0x84, 0xe5, 0x97, 0x76, 0xa5, 0x2c, 0x66, 0x37, 0xdf, 0x21, 0x06, 0xfa, 0xcb]"

definition BRANCH_AA_BB :: bytes where
  "BRANCH_AA_BB =
    [0x9e, 0xbc, 0xd2, 0x4c, 0xc8, 0xce, 0x07, 0x23, 0x30, 0x06, 0x0f, 0xa7, 0x64, 0xfc, 0x18, 0xf5,
     0x17, 0xb3, 0x85, 0x6b, 0x26, 0x41, 0x15, 0x73, 0x9c, 0xb2, 0xbb, 0xf3, 0xa0, 0x55, 0x14, 0x2b]"

definition BRANCH_AA_CC :: bytes where
  "BRANCH_AA_CC =
    [0x97, 0x2c, 0x82, 0xb4, 0x18, 0x7e, 0x58, 0x81, 0x36, 0x97, 0xcb, 0x71, 0x58, 0x2b, 0x23, 0x77,
     0x9d, 0x4c, 0xfe, 0x76, 0x21, 0xa9, 0x7b, 0xf0, 0xd7, 0x13, 0xbc, 0x7e, 0xf8, 0xec, 0x67, 0x82]"

definition PLAIN_51 :: bytes where
  "PLAIN_51 =
    [0x0d, 0x81, 0x2e, 0x72, 0xf4, 0x7c, 0xfe, 0xdd, 0x2b, 0x77, 0x14, 0x0c, 0x07, 0x6a, 0xfa, 0x9b,
     0x74, 0x40, 0x46, 0x09, 0x3a, 0x85, 0xd7, 0x4c, 0xad, 0xd7, 0xe6, 0xda, 0xeb, 0x01, 0xf1, 0x95]"

lemma other_digests:
  "sha256_fips (digest_preimage vector_value) = DIGEST_VECTOR"
  "sha256_fips (TAG_LEAF @ TAG_LEAF) = EMPTY_TAPLEAF"
  "sha256_fips [0xc0, 0x51] = PLAIN_51"
  by (code_simp, code_simp, code_simp)

lemma branch_aa:
  "compute_tapbranch_hash sha2_crates (replicate 32 0xaa) (replicate 32 0xbb) = BRANCH_AA_BB"
  "compute_tapbranch_hash sha2_crates (replicate 32 0xaa) (replicate 32 0xcc) = BRANCH_AA_CC"
  unfolding branch_sha2 by (code_simp, code_simp)

lemmas digest_values = TAG_LEAF_def TAG_BRANCH_def LEAF_51_def LEAF_52_def LEAF_DEAD_def LEAF_COMM_def LEAF_COMM_5A_def LEAF_COMM_TESTNET_def LEAF_COMM_LONGER_def LEAF_MULTI_0_def LEAF_MULTI_1_def
  ROOT_DEAD_def ROOT_COMM_def ROOT_5A_def ROOT_52_def ROOT_TESTNET_def ROOT_LONGER_def ROOT_MULTI_1_def ROOT_MULTI_2_def
  DIGEST_VECTOR_def EMPTY_TAPLEAF_def BRANCH_AA_BB_def BRANCH_AA_CC_def PLAIN_51_def

lemmas test_digests = leaf_51 leaf_52 leaf_dead leaf_comm leaf_comm_5a leaf_comm_testnet leaf_comm_longer leaf_multi_0 leaf_multi_1
  root_dead root_comm root_5a root_52 root_testnet root_longer root_multi_1 root_multi_2

end
