(* ===== verification/Tests_Tx.thy ===== *)
theory Tests_Tx
  imports Funding
begin

section \<open>The unit tests of the transaction crate\<close>

text \<open>
  The test modules of \<open>commit.rs\<close> and \<open>lib.rs\<close> in \<open>crates/rgb-pq-tx/src\<close>: each test as a predicate
  that holds when its assertions do and nothing it unwraps is an error. The transaction codec and
  the tests' sample transaction are those of the \<^verbatim>\<open>bitcoin\<close> crate, hence parameters; what the tests
  rely on in them is a hypothesis. The shape of the JSON tree is not restated.
\<close>

subsection \<open>Transactions (\<open>commit.rs\<close>)\<close>

definition tx_test_seal :: btq_p2mr_seal where
  "tx_test_seal = seal_new BitcoinQuantumRegtest (outpoint_new (txid_from_bytes (replicate 32 0x11)) 0)
     (replicate 32 0x22) (replicate 32 0x33) Dilithium2 OpretFirst OneConf"

definition append_inserts_opret_and_roundtrips :: "crates \<Rightarrow> 't tx_codec \<Rightarrow> string \<Rightarrow> bool" where
  "append_inserts_opret_and_roundtrips L T tx_hex \<longleftrightarrow> (let mpc = replicate 32 0xa5 in
     case append_opret_commitment L T tx_hex tx_test_seal mpc of
       Ok with_commit \<Rightarrow> tx_hex \<noteq> with_commit
         \<and> (case find_commitment_in_signed_tx L T with_commit tx_test_seal of
              Ok (Some c) \<Rightarrow> cm_mpc c = mpc \<and> cm_chain c = BitcoinQuantumRegtest | _ \<Rightarrow> False)
     | _ \<Rightarrow> False)"

definition append_rejects_garbage_hex :: "crates \<Rightarrow> 't tx_codec \<Rightarrow> bool" where
  "append_rejects_garbage_hex L T \<longleftrightarrow>
     (case append_opret_commitment L T ''nothex!!'' tx_test_seal (replicate 32 0) of
        Err _ \<Rightarrow> True | _ \<Rightarrow> False)"

definition find_returns_none_when_absent :: "crates \<Rightarrow> 't tx_codec \<Rightarrow> string \<Rightarrow> bool" where
  "find_returns_none_when_absent L T tx_hex \<longleftrightarrow>
     find_commitment_in_signed_tx L T tx_hex tx_test_seal = Ok None"

definition opret_script_starts_with_op_return :: "'t tx_codec \<Rightarrow> bool" where
  "opret_script_starts_with_op_return T \<longleftrightarrow> (let b = build_op_return_script T [0xaa, 0xbb]
     in b ! 0 = 0x6a \<and> b ! 1 = 0x02 \<and> take 2 (drop 2 b) = [0xaa, 0xbb])"

lemma tx_test_seal_wf: "wf_seal tx_test_seal"
  by (simp add: tx_test_seal_def seal_new_def wf_seal_def wf_outpoint_def outpoint_new_def
      txid_from_bytes_def)

text \<open>The sample transaction decodes, and its one output, a P2PKH script, carries no commitment.\<close>

lemma commit_tests_pass:
  assumes L: "sha256_ok L" "hex_ok L" and T: "tx_codec_ok T"
    and dec: "hex_decode L tx_hex = Ok raw" "tc_deserialize T raw = Ok tx"
    and absent: "\<forall>o' \<in> set (tc_outputs T tx). carried_for L tx_test_seal (snd o') = None"
    and p: "build_opret_payload L tx_test_seal (replicate 32 0xa5) = (Ok p :: bytes rgb_pq_result)"
    and rt: "tx_roundtrips T (tc_push_output T tx (0, build_op_return_script T p))"
    and garbage: "hex_decode L ''nothex!!'' = Err e"
  shows "append_inserts_opret_and_roundtrips L T tx_hex" "append_rejects_garbage_hex L T"
    "find_returns_none_when_absent L T tx_hex" "opret_script_starts_with_op_return T"
proof -
  have none: "find_commitment_in_signed_tx L T tx_hex tx_test_seal = Ok None"
    using dec absent by (simp add: find_commitment_in_signed_tx_def decode_tx_hex_def
        signed_loop_spec [OF L(1)] hits_for_none)
  then show "find_returns_none_when_absent L T tx_hex"
    by (simp add: find_returns_none_when_absent_def)
  obtain hex where hex: "append_opret_commitment L T tx_hex tx_test_seal (replicate 32 0xa5) = Ok hex"
    "find_commitment_in_signed_tx L T hex tx_test_seal
      = Ok (Some (commitment_new tx_test_seal (replicate 32 0xa5)))"
    using append_find_aux [OF L T tx_test_seal_wf _ dec absent p rt] by auto
  from hex(2) none have "tx_hex \<noteq> hex" by auto
  with hex show "append_inserts_opret_and_roundtrips L T tx_hex"
    by (simp add: append_inserts_opret_and_roundtrips_def commitment_new_def tx_test_seal_def seal_new_def)
  show "append_rejects_garbage_hex L T"
    using garbage by (simp add: append_rejects_garbage_hex_def append_opret_commitment_def decode_tx_hex_def)
  show "opret_script_starts_with_op_return T"
    using T by (simp add: opret_script_starts_with_op_return_def build_op_return_script_def
        tx_codec_ok_def)
qed

subsection \<open>Leaf scripts and seals (\<open>lib.rs\<close>)\<close>

definition dilithium_leaf_script_has_checksig_opcode :: "crates \<Rightarrow> bool" where
  "dilithium_leaf_script_has_checksig_opcode L \<longleftrightarrow>
     (let pk = concat (replicate 1312 ''ab'')
      in case and_then (dilithium_checksig_leaf_hex L pk) (\<lambda>script_hex.
           map_err (\<lambda>e. RgbPq_Invariant e) (hex_decode L script_hex)) of
           Ok bytes \<Rightarrow> bytes \<noteq> [] \<and> last bytes = 0xbb \<and> bytes ! 0 = 0x4d
             \<and> unat (bytes ! 1) OR push_bit 8 (unat (bytes ! 2)) = 1312
         | _ \<Rightarrow> False)"

definition tapleaf_hash_matches_btq_convention :: "crates \<Rightarrow> bool" where
  "tapleaf_hash_matches_btq_convention L \<longleftrightarrow>
     (let leaf = [0x51]; h = tx_compute_tapleaf_hash L leaf
      in length h = 32 \<and> h = tx_compute_tapleaf_hash L leaf)"

definition seal_from_p2mr_roundtrip :: "crates \<Rightarrow> bool" where
  "seal_from_p2mr_roundtrip L \<longleftrightarrow>
     (let out = \<lparr>po_p2mr_id = ''id'', po_address = ''qcrt1z...'',
            po_script_pubkey_hex = ''5220'' @ concat (replicate 32 ''22''),
            po_merkle_root_hex = concat (replicate 32 ''22''),
            po_funding_txid = concat (replicate 32 ''11'')\<rparr>
      in case seal_from_p2mr L BitcoinQuantumRegtest out 0 (replicate 32 0x33) Dilithium2 of
           Ok s \<Rightarrow> p2mr_root s = replicate 32 0x22 \<and> owner_algo s = Dilithium2 | _ \<Rightarrow> False)"

lemma repeated_hex: "fmt_02x b = t \<Longrightarrow> concat (replicate n t) = hex_lower (replicate n b)"
  by (simp add: hex_lower_def)

lemma hex_texts: "fmt_02x 0xab = ''ab''" "fmt_02x 0x22 = ''22''" "fmt_02x 0x11 = ''11''"
  by (code_simp, code_simp, code_simp)

lemma lib_tests_pass:
  assumes "sha256_ok L" and "hex_ok L"
  shows "dilithium_leaf_script_has_checksig_opcode L" "tapleaf_hash_matches_btq_convention L"
    "seal_from_p2mr_roundtrip L"
proof -
  show "tapleaf_hash_matches_btq_convention L"
    using assms(1) by (simp add: tapleaf_hash_matches_btq_convention_def tx_compute_tapleaf_hash_def
        sha256_ok_def)
  note texts = repeated_hex [OF hex_texts(1)] repeated_hex [OF hex_texts(2)] repeated_hex [OF hex_texts(3)]
  let ?script = "0x4d # 0x20 # 0x05 # replicate 1312 0xab @ [CHECKSIG_OPCODE]"
  have "checksig_script (replicate 1312 0xab) = ?script" by (simp add: checksig_script_def)
  then have "dilithium_checksig_leaf_hex L (hex_lower (replicate 1312 0xab)) = Ok (hex_lower ?script)"
    unfolding dilithium_checksig_leaf_hex_def hex_decode_or_default_def by (simp add: hex_okD [OF assms(2)])
  moreover have "hex_decode L (hex_lower ?script) = Ok ?script" by (simp only: hex_okD [OF assms(2)])
  ultimately show "dilithium_leaf_script_has_checksig_opcode L"
    unfolding dilithium_leaf_script_has_checksig_opcode_def Let_def texts
    by (simp only: and_then.simps map_err.simps result.case) (simp add: CHECKSIG_OPCODE_def)
  have "txid_from_str (hex_lower (replicate 32 0x11)) = Ok (replicate 32 0x11)"
    using txid_roundtrip_aux [of "replicate 32 0x11"] by (simp add: txid_to_string_hex)
  then show "seal_from_p2mr_roundtrip L"
    unfolding seal_from_p2mr_roundtrip_def Let_def texts
    by (simp add: seal_from_p2mr_def hex_okD [OF assms(2)] seal_new_def)
qed

end
