(* ===== verification/Known_Answers.thy ===== *)
theory Known_Answers
  imports Digests Tests_Tx
begin

section \<open>Known answers\<close>

text \<open>
  What the examples print and what the tests assert, with the hash the program uses: the assertions
  that compare digests are decided, and the separation hypotheses of the test lemmas hold at the
  tests' messages.
\<close>

lemma message_digests [simp]:
  "sha256_fips (leaf_hash_message sha2_crates v s) = compute_tapleaf_hash sha2_crates v s"
  "sha256_fips (branch_hash_message sha2_crates a b) = compute_tapbranch_hash sha2_crates a b"
  by (simp_all add: compute_tapleaf_hash_def compute_tapbranch_hash_def tagged_hash_def
      leaf_hash_message_def branch_hash_message_def)

lemma digests_distinct:
  "distinct [LEAF_51, LEAF_COMM, ROOT_COMM, LEAF_COMM_5A, ROOT_5A]"
  "distinct [LEAF_51, LEAF_COMM, ROOT_COMM, LEAF_52, ROOT_52]"
  "distinct [LEAF_51, LEAF_COMM, ROOT_COMM, LEAF_COMM_TESTNET, ROOT_TESTNET]"
  "distinct [LEAF_51, LEAF_COMM, ROOT_COMM, LEAF_COMM_LONGER, ROOT_LONGER]"
  "distinct [TAG_LEAF, TAG_BRANCH, LEAF_51, LEAF_MULTI_0, LEAF_MULTI_1, ROOT_MULTI_1, ROOT_MULTI_2]"
  "BRANCH_AA_BB \<noteq> BRANCH_AA_CC"
  by (simp_all add: digest_values)

lemma not_replicate: "hd xs \<noteq> x \<Longrightarrow> xs \<noteq> replicate 32 x"
  by auto

lemma digests_not_constant:
  "EMPTY_TAPLEAF \<noteq> replicate 32 0" "LEAF_51 \<noteq> replicate 32 0" "ROOT_COMM \<noteq> replicate 32 0x22"
  "ROOT_MULTI_2 \<noteq> replicate 32 0" "DIGEST_VECTOR \<noteq> replicate 32 0"
  by (rule not_replicate, simp add: digest_values)+

text \<open>The digests of the trees the tests compare are all different.\<close>

abbreviation regtest_leaf :: bytes where
  "regtest_leaf \<equiv> commitment_leaf_script BitcoinQuantumRegtest test_mpc"

lemma separated_leaf:
  assumes "compute_tapleaf_hash sha2_crates 0xc0 comm = h"
    and "compute_tapbranch_hash sha2_crates LEAF_51 h = r"
    and "distinct [LEAF_51, LEAF_COMM, ROOT_COMM, h, r]"
  shows "collision_free sha2_crates (tree_messages sha2_crates [0x51] regtest_leaf
    \<union> tree_messages sha2_crates [0x51] comm)"
  by (rule collision_free_list [where ms = "[leaf_hash_message sha2_crates 0xc0 [0x51],
        leaf_hash_message sha2_crates 0xc0 regtest_leaf, branch_hash_message sha2_crates LEAF_51 LEAF_COMM,
        leaf_hash_message sha2_crates 0xc0 comm, branch_hash_message sha2_crates LEAF_51 h]"])
     (use assms in \<open>auto simp: tree_messages_def test_digests\<close>)

lemma separated_pq:
  "collision_free sha2_crates (tree_messages sha2_crates [0x51] regtest_leaf
    \<union> tree_messages sha2_crates [0x52] regtest_leaf)"
  by (rule collision_free_list [where ms = "[leaf_hash_message sha2_crates 0xc0 [0x51],
        leaf_hash_message sha2_crates 0xc0 regtest_leaf, branch_hash_message sha2_crates LEAF_51 LEAF_COMM,
        leaf_hash_message sha2_crates 0xc0 [0x52], branch_hash_message sha2_crates LEAF_52 LEAF_COMM]"])
     (use digests_distinct(2) in \<open>auto simp: tree_messages_def test_digests\<close>)

lemma test_trees_separated:
  "\<forall>(pq, comm) \<in> set compared_trees. collision_free sha2_crates
    (tree_messages sha2_crates [0x51] regtest_leaf \<union> tree_messages sha2_crates pq comm)"
  using separated_leaf [OF leaf_comm_5a root_5a digests_distinct(1)]
    separated_leaf [OF leaf_comm_testnet root_testnet digests_distinct(3)]
    separated_leaf [OF leaf_comm_longer root_longer digests_distinct(4)] separated_pq
  by (simp add: compared_trees_def Let_def)

lemma multi_hash_51: "multi_leaf_hash sha2_crates [0x51] = LEAF_51"
    "multi_leaf_hash sha2_crates (test_leaf 0xa5 0) = LEAF_MULTI_0"
    "multi_leaf_hash sha2_crates (test_leaf 0xb6 1) = LEAF_MULTI_1"
  by (simp_all add: multi_leaf_hash_def P2MR_COMMITMENT_LEAF_VERSION_def test_digests)

lemma multi_trees_separated:
  "collision_free sha2_crates (multi_messages sha2_crates [0x51] [test_leaf 0xa5 0]
    \<union> multi_messages sha2_crates [0x51] [test_leaf 0xa5 0, test_leaf 0xb6 1])"
  by (rule collision_free_list [where ms = "multi_message_list sha2_crates [0x51]
        [test_leaf 0xa5 0, test_leaf 0xb6 1]"])
     (use digests_distinct(5) in \<open>auto simp: multi_message_list_def multi_hash_51 test_digests
        tag_digests P2MR_COMMITMENT_LEAF_VERSION_def\<close>)

lemma multi_test_root: "multi_root_of sha2_crates [0x51] [test_leaf 0xa5 0, test_leaf 0xb6 1] = ROOT_MULTI_2"
  by (simp add: multi_root_of_def multi_hash_51 test_digests)

subsection \<open>Properties\<close>

text \<open>The vector of the example \<^verbatim>\<open>verify_merkle\<close>: on SHA-256 it computes the root of the tree of
  \<^verbatim>\<open>OP_TRUE\<close> and \<^verbatim>\<open>OP_RETURN 0xdead\<close>, its assertion against the root the node reported holds, and it
  prints the match.\<close>

theorem verify_merkle_passes:
  "verify_merkle_main sha2_crates = Ok [''our_root  = '' @ NODE_ROOT, ''node_root = '' @ NODE_ROOT,
     ''MATCH '' @ from_bytes [0xe2, 0x9c, 0x93] @ '' '' @ from_bytes [0xe2, 0x80, 0x94]
       @ '' our Merkle math equals btq-core's consensus'']"
proof -
  have "hex_lower ROOT_DEAD = NODE_ROOT" by code_simp
  then show ?thesis by (simp add: verify_merkle_main_def test_digests)
qed

text \<open>All tests of the commitment trees pass with the hash the program uses: every assertion of
  \<open>p2mrret.rs\<close> and \<open>multi.rs\<close> that compares digests, recomputes a root or rejects a tampered leaf,
  a wrong root or a wrong chain holds on SHA-256.\<close>

theorem tree_tests_on_sha256:
  "tagged_hash_tapleaf_known_vector sha2_crates \<and> tapleaf_hash_matches_single_byte_op_true sha2_crates
    \<and> tapbranch_hash_is_symmetric sha2_crates \<and> tapbranch_hash_changes_with_input sha2_crates
    \<and> p2mr_ret_tree_roundtrips_and_proofs sha2_crates
    \<and> p2mr_ret_root_changes_with_commitment sha2_crates
    \<and> p2mr_ret_root_changes_with_pq_leaf sha2_crates \<and> p2mr_ret_root_changes_with_chain sha2_crates
    \<and> verify_p2mr_ret_succeeds_for_consistent_seal sha2_crates
    \<and> verify_p2mr_ret_rejects_wrong_root sha2_crates
    \<and> verify_p2mr_ret_rejects_wrong_chain_payload sha2_crates
    \<and> multi_protocol_tree_single_commitment sha2_crates \<and> multi_protocol_tree_two_commitments sha2_crates
    \<and> multi_protocol_tree_empty_rejected sha2_crates
    \<and> multi_protocol_root_changes_with_extra_commitment sha2_crates"
proof -
  have root: "root_of sha2_crates BitcoinQuantumRegtest test_mpc [0x51] = ROOT_COMM"
    by (simp add: root_of_def test_digests)
  have "tagged_hash sha2_crates (as_bytes ''TapLeaf'') [] = EMPTY_TAPLEAF"
    by (simp add: tagged_hash_def tagged_message_def tag_digests other_digests)
  moreover have "collision_free sha2_crates {branch_hash_message sha2_crates (replicate 32 0xaa) (replicate 32 0xbb),
      branch_hash_message sha2_crates (replicate 32 0xaa) (replicate 32 0xcc)}"
    by (rule collision_free_list [where ms = "[branch_hash_message sha2_crates (replicate 32 0xaa) (replicate 32 0xbb),
          branch_hash_message sha2_crates (replicate 32 0xaa) (replicate 32 0xcc)]"])
       (use digests_distinct(6) in \<open>simp_all add: branch_aa\<close>)
  ultimately have "tagged_hash_tapleaf_known_vector sha2_crates"
      "tapleaf_hash_matches_single_byte_op_true sha2_crates"
      "verify_p2mr_ret_rejects_wrong_root sha2_crates" "tapbranch_hash_changes_with_input sha2_crates"
    using tree_digest_tests_pass [OF sha2_ok] digests_not_constant
    by (simp_all add: root test_digests)
  then show ?thesis
    using tree_tests_pass [OF sha2_ok] root_tests_pass [OF sha2_ok test_trees_separated]
      multi_tests_pass [OF sha2_ok multi_trees_separated] digests_not_constant
    by (simp add: multi_test_root)
qed

text \<open>The leaf hash of \<open>crates/rgb-pq-tx\<close> is not the tree's: for \<^verbatim>\<open>OP_TRUE\<close>, the leaf its test
  calls the btq convention, it gives another digest on SHA-256 than the leaf hash that the root
  matching btq-core is built from.\<close>

theorem tx_leaf_hash_differs:
  "tx_compute_tapleaf_hash sha2_crates [0x51] \<noteq> compute_tapleaf_hash sha2_crates 0xc0 [0x51]
    \<and> tapleaf_hash_matches_btq_convention sha2_crates"
proof -
  have "PLAIN_51 \<noteq> LEAF_51" by (simp add: digest_values)
  then show ?thesis
    using sha2_ok by (simp add: tx_compute_tapleaf_hash_def other_digests test_digests
        tapleaf_hash_matches_btq_convention_def sha256_ok_def)
qed

text \<open>The demo tree: on SHA-256 the example \<^verbatim>\<open>build_p2mrret_tree\<close> prints the leaf scripts and this
  root, a seal with that root accepts the commitment under its PQ leaf, and rejects the other MPC
  value and the other chain that the tests try.\<close>

theorem build_tree_known_root:
  "build_p2mrret_tree_main sha2_crates = [''PQ_LEAF_HEX=51'',
     ''COMM_LEAF_HEX=6a3b5247425051434d72676270713a636f6d6d69746d656e743a763001'' @ repeated ''a5'' 32,
     ''RUST_ROOT=b343e1738c281722e2fa8909f80dea7ce064f3c8086e4f248dbcfd81bed39f1f'']
   \<and> verify_p2mr_ret sha2_crates (test_seal\<lparr>p2mr_root := ROOT_COMM\<rparr>) test_mpc [0x51] = Ok ()
   \<and> verify_p2mr_ret sha2_crates (test_seal\<lparr>p2mr_root := ROOT_COMM\<rparr>) (replicate 32 0x5a) [0x51] \<noteq> Ok ()
   \<and> verify_p2mr_ret sha2_crates (test_seal\<lparr>p2mr_root := ROOT_COMM, chain_id := BitcoinQuantumTestnet\<rparr>)
       test_mpc [0x51] \<noteq> Ok ()"
proof (intro conjI)
  have "hex_lower ROOT_COMM = ''b343e1738c281722e2fa8909f80dea7ce064f3c8086e4f248dbcfd81bed39f1f''"
    and "hex_lower regtest_leaf
      = ''6a3b5247425051434d72676270713a636f6d6d69746d656e743a763001'' @ repeated ''a5'' 32"
    and "hex_lower [0x51] = ''51''"
    by (code_simp, code_simp, code_simp)
  then show "build_p2mrret_tree_main sha2_crates = [''PQ_LEAF_HEX=51'',
     ''COMM_LEAF_HEX=6a3b5247425051434d72676270713a636f6d6d69746d656e743a763001'' @ repeated ''a5'' 32,
     ''RUST_ROOT=b343e1738c281722e2fa8909f80dea7ce064f3c8086e4f248dbcfd81bed39f1f'']"
    by (simp add: build_p2mrret_tree_main_def test_mpc_def [symmetric] test_digests)
  have distinct: "ROOT_COMM \<noteq> ROOT_5A" "ROOT_COMM \<noteq> ROOT_TESTNET" by (simp_all add: digest_values)
  show "verify_p2mr_ret sha2_crates (test_seal\<lparr>p2mr_root := ROOT_COMM\<rparr>) test_mpc [0x51] = Ok ()"
    unfolding verify_p2mr_ret_def verify_bounded_Ok_iff [OF test_mpc_length]
    by (simp add: default_limits_def test_digests)
  show "verify_p2mr_ret sha2_crates (test_seal\<lparr>p2mr_root := ROOT_COMM\<rparr>) (replicate 32 0x5a) [0x51] \<noteq> Ok ()"
    using distinct(1) by (simp add: verify_p2mr_ret_def verify_bounded_Ok_iff test_digests)
  show "verify_p2mr_ret sha2_crates (test_seal\<lparr>p2mr_root := ROOT_COMM, chain_id := BitcoinQuantumTestnet\<rparr>)
       test_mpc [0x51] \<noteq> Ok ()"
    using distinct(2) unfolding verify_p2mr_ret_def verify_bounded_Ok_iff [OF test_mpc_length]
    by (simp add: test_digests)
qed

text \<open>The digest vector of \<open>crates/rgb-pq-seal/src/vectors.rs\<close>, whose value its test only prints.\<close>

definition digest_vector_is_stable :: "crates \<Rightarrow> bool" where
  "digest_vector_is_stable L \<longleftrightarrow> (case and_then (vector_seal L) (canonical_digest L) of
     Ok d \<Rightarrow> length d = 32 \<and> d \<noteq> replicate 32 0 | _ \<Rightarrow> False)"

theorem digest_vector_known:
  "digest_vector_is_stable sha2_crates \<and> canonical_digest sha2_crates vector_value
    = (Ok DIGEST_VECTOR :: bytes rgb_pq_result)"
proof -
  have "hex_ok sha2_crates" using toy_hex_ok by (simp add: hex_ok_def sha2_crates_def)
  then have "vector_seal sha2_crates = Ok vector_value" by (rule vector_seal_value)
  moreover have "length DIGEST_VECTOR = 32" by (simp add: DIGEST_VECTOR_def)
  ultimately show ?thesis
    using digests_not_constant(5)
    by (simp add: digest_vector_is_stable_def canonical_digest_sha [OF sha2_ok] other_digests)
qed

end
