(* ===== verification/Tests_Core.thy ===== *)
theory Tests_Core
  imports Witness Rpc
begin

section \<open>The unit tests of the core crate and of the witness resolver\<close>

text \<open>
  The test modules of \<open>domain.rs\<close>, \<open>limits.rs\<close> and \<open>error.rs\<close> in \<open>crates/rgb-pq-core/src\<close> and of
  \<open>crates/rgb-pq-resolver/src/witness.rs\<close>: each test as a predicate that holds when its assertions
  do. The test of the stand-in hashes is about constants of the \<^verbatim>\<open>bitcoin\<close> crate and is left out.
\<close>

subsection \<open>Domain separation\<close>

definition domain_tag_is_stable :: bool where
  "domain_tag_is_stable \<longleftrightarrow> DOMAIN_TAG = as_bytes ''rgbpq:v0'' \<and> DOMAIN_SEPARATION_VERSION = 0"

definition p2mr_prefix_is_deterministic :: bool where
  "p2mr_prefix_is_deterministic \<longleftrightarrow>
     (let d = domain_p2mr ''bitcoin-quantum-regtest'';
          expected = as_bytes ''rgbpq:v0'' @ [0] @ as_bytes ''bitcoin-quantum-regtest'' @ [0]
            @ as_bytes ''p2mr'' @ [0]
      in prefixed d = expected)"

definition different_chains_produce_different_prefixes :: bool where
  "different_chains_produce_different_prefixes \<longleftrightarrow>
     prefixed (domain_p2mr ''bitcoin-quantum-regtest'')
     \<noteq> prefixed (domain_p2mr ''bitcoin-quantum-testnet'')"

definition p2mr_seal_type_constant :: bool where
  "p2mr_seal_type_constant \<longleftrightarrow> P2MR_SEAL_TYPE = ''p2mr''"

lemma domain_tests_pass:
  "domain_tag_is_stable" "p2mr_prefix_is_deterministic"
  "different_chains_produce_different_prefixes" "p2mr_seal_type_constant"
  by (code_simp, code_simp, code_simp, code_simp)

subsection \<open>Limits\<close>

definition defaults_are_sane :: bool where
  "defaults_are_sane \<longleftrightarrow>
     max_p2mr_tree_depth default_limits \<ge> 1 \<and> max_p2mr_tree_depth default_limits \<le> 128
     \<and> max_commitment_leaf_size default_limits \<ge> 127
     \<and> max_witness_size default_limits \<ge> 4627 + 2592"

definition depth_limit_rejects :: bool where
  "depth_limit_rejects \<longleftrightarrow> is_ok (check_tree_depth default_limits 5)
     \<and> \<not> is_ok (check_tree_depth default_limits 10000)"

definition leaf_size_limit_rejects :: bool where
  "leaf_size_limit_rejects \<longleftrightarrow> is_ok (check_leaf_size default_limits 127)
     \<and> \<not> is_ok (check_leaf_size default_limits 10000000)"

definition witness_size_limit_rejects :: bool where
  "witness_size_limit_rejects \<longleftrightarrow> is_ok (check_witness_size default_limits (4627 + 2592 + 1024))
     \<and> \<not> is_ok (check_witness_size default_limits (10 * 1024 * 1024))"

definition candidate_spends_limit_rejects :: bool where
  "candidate_spends_limit_rejects \<longleftrightarrow> is_ok (check_candidate_spends default_limits 1)
     \<and> \<not> is_ok (check_candidate_spends default_limits 1000000)"

text \<open>The clock reads \<open>t\<close> when the guard starts and \<open>t'\<close> when it is checked; the sleep of the first
  test makes them differ by at least two milliseconds.\<close>

definition budget_guard_expires :: "u128 \<Rightarrow> u128 \<Rightarrow> bool" where
  "budget_guard_expires t t' \<longleftrightarrow> (let g = budget_start t 0 in \<not> is_ok (budget_check g t'))"

definition budget_guard_within_budget :: "u128 \<Rightarrow> u128 \<Rightarrow> bool" where
  "budget_guard_within_budget t t' \<longleftrightarrow> (let g = budget_start t 60000 in is_ok (budget_check g t'))"

lemma limit_tests_pass:
  "defaults_are_sane" "depth_limit_rejects" "leaf_size_limit_rejects" "witness_size_limit_rejects"
  "candidate_spends_limit_rejects"
  "t + 2 \<le> t' \<Longrightarrow> budget_guard_expires t t'"
  "t' - t \<le> 60000 \<Longrightarrow> budget_guard_within_budget t t'"
  by (simp_all add: defaults_are_sane_def depth_limit_rejects_def leaf_size_limit_rejects_def
      witness_size_limit_rejects_def candidate_spends_limit_rejects_def budget_guard_expires_def
      budget_guard_within_budget_def default_limits_def check_tree_depth_def check_leaf_size_def
      check_witness_size_def check_candidate_spends_def budget_start_def budget_check_def is_ok_def)

subsection \<open>Errors\<close>

definition errors_are_not_stringly_typed :: bool where
  "errors_are_not_stringly_typed \<longleftrightarrow>
     (let e = RgbPq_Seal (SE_Chain CC_BitcoinMainnet); s = show_rgb_pq_error e
      in str_contains s ''mainnet'')"

definition rgb_error_to_rgbpq :: "rpc_error \<Rightarrow> rgb_pq_error" where
  "rgb_error_to_rgbpq e = RgbPq_Rpc e"

definition chain_rpc :: "rpc_error \<Rightarrow> rgb_pq_error" where
  "chain_rpc e = RgbPq_SealState (SS_Resolve (RE_Rpc e))"

definition from_chaining_compiles :: bool where
  "from_chaining_compiles \<longleftrightarrow>
     (let r = Err (rgb_error_to_rgbpq (RP_Timeout 5 ''x'')) :: unit rgb_pq_result;
          r2 = Err (chain_rpc (RP_Timeout 5 ''x'')) :: unit rgb_pq_result
      in (case r of Err (RgbPq_Rpc (RP_Timeout n _)) \<Rightarrow> n = 5 | _ \<Rightarrow> False)
       \<and> (case r2 of Err (RgbPq_SealState (SS_Resolve (RE_Rpc (RP_Timeout n _)))) \<Rightarrow> n = 5
          | _ \<Rightarrow> False))"

lemma error_tests_pass: "errors_are_not_stringly_typed" "from_chaining_compiles"
proof -
  show "errors_are_not_stringly_typed" by code_simp
  show "from_chaining_compiles"
    by (simp add: from_chaining_compiles_def rgb_error_to_rgbpq_def chain_rpc_def)
qed

subsection \<open>The witness resolver\<close>

definition chain_net_mapping_is_documented :: bool where
  "chain_net_mapping_is_documented \<longleftrightarrow> chain_net_of BitcoinQuantumRegtest = BitcoinRegtest
     \<and> chain_net_of BitcoinQuantumTestnet = BitcoinTestnet3"

text \<open>The operations of this backend are unreachable: each would panic.\<close>

definition no_backend :: "unit btq_chain_backend" where
  "no_backend = \<lparr>be_network_id = BitcoinQuantumRegtest, be_current_tip = io_result Panic,
     be_get_tx = (\<lambda>_. io_result Panic), be_get_tx_status = (\<lambda>_. io_result Panic),
     be_get_output = (\<lambda>_. io_result Panic), be_get_spending_tx = (\<lambda>_. io_result Panic),
     be_prove_tx_inclusion = (\<lambda>_. io_result Panic), be_confirmation_depth = (\<lambda>_. io_result Panic),
     be_broadcast_tx = default_broadcast_tx\<rparr>"

definition check_chain_net_rejects_mismatch :: bool where
  "check_chain_net_rejects_mismatch \<longleftrightarrow>
     (let r = witness_resolver_new no_backend BitcoinQuantumRegtest
      in is_ok (check_chain_net r BitcoinRegtest)
       \<and> check_chain_net r BitcoinMainnet = Err WrongChainNet)"

definition chainnet_mapping_is_exhaustive_for_btq :: bool where
  "chainnet_mapping_is_exhaustive_for_btq \<longleftrightarrow> list_all (\<lambda>chain.
     case chain_net_of chain of BitcoinRegtest \<Rightarrow> True | BitcoinTestnet3 \<Rightarrow> True | _ \<Rightarrow> False)
     [BitcoinQuantumRegtest, BitcoinQuantumTestnet]"

lemma witness_tests_pass:
  "chain_net_mapping_is_documented" "check_chain_net_rejects_mismatch"
  "chainnet_mapping_is_exhaustive_for_btq"
  by (simp_all add: chain_net_mapping_is_documented_def check_chain_net_rejects_mismatch_def
      chainnet_mapping_is_exhaustive_for_btq_def check_chain_net_def witness_resolver_new_def is_ok_def)

end
