(* ===== verification/Tests_Bridge.thy ===== *)
theory Tests_Bridge
  imports Funding Rgb Bench
begin

section \<open>The tests that rest on external crates\<close>

text \<open>
  The test modules of \<open>anchor.rs\<close> (\<open>crates/rgb-pq-commit\<close>), \<open>crates/rgb-pq-rgb/src/lib.rs\<close> and
  \<open>crates/rgb-pq-bench/src/lib.rs\<close>, and the tests of \<open>rpc.rs\<close>, \<open>p2mrret.rs\<close>, \<open>witness.rs\<close> and
  \<open>crates/rgb-pq-tx/src/lib.rs\<close> whose assertions read values of \<^verbatim>\<open>serde_json\<close>, \<^verbatim>\<open>bitcoin\<close> or RGB. Each
  test is a predicate on the parameters; what it needs of them is the hypothesis of the lemma that
  it passes.
\<close>

subsection \<open>Embedding a commitment (\<open>anchor.rs\<close>)\<close>

definition anchor_test_seal :: btq_p2mr_seal where
  "anchor_test_seal = seal_new BitcoinQuantumRegtest
     (outpoint_new (txid_from_bytes (replicate 32 0x11)) 0)
     (replicate 32 0x22) (replicate 32 0x33) Dilithium2 OpretFirst OneConf"

text \<open>\<open>mk\<close> builds a version-2 transaction without inputs from its outputs.\<close>

definition empty_tx_with_opreturn :: "((u64 \<times> bytes) list \<Rightarrow> 't) \<Rightarrow> 't" where
  "empty_tx_with_opreturn mk = mk [(0, [0x6a])]"

definition embed_and_roundtrip_payload_in_opreturn ::
  "('t, 'p, 'a, 'm, 'i, 'g) rgb_api \<Rightarrow> 't tx_codec \<Rightarrow> ((u64 \<times> bytes) list \<Rightarrow> 't) \<Rightarrow> bool" where
  "embed_and_roundtrip_payload_in_opreturn R T mk \<longleftrightarrow>
     (let mpc = replicate 32 0x42 in
      case embed_opret_commitment R (empty_tx_with_opreturn mk) mpc of
        (Ok p, tx) \<Rightarrow> (let spk = snd (tc_outputs T tx ! 0) in
           spk ! 0 = 0x6a \<and> spk ! 1 = 0x20 \<and> take 32 (drop 2 spk) = mpc \<and> length spk = 34)
      | _ \<Rightarrow> False)"

definition build_payload_matches_encode :: "crates \<Rightarrow> bool" where
  "build_payload_matches_encode L \<longleftrightarrow>
     (let s = anchor_test_seal; mpc = replicate 32 0x42;
          a = build_opret_payload L s mpc :: bytes rgb_pq_result;
          b = commitment_encode L (commitment_new s mpc)
      in a = b)"

definition embed_fails_without_opreturn_output ::
  "('t, 'p, 'a, 'm, 'i, 'g) rgb_api \<Rightarrow> ((u64 \<times> bytes) list \<Rightarrow> 't) \<Rightarrow> bool" where
  "embed_fails_without_opreturn_output R mk \<longleftrightarrow>
     (case embed_opret_commitment R (mk [(1000, [0x51, 0x20])]) (replicate 32 0) of
        (Err e, tx) \<Rightarrow> True | _ \<Rightarrow> False)"

text \<open>What RGB documents of its OP_RETURN method: a 32-byte commitment is accepted, it replaces the
  script of an output that is the opcode alone, and without any OP_RETURN output it fails.\<close>

definition opret_method_ok ::
  "('t, 'p, 'a, 'm, 'i, 'g) rgb_api \<Rightarrow> 't tx_codec \<Rightarrow> ((u64 \<times> bytes) list \<Rightarrow> 't) \<Rightarrow> bool" where
  "opret_method_ok R T mk \<longleftrightarrow>
     (\<forall>c. length c = 32 \<longrightarrow> (\<exists>m. rgb_commitment_from_slice R c = Ok m
       \<and> (\<forall>v. \<exists>p t. rgb_embed_commit R (mk [(v, [0x6a])]) m = (Ok p, t)
            \<and> tc_outputs T t = [(v, 0x6a # 0x20 # c)])
       \<and> (\<forall>outs. (\<forall>o' \<in> set outs. take 1 (snd o') \<noteq> [0x6a])
            \<longrightarrow> (\<exists>e t. rgb_embed_commit R (mk outs) m = (Err e, t)))))"

lemma anchor_tests_pass:
  assumes "opret_method_ok R T mk"
  shows "embed_and_roundtrip_payload_in_opreturn R T mk" "build_payload_matches_encode L"
    "embed_fails_without_opreturn_output R mk"
proof -
  obtain m p t where "rgb_commitment_from_slice R (replicate 32 0x42) = Ok m"
      "rgb_embed_commit R (mk [(0, [0x6a])]) m = (Ok p, t)"
      "tc_outputs T t = [(0, 0x6a # 0x20 # replicate 32 0x42)]"
    using assms unfolding opret_method_ok_def by (metis length_replicate)
  then show "embed_and_roundtrip_payload_in_opreturn R T mk"
    by (simp add: embed_and_roundtrip_payload_in_opreturn_def embed_opret_commitment_def
        empty_tx_with_opreturn_def)
  show "build_payload_matches_encode L"
    by (simp add: build_payload_matches_encode_def build_opret_payload_def)
  obtain m e t where "rgb_commitment_from_slice R (replicate 32 0) = Ok m"
      "rgb_embed_commit R (mk [(1000, [0x51, 0x20])]) m = (Err e, t)"
    using assms [unfolded opret_method_ok_def, rule_format, of "replicate 32 0"] by fastforce
  then show "embed_fails_without_opreturn_output R mk"
    by (simp add: embed_fails_without_opreturn_output_def embed_opret_commitment_def)
qed

subsection \<open>JSON (\<open>rpc.rs\<close>, \<open>p2mrret.rs\<close>, \<open>crates/rgb-pq-tx/src/lib.rs\<close>)\<close>

definition parse_response_handles_rpc_error :: "('v, 'f) json_api \<Rightarrow> bool" where
  "parse_response_handles_rpc_error J \<longleftrightarrow>
     (let body = ''{\"result\":null,\"error\":{\"code\":-5,\"message\":\"No such mempool or blockchain transaction\"}}''
      in case parse_response J body ''http://x'' of
           Err (RgbPq_Rpc (RP_RpcLevel code ep msg)) \<Rightarrow> code = - 5 | _ \<Rightarrow> False)"

definition parse_response_returns_result :: "('v, 'f) json_api \<Rightarrow> bool" where
  "parse_response_returns_result J \<longleftrightarrow>
     (let body = ''{\"result\":{\"chain\":\"regtest\"},\"error\":null}''
      in case parse_response J body ''http://x'' of
           Ok v \<Rightarrow> get_str J v ''chain'' = Some ''regtest'' | _ \<Rightarrow> False)"

text \<open>\<^verbatim>\<open>t[0]["depth"]\<close> compared with a number or a string.\<close>

definition field_i64 :: "('v, 'f) json_api \<Rightarrow> 'v \<Rightarrow> nat \<Rightarrow> string \<Rightarrow> i64 option" where
  "field_i64 J t i k = Option.bind (json_as_array J t) (\<lambda>a. if i < length a
     then Option.bind (json_get J (a ! i) k) (json_as_i64 J) else None)"

definition field_str :: "('v, 'f) json_api \<Rightarrow> 'v \<Rightarrow> nat \<Rightarrow> string \<Rightarrow> string option" where
  "field_str J t i k = Option.bind (json_as_array J t) (\<lambda>a. if i < length a
     then Option.bind (json_get J (a ! i) k) (json_as_str J) else None)"

definition tree_json_shape :: "('v, 'f) json_api \<Rightarrow> bool" where
  "tree_json_shape J \<longleftrightarrow> (let t = tree_json J ''51'' ''abcd'' in
     map_option length (json_as_array J t) = Some 2
     \<and> field_i64 J t 0 ''depth'' = Some 1
     \<and> field_i64 J t 0 ''leaf_version'' = Some (ucast P2MR_COMMITMENT_LEAF_VERSION))"

definition single_leaf_tree_shape :: "('v, 'f) json_api \<Rightarrow> bool" where
  "single_leaf_tree_shape J \<longleftrightarrow> (let t = single_leaf_tree J ''51'' in
     field_i64 J t 0 ''depth'' = Some 0 \<and> field_i64 J t 0 ''leaf_version'' = Some 192
     \<and> field_str J t 0 ''script'' = Some ''51'')"

text \<open>What \<^verbatim>\<open>serde_json\<close> documents of building and reading values, and of the two texts: numbers
  are read at any width they fit.\<close>

definition json_values_ok :: "('v, 'f) json_api \<Rightarrow> bool" where
  "json_values_ok J \<longleftrightarrow>
     (\<forall>vs. json_as_array J (json_array J vs) = Some vs)
     \<and> (\<forall>kvs k. json_get J (json_object J kvs) k = map_of kvs k)
     \<and> (\<forall>kvs. \<not> json_is_null J (json_object J kvs))
     \<and> (\<forall>s. json_as_str J (json_string J s) = Some s)
     \<and> (\<forall>n. json_as_i64 J (json_i64 J n) = Some n)
     \<and> (\<forall>n. 0 \<le> sint (ucast n :: i64) \<longrightarrow> json_as_i64 J (json_u64 J n) = Some (ucast n))"

definition json_reads ::
  "('v, 'f) json_api \<Rightarrow> 'v \<Rightarrow> bool" where
  "json_reads J nul \<longleftrightarrow> json_is_null J nul
     \<and> json_from_str J ''{\"result\":null,\"error\":{\"code\":-5,\"message\":\"No such mempool or blockchain transaction\"}}''
         = Ok (json_object J [(''result'', nul), (''error'', json_object J [(''code'', json_i64 J (- 5)),
             (''message'', json_string J ''No such mempool or blockchain transaction'')])])
     \<and> json_from_str J ''{\"result\":{\"chain\":\"regtest\"},\"error\":null}''
         = Ok (json_object J [(''result'', json_object J [(''chain'', json_string J ''regtest'')]),
             (''error'', nul)])"

lemma json_tests_pass:
  assumes J: "json_values_ok J" and reads: "json_reads J nul"
  shows "parse_response_handles_rpc_error J" "parse_response_returns_result J"
    "tree_json_shape J" "single_leaf_tree_shape J"
proof -
  from J have laws: "json_as_array J (json_array J vs) = Some vs"
      "json_get J (json_object J kvs) k = map_of kvs k" "\<not> json_is_null J (json_object J kvs)"
      "json_as_str J (json_string J s) = Some s" "json_as_i64 J (json_i64 J n) = Some n"
      "0 \<le> sint (ucast m :: i64) \<Longrightarrow> json_as_i64 J (json_u64 J m) = Some (ucast m)"
    for vs kvs k s n m by (auto simp: json_values_ok_def)
  show "parse_response_handles_rpc_error J" "parse_response_returns_result J"
    using reads by (simp_all add: json_reads_def parse_response_handles_rpc_error_def
        parse_response_returns_result_def parse_response_def get_str_def laws rgb_pq_of_rpc_def)
  show "tree_json_shape J" "single_leaf_tree_shape J"
    by (simp_all add: tree_json_shape_def single_leaf_tree_shape_def tree_json_def single_leaf_tree_def
        field_i64_def field_str_def laws P2MR_COMMITMENT_LEAF_VERSION_def)
qed

subsection \<open>The stand-in chain (\<open>witness.rs\<close>)\<close>

definition chainnet_stand_in_hash_is_documented_and_stable :: "('t, 'p) witness_api \<Rightarrow> bool" where
  "chainnet_stand_in_hash_is_documented_and_stable W \<longleftrightarrow>
     (case (stand_in_chain_hash W BitcoinQuantumRegtest :: bytes rgb_pq_result,
            stand_in_chain_hash W BitcoinQuantumTestnet :: bytes rgb_pq_result) of
        (Ok regtest_hash, Ok testnet_hash) \<Rightarrow> regtest_hash \<noteq> replicate 32 0
          \<and> testnet_hash \<noteq> replicate 32 0 \<and> regtest_hash \<noteq> testnet_hash
      | _ \<Rightarrow> False)"

text \<open>The hashes are those of Bitcoin's genesis blocks: 32 bytes, not zero, not the same.\<close>

lemma stand_in_test_passes:
  assumes "\<forall>n. length (wa_chain_hash W n) = 32"
    and "distinct [replicate 32 0, wa_chain_hash W BitcoinRegtest, wa_chain_hash W BitcoinTestnet3]"
  shows "chainnet_stand_in_hash_is_documented_and_stable W"
  using assms by (auto simp: chainnet_stand_in_hash_is_documented_and_stable_def stand_in_chain_hash_def
      copy_arr_def)

subsection \<open>The RGB stack (\<open>crates/rgb-pq-rgb/src/lib.rs\<close>)\<close>

text \<open>The path of the asset kit; the note about a missing one goes to standard error.\<close>

definition nia_kit :: "string \<Rightarrow> string" where
  "nia_kit manifest_dir = manifest_dir @ ''/'' @ ''../../external/rgb-schemas/schemata/NonInflatableAsset.rgb''"

definition dummy_txid :: string where
  "dummy_txid = ''14295d5bb1a191cdb6286dc0944df938421e3dfcbf0811353ccac4100c2068c5''"

definition issue_real_nia_to_btq_seal ::
  "('v, 'w, 't, 'p) rgb_std \<Rightarrow> ('v \<Rightarrow> bytes) \<Rightarrow> (string \<Rightarrow> bool) \<Rightarrow> string \<Rightarrow> u64 \<Rightarrow> bool" where
  "issue_real_nia_to_btq_seal G id_bytes exists dir blinding \<longleftrightarrow>
     (let kit = nia_kit dir in
      if \<not> exists kit then True
      else case issue_nia_to_btq_seal G kit (chain_net_for (seal_new BitcoinQuantumRegtest
          (outpoint_new (txid_from_bytes (replicate 32 0x11)) 0) (replicate 32 0x22)
          (replicate 32 0x33) Dilithium2 OpretFirst OneConf)) (demo_asset G) dummy_txid 0 blinding of
        Ok issued \<Rightarrow> id_bytes (ia_contract_id issued) \<noteq> replicate 32 0
      | _ \<Rightarrow> False)"

definition issue_and_transfer_nia ::
  "('v, 'w, 't, 'p) rgb_std \<Rightarrow> ('v \<Rightarrow> bytes) \<Rightarrow> ('v \<Rightarrow> bool) \<Rightarrow> (string \<Rightarrow> bool) \<Rightarrow> string
    \<Rightarrow> u64 \<Rightarrow> u64 \<Rightarrow> bool" where
  "issue_and_transfer_nia G opid_bytes no_assignments exists dir blinding blinding' \<longleftrightarrow>
     (let kit = nia_kit dir in
      if \<not> exists kit then True
      else
        let chain = chain_net_for (seal_new BitcoinQuantumRegtest
              (outpoint_new (txid_from_bytes (replicate 32 0x11)) 0) (replicate 32 0x22)
              (replicate 32 0x33) Dilithium2 OpretFirst OneConf) in
        case issue_and_import G kit chain (demo_asset G) dummy_txid 0 blinding of
          Ok (stock, contract_id) \<Rightarrow>
            (case transfer_nia_btq G stock contract_id
               ''aa11bb22cc33dd44ee55ff6600112233445566778899aabbccddeeff00112233'' 0 50000 blinding' of
               Ok transition \<Rightarrow> opid_bytes transition \<noteq> replicate 32 0 \<and> \<not> no_assignments transition
             | _ \<Rightarrow> False)
        | _ \<Rightarrow> False)"

text \<open>Without the kit, which a checkout does not have, both tests pass without testing anything.\<close>

lemma rgb_tests_skip:
  assumes "\<not> exists (nia_kit dir)"
  shows "issue_real_nia_to_btq_seal G id_bytes exists dir blinding"
    "issue_and_transfer_nia G opid_bytes no_assignments exists dir blinding blinding'"
  using assms by (simp_all add: issue_real_nia_to_btq_seal_def issue_and_transfer_nia_def Let_def)

text \<open>With the kit they pass when every call the bridge makes to the RGB crates succeeds, a contract
that was imported has an allocation, and no id is the zero digest.\<close>

definition rgb_accepts :: "('v, 'w, 't, 'p) rgb_std \<Rightarrow> string \<Rightarrow> bool" where
  "rgb_accepts G path \<longleftrightarrow>
     (\<exists>kit. rgb_kit_load_file G path = Ok kit) \<and> (\<forall>kit. is_ok (rgb_kit_validate G kit))
     \<and> (\<forall>stock kit. is_ok (fst (rgb_import_kit G stock kit)))
     \<and> (\<forall>stock who schema net. is_ok (rgb_contract_builder G stock who schema net))
     \<and> (\<forall>b field v. is_ok (rgb_add_global_state G b field v))
     \<and> (\<forall>b field seal n. is_ok (rgb_add_fungible_state G b field seal n))
     \<and> (\<forall>b. is_ok (rgb_issue_contract G b))
     \<and> (\<forall>stock c. is_ok (fst (rgb_import_contract G stock c genesis_resolver)))
     \<and> (\<forall>stock c st. rgb_contract_state G stock c = Ok st \<longrightarrow> rgb_fungible_all G st \<noteq> [])
     \<and> (\<forall>stock c. is_ok (rgb_contract_state G stock c))
     \<and> (\<forall>stock c name. is_ok (rgb_transition_builder G stock c name))
     \<and> (\<forall>b input prev. is_ok (rgb_add_input G b input prev))
     \<and> (\<forall>b. is_ok (rgb_complete_transition G b))"

lemma is_ok_and_then: "is_ok m \<Longrightarrow> (\<And>x. m = Ok x \<Longrightarrow> is_ok (f x)) \<Longrightarrow> is_ok (and_then m f)"
  by (cases m) simp_all

lemma is_ok_map_err: "is_ok m \<Longrightarrow> is_ok (map_err f m)"
  by (cases m) simp_all

lemma is_ok_elim: "is_ok m \<Longrightarrow> (\<And>x. m = Ok x \<Longrightarrow> P) \<Longrightarrow> P"
  by (cases m) simp_all

lemma bridge_succeeds:
  assumes G: "rgb_accepts G path"
  shows "is_ok (issue_nia_to_btq_seal G path net spec txid vout blinding)"
    "is_ok (issue_and_import G path net spec txid vout blinding)"
    "is_ok (transfer_nia_btq G stock c txid vout n blinding)"
proof -
  have kit: "is_ok (load_nia_kit G path)"
    using G by (auto simp: rgb_accepts_def load_nia_kit_def intro!: is_ok_map_err)
  show "is_ok (issue_nia_to_btq_seal G path net spec txid vout blinding)"
    unfolding issue_nia_to_btq_seal_def Let_def case_prod_beta
    using G by (auto intro!: is_ok_and_then is_ok_map_err kit simp: rgb_accepts_def)
  show "is_ok (issue_and_import G path net spec txid vout blinding)"
    unfolding issue_and_import_def Let_def case_prod_beta
    using G by (auto intro!: is_ok_and_then is_ok_map_err kit simp: rgb_accepts_def)
  show "is_ok (transfer_nia_btq G stock c txid vout n blinding)"
    unfolding transfer_nia_btq_def
    using G by (auto intro!: is_ok_and_then is_ok_map_err split: list.split simp: rgb_accepts_def)
qed

lemma rgb_tests_pass:
  assumes "rgb_accepts G (nia_kit dir)" and "\<forall>v. id_bytes v \<noteq> replicate 32 0 \<and> \<not> no_assignments v"
  shows "issue_real_nia_to_btq_seal G id_bytes exists dir blinding"
    "issue_and_transfer_nia G id_bytes no_assignments exists dir blinding blinding'"
proof -
  let ?net = "chain_net_for (seal_new BitcoinQuantumRegtest
      (outpoint_new (txid_from_bytes (replicate 32 0x11)) 0) (replicate 32 0x22)
      (replicate 32 0x33) Dilithium2 OpretFirst OneConf)"
  obtain issued where "issue_nia_to_btq_seal G (nia_kit dir) ?net (demo_asset G) dummy_txid 0 blinding
      = Ok issued"
    using bridge_succeeds(1) [OF assms(1)] by (meson is_ok_elim)
  then show "issue_real_nia_to_btq_seal G id_bytes exists dir blinding"
    using assms(2) by (simp add: issue_real_nia_to_btq_seal_def Let_def)
  obtain stock c where imported: "issue_and_import G (nia_kit dir) ?net (demo_asset G) dummy_txid 0 blinding
      = Ok (stock, c)"
    using bridge_succeeds(2) [OF assms(1)] by (metis is_ok_elim surj_pair)
  obtain transition where "transfer_nia_btq G stock c
      ''aa11bb22cc33dd44ee55ff6600112233445566778899aabbccddeeff00112233'' 0 50000 blinding'
      = Ok transition"
    using bridge_succeeds(3) [OF assms(1)] by (meson is_ok_elim)
  with imported show "issue_and_transfer_nia G id_bytes no_assignments exists dir blinding blinding'"
    using assms(2) by (simp add: issue_and_transfer_nia_def Let_def)
qed

subsection \<open>The benchmark suite (\<open>crates/rgb-pq-bench/src/lib.rs\<close>)\<close>

text \<open>A duration is in nanoseconds.\<close>

definition as_millis :: "duration \<Rightarrow> u128" where
  "as_millis d = of_nat (d div 1000000)"

definition bench_suite_runs :: "crates \<Rightarrow> (nat \<Rightarrow> nat \<Rightarrow> duration) \<Rightarrow> bool" where
  "bench_suite_runs L elapsed \<longleftrightarrow>
     (case run_suite L 200 elapsed :: (bench_result list, string) result of
        Ok results \<Rightarrow> length results = 7
          \<and> list_all (\<lambda>r. as_millis (br_mean r) < max_resolver_time_ms default_limits) results
      | _ \<Rightarrow> False)"

text \<open>It passes when every iteration stays below the resolver's limit of five seconds.\<close>

lemma mean_below_limit:
  assumes "\<And>i. elapsed i < 5000000000"
  shows "as_millis (br_mean (bench_stats name 200 elapsed)) < max_resolver_time_ms default_limits"
proof -
  have "(\<Sum>i<unat (200 :: u32). elapsed i) < of_nat (card {..<unat (200 :: u32)}) * 5000000000"
    using assms by (intro sum_bounded_above_strict) simp_all
  then have "br_mean (bench_stats name 200 elapsed) < 5000000000"
    by (simp add: bench_stats_def less_mult_imp_div_less)
  then have "br_mean (bench_stats name 200 elapsed) div 1000000 < 5000" by simp
  then show ?thesis
    by (simp add: as_millis_def default_limits_def word_less_nat_alt unat_of_nat)
qed

lemma bench_test_passes:
  assumes L: "sha256_ok L" and fast: "\<And>k i. elapsed k i < 5000000000"
  shows "bench_suite_runs L elapsed"
proof -
  have "(\<Sum>i<unat (200 :: u32). elapsed k i) < MAX_DURATION" for k
  proof -
    have "(\<Sum>i<unat (200 :: u32). elapsed k i) < of_nat (card {..<unat (200 :: u32)}) * 5000000000"
      using fast by (intro sum_bounded_above_strict) simp_all
    then show ?thesis by (simp add: MAX_DURATION_def)
  qed
  then have "\<forall>k<7. (\<Sum>i<unat (200 :: u32). elapsed k i) < MAX_DURATION" by blast
  note results = run_suite_aux [where 'a = string, OF L this]
  have "as_millis (br_mean (bench_stats name 200 (elapsed k))) < max_resolver_time_ms default_limits"
    for name k using fast by (rule mean_below_limit)
  with results show ?thesis by (simp add: bench_suite_runs_def)
qed

end
