(* ===== verification/Bech32m.thy ===== *)
theory Bech32m
  imports Tests_Seal
begin

section \<open>Bech32m as an instance of the text encoding\<close>

text \<open>
  The text form of a seal (\<open>crates/rgb-pq-seal/src/seal.rs\<close>) is written with \<^verbatim>\<open>bech32::encode\<close> and read
  with \<^verbatim>\<open>bech32::decode\<close>, which are fields of the crate parameter. Here are the functions that crate
  documents, from BIP 173 and BIP 350: the alphabet, the checksum over the field with 32 elements,
  the regrouping of bytes to five bits. \<^verbatim>\<open>decode\<close> accepts the checksum of either proposal. The contract
  \<open>bech32_ok\<close> is proved of them, and the checksum's promise about the text of a seal.
\<close>

unbundle bit_operations_syntax

subsection \<open>Bits\<close>

type_synonym fe = "5 word"

definition bits_of :: "'a :: len word \<Rightarrow> bool list" where
  "bits_of w = map (bit w) (rev [0..<LENGTH('a)])"

definition of_bits :: "bool list \<Rightarrow> 'a :: len word" where
  "of_bits bs = horner_sum of_bool 2 (rev bs)"

fun fes_of_bits :: "bool list \<Rightarrow> fe list" where
  "fes_of_bits (a # b # c # d # e # r) = of_bits [a, b, c, d, e] # fes_of_bits r"
| "fes_of_bits [] = []"
| "fes_of_bits bs = [of_bits (take 5 (bs @ replicate 4 False))]"

fun bytes_of_bits :: "bool list \<Rightarrow> bytes" where
  "bytes_of_bits (a # b # c # d # e # f # g # h # r) = of_bits [a, b, c, d, e, f, g, h] # bytes_of_bits r"
| "bytes_of_bits _ = []"

definition bytes_to_fes :: "bytes \<Rightarrow> fe list" where
  "bytes_to_fes d = fes_of_bits (concat (map bits_of d))"

text \<open>Bits that do not fill a byte are dropped.\<close>

definition fes_to_bytes :: "fe list \<Rightarrow> bytes" where
  "fes_to_bytes fs = bytes_of_bits (concat (map bits_of fs))"

lemma length_bits_of [simp]: "length (bits_of (w :: 'a :: len word)) = LENGTH('a)"
  by (simp add: bits_of_def)

lemma of_bits_of [simp]: "of_bits (bits_of w) = w"
  by (simp add: of_bits_def bits_of_def rev_map horner_sum_bit_eq_take_bit)

lemma bits_of_of_bits:
  assumes "length bs = LENGTH('a)"
  shows "bits_of (of_bits bs :: 'a :: len word) = bs"
proof (rule nth_equalityI)
  fix i assume "i < length (bits_of (of_bits bs :: 'a word))"
  then have i: "i < LENGTH('a)" by simp
  then have "bits_of (of_bits bs :: 'a word) ! i = bit (of_bits bs :: 'a word) (LENGTH('a) - Suc i)"
    by (simp add: bits_of_def rev_nth)
  also have "\<dots> = rev bs ! (LENGTH('a) - Suc i)"
    using i assms by (simp add: of_bits_def bit_horner_sum_bit_word_iff)
  also have "\<dots> = bs ! i" using i assms by (simp add: rev_nth)
  finally show "bits_of (of_bits bs :: 'a word) ! i = bs ! i" .
qed (simp add: assms)

lemma five_bits [simp]: "bits_of (of_bits [a, b, c, d, e] :: fe) = [a, b, c, d, e]"
  by (rule bits_of_of_bits) simp

lemma bits_of_fes: "\<exists>k < 5. concat (map bits_of (fes_of_bits bs)) = bs @ replicate k False"
proof (induction bs rule: fes_of_bits.induct)
  case 1
  then show ?case by auto
next
  case 2
  then show ?case by (auto intro: exI [of _ 0])
qed (auto simp: numeral_eq_Suc intro: exI [of _ 1] exI [of _ 2] exI [of _ 3] exI [of _ 4])

lemma length_fes_of_bits: "length (fes_of_bits bs) = (length bs + 4) div 5"
  by (induction bs rule: fes_of_bits.induct) simp_all

lemma bytes_of_bits_pad: "length pad < 8 \<Longrightarrow> bytes_of_bits pad = []"
  by (cases pad rule: bytes_of_bits.cases) auto

lemma bytes_of_bits_append: "bytes_of_bits (bits_of (x :: u8) @ r) = x # bytes_of_bits r"
proof -
  obtain a b c d e f g h where bits: "bits_of x = [a, b, c, d, e, f, g, h]"
    by (simp add: bits_of_def upt_rec)
  have "of_bits [a, b, c, d, e, f, g, h] = x" using of_bits_of [of x] by (simp add: bits)
  then show ?thesis by (simp add: bits)
qed

lemma fes_bytes_roundtrip [simp]: "fes_to_bytes (bytes_to_fes d) = d"
proof -
  have "bytes_of_bits (concat (map bits_of d) @ pad) = d" if "length pad < 8" for pad
    using that by (induction d) (simp_all add: bytes_of_bits_pad bytes_of_bits_append)
  then show ?thesis
    using bits_of_fes [of "concat (map bits_of d)"] unfolding fes_to_bytes_def bytes_to_fes_def
    by force
qed

lemma length_bytes_to_fes [simp]: "length (bytes_to_fes d) = (8 * length d + 4) div 5"
proof -
  have "length (concat (map (bits_of :: u8 \<Rightarrow> bool list) d)) = 8 * length d" by (induction d) simp_all
  then show ?thesis by (simp add: bytes_to_fes_def length_fes_of_bits)
qed

subsection \<open>The checksum\<close>

text \<open>The remainder of the symbols read so far, six symbols of five bits.\<close>

type_synonym residue = "30 word"

definition tap :: "bool \<Rightarrow> residue \<Rightarrow> residue" where
  "tap b g = (if b then g else 0)"

definition feedback :: "bool \<Rightarrow> bool \<Rightarrow> bool \<Rightarrow> bool \<Rightarrow> bool \<Rightarrow> residue" where
  "feedback a b c d e = tap a 0x3b6a57b2 XOR tap b 0x26508e6d XOR tap c 0x1ea119fa
     XOR tap d 0x3d4233dd XOR tap e 0x2a1462b3"

definition top_feedback :: "residue \<Rightarrow> residue" where
  "top_feedback c = feedback (bit c 25) (bit c 26) (bit c 27) (bit c 28) (bit c 29)"

definition polymod_step :: "residue \<Rightarrow> fe \<Rightarrow> residue" where
  "polymod_step c v = (push_bit 5 c XOR ucast v) XOR top_feedback c"

definition polymod :: "residue \<Rightarrow> fe list \<Rightarrow> residue" where
  "polymod = foldl polymod_step"

definition hrp_expand :: "string \<Rightarrow> fe list" where
  "hrp_expand hrp = map (\<lambda>c. of_nat (of_char c div 32)) hrp @ [0] @ map (\<lambda>c. of_nat (of_char c)) hrp"

definition BECH32_CONST :: residue where "BECH32_CONST = 1"
definition BECH32M_CONST :: residue where "BECH32M_CONST = 0x2bc830a3"

definition symbols_of :: "residue \<Rightarrow> fe list" where
  "symbols_of p = map (\<lambda>i. ucast (drop_bit (5 * i) p)) [5, 4, 3, 2, 1, 0]"

definition create_checksum :: "residue \<Rightarrow> string \<Rightarrow> fe list \<Rightarrow> fe list" where
  "create_checksum target hrp data =
     symbols_of (polymod 1 (hrp_expand hrp @ data @ replicate 6 0) XOR target)"

text \<open>A step is linear, hence so is the remainder of a whole sequence.\<close>

lemma tap_xor: "tap (a \<noteq> b) g = tap a g XOR tap b g"
  by (simp add: tap_def)

lemma feedback_xor:
  "feedback (a \<noteq> a') (b \<noteq> b') (c \<noteq> c') (d \<noteq> d') (e \<noteq> e') = feedback a b c d e XOR feedback a' b' c' d' e'"
  unfolding feedback_def tap_xor by (simp only: ac_simps)

lemma polymod_step_xor: "polymod_step (c XOR d) (v XOR w) = polymod_step c v XOR polymod_step d w"
proof -
  have "top_feedback (c XOR d) = top_feedback c XOR top_feedback d"
    by (simp only: top_feedback_def bit_xor_iff feedback_xor)
  moreover have "push_bit 5 (c XOR d) = push_bit 5 c XOR push_bit 5 d" by (rule push_bit_xor)
  moreover have "(ucast (v XOR w) :: residue) = ucast v XOR ucast w" by (rule unsigned_xor_eq)
  ultimately show ?thesis unfolding polymod_step_def by (simp only: ac_simps)
qed

lemma polymod_xor:
  "length vs = length ws \<Longrightarrow>
    polymod (c XOR d) (map2 (XOR) vs ws) = polymod c vs XOR polymod d ws"
  by (induction vs ws arbitrary: c d rule: list_induct2) (simp_all add: polymod_def polymod_step_xor)

lemma polymod_append [simp]: "polymod c (vs @ ws) = polymod (polymod c vs) ws"
  by (simp add: polymod_def)

lemma polymod_simps [simp]: "polymod c [] = c" "polymod c (v # vs) = polymod (polymod_step c v) vs"
  by (simp_all add: polymod_def)

text \<open>Read from remainder zero, the six symbols of a remainder give that remainder.\<close>

lemma step_symbol:
  fixes p :: residue
  shows "polymod_step (drop_bit (n + 5) p) (ucast (drop_bit n p)) = drop_bit n p"
proof -
  have "\<not> bit p (k + n)" if "30 \<le> k" for k
    using that bit_imp_le_length [of p "k + n"] by auto
  then have "top_feedback (drop_bit (n + 5) p) = 0"
    by (simp add: top_feedback_def feedback_def tap_def bit_drop_bit_eq)
  then show ?thesis
    unfolding polymod_step_def by (intro bit_word_eqI) (auto simp: bit_simps add.commute)
qed

lemma polymod_symbols: "polymod 0 (symbols_of p) = p"
proof -
  have "drop_bit 30 p = 0" by (intro bit_word_eqI) (simp add: bit_simps)
  then show ?thesis
    using step_symbol [of 25 p] step_symbol [of 20 p] step_symbol [of 15 p] step_symbol [of 10 p]
      step_symbol [of 5 p] step_symbol [of 0 p]
    by (simp add: symbols_of_def)
qed

lemma polymod_after_zeros:
  assumes "length vs = 6"
  shows "polymod c vs = polymod c (replicate 6 0) XOR polymod 0 vs"
proof -
  have "map2 (XOR) (replicate 6 0) vs = vs"
    using assms by (intro nth_equalityI) simp_all
  with polymod_xor [of "replicate 6 0" vs c 0] assms show ?thesis by simp
qed

lemma checksum_verifies: "polymod 1 (hrp_expand hrp @ data @ create_checksum target hrp data) = target"
proof -
  let ?c = "polymod 1 (hrp_expand hrp @ data)"
  have "length (symbols_of p) = 6" for p by (simp add: symbols_of_def)
  then show ?thesis
    using polymod_after_zeros [of "create_checksum target hrp data" ?c]
    by (simp add: create_checksum_def polymod_symbols xor.assoc [symmetric])
qed

subsection \<open>One wrong symbol\<close>

text \<open>A step with the zero symbol can be undone, since the five bits it feeds back are read off the
lowest five bits of the result. So a difference in one symbol never becomes zero, and a difference
that becomes a given remainder is found by going back from it.\<close>

definition recover :: "residue \<Rightarrow> bool list" where
  "recover c = [(bit c 0 \<noteq> bit c 1) \<noteq> bit c 3,
     (bit c 1 \<noteq> bit c 2) \<noteq> bit c 4,
     bit c 2 \<noteq> bit c 3,
     bit c 1 \<noteq> bit c 4,
     bit c 0 \<noteq> bit c 2]"

definition unstep :: "residue \<Rightarrow> residue" where
  "unstep c = (case recover c of
     [a, b, d, e, f] \<Rightarrow> drop_bit 5 (c XOR feedback a b d e f) XOR tap a 0x2000000 XOR tap b 0x4000000
       XOR tap d 0x8000000 XOR tap e 0x10000000 XOR tap f 0x20000000
   | _ \<Rightarrow> 0)"

lemma recover_feedback: "recover (feedback a b c d e) = [a, b, c, d, e]"
  by (cases a; cases b; cases c; cases d; cases e; simp add: recover_def feedback_def tap_def)

lemma recover_step: "recover (polymod_step c 0) = [bit c 25, bit c 26, bit c 27, bit c 28, bit c 29]"
proof -
  have "bit (polymod_step c 0) n = bit (top_feedback c) n" if "n < 5" for n
    using that by (simp add: polymod_step_def bit_simps)
  then have "recover (polymod_step c 0) = recover (top_feedback c)" by (simp add: recover_def)
  then show ?thesis by (simp add: top_feedback_def recover_feedback)
qed

lemma unstep_step: "unstep (polymod_step c 0) = c"
proof -
  have "polymod_step c 0 XOR top_feedback c = push_bit 5 c"
    by (simp add: polymod_step_def xor.assoc)
  then have "drop_bit 5 (polymod_step c 0 XOR top_feedback c) = drop_bit 5 (push_bit 5 c)" by simp
  then have "unstep (polymod_step c 0) = drop_bit 5 (push_bit 5 c) XOR tap (bit c 25) 0x2000000
      XOR tap (bit c 26) 0x4000000 XOR tap (bit c 27) 0x8000000 XOR tap (bit c 28) 0x10000000
      XOR tap (bit c 29) 0x20000000"
    unfolding unstep_def recover_step top_feedback_def by (simp only: list.case)
  also have "\<dots> = c"
  proof (rule bit_word_eqI)
    fix n assume "n < LENGTH(30)"
    then have n: "n < 25 \<or> n = 25 \<or> n = 26 \<or> n = 27 \<or> n = 28 \<or> n = 29" by auto
    have low: "bit (drop_bit 5 (push_bit 5 c)) n \<longleftrightarrow> n < 25 \<and> bit c n"
      using \<open>n < LENGTH(30)\<close> by (auto simp: bit_simps)
    have tap_bit: "bit (tap b (push_bit k 1)) n \<longleftrightarrow> b \<and> n = k" for b k
      using \<open>n < LENGTH(30)\<close> by (auto simp: tap_def bit_simps)
    have powers: "(0x2000000 :: residue) = push_bit 25 1" "(0x4000000 :: residue) = push_bit 26 1"
      "(0x8000000 :: residue) = push_bit 27 1" "(0x10000000 :: residue) = push_bit 28 1"
      "(0x20000000 :: residue) = push_bit 29 1" by simp_all
    show "bit (drop_bit 5 (push_bit 5 c) XOR tap (bit c 25) 0x2000000
      XOR tap (bit c 26) 0x4000000 XOR tap (bit c 27) 0x8000000 XOR tap (bit c 28) 0x10000000
      XOR tap (bit c 29) 0x20000000) n = bit c n"
      unfolding powers bit_xor_iff tap_bit low using n by (elim disjE) simp_all
  qed
  finally show ?thesis .
qed

fun undone :: "nat \<Rightarrow> residue \<Rightarrow> residue" where
  "undone 0 c = c"
| "undone (Suc k) c = undone k (unstep c)"

lemma polymod_zeros_undone: "undone k (polymod c (replicate k 0)) = c"
proof (induction k arbitrary: c)
  case (Suc k)
  have "polymod c (replicate (Suc k) 0) = polymod_step (polymod c (replicate k 0)) 0"
    using polymod_append [of c "replicate k 0" "[0]"]
    by (simp add: replicate_append_same del: polymod_append)
  then show ?case using Suc by (simp add: unstep_step)
qed simp

fun goes_back_above :: "nat \<Rightarrow> residue \<Rightarrow> bool" where
  "goes_back_above 0 c = True"
| "goes_back_above (Suc k) c = (31 < c \<and> goes_back_above k (unstep c))"

lemma goes_back_above_undone: "goes_back_above n c \<Longrightarrow> k < n \<Longrightarrow> 31 < undone k c"
proof (induction k arbitrary: n c)
  case 0
  then show ?case by (cases n) simp_all
next
  case (Suc k)
  from Suc.prems obtain m where "n = Suc m" by (cases n) auto
  with Suc.prems Suc.IH [of m "unstep c"] show ?case by simp
qed

lemma goes_back_above_numeral:
  "goes_back_above (numeral k) c = (31 < c \<and> goes_back_above (pred_numeral k) (unstep c))"
  by (subst numeral_eq_Suc) simp

text \<open>Within the length of a seal's text, no difference in one symbol turns a remainder of one proposal
into the remainder of the other.\<close>

lemma constants_far_apart: "goes_back_above 189 (BECH32M_CONST XOR BECH32_CONST)"
  by (simp add: goes_back_above_numeral BECH32M_CONST_def BECH32_CONST_def unstep_def recover_def
      feedback_def tap_def)

lemma one_symbol_difference:
  assumes "v \<noteq> 0" and "k < 189"
  shows "polymod (ucast (v :: fe)) (replicate k 0) \<notin> {0, BECH32M_CONST XOR BECH32_CONST}"
proof -
  have "unat v < 2 ^ LENGTH(5)" by (rule unsigned_less)
  moreover from this have same: "unat (ucast v :: residue) = unat v"
    by (simp add: unsigned_ucast_eq take_bit_nat_eq_self)
  ultimately have "unat (ucast v :: residue) \<le> 31" by simp
  moreover have "unat (ucast v :: residue) \<noteq> 0" using assms(1) same by (simp add: unat_eq_0)
  ultimately have small: "(ucast v :: residue) \<le> 31" "(ucast v :: residue) \<noteq> 0"
    by (auto simp: word_le_nat_alt)
  have zero: "undone n 0 = 0" for n
    by (induction n) (simp_all add: unstep_def recover_def feedback_def tap_def)
  show ?thesis
    using polymod_zeros_undone [of k "ucast v"] zero [of k] small
      goes_back_above_undone [OF constants_far_apart assms(2)]
    by (auto simp: not_less)
qed

lemma polymod_update:
  assumes "i < length vs"
  shows "polymod c (vs[i := v]) = polymod c vs
    XOR polymod (ucast (vs ! i XOR v)) (replicate (length vs - Suc i) 0)"
proof -
  let ?d = "(replicate (length vs) 0)[i := vs ! i XOR v]"
  have "vs[i := v] = map2 (XOR) vs ?d"
    using assms by (intro nth_equalityI) (auto simp: nth_list_update xor.assoc [symmetric])
  moreover have "?d = replicate i 0 @ (vs ! i XOR v) # replicate (length vs - Suc i) 0"
    using assms by (simp add: upd_conv_take_nth_drop)
  moreover have "polymod 0 (replicate n 0) = 0" for n
    by (induction n) (simp_all add: polymod_step_def top_feedback_def feedback_def tap_def)
  moreover have "polymod_step 0 w = ucast w" for w
    by (simp add: polymod_step_def top_feedback_def feedback_def tap_def)
  moreover have "polymod c (map2 (XOR) vs ?d) = polymod c vs XOR polymod 0 ?d"
    using polymod_xor [of vs ?d c 0] by simp
  ultimately show ?thesis by simp
qed

subsection \<open>Texts\<close>

definition CHARSET :: string where
  "CHARSET = ''qpzry9x8gf2tvdw0s3jn54khce6mua7l''"

definition fe_char :: "fe \<Rightarrow> char" where
  "fe_char v = CHARSET ! unat v"

definition char_fe :: "char \<Rightarrow> fe option" where
  "char_fe c = (let i = length (takeWhile (\<lambda>d. d \<noteq> c) CHARSET)
     in if i < 32 then Some (of_nat i) else None)"

definition has_upper :: "string \<Rightarrow> bool" where
  "has_upper = list_ex (\<lambda>c. 65 \<le> (of_char c :: nat) \<and> (of_char c :: nat) \<le> 90)"

definition has_lower :: "string \<Rightarrow> bool" where
  "has_lower = list_ex (\<lambda>c. 97 \<le> (of_char c :: nat) \<and> (of_char c :: nat) \<le> 122)"

definition hrp_ok :: "string \<Rightarrow> bool" where
  "hrp_ok hrp \<longleftrightarrow> 1 \<le> length hrp \<and> length hrp \<le> 83
     \<and> list_all (\<lambda>c. 33 \<le> (of_char c :: nat) \<and> (of_char c :: nat) \<le> 126) hrp
     \<and> \<not> (has_upper hrp \<and> has_lower hrp)"

definition CODE_LENGTH :: nat where "CODE_LENGTH = 1023"

definition encode_text :: "residue \<Rightarrow> string \<Rightarrow> bytes \<Rightarrow> string option" where
  "encode_text target hrp d = (let h = ascii_lowercase hrp; data = bytes_to_fes d
     in if CODE_LENGTH < length h + 1 + length data + 6 then None
        else Some (h @ ''1'' @ map fe_char (data @ create_checksum target h data)))"

text \<open>The separator is the last \<^verbatim>\<open>1\<close> of the text.\<close>

definition data_part :: "string \<Rightarrow> string" where
  "data_part s = rev (takeWhile (\<lambda>c. c \<noteq> CHR ''1'') (rev s))"

definition decode_text :: "string \<Rightarrow> (string \<times> bytes, string) result" where
  "decode_text s = (let data = data_part s; n = length s - length data;
       hrp = take (n - 1) s
     in if n = 0 then Err ''MissingSeparator''
     else case those (map char_fe (ascii_lowercase data)) of
       None \<Rightarrow> Err ''InvalidChar''
     | Some fs \<Rightarrow>
         if has_upper s \<and> has_lower s then Err ''MixedCase''
         else if \<not> hrp_ok hrp then Err ''Hrp''
         else if CODE_LENGTH < length s then Err ''CodeLength''
         else if length fs < 6 then Err ''InvalidLength''
         else if polymod 1 (hrp_expand (ascii_lowercase hrp) @ fs) \<notin> {BECH32M_CONST, BECH32_CONST}
         then Err ''InvalidResidue''
         else Ok (ascii_lowercase hrp, fes_to_bytes (take (length fs - 6) fs)))"

text \<open>Any crates, with these functions for the text form.\<close>

definition with_bech32m :: "crates \<Rightarrow> crates" where
  "with_bech32m L = L\<lparr>hrp_parse := \<lambda>s. if hrp_ok s then Some s else None,
     bech32m_encode := encode_text BECH32M_CONST, bech32_decode := decode_text\<rparr>"

lemma with_bech32m_simps [simp]:
  "hrp_parse (with_bech32m L) s = (if hrp_ok s then Some s else None)"
  "bech32m_encode (with_bech32m L) = encode_text BECH32M_CONST"
  "bech32_decode (with_bech32m L) = decode_text"
  "sha256 (with_bech32m L) = sha256 L" "hex_encode (with_bech32m L) = hex_encode L"
  "hex_decode (with_bech32m L) = hex_decode L"
  by (simp_all add: with_bech32m_def)

subsection \<open>The alphabet\<close>

lemma charset: "distinct CHARSET" "length CHARSET = 32" "CHR ''1'' \<notin> set CHARSET"
  "\<not> has_upper CHARSET"
  by (simp_all add: CHARSET_def has_upper_def)

lemma unat_fe: "unat (v :: fe) < 32"
  using unsigned_less [of v, where 'a = nat] by simp

lemma char_fe_char [simp]: "char_fe (fe_char v) = Some v"
  using takeWhile_distinct_nth [OF charset(1), of "unat v"] unat_fe [of v] charset(2)
  by (simp add: char_fe_def fe_char_def)

lemma char_fe_SomeD: "char_fe c = Some v \<Longrightarrow> c = fe_char v"
proof -
  assume some: "char_fe c = Some v"
  let ?i = "length (takeWhile (\<lambda>d. d \<noteq> c) CHARSET)"
  have i: "?i < length CHARSET" "v = of_nat ?i"
    using some charset(2) by (auto simp: char_fe_def Let_def split: if_splits)
  then have "unat v = ?i" using charset(2) by (simp add: unat_of_nat)
  with nth_length_takeWhile [OF i(1)] show "c = fe_char v" by (simp add: fe_char_def)
qed

lemma fe_char_in: "fe_char v \<in> set CHARSET"
  using unat_fe [of v] charset(2) by (simp add: fe_char_def)

lemma fe_char_inject [simp]: "fe_char v = fe_char w \<longleftrightarrow> v = w"
  by (metis char_fe_char option.inject)

lemma lowercase_id: "\<not> has_upper s \<Longrightarrow> ascii_lowercase s = s"
  unfolding ascii_lowercase_def has_upper_def list_ex_iff Let_def by (intro map_idI) auto

lemma fe_chars:
  "\<not> has_upper (map fe_char vs)" "CHR ''1'' \<notin> set (map fe_char vs)"
  "ascii_lowercase (map fe_char vs) = map fe_char vs"
proof -
  show up: "\<not> has_upper (map fe_char vs)"
    using charset(4) fe_char_in by (auto simp: has_upper_def list_ex_iff)
  show "CHR ''1'' \<notin> set (map fe_char vs)" using charset(3) fe_char_in by (metis imageE set_map)
  show "ascii_lowercase (map fe_char vs) = map fe_char vs" by (rule lowercase_id [OF up])
qed

lemma those_iff: "those xs = Some ys \<longleftrightarrow> xs = map Some ys"
proof (induction xs arbitrary: ys)
  case (Cons x xs)
  then show ?case by (cases ys) (auto split: option.splits)
qed auto

lemma char_fes_iff: "those (map char_fe s) = Some vs \<longleftrightarrow> s = map fe_char vs"
proof -
  have "map char_fe s = map Some vs \<longleftrightarrow> s = map fe_char vs"
    by (auto simp: list_eq_iff_nth_eq dest!: char_fe_SomeD)
  then show ?thesis by (simp add: those_iff)
qed

lemma data_part_iff:
  "data_part (hrp @ CHR ''1'' # data) = data \<longleftrightarrow> CHR ''1'' \<notin> set data"
proof
  assume "data_part (hrp @ CHR ''1'' # data) = data"
  moreover have "CHR ''1'' \<notin> set (data_part s)" for s
    by (auto simp: data_part_def dest: set_takeWhileD)
  ultimately show "CHR ''1'' \<notin> set data" by metis
next
  assume "CHR ''1'' \<notin> set data"
  then have "takeWhile (\<lambda>c. c \<noteq> CHR ''1'') (rev data @ CHR ''1'' # rev hrp) = rev data"
    by (subst takeWhile_append2) auto
  then show "data_part (hrp @ CHR ''1'' # data) = data" by (simp add: data_part_def)
qed

lemma split_at_separator:
  assumes "length (data_part s) < length s"
  shows "s = take (length s - length (data_part s) - 1) s @ CHR ''1'' # data_part s"
proof -
  let ?P = "\<lambda>c. c \<noteq> CHR ''1''"
  have "dropWhile ?P (rev s) \<noteq> []"
  proof
    assume "dropWhile ?P (rev s) = []"
    then have "takeWhile ?P (rev s) = rev s" using takeWhile_dropWhile_id [of ?P "rev s"] by simp
    with assms show False by (simp add: data_part_def)
  qed
  then obtain c rest where rest: "dropWhile ?P (rev s) = c # rest" by (meson neq_Nil_conv)
  then have "c = CHR ''1''" using hd_dropWhile [of ?P "rev s"] by auto
  then have "rev s = takeWhile ?P (rev s) @ CHR ''1'' # rest"
    using takeWhile_dropWhile_id [of ?P "rev s"] rest by simp
  then have "rev (rev s) = rev (takeWhile ?P (rev s) @ CHR ''1'' # rest)" by (rule arg_cong)
  then have s: "s = rev rest @ CHR ''1'' # data_part s" by (simp add: data_part_def)
  have "length s = length rest + 1 + length (data_part s)"
    using arg_cong [OF s, of length] by (simp only: length_append length_rev list.size)
  then have "length s - length (data_part s) - 1 = length (rev rest)" by simp
  then have "take (length s - length (data_part s) - 1) s = rev rest"
    using s by (metis append_eq_conv_conj)
  with s show ?thesis by simp
qed

text \<open>What is read, and as what.\<close>

definition reads_as :: "string \<Rightarrow> string \<Rightarrow> fe list \<Rightarrow> bool" where
  "reads_as s hrp fs \<longleftrightarrow> (\<exists>data. s = hrp @ CHR ''1'' # data \<and> CHR ''1'' \<notin> set data
     \<and> ascii_lowercase data = map fe_char fs)
     \<and> \<not> (has_upper s \<and> has_lower s) \<and> hrp_ok hrp \<and> length s \<le> CODE_LENGTH \<and> 6 \<le> length fs
     \<and> polymod 1 (hrp_expand (ascii_lowercase hrp) @ fs) \<in> {BECH32M_CONST, BECH32_CONST}"

lemma decode_text_split:
  assumes "CHR ''1'' \<notin> set data"
  shows "decode_text (hrp @ CHR ''1'' # data) = Ok (h, d) \<longleftrightarrow>
    (\<exists>fs. reads_as (hrp @ CHR ''1'' # data) hrp fs \<and> h = ascii_lowercase hrp
      \<and> d = fes_to_bytes (take (length fs - 6) fs))"
proof -
  let ?s = "hrp @ CHR ''1'' # data"
  have part: "data_part ?s = data" using assms by (simp add: data_part_iff)
  have inj: "map fe_char a = map fe_char b \<longleftrightarrow> a = b" for a b
    by (simp add: inj_map_eq_map inj_def)
  show ?thesis
  proof (cases "those (map char_fe (ascii_lowercase data))")
    case None
    then have "ascii_lowercase data \<noteq> map fe_char fs" for fs
      using char_fes_iff [of "ascii_lowercase data" fs] by auto
    then have "\<not> reads_as ?s hrp fs" for fs by (auto simp: reads_as_def)
    moreover have "decode_text ?s = Err ''InvalidChar''"
      unfolding decode_text_def Let_def part None by simp
    ultimately show ?thesis by simp
  next
    case (Some gs)
    then have gs: "ascii_lowercase data = map fe_char gs" by (simp add: char_fes_iff)
    have reads: "reads_as ?s hrp fs \<longleftrightarrow> fs = gs \<and> \<not> (has_upper ?s \<and> has_lower ?s) \<and> hrp_ok hrp
        \<and> length ?s \<le> CODE_LENGTH \<and> 6 \<le> length gs
        \<and> polymod 1 (hrp_expand (ascii_lowercase hrp) @ gs) \<in> {BECH32M_CONST, BECH32_CONST}" for fs
      unfolding reads_as_def by (auto simp: assms gs inj)
    have "decode_text ?s = (if has_upper ?s \<and> has_lower ?s then Err ''MixedCase''
         else if \<not> hrp_ok hrp then Err ''Hrp''
         else if CODE_LENGTH < length ?s then Err ''CodeLength''
         else if length gs < 6 then Err ''InvalidLength''
         else if polymod 1 (hrp_expand (ascii_lowercase hrp) @ gs) \<notin> {BECH32M_CONST, BECH32_CONST}
         then Err ''InvalidResidue''
         else Ok (ascii_lowercase hrp, fes_to_bytes (take (length gs - 6) gs)))"
      unfolding decode_text_def Let_def part Some by simp
    then show ?thesis unfolding reads by (auto simp: not_less)
  qed
qed

lemma decode_text_iff:
  "decode_text s = Ok (h, d) \<longleftrightarrow> (\<exists>hrp fs. reads_as s hrp fs \<and> h = ascii_lowercase hrp
      \<and> d = fes_to_bytes (take (length fs - 6) fs))"
proof
  assume ok: "decode_text s = Ok (h, d)"
  then have "length (data_part s) < length s" by (simp add: decode_text_def Let_def split: if_splits)
  note s = split_at_separator [OF this]
  have "CHR ''1'' \<notin> set (data_part s)" by (auto simp: data_part_def dest: set_takeWhileD)
  from decode_text_split [OF this, of "take (length s - length (data_part s) - 1) s" h d] ok
  show "\<exists>hrp fs. reads_as s hrp fs \<and> h = ascii_lowercase hrp
      \<and> d = fes_to_bytes (take (length fs - 6) fs)" using s by metis
next
  assume "\<exists>hrp fs. reads_as s hrp fs \<and> h = ascii_lowercase hrp \<and> d = fes_to_bytes (take (length fs - 6) fs)"
  then obtain hrp fs where fs: "reads_as s hrp fs" "h = ascii_lowercase hrp"
    "d = fes_to_bytes (take (length fs - 6) fs)" by blast
  then obtain data where data: "s = hrp @ CHR ''1'' # data" "CHR ''1'' \<notin> set data"
    unfolding reads_as_def by blast
  show "decode_text s = Ok (h, d)"
    using decode_text_split [OF data(2), of hrp h d] fs unfolding data(1) by blast
qed

lemma encoded_reads_as:
  assumes "hrp_ok hrp" "\<not> has_upper hrp" "encode_text target hrp d = Some t"
    and "target \<in> {BECH32M_CONST, BECH32_CONST}"
  shows "reads_as t hrp (bytes_to_fes d @ create_checksum target hrp (bytes_to_fes d))"
    (is "reads_as t hrp ?fs")
proof -
  note low = lowercase_id [OF assms(2)]
  have t: "t = hrp @ CHR ''1'' # map fe_char ?fs" "length hrp + 1 + length ?fs \<le> CODE_LENGTH"
    using assms(3) by (auto simp: encode_text_def low Let_def create_checksum_def symbols_of_def
        split: if_splits)
  have "\<not> has_upper t"
    using assms(2) fe_chars(1) [of ?fs] by (simp add: t(1) has_upper_def)
  moreover have "6 \<le> length ?fs" by (simp add: create_checksum_def symbols_of_def)
  moreover have "polymod 1 (hrp_expand hrp @ ?fs) = target"
    using checksum_verifies by simp
  ultimately show ?thesis
    unfolding reads_as_def using assms(1,4) t fe_chars(2,3) [of ?fs] by (auto simp: low)
qed

lemma seal_hrp: "hrp_ok SEAL_HRP" "\<not> has_upper SEAL_HRP" "has_lower SEAL_HRP" "length SEAL_HRP = 9"
  by (simp_all add: SEAL_HRP_def hrp_ok_def has_upper_def has_lower_def)

lemma charset_ascii: "ascii CHARSET"
  by (simp add: CHARSET_def ascii_def)

lemma bech32m_shape: "bech32_shape (with_bech32m L)"
proof -
  have "str_starts_with (ascii_lowercase s) (ascii_lowercase hrp @ ''1'')" if "reads_as s hrp fs" for s hrp fs
    using that by (auto simp: reads_as_def ascii_lowercase_def str_starts_with_def)
  moreover have "ascii t \<and> str_starts_with t (SEAL_HRP @ ''1'')"
    if "encode_text BECH32M_CONST SEAL_HRP d = Some t" for d t
  proof -
    let ?fs = "bytes_to_fes d @ create_checksum BECH32M_CONST SEAL_HRP (bytes_to_fes d)"
    have "t = SEAL_HRP @ CHR ''1'' # map fe_char ?fs"
      using that by (simp add: encode_text_def lowercase_id [OF seal_hrp(2)] Let_def split: if_splits)
    then obtain fs where t: "t = SEAL_HRP @ CHR ''1'' # map fe_char fs" by blast
    have "ascii (SEAL_HRP @ ''1'')" by (simp add: SEAL_HRP_def ascii_def)
    moreover have "ascii (map fe_char fs)"
      using fe_char_in charset_ascii by (auto simp: ascii_def)
    ultimately show ?thesis by (auto simp: t str_starts_with_def ascii_def)
  qed
  ultimately show ?thesis
    unfolding bech32_shape_def by (auto simp: decode_text_iff)
qed

lemma bech32m_ok:
  assumes "hrp_ok hrp" "\<not> has_upper hrp"
  shows "bech32_ok (with_bech32m L) hrp"
proof -
  have "\<exists>t. encode_text BECH32M_CONST hrp d = Some t \<and> decode_text t = Ok (hrp, d)"
    if "length hrp + 7 + (8 * length d + 4) div 5 \<le> 1023" for d
  proof -
    from that obtain t where t: "encode_text BECH32M_CONST hrp d = Some t"
      by (simp add: encode_text_def Let_def lowercase_id [OF assms(2)] CODE_LENGTH_def)
    have "length (create_checksum target hrp data) = 6" for target data
      by (simp add: create_checksum_def symbols_of_def)
    then show ?thesis
      using t encoded_reads_as [OF assms t] lowercase_id [OF assms(2)]
      by (intro exI [of _ t]) (auto simp: decode_text_iff intro!: exI [of _ hrp] exI)
  qed
  moreover have "\<not> panics (decode_text s)" for s
    by (simp add: decode_text_def Let_def split: option.split)
  ultimately show ?thesis using assms(1) by (simp add: bech32_ok_def)
qed

subsection \<open>The text of a seal\<close>

text \<open>The text of a seal is the prefix, the separator and at most 189 symbols with remainder
\<open>BECH32M_CONST\<close>.\<close>

lemma seal_text_symbols:
  assumes "wf_seal s" and "to_text (with_bech32m L) s = (Ok t :: string rgb_pq_result)"
  obtains fs where "t = SEAL_HRP @ CHR ''1'' # map fe_char fs" "length fs \<le> 189"
    "polymod 1 (hrp_expand SEAL_HRP @ fs) = BECH32M_CONST"
proof -
  let ?d = "body_bytes s"
  let ?fs = "bytes_to_fes ?d @ create_checksum BECH32M_CONST SEAL_HRP (bytes_to_fes ?d)"
  have "length (locator_encode l) \<le> 5" for l by (cases l) simp_all
  moreover have "length (policy_encode q) \<le> 5" for q by (cases q) simp_all
  ultimately have "length ?d \<le> 104 + 5 + 5"
    unfolding length_body_bytes [OF assms(1)] by (intro add_mono) simp_all
  then have len: "length ?fs \<le> 189" by (simp add: create_checksum_def symbols_of_def)
  then have "encode_text BECH32M_CONST SEAL_HRP ?d = Some (SEAL_HRP @ CHR ''1'' # map fe_char ?fs)"
    using seal_hrp(4) by (simp add: encode_text_def lowercase_id [OF seal_hrp(2)] Let_def CODE_LENGTH_def
        create_checksum_def symbols_of_def)
  then have "t = SEAL_HRP @ CHR ''1'' # map fe_char ?fs"
    using assms(2) by (simp add: to_text_def seal_hrp(1) del: map_append)
  then show thesis using that len checksum_verifies by blast
qed

lemma upper_from_lower:
  "ascii_lowercase [c] = [x] \<Longrightarrow> c \<noteq> x \<Longrightarrow> has_upper [c]"
  by (auto simp: ascii_lowercase_def has_upper_def Let_def split: if_splits)

lemma has_case_append:
  "has_upper (a @ c # b) \<longleftrightarrow> has_upper a \<or> has_upper [c] \<or> has_upper b"
  "has_lower (a @ c # b) \<longleftrightarrow> has_lower a \<or> has_lower [c] \<or> has_lower b"
  by (simp_all add: has_upper_def has_lower_def)

lemma lowercase_nth: "i < length s \<Longrightarrow> ascii_lowercase [s ! i] = [ascii_lowercase s ! i]"
  by (simp add: ascii_lowercase_def)

lemma has_upper_nth: "has_upper [s ! i] \<Longrightarrow> i < length s \<Longrightarrow> has_upper s"
  by (auto simp: has_upper_def list_ex_iff)

text \<open>Each letter of the prefix but the changed one stays in lower case.\<close>

lemma hrp_keeps_lower: "has_lower (SEAL_HRP[i := c])"
proof -
  have lower: "has_lower [SEAL_HRP ! 0]" "has_lower [SEAL_HRP ! 1]"
    by (simp_all add: SEAL_HRP_def has_lower_def)
  define k where "k = (if i = 0 then 1 else 0 :: nat)"
  have "k \<noteq> i" "k < 9" "has_lower [SEAL_HRP ! k]" using lower by (simp_all add: k_def)
  then have "has_lower [SEAL_HRP[i := c] ! k]" by simp
  moreover have "SEAL_HRP[i := c] ! k \<in> set (SEAL_HRP[i := c])"
    using \<open>k < 9\<close> seal_hrp(4) by (intro nth_mem) simp
  ultimately show ?thesis by (auto simp: has_lower_def list_ex_iff)
qed

lemma mistyped_unreadable:
  assumes t: "t = SEAL_HRP @ CHR ''1'' # map fe_char fs" and len: "length fs \<le> 189"
    and sum: "polymod 1 (hrp_expand SEAL_HRP @ fs) = BECH32M_CONST"
    and i: "i < length t" and c: "c \<noteq> t ! i"
  shows "decode_text (t[i := c]) \<noteq> Ok (SEAL_HRP, d)"
proof
  assume "decode_text (t[i := c]) = Ok (SEAL_HRP, d)"
  then obtain hrp gs where reads: "reads_as (t[i := c]) hrp gs" and low: "ascii_lowercase hrp = SEAL_HRP"
    by (auto simp: decode_text_iff)
  then obtain data where data: "t[i := c] = hrp @ CHR ''1'' # data" "ascii_lowercase data = map fe_char gs"
    and one_case: "\<not> (has_upper (t[i := c]) \<and> has_lower (t[i := c]))"
    and residue: "polymod 1 (hrp_expand SEAL_HRP @ gs) \<in> {BECH32M_CONST, BECH32_CONST}"
    by (auto simp: reads_as_def)
  have len_hrp: "length hrp = 9" using arg_cong [OF low, of length] seal_hrp(4)
    by (simp add: ascii_lowercase_def)
  consider "i < 9" | "i = 9" | "10 \<le> i" by linarith
  then show False
  proof cases
    case 1
    then have hrp: "hrp = SEAL_HRP[i := c]"
    proof -
      have "t[i := c] = SEAL_HRP[i := c] @ CHR ''1'' # map fe_char fs"
        unfolding t using 1 seal_hrp(4) by (intro list_update_append1) simp
      then have "take 9 (SEAL_HRP[i := c] @ CHR ''1'' # map fe_char fs) = take 9 (hrp @ CHR ''1'' # data)"
        using data(1) by (simp only:)
      then show ?thesis using len_hrp seal_hrp(4) by simp
    qed
    then have "has_lower (t[i := c])" using data(1) hrp_keeps_lower by (simp add: has_case_append)
    moreover have "hrp ! i = c" "c \<noteq> SEAL_HRP ! i" using hrp 1 seal_hrp(4) c by (simp_all add: t nth_append)
    then have "has_upper [hrp ! i]"
      using upper_from_lower [of "hrp ! i" "SEAL_HRP ! i"] lowercase_nth [of i hrp] low 1 len_hrp by simp
    then have "has_upper (t[i := c])"
      using has_upper_nth [of hrp i] 1 len_hrp data(1) by (simp add: has_case_append)
    ultimately show False using one_case by blast
  next
    case 2
    have "t[i := c] ! 9 = CHR ''1''" using data(1) len_hrp by (simp add: nth_append)
    then show False using 2 i c seal_hrp(4) by (simp add: t nth_append)
  next
    case 3
    define j where "j = i - 10"
    with 3 have 3: "i = 10 + j" by simp
    have upd: "t[i := c] = SEAL_HRP @ CHR ''1'' # (map fe_char fs)[j := c]"
      using 3 seal_hrp(4) unfolding t by (simp add: list_update_append)
    then have parts: "hrp = SEAL_HRP" "data = (map fe_char fs)[j := c]"
      using data(1) len_hrp seal_hrp(4) by auto
    have "\<not> has_upper (t[i := c])"
      using one_case seal_hrp(3) unfolding upd by (auto simp: has_case_append)
    then have "\<not> has_upper data" unfolding upd parts(2) by (auto simp: has_case_append)
    then have gs: "(map fe_char fs)[j := c] = map fe_char gs"
      using data(2) lowercase_id [of data] parts(2) by simp
    have j: "j < length fs" using i 3 seal_hrp(4) by (simp add: t)
    have "length gs = length fs" using arg_cong [OF gs, of length] by simp
    have "gs = fs[j := gs ! j]"
    proof (rule nth_equalityI)
      fix k assume "k < length gs"
      then have "(map fe_char fs)[j := c] ! k = fe_char (gs ! k)" using gs by simp
      then show "gs ! k = fs[j := gs ! j] ! k"
        using \<open>k < length gs\<close> \<open>length gs = length fs\<close> j by (cases "k = j") simp_all
    qed (simp add: \<open>length gs = length fs\<close>)
    moreover have "fe_char (gs ! j) = c"
      using arg_cong [OF gs, of "\<lambda>xs. xs ! j"] j \<open>length gs = length fs\<close> by simp
    then have "fs ! j \<noteq> gs ! j" using c 3 j seal_hrp(4) by (auto simp: t nth_append)
    then have "fs ! j XOR gs ! j \<noteq> 0" by (metis xor_self_eq xor.assoc xor.left_neutral xor.right_neutral)
    moreover have "length fs - Suc j < 189" using len j by simp
    ultimately have "polymod (ucast (fs ! j XOR gs ! j)) (replicate (length fs - Suc j) 0)
        \<notin> {0, BECH32M_CONST XOR BECH32_CONST}" and "gs = fs[j := gs ! j]"
      using one_symbol_difference by blast+
    moreover from this(2) have "polymod 1 (hrp_expand SEAL_HRP @ gs) = BECH32M_CONST
        XOR polymod (ucast (fs ! j XOR gs ! j)) (replicate (length fs - Suc j) 0)"
      using polymod_update [OF j, of "polymod 1 (hrp_expand SEAL_HRP)" "gs ! j"] sum by simp
    ultimately show False
      using residue by (auto simp: xor.assoc [symmetric] dest: arg_cong [of _ _ "(XOR) BECH32M_CONST"])
  qed
qed

subsection \<open>Properties\<close>

text \<open>A seal with one wrong character is never read: for a well-formed seal, replacing any one
  character of its text, in the prefix, the separator or the data, by any other character gives a
  text that \<^verbatim>\<open>from_text\<close> rejects with an error, although the decoder also accepts the older checksum;
  the text itself is read back as the seal.\<close>

theorem mistyped_seal_rejected:
  assumes "wf_seal s" and "to_text (with_bech32m L) s = (Ok t :: string rgb_pq_result)"
    and "i < length t" and "c \<noteq> t ! i"
  shows "(\<exists>e. from_text (with_bech32m L) d5 (t[i := c]) = Err e)
    \<and> (algo_enabled d5 (owner_algo s) \<longrightarrow> from_text (with_bech32m L) d5 t = Ok s)"
proof
  note ok = bech32m_ok [OF seal_hrp(1,2)]
  obtain fs where "t = SEAL_HRP @ CHR ''1'' # map fe_char fs" "length fs \<le> 189"
    "polymod 1 (hrp_expand SEAL_HRP @ fs) = BECH32M_CONST"
    using seal_text_symbols [OF assms(1,2)] by blast
  note unreadable = mistyped_unreadable [OF this assms(3,4)]
  have "from_text (with_bech32m L) d5 (t[i := c]) \<noteq> Ok s'" for s'
    using from_text_prefix [of "with_bech32m L" d5 "t[i := c]" s'] unreadable by auto
  moreover have "\<not> panics (from_text (with_bech32m L) d5 (t[i := c]))" by (rule from_text_no_panic [OF ok])
  ultimately show "\<exists>e. from_text (with_bech32m L) d5 (t[i := c]) = Err e"
    by (cases "from_text (with_bech32m L) d5 (t[i := c])") auto
  show "algo_enabled d5 (owner_algo s) \<longrightarrow> from_text (with_bech32m L) d5 t = Ok s"
  proof
    assume "algo_enabled d5 (owner_algo s)"
    from text_roundtrip_aux [OF ok [of L] assms(1) this] assms(2)
    show "from_text (with_bech32m L) d5 t = Ok s" by auto
  qed
qed

theorem mistyped_seal_rejected_witness:
  "\<exists>t. to_text (with_bech32m toy_crates) sample_seal = (Ok t :: string rgb_pq_result)
    \<and> (\<exists>e. from_text (with_bech32m toy_crates) False (t[10 := CHR ''1'']) = Err e)
    \<and> from_text (with_bech32m toy_crates) False t = Ok sample_seal"
proof -
  obtain t where t: "to_text (with_bech32m toy_crates) sample_seal = (Ok t :: string rgb_pq_result)"
    using to_text_ok [OF bech32m_ok [OF seal_hrp(1,2)] sample_seal_wf] by blast
  then obtain fs where fs: "t = SEAL_HRP @ CHR ''1'' # map fe_char fs"
      "polymod 1 (hrp_expand SEAL_HRP @ fs) = BECH32M_CONST"
    using seal_text_symbols [OF sample_seal_wf] by blast
  have "fs \<noteq> []"
  proof
    assume "fs = []"
    with fs(2) show False by (simp add: SEAL_HRP_def hrp_expand_def polymod_step_def top_feedback_def
        feedback_def tap_def BECH32M_CONST_def)
  qed
  then have "10 < length t" "t ! 10 = fe_char (hd fs)"
    using seal_hrp(4) by (simp_all add: fs(1) nth_append hd_conv_nth)
  moreover have "CHR ''1'' \<noteq> fe_char (hd fs)" using charset(3) fe_char_in [of "hd fs"] by metis
  ultimately show ?thesis
    using mistyped_seal_rejected [OF sample_seal_wf t, of 10 "CHR ''1''" False] t sample_seal_algo by auto
qed

text \<open>The text form is not unique: the same data under the checksum of BIP 173 is another text, and it
  is read as the same seal.\<close>

theorem older_checksum_accepted:
  assumes "wf_seal s" and "algo_enabled d5 (owner_algo s)"
  shows "\<exists>t t'. to_text (with_bech32m L) s = (Ok t :: string rgb_pq_result)
    \<and> encode_text BECH32_CONST SEAL_HRP (body_bytes s) = Some t' \<and> t' \<noteq> t
    \<and> from_text (with_bech32m L) d5 t' = Ok s"
proof -
  note ok = bech32m_ok [OF seal_hrp(1,2)] and lowered = lowercase_id [OF seal_hrp(2)]
  let ?data = "bytes_to_fes (body_bytes s)"
  obtain t where t: "to_text (with_bech32m L) s = (Ok t :: string rgb_pq_result)"
      "encode_text BECH32M_CONST SEAL_HRP (body_bytes s) = Some t"
      "from_text (with_bech32m L) d5 t = Ok s"
    using text_roundtrip_aux [OF ok [of L] assms] by auto
  then obtain t' where t': "encode_text BECH32_CONST SEAL_HRP (body_bytes s) = Some t'"
    by (simp add: encode_text_def Let_def create_checksum_def symbols_of_def split: if_splits)
  have shape: "u = SEAL_HRP @ ''1'' @ map fe_char (?data @ create_checksum target SEAL_HRP ?data)"
    if "encode_text target SEAL_HRP (body_bytes s) = Some u" for u target
    using that by (simp add: encode_text_def lowered Let_def split: if_splits)
  have "create_checksum BECH32_CONST SEAL_HRP ?data \<noteq> create_checksum BECH32M_CONST SEAL_HRP ?data"
    using checksum_verifies [of SEAL_HRP ?data BECH32_CONST] checksum_verifies [of SEAL_HRP ?data BECH32M_CONST]
    by (auto simp: BECH32_CONST_def BECH32M_CONST_def)
  then have "t' \<noteq> t" unfolding shape [OF t'] shape [OF t(2)] by (auto simp: inj_map_eq_map inj_def)
  have "decode_text u = Ok (SEAL_HRP, body_bytes s)"
    if "encode_text target SEAL_HRP (body_bytes s) = Some u" "target \<in> {BECH32M_CONST, BECH32_CONST}" for u target
  proof -
    have six: "length (create_checksum target SEAL_HRP ?data) = 6"
      by (simp add: create_checksum_def symbols_of_def)
    show ?thesis
      unfolding decode_text_iff
      by (intro exI [of _ SEAL_HRP] exI [of _ "?data @ create_checksum target SEAL_HRP ?data"] conjI
          encoded_reads_as [OF seal_hrp(1,2) that]) (simp_all add: lowered six del: length_bytes_to_fes)
  qed
  then have "decode_text t' = decode_text t" using t' t(2) by simp
  then have "from_text (with_bech32m L) d5 t' = Ok s" using t(3) by (simp add: from_text_def)
  with t(1) t' \<open>t' \<noteq> t\<close> show ?thesis by blast
qed

end
