(* ===== verification/Bitcoin_Tx.thy ===== *)
theory Bitcoin_Tx
  imports Funding
begin

section \<open>Bitcoin's transaction format as an instance of the codec parameter\<close>

text \<open>
  \<^verbatim>\<open>append_opret_commitment\<close> and \<^verbatim>\<open>find_commitment_in_signed_tx\<close> (\<open>crates/rgb-pq-tx/src/commit.rs\<close>)
  read and write transactions with the \<^verbatim>\<open>bitcoin\<close> crate, which is the parameter \<open>tx_codec\<close>. Here is the
  format that crate documents, written from the protocol description and BIP 144: the legacy form,
  the form with witnesses, lengths in their shortest form, nothing after the lock time. The reader
  accepts exactly what the writer writes, so what the theorems on the parameter assume of a codec
  holds of this one for every transaction that can be read at all.
\<close>

subsection \<open>Readers\<close>

type_synonym 'a reader = "bytes \<Rightarrow> ('a \<times> bytes) option"

definition read_then :: "'a reader \<Rightarrow> ('a \<Rightarrow> 'b reader) \<Rightarrow> 'b reader" where
  "read_then rd f b = Option.bind (rd b) (\<lambda>(x, r). f x r)"

definition read_bytes :: "nat \<Rightarrow> bytes reader" where
  "read_bytes n b = (if n \<le> length b then Some (take n b, drop n b) else None)"

definition read_le :: "nat \<Rightarrow> nat reader" where
  "read_le k = read_then (read_bytes k) (\<lambda>d r. Some (le_nat d, r))"

fun read_many :: "'a reader \<Rightarrow> nat \<Rightarrow> 'a list reader" where
  "read_many rd 0 = (\<lambda>b. Some ([], b))"
| "read_many rd (Suc n) = read_then rd (\<lambda>x. read_then (read_many rd n) (\<lambda>xs r. Some (x # xs, r)))"

text \<open>A length prefix must be in the shortest of its four forms.\<close>

definition read_above :: "nat \<Rightarrow> nat \<Rightarrow> nat reader" where
  "read_above k least = read_then (read_le k) (\<lambda>n r. if least \<le> n then Some (n, r) else None)"

definition read_compact_size :: "nat reader" where
  "read_compact_size = read_then (read_le 1) (\<lambda>n.
     if n < 0xfd then (\<lambda>r. Some (n, r))
     else if n = 0xfd then read_above 2 0xfd
     else if n = 0xfe then read_above 4 0x10000
     else read_above 8 0x100000000)"

text \<open>
  What a pair of a writer and a reader owes: the reader accepts a buffer if and only if it starts
  with what the writer writes of an acceptable value, and returns that value and the rest.
\<close>

locale wire_format =
  fixes ok :: "'a \<Rightarrow> bool"
    and wr :: "'a \<Rightarrow> bytes"
    and rd :: "'a reader"
  assumes exact: "rd b = Some (x, r) \<longleftrightarrow> ok x \<and> b = wr x @ r"
begin

lemma then_iff:
  "read_then rd f b = Some y \<longleftrightarrow> (\<exists>x r. ok x \<and> b = wr x @ r \<and> f x r = Some y)"
  by (auto simp: read_then_def Option.bind_eq_Some_conv exact)

lemma many_iff:
  "read_many rd n b = Some (xs, r) \<longleftrightarrow>
    length xs = n \<and> list_all ok xs \<and> b = concat (map wr xs) @ r"
proof (induction n arbitrary: b xs)
  case 0
  then show ?case by auto
next
  case (Suc n)
  have "rd_many = Some (xs, r) \<longleftrightarrow> (\<exists>x ys. xs = x # ys \<and> ok x \<and> length ys = n \<and> list_all ok ys
      \<and> b = wr x @ concat (map wr ys) @ r)" if "rd_many = read_many rd (Suc n) b" for rd_many
    unfolding that read_many.simps then_iff
    by (auto simp: read_then_def Option.bind_eq_Some_conv Suc)
  then show ?case by (cases xs) auto
qed

lemma read_back: "ok x \<Longrightarrow> rd (wr x @ r) = Some (x, r)"
  by (simp add: exact)

end

text \<open>A sequence behind its length.\<close>

definition write_vec :: "('a \<Rightarrow> bytes) \<Rightarrow> 'a list \<Rightarrow> bytes" where
  "write_vec wr xs = compact_size (length xs) @ concat (map wr xs)"

definition read_vec :: "'a reader \<Rightarrow> 'a list reader" where
  "read_vec rd = read_then read_compact_size (read_many rd)"

definition write_var_bytes :: "bytes \<Rightarrow> bytes" where
  "write_var_bytes d = compact_size (length d) @ d"

definition read_var_bytes :: "bytes reader" where
  "read_var_bytes = read_then read_compact_size read_bytes"

definition encodable :: "'a list \<Rightarrow> bool" where
  "encodable xs \<longleftrightarrow> length xs < 2 ^ 64"

subsection \<open>Transactions\<close>

record bitcoin_txin =
  in_txid :: bytes
  in_vout :: u32
  in_script_sig :: bytes
  in_sequence :: u32

record bitcoin_tx =
  bt_version :: u32
  bt_inputs :: "bitcoin_txin list"
  bt_outputs :: "(u64 \<times> bytes) list"
  bt_witnesses :: "bytes list list"
  bt_lock_time :: u32

definition write_u32 :: "u32 \<Rightarrow> bytes" where "write_u32 = u32_to_le_bytes"
definition read_u32 :: "u32 reader" where
  "read_u32 = read_then (read_le 4) (\<lambda>n r. Some (of_nat n, r))"

definition write_u64 :: "u64 \<Rightarrow> bytes" where "write_u64 = u64_to_le_bytes"
definition read_u64 :: "u64 reader" where
  "read_u64 = read_then (read_le 8) (\<lambda>n r. Some (of_nat n, r))"

definition write_txin :: "bitcoin_txin \<Rightarrow> bytes" where
  "write_txin i = in_txid i @ write_u32 (in_vout i) @ write_var_bytes (in_script_sig i)
     @ write_u32 (in_sequence i)"

definition read_txin :: "bitcoin_txin reader" where
  "read_txin = read_then (read_bytes 32) (\<lambda>t. read_then read_u32 (\<lambda>v.
     read_then read_var_bytes (\<lambda>s. read_then read_u32 (\<lambda>q r.
     Some (\<lparr>in_txid = t, in_vout = v, in_script_sig = s, in_sequence = q\<rparr>, r)))))"

definition txin_ok :: "bitcoin_txin \<Rightarrow> bool" where
  "txin_ok i \<longleftrightarrow> length (in_txid i) = 32 \<and> encodable (in_script_sig i)"

definition write_txout :: "u64 \<times> bytes \<Rightarrow> bytes" where
  "write_txout o' = write_u64 (fst o') @ write_var_bytes (snd o')"

definition read_txout :: "(u64 \<times> bytes) reader" where
  "read_txout = read_then read_u64 (\<lambda>v. read_then read_var_bytes (\<lambda>s r. Some ((v, s), r)))"

definition txout_ok :: "u64 \<times> bytes \<Rightarrow> bool" where
  "txout_ok o' \<longleftrightarrow> encodable (snd o')"

text \<open>The marked form is used when an input has a witness, and when there is no input, since an empty
  list of inputs is what marks it.\<close>

definition uses_segwit :: "bitcoin_tx \<Rightarrow> bool" where
  "uses_segwit t \<longleftrightarrow> bt_inputs t = [] \<or> (\<exists>w \<in> set (bt_witnesses t). w \<noteq> [])"

definition write_witness :: "bytes list \<Rightarrow> bytes" where
  "write_witness = write_vec write_var_bytes"

definition read_witness :: "bytes list reader" where
  "read_witness = read_vec read_var_bytes"

definition witness_ok :: "bytes list \<Rightarrow> bool" where
  "witness_ok w \<longleftrightarrow> encodable w \<and> list_all encodable w"

definition write_tx :: "bitcoin_tx \<Rightarrow> bytes" where
  "write_tx t = write_u32 (bt_version t)
     @ (if uses_segwit t then [0, 1] else [])
     @ write_vec write_txin (bt_inputs t) @ write_vec write_txout (bt_outputs t)
     @ (if uses_segwit t then concat (map write_witness (bt_witnesses t)) else [])
     @ write_u32 (bt_lock_time t)"

text \<open>An empty list of inputs announces the marked form; there the flag has to be 1, and a transaction
  with inputs but without any witness has no business to use it.\<close>

definition read_legacy_rest :: "u32 \<Rightarrow> bitcoin_txin list \<Rightarrow> bitcoin_tx reader" where
  "read_legacy_rest ver inputs = read_then (read_vec read_txout) (\<lambda>outputs.
     read_then read_u32 (\<lambda>lock r.
       Some (\<lparr>bt_version = ver, bt_inputs = inputs, bt_outputs = outputs,
         bt_witnesses = replicate (length inputs) [], bt_lock_time = lock\<rparr>, r)))"

definition read_segwit_rest :: "u32 \<Rightarrow> bitcoin_tx reader" where
  "read_segwit_rest ver = read_then (read_le 1) (\<lambda>flag.
       if flag \<noteq> 1 then (\<lambda>r. None)
       else read_then (read_vec read_txin) (\<lambda>inputs. read_then (read_vec read_txout) (\<lambda>outputs.
         read_then (read_many read_witness (length inputs)) (\<lambda>witnesses.
         if inputs \<noteq> [] \<and> list_all (\<lambda>w. w = []) witnesses then (\<lambda>r. None)
         else read_then read_u32 (\<lambda>lock r.
           Some (\<lparr>bt_version = ver, bt_inputs = inputs, bt_outputs = outputs,
             bt_witnesses = witnesses, bt_lock_time = lock\<rparr>, r))))))"

definition read_tx :: "bitcoin_tx reader" where
  "read_tx = read_then read_u32 (\<lambda>ver. read_then (read_vec read_txin) (\<lambda>inputs.
     if inputs \<noteq> [] then read_legacy_rest ver inputs else read_segwit_rest ver))"

definition tx_ok :: "bitcoin_tx \<Rightarrow> bool" where
  "tx_ok t \<longleftrightarrow> encodable (bt_inputs t) \<and> list_all txin_ok (bt_inputs t)
     \<and> encodable (bt_outputs t) \<and> list_all txout_ok (bt_outputs t)
     \<and> length (bt_witnesses t) = length (bt_inputs t) \<and> list_all witness_ok (bt_witnesses t)"

text \<open>\<^verbatim>\<open>encode::deserialize\<close> takes the whole buffer.\<close>

definition deserialize_tx :: "bytes \<Rightarrow> (bitcoin_tx, string) result" where
  "deserialize_tx b = (case read_tx b of
     Some (t, []) \<Rightarrow> Ok t
   | Some _ \<Rightarrow> Err ''data not consumed entirely when explicitly deserializing''
   | None \<Rightarrow> Err ''invalid transaction encoding'')"

text \<open>A push of \<^verbatim>\<open>script::Builder::push_slice\<close>.\<close>

definition push_slice :: "bytes \<Rightarrow> bytes" where
  "push_slice d = (let n = length d in
     (if n < 0x4c then [of_nat n]
      else if n < 0x100 then [0x4c, of_nat n]
      else if n < 0x10000 then 0x4d # nat_le 2 n
      else 0x4e # nat_le 4 n) @ d)"

definition bitcoin_codec :: "bitcoin_tx tx_codec" where
  "bitcoin_codec = \<lparr>
     tc_deserialize = deserialize_tx,
     tc_serialize = write_tx,
     tc_outputs = bt_outputs,
     tc_push_output = (\<lambda>t o'. t\<lparr>bt_outputs := bt_outputs t @ [o']\<rparr>),
     tc_push_slice = push_slice\<rparr>"

subsection \<open>The formats\<close>

lemma read_bytes_iff: "read_bytes n b = Some (d, r) \<longleftrightarrow> length d = n \<and> b = d @ r"
  by (auto simp: read_bytes_def)

lemma le_nat_eq_iff: "length d = k \<and> le_nat d = n \<longleftrightarrow> n < 256 ^ k \<and> d = nat_le k n"
  using le_nat_bound [of d] nat_le_le_nat [of d] by (auto simp: le_nat_nat_le)

lemma read_le_iff: "read_le k b = Some (n, r) \<longleftrightarrow> n < 256 ^ k \<and> b = nat_le k n @ r"
  using le_nat_eq_iff
  by (fastforce simp: read_le_def read_then_def Option.bind_eq_Some_conv read_bytes_iff)

lemma read_above_iff:
  "read_above k least b = Some (n, r) \<longleftrightarrow> least \<le> n \<and> n < 256 ^ k \<and> b = nat_le k n @ r"
  by (auto simp: read_above_def read_then_def Option.bind_eq_Some_conv read_le_iff)

text \<open>The shortest form is the only one that is read.\<close>

lemma compact_size_nat_le:
  "compact_size n = (if n < 0xfd then nat_le 1 n
     else if n \<le> 0xffff then 0xfd # nat_le 2 n
     else if n \<le> 0xffffffff then 0xfe # nat_le 4 n
     else 0xff # nat_le 8 (n mod 2 ^ 64))"
  by (simp add: compact_size_def u16_to_le_bytes_def u32_to_le_bytes_def u64_to_le_bytes_def
      unat_of_nat)

lemma nat_le_1: "nat_le 1 n = [of_nat (n mod 256)]"
  by simp

lemma read_compact_size_iff:
  "read_compact_size b = Some (n, r) \<longleftrightarrow> n < 2 ^ 64 \<and> b = compact_size n @ r"
proof (cases b)
  case Nil
  then show ?thesis
    by (simp add: read_compact_size_def read_then_def read_le_def read_bytes_def compact_size_def)
next
  case (Cons c rest)
  have first: "read_le 1 b = Some (unat c, rest)"
    by (simp add: Cons read_le_iff)
  have byte: "unat c = k \<longleftrightarrow> c = of_nat k" if "k < 256" for k
    using that by auto
  have wide: "unat c = 0xfd \<longleftrightarrow> c = 0xfd" "unat c = 0xfe \<longleftrightarrow> c = 0xfe"
    using byte [of "0xfd"] byte [of "0xfe"] by simp_all
  have last: "c = 0xff" if "\<not> unat c < 0xfd" "c \<noteq> 0xfd" "c \<noteq> 0xfe"
    using that wide byte [of "0xff"] unat_u8_lt [of c] by simp
  have step: "read_compact_size b = (if unat c < 0xfd then Some (unat c, rest)
      else if c = 0xfd then read_above 2 0xfd rest
      else if c = 0xfe then read_above 4 0x10000 rest
      else read_above 8 0x100000000 rest)"
    by (simp only: read_compact_size_def read_then_def first wide bind.bind_lunit prod.case)
      simp
  have small: "(of_nat n :: u8) = c \<longleftrightarrow> n = unat c" if "n < 0xfd" using that by auto
  show ?thesis
  proof (cases "unat c < 0xfd")
    case True
    then show ?thesis
      unfolding step unfolding Cons using small by (auto simp: compact_size_nat_le)
  next
    case False
    then consider "c = 0xfd" | "c = 0xfe" | "c = 0xff" using last by blast
    then show ?thesis
      unfolding step unfolding Cons using small
      by cases (auto simp: compact_size_nat_le read_above_iff)
  qed
qed

context wire_format
begin

lemma vec_iff:
  "read_vec rd b = Some (xs, r) \<longleftrightarrow> (encodable xs \<and> list_all ok xs) \<and> b = write_vec wr xs @ r"
proof -
  have "read_vec rd b = Some (xs, r) \<longleftrightarrow>
      (\<exists>n b'. n < 2 ^ 64 \<and> b = compact_size n @ b' \<and> read_many rd n b' = Some (xs, r))"
    unfolding read_vec_def read_then_def Option.bind_eq_Some_conv by (auto simp: read_compact_size_iff)
  also have "\<dots> \<longleftrightarrow> (encodable xs \<and> list_all ok xs) \<and> b = write_vec wr xs @ r"
    by (auto simp: many_iff encodable_def write_vec_def)
  finally show ?thesis .
qed

end

lemma read_word_iff:
  fixes x :: "'l :: len word"
  assumes "2 ^ LENGTH('l) = (256 :: nat) ^ k"
  shows "read_then (read_le k) (\<lambda>n r. Some (of_nat n, r)) b = Some (x, r)
    \<longleftrightarrow> b = nat_le k (unat x) @ r"
proof -
  have "read_then (read_le k) (\<lambda>n r. Some (of_nat n :: 'l word, r)) b = Some (x, r)
      \<longleftrightarrow> (\<exists>n. n < 256 ^ k \<and> b = nat_le k n @ r \<and> x = of_nat n)"
    unfolding read_then_def Option.bind_eq_Some_conv by (auto simp: read_le_iff)
  also have "\<dots> \<longleftrightarrow> (\<exists>n. n = unat x \<and> b = nat_le k n @ r)"
  proof (intro ex_cong1)
    fix n
    have "n < 2 ^ LENGTH('l) \<and> x = of_nat n \<longleftrightarrow> n = unat x"
      using unsigned_less [of x, where 'a = nat] by (auto simp: unat_of_nat)
    then show "n < 256 ^ k \<and> b = nat_le k n @ r \<and> x = of_nat n \<longleftrightarrow> n = unat x \<and> b = nat_le k n @ r"
      using assms by auto
  qed
  finally show ?thesis by simp
qed

lemma widths: "2 ^ LENGTH(32) = (256 :: nat) ^ 4" "2 ^ LENGTH(64) = (256 :: nat) ^ 8"
  by simp_all

interpretation u32_format: wire_format "\<lambda>_. True" write_u32 read_u32
  unfolding read_u32_def write_u32_def u32_to_le_bytes_def
  by unfold_locales (simp only: read_word_iff [OF widths(1)] simp_thms)

interpretation u64_format: wire_format "\<lambda>_. True" write_u64 read_u64
  unfolding read_u64_def write_u64_def u64_to_le_bytes_def
  by unfold_locales (simp only: read_word_iff [OF widths(2)] simp_thms)

interpretation var_bytes: wire_format encodable write_var_bytes read_var_bytes
proof
  fix b d r
  have "read_var_bytes b = Some (d, r) \<longleftrightarrow>
      (\<exists>n b'. (n < 2 ^ 64 \<and> b = compact_size n @ b') \<and> length d = n \<and> b' = d @ r)"
    unfolding read_var_bytes_def read_then_def Option.bind_eq_Some_conv
    by (auto simp: read_compact_size_iff read_bytes_iff)
  then show "read_var_bytes b = Some (d, r) \<longleftrightarrow> encodable d \<and> b = write_var_bytes d @ r"
    by (auto simp: encodable_def write_var_bytes_def)
qed

lemmas then_iffs = u32_format.then_iff u64_format.then_iff var_bytes.then_iff

lemma hash_then_iff:
  "read_then (read_bytes n) f b = Some y \<longleftrightarrow> (\<exists>d r. length d = n \<and> b = d @ r \<and> f d r = Some y)"
  by (auto simp: read_then_def Option.bind_eq_Some_conv read_bytes_iff)

interpretation txin: wire_format txin_ok write_txin read_txin
proof
  fix b r and i :: bitcoin_txin
  show "read_txin b = Some (i, r) \<longleftrightarrow> txin_ok i \<and> b = write_txin i @ r"
    unfolding read_txin_def hash_then_iff then_iffs
    by (cases i) (auto simp: txin_ok_def write_txin_def)
qed

interpretation txout: wire_format txout_ok write_txout read_txout
proof
  fix b r and o' :: "u64 \<times> bytes"
  show "read_txout b = Some (o', r) \<longleftrightarrow> txout_ok o' \<and> b = write_txout o' @ r"
    unfolding read_txout_def then_iffs by (cases o') (auto simp: txout_ok_def write_txout_def)
qed

interpretation witness: wire_format witness_ok write_witness read_witness
proof
  fix b r and w :: "bytes list"
  show "read_witness b = Some (w, r) \<longleftrightarrow> witness_ok w \<and> b = write_witness w @ r"
    unfolding read_witness_def write_witness_def var_bytes.vec_iff by (simp add: witness_ok_def)
qed

lemma vec_then_iff:
  "read_then (read_vec read_txin) f b = Some y \<longleftrightarrow> (\<exists>xs r. (encodable xs \<and> list_all txin_ok xs)
    \<and> b = write_vec write_txin xs @ r \<and> f xs r = Some y)"
  "read_then (read_vec read_txout) g b = Some y \<longleftrightarrow> (\<exists>os r. (encodable os \<and> list_all txout_ok os)
    \<and> b = write_vec write_txout os @ r \<and> g os r = Some y)"
  "read_then (read_many read_witness n) h b = Some y \<longleftrightarrow> (\<exists>ws r. (length ws = n
    \<and> list_all witness_ok ws \<and> b = concat (map write_witness ws) @ r) \<and> h ws r = Some y)"
  by (auto simp: read_then_def Option.bind_eq_Some_conv txin.vec_iff txout.vec_iff witness.many_iff)

lemma flag_then_iff:
  "read_then (read_le 1) f b = Some y \<longleftrightarrow> (\<exists>n r. n < 256 \<and> b = of_nat n # r \<and> f n r = Some y)"
  unfolding read_then_def Option.bind_eq_Some_conv by (auto simp: read_le_iff)

lemma if_else_None: "(if c then (\<lambda>r. None) else f) r = Some y \<longleftrightarrow> \<not> c \<and> f r = Some y"
  by simp

lemma no_witness_iff:
  "length ws = n \<and> list_all (\<lambda>w. w = []) ws \<longleftrightarrow> ws = replicate n []"
  by (auto simp: list_all_iff intro: replicate_eqI)

lemma read_legacy_rest_iff:
  "read_legacy_rest ver inputs b = Some (t, r) \<longleftrightarrow>
     bt_version t = ver \<and> bt_inputs t = inputs \<and> bt_witnesses t = replicate (length inputs) []
     \<and> encodable (bt_outputs t) \<and> list_all txout_ok (bt_outputs t)
     \<and> b = write_vec write_txout (bt_outputs t) @ write_u32 (bt_lock_time t) @ r"
  unfolding read_legacy_rest_def vec_then_iff then_iffs by (cases t) auto

lemma read_segwit_rest_iff:
  "read_segwit_rest ver b = Some (t, r) \<longleftrightarrow>
     bt_version t = ver \<and> tx_ok t \<and> uses_segwit t
     \<and> b = 1 # write_vec write_txin (bt_inputs t) @ write_vec write_txout (bt_outputs t)
         @ concat (map write_witness (bt_witnesses t)) @ write_u32 (bt_lock_time t) @ r"
  unfolding read_segwit_rest_def flag_then_iff if_else_None vec_then_iff then_iffs
  by (cases t) (auto simp: tx_ok_def uses_segwit_def list_all_iff)

interpretation tx_format: wire_format tx_ok write_tx read_tx
proof
  fix b r and t :: bitcoin_tx
  have empty: "write_vec write_txin [] = [0]" by (simp add: write_vec_def compact_size_def)
  have legacy: "tx_ok t \<and> \<not> uses_segwit t \<longleftrightarrow> encodable (bt_inputs t) \<and> list_all txin_ok (bt_inputs t)
      \<and> bt_inputs t \<noteq> [] \<and> bt_witnesses t = replicate (length (bt_inputs t)) []
      \<and> encodable (bt_outputs t) \<and> list_all txout_ok (bt_outputs t)"
    using no_witness_iff [of "bt_witnesses t" "length (bt_inputs t)"]
    by (auto simp: tx_ok_def uses_segwit_def list_all_iff witness_ok_def encodable_def)
  have "read_tx b = Some (t, r) \<longleftrightarrow>
      (\<exists>inputs b'. encodable inputs \<and> list_all txin_ok inputs \<and> inputs \<noteq> []
        \<and> b = write_u32 (bt_version t) @ write_vec write_txin inputs @ b'
        \<and> read_legacy_rest (bt_version t) inputs b' = Some (t, r))
      \<or> (\<exists>b'. b = write_u32 (bt_version t) @ 0 # b' \<and> read_segwit_rest (bt_version t) b' = Some (t, r))"
  proof -
    have branch: "(if inputs \<noteq> [] then read_legacy_rest v inputs else read_segwit_rest v) b' = Some (t, r) \<longleftrightarrow>
        v = bt_version t \<and> (inputs \<noteq> [] \<and> read_legacy_rest v inputs b' = Some (t, r)
          \<or> inputs = [] \<and> read_segwit_rest v b' = Some (t, r))" for inputs v b'
      by (auto simp: read_legacy_rest_iff read_segwit_rest_iff)
    have nil: "(\<exists>inputs b'. (encodable inputs \<and> list_all txin_ok inputs)
        \<and> b'' = write_vec write_txin inputs @ b' \<and> inputs = [] \<and> P b')
        \<longleftrightarrow> (\<exists>b'. b'' = 0 # b' \<and> P b')" for b'' P
    proof -
      have "(\<exists>inputs b'. (encodable inputs \<and> list_all txin_ok inputs)
        \<and> b'' = write_vec write_txin inputs @ b' \<and> inputs = [] \<and> P b') \<longleftrightarrow> (\<exists>b'. (encodable ([] ::
        bitcoin_txin list) \<and> list_all txin_ok []) \<and> b'' = write_vec write_txin [] @ b' \<and> P b')"
        by blast
      then show ?thesis by (simp add: empty encodable_def)
    qed
    have "(\<exists>xs rb. (encodable xs \<and> list_all txin_ok xs) \<and> ra = write_vec write_txin xs @ rb
        \<and> x = bt_version t \<and> (xs \<noteq> [] \<and> read_legacy_rest x xs rb = Some (t, r)
          \<or> xs = [] \<and> read_segwit_rest x rb = Some (t, r)))
      \<longleftrightarrow> x = bt_version t \<and> ((\<exists>xs rb. (encodable xs \<and> list_all txin_ok xs) \<and> xs \<noteq> []
          \<and> ra = write_vec write_txin xs @ rb \<and> read_legacy_rest x xs rb = Some (t, r))
        \<or> (\<exists>rb. ra = 0 # rb \<and> read_segwit_rest x rb = Some (t, r)))" for x ra
      unfolding nil [of ra "\<lambda>rb. read_segwit_rest x rb = Some (t, r)", symmetric] by blast
    then show ?thesis
      unfolding read_tx_def then_iffs vec_then_iff branch by blast
  qed
  also have "\<dots> \<longleftrightarrow> tx_ok t \<and> b = write_tx t @ r"
    using legacy by (auto simp: read_legacy_rest_iff read_segwit_rest_iff write_tx_def)
  finally show "read_tx b = Some (t, r) \<longleftrightarrow> tx_ok t \<and> b = write_tx t @ r" .
qed

lemma deserialize_tx_iff: "deserialize_tx b = Ok t \<longleftrightarrow> tx_ok t \<and> b = write_tx t"
proof -
  have "deserialize_tx b = Ok t \<longleftrightarrow> read_tx b = Some (t, [])"
    by (auto simp: deserialize_tx_def split: option.splits list.splits)
  then show ?thesis by (simp add: tx_format.exact)
qed

lemma bitcoin_codec_simps [simp]:
  "tc_deserialize bitcoin_codec = deserialize_tx" "tc_serialize bitcoin_codec = write_tx"
  "tc_outputs bitcoin_codec = bt_outputs"
  "tc_push_output bitcoin_codec t o' = t\<lparr>bt_outputs := bt_outputs t @ [o']\<rparr>"
  "tc_push_slice bitcoin_codec = push_slice"
  by (simp_all add: bitcoin_codec_def)

lemma bitcoin_codec_ok: "tx_codec_ok bitcoin_codec"
  by (simp add: tx_codec_ok_def push_slice_def)

lemma tx_roundtrips_iff: "tx_roundtrips bitcoin_codec t \<longleftrightarrow> tx_ok t"
  by (simp add: tx_roundtrips_def deserialize_tx_iff)

text \<open>A transaction has fewer outputs than bytes, so there is room for more of them.\<close>

lemma outputs_shorter:
  assumes "deserialize_tx b = Ok t" shows "length (bt_outputs t) < length b"
proof -
  have "length os \<le> length (concat (map write_txout os))" for os
    by (induction os) (auto simp: write_txout_def write_u64_def)
  then have "length (bt_outputs t) \<le> length (write_vec write_txout (bt_outputs t))"
    by (simp add: write_vec_def trans_le_add2)
  moreover have "length (write_vec write_txout (bt_outputs t)) < length (write_tx t)"
    by (simp add: write_tx_def write_u32_def)
  ultimately show ?thesis using assms by (simp add: deserialize_tx_iff)
qed

definition with_opret :: "bitcoin_tx \<Rightarrow> bytes \<Rightarrow> bitcoin_tx" where
  "with_opret t p = t\<lparr>bt_outputs := bt_outputs t @ [(0, pushdata1_script p)]\<rparr>"

lemma with_opret_ok:
  "tx_ok t \<Longrightarrow> length (bt_outputs t) + 1 < 2 ^ 64 \<Longrightarrow> length p < 2 ^ 32 \<Longrightarrow> tx_ok (with_opret t p)"
  by (simp add: tx_ok_def with_opret_def encodable_def txout_ok_def pushdata1_script_def)

lemma payload_length:
  assumes "sha256_ok L" "wf_seal s" "length mpc = 32"
    and "build_opret_payload L s mpc = (Ok p :: bytes rgb_pq_result)"
  shows "length p = 127" "carried_for L s (pushdata1_script p) = Some (commitment_new s mpc)"
proof -
  have enc: "commitment_encode L (commitment_new s mpc) = (Ok p :: bytes rgb_pq_result)"
    using assms(4) by (simp add: build_opret_payload_def)
  note carried = carried_encoded [OF assms(1) commitment_new_wf [OF assms(2,3)] enc]
  show "length p = 127" using carried(2) by (simp add: pushdata1_script_def)
  show "carried_for L s (pushdata1_script p) = Some (commitment_new s mpc)"
    using carried(1) by (simp add: carried_for_def commitment_new_def)
qed

lemma append_on_bitcoin:
  assumes "sha256_ok L" "hex_ok L" "wf_seal s" "length mpc = 32"
    and "tx_ok tx" "length (bt_outputs tx) + 1 < 2 ^ 64"
    and "hex_decode L unsigned_hex = Ok (write_tx tx)"
    and "build_opret_payload L s mpc = (Ok p :: bytes rgb_pq_result)"
  shows "append_opret_commitment L bitcoin_codec unsigned_hex s mpc
      = Ok (hex_lower (write_tx (with_opret tx p)))"
    "tx_ok (with_opret tx p)"
proof -
  note len = payload_length(1) [OF assms(1,3,4,8)]
  show "tx_ok (with_opret tx p)" using with_opret_ok [OF assms(5,6)] len by simp
  have "deserialize_tx (write_tx tx) = Ok tx" using assms(5) by (simp add: deserialize_tx_iff)
  moreover have "build_op_return_script bitcoin_codec p = pushdata1_script p"
    using len by (simp add: build_op_return_script_def push_slice_def pushdata1_script_def)
  ultimately show "append_opret_commitment L bitcoin_codec unsigned_hex s mpc
      = Ok (hex_lower (write_tx (with_opret tx p)))"
    using assms(7,8) by (simp add: append_opret_commitment_def decode_tx_hex_def
        build_opret_payload_def with_opret_def hex_okD(1) [OF assms(2)])
qed

lemma find_on_bitcoin:
  assumes "sha256_ok L" "hex_ok L" "tx_ok tx"
  shows "find_commitment_in_signed_tx L bitcoin_codec (hex_lower (write_tx tx)) s =
    (case hits_for L s 0 (bt_outputs tx) of [] \<Rightarrow> Ok None | [(v, c)] \<Rightarrow> Ok (Some c)
     | _ \<Rightarrow> Err (RgbPq_Commitment (CM_Duplicate (hex_lower (write_tx tx)))))"
proof -
  have "deserialize_tx (write_tx tx) = Ok tx" using assms(3) by (simp add: deserialize_tx_iff)
  then show ?thesis
    by (simp add: find_commitment_in_signed_tx_def decode_tx_hex_def signed_loop_spec [OF assms(1)]
        hex_okD(2) [OF assms(2)])
qed

subsection \<open>The tests' transaction\<close>

text \<open>\<^verbatim>\<open>sample_unsigned_tx_hex\<close> of the tests in \<open>commit.rs\<close>: one input without a signature, one output to
  a public key hash of zeros.\<close>

definition p2pkh_script :: "bytes \<Rightarrow> bytes" where
  "p2pkh_script h = [0x76, 0xa9] @ push_slice h @ [0x88, 0xac]"

definition sample_unsigned_tx :: bitcoin_tx where
  "sample_unsigned_tx = \<lparr>bt_version = 2,
     bt_inputs = [\<lparr>in_txid = replicate 32 0x11, in_vout = 0, in_script_sig = [],
       in_sequence = 0xffffffff\<rparr>],
     bt_outputs = [(1000, p2pkh_script (replicate 20 0))],
     bt_witnesses = [[]], bt_lock_time = 0\<rparr>"

definition sample_unsigned_tx_hex :: "crates \<Rightarrow> string" where
  "sample_unsigned_tx_hex L = hex_encode L (write_tx sample_unsigned_tx)"

lemma sample_unsigned_tx_ok: "tx_ok sample_unsigned_tx"
  by (simp add: tx_ok_def sample_unsigned_tx_def encodable_def txin_ok_def txout_ok_def witness_ok_def
      p2pkh_script_def push_slice_def)

lemma nat_le_numeral:
  "nat_le (numeral k) n = of_nat (n mod 256) # nat_le (pred_numeral k) (n div 256)"
  unfolding numeral_eq_Suc [of k] by (rule nat_le.simps(2))

lemma sample_unsigned_tx_bytes:
  "write_tx sample_unsigned_tx = [0x02, 0, 0, 0, 0x01] @ replicate 32 0x11 @ [0, 0, 0, 0, 0]
     @ [0xff, 0xff, 0xff, 0xff] @ [0x01, 0xe8, 0x03, 0, 0, 0, 0, 0, 0]
     @ [0x19, 0x76, 0xa9, 0x14] @ replicate 20 0 @ [0x88, 0xac] @ [0, 0, 0, 0]"
  by (simp add: write_tx_def uses_segwit_def sample_unsigned_tx_def write_vec_def write_txin_def
      write_txout_def write_var_bytes_def write_u32_def write_u64_def u32_to_le_bytes_def
      u64_to_le_bytes_def nat_le_numeral compact_size_def p2pkh_script_def push_slice_def)

lemma sample_carries_nothing:
  "o' \<in> set (bt_outputs sample_unsigned_tx) \<Longrightarrow> carried_for L s (snd o') = None"
  by (simp add: sample_unsigned_tx_def p2pkh_script_def carried_for_def carried_commitment_def
      stripped_def)

lemma sample_read_back:
  assumes "hex_ok L"
  shows "hex_decode L (sample_unsigned_tx_hex L) = Ok (write_tx sample_unsigned_tx)"
    "deserialize_tx (write_tx sample_unsigned_tx) = Ok sample_unsigned_tx"
  using hex_okD(1,2) [OF assms] sample_unsigned_tx_ok
  by (simp_all add: sample_unsigned_tx_hex_def deserialize_tx_iff)

subsection \<open>Properties\<close>

text \<open>Appending a commitment to a Bitcoin transaction: for every transaction that can be read, none
  of whose outputs carries a commitment for the seal, appending gives the hex of the same transaction
  with one output more, of value zero, that pushes the payload; version, inputs, witnesses, lock time
  and the other outputs are kept. That hex is read back as this transaction and the search in it
  returns the seal's commitment; appending a second commitment for the seal succeeds as well, and the
  search then stops with a duplicate error.\<close>

theorem append_to_bitcoin_tx:
  assumes "sha256_ok L" "hex_ok L" "wf_seal s" "length mpc = 32" "length mpc' = 32"
    and "hex_decode L unsigned_hex = Ok raw" "deserialize_tx raw = Ok tx" "length raw < 2 ^ 63"
    and "\<forall>o' \<in> set (bt_outputs tx). carried_for L s (snd o') = None"
  shows "\<exists>p hex again. build_opret_payload L s mpc = (Ok p :: bytes rgb_pq_result)
    \<and> append_opret_commitment L bitcoin_codec unsigned_hex s mpc = Ok hex
    \<and> (\<exists>b. hex_decode L hex = Ok b \<and> deserialize_tx b
        = Ok (tx\<lparr>bt_outputs := bt_outputs tx @ [(0, 0x6a # 0x4c # of_nat (length p) # p)]\<rparr>))
    \<and> find_commitment_in_signed_tx L bitcoin_codec hex s = Ok (Some (commitment_new s mpc))
    \<and> append_opret_commitment L bitcoin_codec hex s mpc' = Ok again
    \<and> find_commitment_in_signed_tx L bitcoin_codec again s
        = Err (RgbPq_Commitment (CM_Duplicate again))"
proof -
  obtain p p' where p: "build_opret_payload L s mpc = (Ok p :: bytes rgb_pq_result)"
      and p': "build_opret_payload L s mpc' = (Ok p' :: bytes rgb_pq_result)"
    using commitment_encode_layout [OF assms(1)] unfolding build_opret_payload_def by blast
  have tx: "tx_ok tx" "raw = write_tx tx" using assms(7) by (simp_all add: deserialize_tx_iff)
  have room: "length (bt_outputs tx) + 2 < 2 ^ 64" using outputs_shorter [OF assms(7)] assms(8) by simp
  let ?t = "with_opret tx p" and ?u = "with_opret (with_opret tx p) p'"
  note first = append_on_bitcoin [OF assms(1-4) tx(1) _ assms(6) [unfolded tx(2)] p]
  have second: "append_opret_commitment L bitcoin_codec (hex_lower (write_tx ?t)) s mpc'
      = Ok (hex_lower (write_tx ?u))" "tx_ok ?u"
    using append_on_bitcoin [OF assms(1-3,5) first(2) _ hex_okD(2) [OF assms(2)] p'] room
    by (simp_all add: with_opret_def)
  have hits: "hits_for L s 0 (bt_outputs ?t) = [(of_nat (length (bt_outputs tx)), commitment_new s mpc)]"
    using hits_for_none [of "bt_outputs tx" L s 0] assms(9) payload_length(2) [OF assms(1,3,4) p]
    by (simp add: with_opret_def hits_for_append)
  then have "hits_for L s 0 (bt_outputs ?u) = [(of_nat (length (bt_outputs tx)), commitment_new s mpc),
      (of_nat (length (bt_outputs ?t)), commitment_new s mpc')]"
    using payload_length(2) [OF assms(1,3,5) p']
    by (simp add: with_opret_def [of ?t] hits_for_append)
  then have "find_commitment_in_signed_tx L bitcoin_codec (hex_lower (write_tx ?u)) s
      = Err (RgbPq_Commitment (CM_Duplicate (hex_lower (write_tx ?u))))"
    using find_on_bitcoin [OF assms(1,2) second(2)] by simp
  moreover have "find_commitment_in_signed_tx L bitcoin_codec (hex_lower (write_tx ?t)) s
      = Ok (Some (commitment_new s mpc))"
    using find_on_bitcoin [OF assms(1,2) first(2)] room hits by simp
  moreover have "deserialize_tx (write_tx ?t)
      = Ok (tx\<lparr>bt_outputs := bt_outputs tx @ [(0, 0x6a # 0x4c # of_nat (length p) # p)]\<rparr>)"
    using first(2) room by (simp add: deserialize_tx_iff) (simp add: with_opret_def pushdata1_script_def)
  ultimately show ?thesis
    using p first(1) second(1) room hex_okD(2) [OF assms(2)]
    by (intro exI [of _ p] exI [of _ "hex_lower (write_tx ?t)"] exI [of _ "hex_lower (write_tx ?u)"]) auto
qed

theorem append_to_bitcoin_tx_witness:
  "\<exists>hex again. append_opret_commitment toy_crates bitcoin_codec (sample_unsigned_tx_hex toy_crates)
      sample_seal sample_mpc = Ok hex
    \<and> find_commitment_in_signed_tx toy_crates bitcoin_codec hex sample_seal
      = Ok (Some (commitment_new sample_seal sample_mpc))
    \<and> append_opret_commitment toy_crates bitcoin_codec hex sample_seal sample_mpc = Ok again
    \<and> find_commitment_in_signed_tx toy_crates bitcoin_codec again sample_seal
      = Err (RgbPq_Commitment (CM_Duplicate again))"
proof -
  have "length (write_tx sample_unsigned_tx) < 2 ^ 63" by (simp add: sample_unsigned_tx_bytes)
  then show ?thesis
    using append_to_bitcoin_tx [OF toy_sha256_ok toy_hex_ok sample_seal_wf length_sample_mpc
      length_sample_mpc sample_read_back [OF toy_hex_ok]] sample_carries_nothing by blast
qed

end
