(* ===== verification/Real_Formats.thy ===== *)
theory Real_Formats
  imports Digests Bech32m Bitcoin_Tx E2e_Flows Tests_Tx
begin

section \<open>The program on the formats it uses\<close>

text \<open>
  The crate parameter with SHA-256, lower-case hex and bech32m, and the codec parameter with
  Bitcoin's transactions: on them the hypotheses of the component theorems hold, so what those
  theorems say holds without them. What is left open are RGB, the node, the clock and the file
  system.
\<close>

definition real_crates :: crates where
  "real_crates = with_bech32m sha2_crates"

lemma real_crates_simps [simp]:
  "sha256 real_crates = sha256_fips" "hex_encode real_crates = hex_lower"
  "hex_decode real_crates = toy_hex_decode"
  by (simp_all add: real_crates_def sha2_crates_def toy_crates_def)

lemma real_crates_ok:
  "sha256_ok real_crates" "hex_ok real_crates" "bech32_ok real_crates SEAL_HRP"
  "bech32_shape real_crates"
proof -
  show "sha256_ok real_crates" by (simp add: sha256_ok_def length_sha256_fips)
  show "hex_ok real_crates" using toy_hex_ok by (simp add: hex_ok_def toy_crates_def)
  show "bech32_ok real_crates SEAL_HRP" "bech32_shape real_crates"
    by (simp_all add: real_crates_def bech32m_ok [OF seal_hrp(1,2)] bech32m_shape)
qed

subsection \<open>The flow without a node\<close>

lemma demo_digests:
  "sha256_fips (digest_preimage demo_seal) =
    [0x76, 0x78, 0x4b, 0xe1, 0xa7, 0x15, 0xaf, 0xb1, 0x05, 0x1c, 0xf5, 0x52, 0x99, 0x7d, 0xf8, 0x2c,
     0xfc, 0x1c, 0xb9, 0xd6, 0x30, 0xb8, 0xf2, 0xdd, 0xf4, 0x4e, 0x9d, 0x5c, 0x0c, 0x03, 0x11, 0xb5]"
  "sha256_fips (digest_preimage other_demo) =
    [0xfa, 0x68, 0xeb, 0xcd, 0x66, 0x4e, 0xf6, 0xf9, 0x7a, 0xcb, 0xdf, 0xd9, 0x67, 0x1a, 0x8a, 0x5b,
     0x38, 0x17, 0x31, 0x7d, 0xbe, 0x57, 0x43, 0x75, 0xfa, 0x56, 0xb1, 0x01, 0x0d, 0x25, 0x1e, 0x50]"
  by (code_simp, code_simp)

lemma demo_seals_separated:
  "collision_free real_crates {digest_preimage demo_seal, digest_preimage other_demo}"
  by (intro collision_free_list [of _ "[digest_preimage demo_seal, digest_preimage other_demo]"])
     (simp_all add: demo_digests)

text \<open>On these formats the offline flow passes whenever RGB issues the asset and the clock stays
  within the resolver's budget.\<close>

theorem offline_flow_on_real_formats:
  assumes "path_exists (nia_kit_path dir)"
    and "issue_nia_to_btq_seal G (nia_kit_path dir) BitcoinRegtest (demo_asset G) demo_txid 0 blinding
      = Ok issued"
    and "\<forall>n. clock n - clock 0 \<le> 5000"
  shows "run_offline_flow real_crates d5 bitcoin_codec G path_exists dir blinding clock = Ok 5"
  using assms
  by (intro offline_flow_passes real_crates_ok bitcoin_codec_ok demo_seals_separated)

subsection \<open>The tests of the seal and transaction crates\<close>

lemma seal_tests_on_real_formats:
  "binary_vector_matches real_crates d5" "text_vector_roundtrips real_crates d5"
  "binary_roundtrip_is_stable d5" "text_roundtrip_is_stable real_crates d5"
  "text_rejects_wrong_hrp real_crates d5"
proof -
  have "\<forall>d t. bech32m_encode real_crates SEAL_HRP d = Some t \<longrightarrow> str_starts_with t (SEAL_HRP @ ''1'')"
    using real_crates_ok(4) by (auto simp: bech32_shape_def)
  from vector_tests_pass [OF real_crates_ok(2,3) this]
  show "binary_vector_matches real_crates d5" "text_vector_roundtrips real_crates d5" .
  show "binary_roundtrip_is_stable d5" "text_roundtrip_is_stable real_crates d5"
    "text_rejects_wrong_hrp real_crates d5"
    by (rule roundtrip_tests_pass [OF real_crates_ok(3,4)])+
qed

lemma commit_tests_on_real_formats:
  "append_inserts_opret_and_roundtrips real_crates bitcoin_codec (sample_unsigned_tx_hex real_crates)"
  "append_rejects_garbage_hex real_crates bitcoin_codec"
  "find_returns_none_when_absent real_crates bitcoin_codec (sample_unsigned_tx_hex real_crates)"
  "opret_script_starts_with_op_return bitcoin_codec"
proof -
  obtain p where p: "build_opret_payload real_crates tx_test_seal (replicate 32 0xa5)
      = (Ok p :: bytes rgb_pq_result)"
    using commitment_encode_layout [OF real_crates_ok(1)] unfolding build_opret_payload_def by blast
  have len: "length p = 127"
    by (rule payload_length(1) [OF real_crates_ok(1) tx_test_seal_wf _ p]) simp
  have "tx_roundtrips bitcoin_codec (tc_push_output bitcoin_codec sample_unsigned_tx
      (0, build_op_return_script bitcoin_codec p))"
    using with_opret_ok [OF sample_unsigned_tx_ok, of p] len
    by (simp add: tx_roundtrips_iff build_op_return_script_def push_slice_def with_opret_def
        pushdata1_script_def sample_unsigned_tx_def)
  moreover have "hex_decode real_crates ''nothex!!'' = Err ''invalid character''" by code_simp
  ultimately show "append_inserts_opret_and_roundtrips real_crates bitcoin_codec (sample_unsigned_tx_hex real_crates)"
    "append_rejects_garbage_hex real_crates bitcoin_codec"
    "find_returns_none_when_absent real_crates bitcoin_codec (sample_unsigned_tx_hex real_crates)"
    "opret_script_starts_with_op_return bitcoin_codec"
    using commit_tests_pass [OF real_crates_ok(1,2) bitcoin_codec_ok, of
        "sample_unsigned_tx_hex real_crates" "write_tx sample_unsigned_tx" sample_unsigned_tx p
        "''invalid character''"] sample_read_back [OF real_crates_ok(2)] sample_carries_nothing p
    by simp_all
qed

end
