(* ===== verification/Spec2Isabelle.thy ===== *)
theory Spec2Isabelle
  imports Bench Rgb Index_Invariant Index_Failures Multi_Binding Funding
    Call_Trace Witness_Rpc Request_Bounds Known_Answers
    Tests_Core Tests_Seal Tests_Commit Tests_Chain Tests_Resolver Tests_Tx Tests_Bridge
    Real_Formats
begin

text \<open>
  A verification development of RGB-PQ, a Rust workspace that binds RGB state transitions to
  single-use seals on BTQ, a Bitcoin fork with pay-to-Merkle-root (P2MR) outputs and Dilithium
  signatures. A \<^emph>\<open>seal\<close> names an outpoint, the Merkle root of its P2MR output, the hash of the leaf
  that may spend it, and a policy. It is \<^emph>\<open>closed\<close> by a transaction that spends the outpoint and
  carries a commitment to the transition, either in an OP_RETURN output (opret) or as a leaf of
  the tree that the output commits to (p2mr-ret).

  \<^bold>\<open>Parts and theories.\<close> Each theory follows one or two source files under \<^verbatim>\<open>src/crates\<close>, in the
  order of their definitions, and uses their names (a few carry a prefix: \<open>commitment_encode\<close> is
  \<^verbatim>\<open>RgbPqCommitment::encode\<close>, \<open>mem_rollback\<close> is \<^verbatim>\<open>MemIndexer::rollback\<close>).

  \<^item> \<open>Prelude\<close>: Rust values (machine integers, byte arrays, slices whose range checks panic, text
    formatting) and the lemmas the components share. A fallible operation returns a \<open>result\<close>:
    \<open>Ok\<close>, \<open>Err\<close> or \<open>Panic\<close>; every index, slice, array copy and unwrap of the source is written with
    an operation that can panic, so that the absence of panics is a theorem.
  \<^item> \<open>Crates\<close>: the third-party crates as a record of functions (sha256, hex, bech32) with their
    documented contracts as predicates; \<open>Samples\<close> has concrete instances for the witnesses.
  \<^item> \<open>Errors\<close>, \<open>Limits\<close>, \<open>Domain_Sep\<close> (\<^verbatim>\<open>rgb-pq-core\<close>): the typed errors with their texts and
    conversions, the verification limits and time budget, the domain prefix of hashed data.
  \<^item> \<open>Seal_Types\<close>, \<open>Seal\<close> (\<^verbatim>\<open>rgb-pq-seal\<close>): the parts of a seal with their codecs, the binary and
    text encoding of seals, the canonical digest.
  \<^item> \<open>Commitment\<close>, \<open>P2mr_Ret\<close>, \<open>Multi\<close> (\<^verbatim>\<open>rgb-pq-commit\<close>): the opret commitment, its decoding and
    the scan of outputs; the tree hashes, the commitment leaf, the two-leaf tree and its
    verification; the tree with several commitments; the bridge to RGB's anchors.
    \<open>Multi_Binding\<close> shows what the root of a tree with several commitments binds.
  \<^item> \<open>Chain\<close>, \<open>Indexer\<close>, \<open>Rpc\<close> (\<^verbatim>\<open>rgb-pq-chain\<close>): chain data and the backend trait as a record of
    operations over an arbitrary state \<^verbatim>\<open>'w\<close>; the outpoint indexer in memory and over SQLite; the
    JSON-RPC client and the backend built on it. \<open>Index_Invariant\<close> has the invariant of both
    indexers over runs, \<open>Index_Failures\<close> what failed database writes leave behind.
  \<^item> \<open>Resolver\<close>, \<open>Witness\<close> (\<^verbatim>\<open>rgb-pq-resolver\<close>): the resolution of a seal's state over a backend,
    the checks on outputs, RGB's witness resolver. \<open>Call_Trace\<close> runs them on a backend that logs
    its calls, \<open>Witness_Rpc\<close> on the RPC backend.
  \<^item> \<open>Tx\<close> (\<^verbatim>\<open>rgb-pq-tx\<close>): appending the commitment output to a transaction and finding it again,
    leaf scripts, the wallet RPCs and key rotation. \<open>Funding\<close> composes them with the decoders and
    the resolver, and has \<^verbatim>\<open>tree_json\<close>.
  \<^item> \<open>Lifecycle\<close>: the phases of a seal (open, pending, shallow, final) that the resolver computes
    over every backend that tells the truth about a chain view, the contract of the backend trait.
  \<^item> \<open>Rgb\<close> (\<^verbatim>\<open>rgb-pq-rgb\<close>): issuing an asset to a seal, importing it, building a transfer, with the
    stages of their errors; \<open>Bench\<close> (\<^verbatim>\<open>rgb-pq-bench\<close>): the timing loop, the targets, the suite and
    its report.
  \<^item> \<open>E2e\<close>, \<open>E2e_Flows\<close> (\<^verbatim>\<open>tests/rgb-pq-e2e\<close>): the end-to-end flows as programs over a node, the
    flow without one, and the test and binary that run them. \<open>Request_Bounds\<close> runs the flows on a
    network that counts requests and sleep.
  \<^item> \<open>Examples\<close>: the three example programs of \<^verbatim>\<open>rgb-pq-commit\<close> and \<^verbatim>\<open>rgb-pq-tx\<close>, from what they read
    to the lines they print.
  \<^item> \<open>Sha256\<close>, \<open>Digests\<close>, \<open>Known_Answers\<close>: FIPS 180-4 as an instance of the hash parameter, with an
    evaluator on bits proved equal to it; the digests the repository pins down, computed on it; and
    what the examples and the tests that compare digests give with the real hash.
  \<^item> \<open>Bech32m\<close>, \<open>Bitcoin_Tx\<close>, \<open>Real_Formats\<close>: the text format of BIP 173 and BIP 350 and the
    transaction format of Bitcoin with BIP 144's witnesses as instances of the text and transaction
    parameters, each proved to meet the documented contract; what seals and the appending of a
    commitment do on them; and the offline flow and the tests on hash, text and transaction format
    together. These formats and \<open>Sha256\<close> are models of the documented crates, not of code of the
    repository: they show that the contracts can be met, and the properties hold for every instance.
  \<^item> \<open>Tests_Core\<close>, \<open>Tests_Seal\<close>, \<open>Tests_Commit\<close>, \<open>Tests_Chain\<close>, \<open>Tests_Resolver\<close>, \<open>Tests_Tx\<close>,
    \<open>Tests_Bridge\<close>: the authors' unit and property tests, each a predicate under the name of the test, with the
    lemma that the model satisfies it: for every sample and every hash function that does not
    collide on the few messages compared, where the tests run one.

  \<^bold>\<open>Interaction.\<close> A seal is built (\<open>seal_from_p2mr\<close>), its commitment encoded and appended to the
  closing transaction (\<open>append_opret_commitment\<close>) or put into the tree (\<open>build_p2mr_ret_tree\<close>). The
  resolver asks the backend for the seal's output, checks its script against the root, asks for the
  spending transaction, scans for the commitment, compares confirmations with the seal's policy and
  asks for an inclusion proof. The RPC client is one backend; the indexer is a store beside it.

  \<^bold>\<open>State and effects.\<close> A method with \<^verbatim>\<open>&mut self\<close> returns its outcome with the updated record.
  Backend and RPC calls thread a state \<^verbatim>\<open>'w\<close> (type \<open>io\<close>), so the order and number of calls is part of
  the model. The SQLite connection is a pair of tables; a parameter decides which statements fail.
  Clocks are functions of the number of readings. JSON values, HTTP outcomes, RGB's types and the
  Bitcoin transaction codec are type parameters with records of the operations used.

  \<^bold>\<open>Interfaces as locales.\<close> \<open>byte_code\<close> (one-byte codes), \<open>self_delimiting\<close> (codecs that report the
  bytes consumed), \<open>symmetric_branch\<close> (Merkle paths over a commutative branch hash), \<open>wire_format\<close> (the parts
  a transaction is serialised from) and \<open>indexer_laws\<close> (the abstract step every indexer refines) are interpreted on the code's own
  definitions, and the properties rest on those interpretations. \<open>chain_view\<close> is what the resolver
  relies on in a backend; it is interpreted on the backend of the benchmarks. The backend over the
  RPC client does not meet it: it loses the script of a spent output.

  \<^bold>\<open>What the lemmas show.\<close>
  \<^item> Codecs: encoders and decoders of seals, commitments, tree payloads, text forms and base64 are
    inverse; decoders accept exactly the encodings (with the stated slack) and never panic.
  \<^item> Binding: equal digests or roots mean equal seals, commitments or openings, or else a collision
    of the hash on the explicit messages that were hashed. Collision freedom is assumed only on
    those finitely many messages.
  \<^item> Resolution: exactly when a close is accepted, what each depth of confirmation gives, and which
    inputs have no influence; which questions are put to the backend, in which order, and which
    never are.
  \<^item> Indexers: both refine one abstract machine on index facts, hence agree; no run leaves a spend
    above the tip; what rollback keeps; that the tip and the facts survive reopening.
  \<^item> RPC: the retry policy with its bound on requests, the answers of the derived methods.
  \<^item> Flows: a flow ends normally or in a panic; its normal end ties the node's answers together: the
    output funded, the seal that names it, the spend of it that was signed and broadcast, and what
    was found of that transaction. The offline flow succeeds; a node for which each theorem applies
    is given. Each live flow sends at most a fixed number of requests and sleeps at most a fixed
    time, whatever the node answers.
  \<^item> Appending: for every transaction codec that reads back what it writes, appending keeps the
    outputs and adds one, which the search finds, and a second commitment is reported as a duplicate.
  \<^item> On the instances, beyond the properties: on SHA-256 the Merkle example's assertion holds and the
    tests' digests differ or agree as asserted, except one expected leaf hash that the code does not
    give; on the checksum of BIP 350 a seal with one wrong character is not read, while the older
    checksum is accepted as well; on Bitcoin's format appending keeps every part of a transaction.
  \<^item> Divergences between the code and its comments are stated as theorems about the code.

  \<^bold>\<open>Bounds.\<close> No definition uses fuel: every loop of the source runs over a list or a counted range,
  and its model is structurally recursive: \<open>call_loop\<close> counts down the attempts left of
  \<^verbatim>\<open>0..=retries\<close>, \<open>wait_loop\<close> those of \<^verbatim>\<open>0..5\<close>, and \<open>str_split\<close> and the
  trimming loops have the length of what is left as their measure. Integers that
  the source stores at a width are words of that width; \<open>usize\<close> and \<open>u128\<close> are naturals, since lengths
  and milliseconds never reach their limits; a theorem that needs a length below \<open>2 ^ 64\<close> says so.

  \<^bold>\<open>Not modelled.\<close> Derived serde implementations, which are generated; what the end-to-end flows
  print before their summary; tests that only call a constructor or compare a value with itself. The
  types of RGB's own crates stay parameters with their documented contracts.
\<close>

end
